(* ===== verification/FC_Prelude.thy ===== *)
theory FC_Prelude
  imports Main "HOL-Library.Word" "HOL-Library.Sublist"
begin

text \<open>
  Shared vocabulary of the FruitClaw development: the error codes the C code
  returns, C strings and the few routines of the C library that the sources
  call (\<^verbatim>\<open>ctype.h\<close>, \<^verbatim>\<open>strstr\<close>, \<^verbatim>\<open>strtok_r\<close>,
  \<^verbatim>\<open>strtol\<close>, decimal conversions of \<^verbatim>\<open>snprintf\<close>), and the generic list
  facts that several components use.

  A C string is modelled by the characters before its terminating NUL, so a
  pointer that may be NULL has type \<^typ>\<open>string option\<close>.  An output buffer
  that is always terminated by the callee is represented by the string it
  holds afterwards; where the code can leave a buffer unterminated or write
  past it, the component keeps the raw bytes.
\<close>

section \<open>Collections of facts\<close>

named_theorems ctype_simps \<open>character classes of ctype.h unfolded\<close>
named_theorems fc_inv \<open>preservation of a component invariant by an operation\<close>
named_theorems fc_refine \<open>functional refinement: abstraction of the result of an operation\<close>

section \<open>Error codes and results\<close>

text \<open>
  The functions of the sources return 0 or a negated \<^verbatim>\<open>errno\<close> value.  The
  numbers belong to the C library; only their identity matters here.
\<close>

datatype errno =
    EINVAL | ENOENT | ENOMEM | ENOSPC | EEXIST | EACCES | EBUSY | EIO
  | ETIMEDOUT | ENAMETOOLONG | ENOSYS | ENOTSUP | EFBIG | EOTHER nat

datatype ret = OK | Err errno

type_synonym 'a res = "errno + 'a"
type_synonym u8 = "8 word"
type_synonym u32 = "32 word"

text \<open>The test \<^verbatim>\<open>ret < 0\<close> of the sources.\<close>

fun ret_neg :: "ret \<Rightarrow> bool" where
  "ret_neg OK = False"
| "ret_neg (Err _) = True"

lemma ret_neg_iff [simp]: "ret_neg r \<longleftrightarrow> r \<noteq> OK"
  by (cases r) auto

text \<open>\<^verbatim>\<open>struct timespec\<close>, as the clock and the timed waits use it.\<close>

record timespec =
  tv_sec :: int
  tv_nsec :: int

section \<open>Characters\<close>

abbreviation NUL :: char where "NUL \<equiv> CHR 0x00"
abbreviation LF :: char where "LF \<equiv> CHR 0x0A"
abbreviation DQ :: char where "DQ \<equiv> CHR 0x22"
abbreviation BSL :: char where "BSL \<equiv> CHR 0x5C"

definition isspace :: "char \<Rightarrow> bool" where
  "isspace c \<longleftrightarrow> c = CHR '' '' \<or> (9 \<le> (of_char c :: nat) \<and> (of_char c :: nat) \<le> 13)"

definition isdigit :: "char \<Rightarrow> bool" where
  "isdigit c \<longleftrightarrow> 48 \<le> (of_char c :: nat) \<and> (of_char c :: nat) \<le> 57"

definition isupper :: "char \<Rightarrow> bool" where
  "isupper c \<longleftrightarrow> 65 \<le> (of_char c :: nat) \<and> (of_char c :: nat) \<le> 90"

definition islower :: "char \<Rightarrow> bool" where
  "islower c \<longleftrightarrow> 97 \<le> (of_char c :: nat) \<and> (of_char c :: nat) \<le> 122"

definition isalnum :: "char \<Rightarrow> bool" where
  "isalnum c \<longleftrightarrow> isdigit c \<or> isupper c \<or> islower c"

definition tolower :: "char \<Rightarrow> char" where
  "tolower c = (if isupper c then char_of ((of_char c :: nat) + 32) else c)"

definition digit_char :: "nat \<Rightarrow> char" where
  "digit_char d = char_of (48 + d)"

definition digit_val :: "char \<Rightarrow> nat" where
  "digit_val c = of_char c - 48"

lemmas [ctype_simps] =
  isspace_def isdigit_def isupper_def islower_def isalnum_def

lemma of_char_digit_char [simp]: "d < 10 \<Longrightarrow> (of_char (digit_char d) :: nat) = 48 + d"
  by (simp add: digit_char_def)

lemma digit_val_digit_char [simp]: "d < 10 \<Longrightarrow> digit_val (digit_char d) = d"
  by (simp add: digit_val_def)

lemma isdigit_digit_char [simp]: "d < 10 \<Longrightarrow> isdigit (digit_char d)"
  by (simp add: isdigit_def)

lemma isspace_not_digit: "isdigit c \<Longrightarrow> \<not> isspace c"
  by (auto simp: isdigit_def isspace_def)

lemma isdigit_neq:
  "\<not> isdigit (CHR ''-'')" "\<not> isdigit (CHR ''+'')" "\<not> isdigit (CHR '','')"
  "\<not> isdigit (CHR ''/'')" "\<not> isdigit (CHR ''*'')" "\<not> isdigit NUL"
  by (simp_all add: isdigit_def)

section \<open>Searching\<close>

text \<open>\<^verbatim>\<open>strstr(h, n)\<close>: the suffix of the haystack at the first occurrence.\<close>

fun strstr :: "string \<Rightarrow> string \<Rightarrow> string option" where
  "strstr [] n = (if n = [] then Some [] else None)"
| "strstr (c # h) n = (if prefix n (c # h) then Some (c # h) else strstr h n)"

lemma strstr_Some_suffix: "strstr h n = Some r \<Longrightarrow> suffix r h \<and> prefix n r"
  by (induction h n rule: strstr.induct)
     (auto split: if_splits simp: suffix_ConsI)

lemma strstr_None_iff: "strstr h n = None \<longleftrightarrow> \<not> sublist n h"
proof (induction h n rule: strstr.induct)
  case (1 n)
  then show ?case by (simp add: sublist_Nil_right)
next
  case (2 c h n)
  then show ?case by (auto simp: sublist_Cons_right)
qed

text \<open>\<^verbatim>\<open>strtok_r\<close> run to exhaustion: the maximal runs of non-delimiters.\<close>

function strtok :: "(char \<Rightarrow> bool) \<Rightarrow> string \<Rightarrow> string list" where
  "strtok d s =
     (let t = dropWhile d s
      in if t = [] then []
         else takeWhile (\<lambda>c. \<not> d c) t # strtok d (dropWhile (\<lambda>c. \<not> d c) t))"
  by pat_completeness auto
termination
proof (relation "measure (\<lambda>(d, s). length s)", simp, clarsimp)
  fix d :: "char \<Rightarrow> bool" and s :: string and x
  assume x: "x \<in> set s" "\<not> d x"
  then have ne: "dropWhile d s \<noteq> []" by (auto simp: dropWhile_eq_Nil_conv)
  then have "\<not> d (hd (dropWhile d s))" by (rule hd_dropWhile)
  then have "length (dropWhile (\<lambda>c. \<not> d c) (dropWhile d s)) < length (dropWhile d s)"
    using ne by (cases "dropWhile d s") (auto simp: le_imp_less_Suc length_dropWhile_le)
  then show "length (dropWhile (\<lambda>c. \<not> d c) (dropWhile d s)) < length s"
    using length_dropWhile_le [of d s] by simp
qed

declare strtok.simps [simp del]

lemma strtok_Nil [simp]: "strtok d [] = []"
  by (simp add: strtok.simps)

lemma strtok_delim: "d c \<Longrightarrow> strtok d (c # s) = strtok d s"
  by (subst (1 2) strtok.simps) simp

text \<open>Tokenising a list of non-empty delimiter-free words joined by a delimiter.\<close>

fun join_with :: "char \<Rightarrow> string list \<Rightarrow> string" where
  "join_with c [] = []"
| "join_with c [w] = w"
| "join_with c (w # ws) = w @ c # join_with c ws"

lemma strtok_word:
  assumes "w \<noteq> []" "\<forall>x\<in>set w. \<not> d x"
  shows "strtok d w = [w]" and "d c \<Longrightarrow> strtok d (w @ c # s) = w # strtok d s"
proof -
  obtain x xs where w: "w = x # xs" using assms(1) by (cases w) auto
  then have nd: "\<not> d x" using assms(2) by simp
  have tw: "takeWhile (\<lambda>c. \<not> d c) xs = xs" and dw: "dropWhile (\<lambda>c. \<not> d c) xs = []"
    using assms(2) w by (auto simp: takeWhile_eq_all_conv)
  show "strtok d w = [w]"
    using w nd by (subst strtok.simps) (simp add: Let_def tw dw)
  assume d: "d c"
  have "takeWhile (\<lambda>c. \<not> d c) (w @ c # s) = w" "dropWhile (\<lambda>c. \<not> d c) (w @ c # s) = c # s"
    using assms(2) d by (auto simp: takeWhile_append dropWhile_append)
  then show "strtok d (w @ c # s) = w # strtok d s"
    using w nd strtok_delim [of d c s, OF d] by (subst strtok.simps) (simp add: Let_def)
qed

lemma strtok_join_with:
  assumes "d c" "\<forall>w\<in>set ws. w \<noteq> [] \<and> (\<forall>x\<in>set w. \<not> d x)"
  shows "strtok d (join_with c ws) = ws"
  using assms(2)
proof (induction ws rule: induct_list012)
  case (3 w v vs)
  then show ?case using strtok_word(2) [of w d c "join_with c (v # vs)"] assms(1) by simp
qed (auto simp: strtok_word(1))

section \<open>Decimal numbers\<close>

text \<open>The conversions \<^verbatim>\<open>%u\<close> and \<^verbatim>\<open>%lld\<close>.\<close>

fun dec_nat :: "nat \<Rightarrow> string" where
  "dec_nat n = (if n < 10 then [digit_char n] else dec_nat (n div 10) @ [digit_char (n mod 10)])"

declare dec_nat.simps [simp del]

definition dec_int :: "int \<Rightarrow> string" where
  "dec_int i = (if i < 0 then CHR ''-'' # dec_nat (nat (- i)) else dec_nat (nat i))"

text \<open>The value of a string of digits, read from left to right.\<close>

definition digits_val :: "nat \<Rightarrow> string \<Rightarrow> nat" where
  "digits_val = foldl (\<lambda>a c. 10 * a + digit_val c)"

lemma digits_val_simps [simp]:
  "digits_val a [] = a"
  "digits_val a (c # s) = digits_val (10 * a + digit_val c) s"
  "digits_val a (s @ [c]) = 10 * digits_val a s + digit_val c"
  by (simp_all add: digits_val_def)

lemma dec_nat_digits: "\<forall>c\<in>set (dec_nat n). isdigit c"
proof (induction n rule: dec_nat.induct)
  case (1 n)
  then show ?case by (subst dec_nat.simps) auto
qed

lemma dec_nat_nonempty [simp]: "dec_nat n \<noteq> []"
  by (subst dec_nat.simps) simp

lemma digits_val_dec_nat [simp]: "digits_val 0 (dec_nat n) = n"
proof (induction n rule: dec_nat.induct)
  case (1 n)
  then show ?case by (subst dec_nat.simps) auto
qed

lemma dec_nat_inject [simp]: "dec_nat m = dec_nat n \<longleftrightarrow> m = n"
  by (metis digits_val_dec_nat)

lemma length_dec_nat: "n < 10 ^ k \<Longrightarrow> 0 < k \<Longrightarrow> length (dec_nat n) \<le> k"
proof (induction n arbitrary: k rule: dec_nat.induct)
  case (1 n)
  show ?case
  proof (cases "n < 10")
    case True
    then show ?thesis using "1.prems" by (subst dec_nat.simps) simp
  next
    case False
    then obtain j where k: "k = Suc j" "0 < j"
      using "1.prems" by (cases k; cases "k - 1") auto
    then have "n div 10 < 10 ^ j" using "1.prems" by (simp add: less_mult_imp_div_less)
    then have "length (dec_nat (n div 10)) \<le> j" using "1.IH" False k by blast
    then show ?thesis using False k by (subst dec_nat.simps) simp
  qed
qed

text \<open>
  \<^verbatim>\<open>strtol(s, &end, 10)\<close> on the 32-bit target: leading white space, an optional
  sign, decimal digits; the value saturates at the bounds of \<^verbatim>\<open>long\<close>.  The second
  component is the string at \<^verbatim>\<open>end\<close>, which is the whole input when no digit was
  found.
\<close>

definition LONG_MAX :: int where "LONG_MAX = 2147483647"
definition LONG_MIN :: int where "LONG_MIN = - 2147483648"

definition clamp_long :: "int \<Rightarrow> int" where
  "clamp_long v = max LONG_MIN (min LONG_MAX v)"

definition strtol :: "string \<Rightarrow> int \<times> string" where
  "strtol s =
     (let t = dropWhile isspace s;
          neg = (t \<noteq> [] \<and> hd t = CHR ''-'');
          u = (if t \<noteq> [] \<and> (hd t = CHR ''-'' \<or> hd t = CHR ''+'') then tl t else t);
          ds = takeWhile isdigit u
      in if ds = [] then (0, s)
         else (clamp_long ((if neg then -1 else 1) * int (digits_val 0 ds)),
               dropWhile isdigit u))"

lemma strtol_digits:
  assumes "ds \<noteq> []" "\<forall>c\<in>set ds. isdigit c" "int (digits_val 0 ds) \<le> LONG_MAX"
  shows "strtol ds = (int (digits_val 0 ds), [])"
proof -
  have hd: "isdigit (hd ds)" using assms(1,2) by simp
  then have sp: "dropWhile isspace ds = ds" using assms(1) isspace_not_digit
    by (cases ds) auto
  have sign: "hd ds \<noteq> CHR ''-''" "hd ds \<noteq> CHR ''+''" using hd isdigit_neq by metis+
  have tw: "takeWhile isdigit ds = ds" "dropWhile isdigit ds = []"
    using assms(2) by (auto simp: takeWhile_eq_all_conv)
  show ?thesis
    using assms(1,3) sign by (simp add: strtol_def Let_def clamp_long_def LONG_MIN_def sp tw)
qed

lemma strtol_dec_nat: "int n \<le> LONG_MAX \<Longrightarrow> strtol (dec_nat n) = (int n, [])"
  using strtol_digits [OF dec_nat_nonempty dec_nat_digits] by simp

lemma dec_int_plain: "LF \<notin> set (dec_int i) \<and> NUL \<notin> set (dec_int i)"
proof -
  have "\<not> isdigit LF" "\<not> isdigit NUL" by (simp_all add: isdigit_def)
  then show ?thesis using dec_nat_digits by (auto simp: dec_int_def)
qed

lemma length_dec_int: "\<bar>i\<bar> < 2 ^ 63 \<Longrightarrow> length (dec_int i) \<le> 20"
proof -
  assume "\<bar>i\<bar> < 2 ^ 63"
  then have "nat \<bar>i\<bar> < 10 ^ 19" by simp
  from length_dec_nat [OF this] show "length (dec_int i) \<le> 20"
    by (cases "i < 0") (simp_all add: dec_int_def)
qed

end
