(* ===== verification/FC_Queue.thy ===== *)
theory FC_Queue
  imports FC_Prelude
begin

text \<open>
  The event queue of \<^verbatim>\<open>core/fc_queue.c\<close>: a ring buffer of
  \<^verbatim>\<open>fc_event_t\<close> guarded by one mutex and one condition variable.  Every
  operation runs under the lock, so an interleaving of publishers and receivers
  is a sequence of the operations below; only \<^verbatim>\<open>pthread_cond_wait\<close> releases the
  lock in the middle of an operation, and its effect (a return code and the queue
  found when the lock is taken again) is an input of the model.

  The locale \<open>bounded_fifo\<close> is the contract the rest of the program relies on;
  it is interpreted on the ring buffer at the end of the theory.
\<close>

section \<open>Events and queues\<close>

record fc_event =
  ev_id :: string
  ev_source :: string
  ev_type :: string
  ev_channel :: string
  ev_chat_id :: string
  ev_session_id :: string
  ev_owner_mode :: bool
  ev_text :: string
  ev_payload_json :: string
  ev_ts_ms :: int

definition zero_event :: fc_event where
  "zero_event = \<lparr>ev_id = [], ev_source = [], ev_type = [], ev_channel = [], ev_chat_id = [],
     ev_session_id = [], ev_owner_mode = False, ev_text = [], ev_payload_json = [], ev_ts_ms = 0\<rparr>"

text \<open>The context a tool runs in, built from the event that asked for it.\<close>

record fc_tool_context =
  tc_source :: string
  tc_channel :: string
  tc_chat_id :: string
  tc_session_id :: string
  tc_owner_mode :: bool
  tc_guarded :: bool

text \<open>
  The indices are the \<^verbatim>\<open>unsigned int\<close> fields of \<^verbatim>\<open>fc_queue_t\<close>, kept at
  their width; \<^verbatim>\<open>items\<close> is NULL until the queue is initialised.
\<close>

record fc_queue =
  q_items :: "fc_event list option"
  q_capacity :: u32
  q_head :: u32
  q_tail :: u32
  q_count :: u32
  q_initialized :: bool

definition zero_queue :: fc_queue where
  "zero_queue = \<lparr>q_items = None, q_capacity = 0, q_head = 0, q_tail = 0, q_count = 0,
     q_initialized = False\<rparr>"

definition CONFIG_FRUITCLAW_MAX_EVENT_QUEUE :: u32 where
  "CONFIG_FRUITCLAW_MAX_EVENT_QUEUE = 16"

section \<open>Operations\<close>

text \<open>
  \<^verbatim>\<open>fc_queue_init\<close>.  The first three arguments are the outcomes of
  \<^verbatim>\<open>calloc\<close>, \<^verbatim>\<open>pthread_mutex_init\<close> and \<^verbatim>\<open>pthread_cond_init\<close>.
\<close>

definition fc_queue_init ::
    "bool \<Rightarrow> errno option \<Rightarrow> errno option \<Rightarrow> fc_queue option \<Rightarrow> ret \<times> fc_queue option" where
  "fc_queue_init calloc_ok mutex_err cond_err qp =
     (case qp of None \<Rightarrow> (Err EINVAL, None)
      | Some q \<Rightarrow>
          if q_initialized q then (OK, Some q)
          else if \<not> calloc_ok then (Err ENOMEM, Some zero_queue)
          else case mutex_err of Some e \<Rightarrow> (Err e, Some zero_queue)
          | None \<Rightarrow>
             (case cond_err of Some e \<Rightarrow> (Err e, Some zero_queue)
              | None \<Rightarrow>
                  (OK, Some (zero_queue\<lparr>
                     q_items := Some (replicate (unat CONFIG_FRUITCLAW_MAX_EVENT_QUEUE) zero_event),
                     q_capacity := CONFIG_FRUITCLAW_MAX_EVENT_QUEUE,
                     q_initialized := True\<rparr>))))"

definition fc_queue_publish ::
    "fc_queue option \<Rightarrow> fc_event option \<Rightarrow> ret \<times> fc_queue option" where
  "fc_queue_publish qp evp =
     (case (qp, evp) of
        (Some q, Some ev) \<Rightarrow>
          (if \<not> q_initialized q then (Err EINVAL, Some q)
           else case q_items q of None \<Rightarrow> (Err EINVAL, Some q)
           | Some items \<Rightarrow>
               if q_count q \<ge> q_capacity q then (Err ENOSPC, Some q)
               else (OK, Some (q\<lparr>
                       q_items := Some (items[unat (q_tail q) := ev]),
                       q_tail := (q_tail q + 1) mod q_capacity q,
                       q_count := q_count q + 1\<rparr>)))
      | _ \<Rightarrow> (Err EINVAL, qp))"

text \<open>
  \<^verbatim>\<open>fc_abs_timeout\<close>: \<^verbatim>\<open>now\<close> is what \<^verbatim>\<open>clock_gettime\<close> stored.  The C
  division truncates; the function is called for \<^verbatim>\<open>timeout_ms\<close> \<open>\<ge> 0\<close> only, where
  it agrees with \<open>div\<close> and \<open>mod\<close>.
\<close>

definition fc_abs_timeout :: "timespec \<Rightarrow> int \<Rightarrow> timespec" where
  "fc_abs_timeout now timeout_ms =
     (let ts = now\<lparr>tv_sec := tv_sec now + timeout_ms div 1000,
                   tv_nsec := tv_nsec now + (timeout_ms mod 1000) * 1000000\<rparr>
      in if tv_nsec ts \<ge> 1000000000
         then ts\<lparr>tv_sec := tv_sec ts + 1, tv_nsec := tv_nsec ts - 1000000000\<rparr>
         else ts)"

text \<open>
  One round of the wait loop: the clock at that moment and what waiting with a
  deadline (or without one) returns, together with the queue found afterwards.
\<close>

type_synonym wait_round = "timespec \<times> (timespec option \<Rightarrow> errno option \<times> fc_queue)"

definition queue_take :: "fc_queue \<Rightarrow> fc_event \<times> fc_queue" where
  "queue_take q =
     (the (q_items q) ! unat (q_head q),
      q\<lparr>q_head := (q_head q + 1) mod q_capacity q, q_count := q_count q - 1\<rparr>)"

fun receive_loop ::
    "int \<Rightarrow> fc_queue \<Rightarrow> wait_round list \<Rightarrow> (ret \<times> fc_event option \<times> fc_queue) option" where
  "receive_loop timeout_ms q ws =
     (if q_count q = 0
      then case ws of
             [] \<Rightarrow> None
           | (now, wait) # ws' \<Rightarrow>
               (case wait (if timeout_ms < 0 then None else Some (fc_abs_timeout now timeout_ms)) of
                  (Some e, q') \<Rightarrow> Some (Err e, None, q')
                | (None, q') \<Rightarrow> receive_loop timeout_ms q' ws')
      else case queue_take q of (ev, q') \<Rightarrow> Some (OK, Some ev, q'))"

declare receive_loop.simps [simp del]

text \<open>
  \<^verbatim>\<open>fc_queue_receive\<close>: \<open>None\<close> when the call is still blocked after the given
  rounds.  The flag tells whether the caller passed a buffer for the event.
\<close>

definition fc_queue_receive ::
    "fc_queue option \<Rightarrow> bool \<Rightarrow> int \<Rightarrow> wait_round list
       \<Rightarrow> (ret \<times> fc_event option \<times> fc_queue option) option" where
  "fc_queue_receive qp ev_nonnull timeout_ms ws =
     (case qp of
        Some q \<Rightarrow>
          (if \<not> ev_nonnull \<or> \<not> q_initialized q \<or> q_items q = None
           then Some (Err EINVAL, None, Some q)
           else map_option (\<lambda>(r, ev, q'). (r, ev, Some q')) (receive_loop timeout_ms q ws))
      | None \<Rightarrow> Some (Err EINVAL, None, None))"

definition fc_queue_count :: "fc_queue option \<Rightarrow> u32" where
  "fc_queue_count qp =
     (case qp of None \<Rightarrow> 0 | Some q \<Rightarrow> if \<not> q_initialized q then 0 else q_count q)"

section \<open>Well-formed queues and their contents\<close>

definition queue_wf :: "fc_queue \<Rightarrow> bool" where
  "queue_wf q \<longleftrightarrow>
     q_initialized q \<and> q_items q \<noteq> None \<and> length (the (q_items q)) = unat (q_capacity q)
     \<and> 0 < q_capacity q \<and> q_head q < q_capacity q \<and> q_count q \<le> q_capacity q
     \<and> unat (q_tail q) = (unat (q_head q) + unat (q_count q)) mod unat (q_capacity q)"

definition queue_elems :: "fc_queue \<Rightarrow> fc_event list" where
  "queue_elems q =
     map (\<lambda>i. the (q_items q) ! ((unat (q_head q) + i) mod unat (q_capacity q)))
         [0..<unat (q_count q)]"

lemma length_queue_elems [simp]: "length (queue_elems q) = unat (q_count q)"
  by (simp add: queue_elems_def)

lemma queue_wf_init [fc_inv]:
  "fc_queue_init True None None (Some zero_queue) = (OK, Some q) \<Longrightarrow> queue_wf q \<and> queue_elems q = []"
  by (auto simp: fc_queue_init_def zero_queue_def queue_wf_def queue_elems_def
      CONFIG_FRUITCLAW_MAX_EVENT_QUEUE_def word_less_nat_alt)

text \<open>Two offsets of the ring below the capacity meet only when they are equal.\<close>

lemma ring_index_inj:
  fixes h i j c :: nat
  assumes eq: "(h + i) mod c = (h + j) mod c" and bounds: "i < c" "j < c"
  shows "i = j"
proof -
  have *: "a = b" if "a \<le> b" "b < c" "(h + a) mod c = (h + b) mod c" for a b
  proof -
    have "c dvd (h + b) - (h + a)"
      using that mod_eq_dvd_iff_nat [of "h + a" "h + b" c] by simp
    then have "c dvd b - a" by simp
    moreover have "b - a < c" using that by simp
    ultimately show ?thesis using that(1) by (auto dest: dvd_imp_le)
  qed
  show ?thesis using *[of i j] *[of j i] eq bounds by (cases "i \<le> j") auto
qed

lemma unat_mod_Suc:
  fixes x c :: u32
  assumes "x < c"
  shows "unat ((x + 1) mod c) = (unat x + 1) mod unat c"
proof -
  have "unat x + 1 \<le> unat c" using assms by (simp add: word_less_nat_alt)
  moreover have "unat c < 2 ^ 32" using unsigned_less [of c, where ?'a = nat] by simp
  ultimately have "unat (x + 1) = unat x + 1" by (simp add: unat_word_ariths)
  then show ?thesis by (simp add: unat_mod_distrib)
qed

lemma unat_Suc_less:
  fixes x c :: u32
  shows "x < c \<Longrightarrow> unat (x + 1) = unat x + 1"
  using unsigned_less [of c, where ?'a = nat] by (simp add: unat_word_ariths word_less_nat_alt)

section \<open>The contract of a bounded FIFO\<close>

text \<open>
  What publishers and receivers rely on: a queue has contents and a capacity,
  putting appends while there is room and is refused with \<open>ENOSPC\<close> without any
  change otherwise, getting removes the oldest element.
\<close>

locale bounded_fifo =
  fixes put :: "'e \<Rightarrow> 'q \<Rightarrow> ret \<times> 'q"
    and get :: "'q \<Rightarrow> ('e \<times> 'q) option"
    and elems :: "'q \<Rightarrow> 'e list"
    and cap :: "'q \<Rightarrow> nat"
    and inv :: "'q \<Rightarrow> bool"
  assumes put_room: "inv q \<Longrightarrow> length (elems q) < cap q \<Longrightarrow>
                       fst (put e q) = OK \<and> elems (snd (put e q)) = elems q @ [e]"
    and put_full: "inv q \<Longrightarrow> cap q \<le> length (elems q) \<Longrightarrow> put e q = (Err ENOSPC, q)"
    and get_empty: "inv q \<Longrightarrow> elems q = [] \<Longrightarrow> get q = None"
    and get_cons: "inv q \<Longrightarrow> elems q = e # es \<Longrightarrow>
                     \<exists>q'. get q = Some (e, q') \<and> elems q' = es"
    and put_inv: "inv q \<Longrightarrow> inv (snd (put e q))"
    and get_inv: "inv q \<Longrightarrow> get q = Some (e, q') \<Longrightarrow> inv q'"
    and put_cap: "inv q \<Longrightarrow> cap (snd (put e q)) = cap q"
    and get_cap: "inv q \<Longrightarrow> get q = Some (e, q') \<Longrightarrow> cap q' = cap q"
    and elems_cap: "inv q \<Longrightarrow> length (elems q) \<le> cap q"

text \<open>
  A run of publishers and receivers: the elements accepted, the elements handed
  out, and the final queue.
\<close>

datatype 'e qop = Put 'e | Get

fun fifo_run ::
    "('e \<Rightarrow> 'q \<Rightarrow> ret \<times> 'q) \<Rightarrow> ('q \<Rightarrow> ('e \<times> 'q) option) \<Rightarrow> 'q \<Rightarrow> 'e qop list
       \<Rightarrow> 'e list \<times> 'e list \<times> 'q" where
  "fifo_run put get q [] = ([], [], q)"
| "fifo_run put get q (Put e # ops) =
     (case put e q of (r, q') \<Rightarrow>
        case fifo_run put get q' ops of (acc, out, q'') \<Rightarrow>
          (if r = OK then e # acc else acc, out, q''))"
| "fifo_run put get q (Get # ops) =
     (case get q of
        None \<Rightarrow> fifo_run put get q ops
      | Some (e, q') \<Rightarrow>
          (case fifo_run put get q' ops of (acc, out, q'') \<Rightarrow> (acc, e # out, q'')))"

context bounded_fifo
begin

lemma run_inv: "inv q \<Longrightarrow> fifo_run put get q ops = (acc, out, q') \<Longrightarrow> inv q' \<and> cap q' = cap q"
proof (induction ops arbitrary: q acc out)
  case (Cons a ops)
  show ?case
  proof (cases a)
    case (Put e)
    then show ?thesis
      using Cons.prems Cons.IH [of "snd (put e q)"] put_inv [of q e] put_cap [of q e]
      by (auto split: prod.splits)
  next
    case Get
    then show ?thesis
      using Cons.prems Cons.IH get_inv [of q] get_cap [of q]
      by (auto split: option.splits prod.splits)
  qed
qed simp

lemma run_fifo:
  "inv q \<Longrightarrow> fifo_run put get q ops = (acc, out, q') \<Longrightarrow> elems q @ acc = out @ elems q'"
proof (induction ops arbitrary: q acc out)
  case (Cons a ops)
  show ?case
  proof (cases a)
    case (Put e)
    obtain r q1 where p: "put e q = (r, q1)" by fastforce
    obtain acc1 out1 where f: "fifo_run put get q1 ops = (acc1, out1, q')"
      and io: "acc = (if r = OK then e # acc1 else acc1)" "out = out1"
      using Cons.prems(2) Put p by (auto split: prod.splits)
    have IH: "elems q1 @ acc1 = out1 @ elems q'"
      using Cons.IH [OF _ f] put_inv [OF Cons.prems(1), of e] p by simp
    show ?thesis
      using IH io p put_room [OF Cons.prems(1), of e] put_full [OF Cons.prems(1), of e]
      by (cases "length (elems q) < cap q") auto
  next
    case Get
    show ?thesis
    proof (cases "elems q")
      case Nil
      then show ?thesis using Cons.prems Cons.IH [of q acc out] Get get_empty [of q] by simp
    next
      case q: (Cons e es)
      then obtain q1 where g: "get q = Some (e, q1)" "elems q1 = es"
        using get_cons [OF Cons.prems(1)] by blast
      then show ?thesis
        using Cons.prems Cons.IH [of q1] get_inv [OF Cons.prems(1)] Get q
        by (auto split: prod.splits)
    qed
  qed
qed simp

lemma run_bounded: "inv q \<Longrightarrow> fifo_run put get q ops = (acc, out, q') \<Longrightarrow> length (elems q') \<le> cap q"
  using run_inv elems_cap by metis

end

section \<open>The ring buffer implements the contract\<close>

text \<open>The two operations as the contract sees them, on a queue that exists.\<close>

definition queue_put :: "fc_event \<Rightarrow> fc_queue \<Rightarrow> ret \<times> fc_queue" where
  "queue_put ev q = (case fc_queue_publish (Some q) (Some ev) of (r, qp) \<Rightarrow> (r, the qp))"

definition queue_get :: "fc_queue \<Rightarrow> (fc_event \<times> fc_queue) option" where
  "queue_get q =
     (case fc_queue_receive (Some q) True 0 [] of
        Some (OK, Some ev, Some q') \<Rightarrow> Some (ev, q')
      | _ \<Rightarrow> None)"

lemma queue_put_full:
  "queue_wf q \<Longrightarrow> unat (q_capacity q) \<le> length (queue_elems q) \<Longrightarrow> queue_put e q = (Err ENOSPC, q)"
  by (auto simp: queue_put_def fc_queue_publish_def queue_wf_def word_le_nat_alt)

lemma queue_put_room_eq:
  assumes "queue_wf q" "length (queue_elems q) < unat (q_capacity q)"
  shows "queue_put e q =
           (OK, q\<lparr>q_items := Some ((the (q_items q))[unat (q_tail q) := e]),
                  q_tail := (q_tail q + 1) mod q_capacity q, q_count := q_count q + 1\<rparr>)"
  using assms by (auto simp: queue_put_def fc_queue_publish_def queue_wf_def word_le_nat_alt)

lemma queue_tail_less: "queue_wf q \<Longrightarrow> q_tail q < q_capacity q"
  by (simp add: queue_wf_def word_less_nat_alt)

lemma queue_count_le: "queue_wf q \<Longrightarrow> unat (q_count q) \<le> unat (q_capacity q)"
  by (simp add: queue_wf_def word_le_nat_alt)

lemma queue_put_wf [fc_inv]:
  assumes "queue_wf q"
  shows "queue_wf (snd (queue_put e q))"
proof (cases "length (queue_elems q) < unat (q_capacity q)")
  case True
  have cnt: "unat (q_count q + 1) = unat (q_count q) + 1"
    using True unat_Suc_less [of "q_count q" "q_capacity q"] by (simp add: word_less_nat_alt)
  have "unat ((q_tail q + 1) mod q_capacity q) = (unat (q_tail q) + 1) mod unat (q_capacity q)"
    by (rule unat_mod_Suc [OF queue_tail_less [OF assms]])
  then have "unat ((q_tail q + 1) mod q_capacity q)
      = (unat (q_head q) + unat (q_count q + 1)) mod unat (q_capacity q)"
    using assms cnt by (simp add: queue_wf_def mod_Suc_eq)
  then show ?thesis
    using assms True cnt
    by (simp add: queue_put_room_eq queue_wf_def word_le_nat_alt)
qed (use assms in \<open>simp add: queue_put_full\<close>)

lemma queue_put_elems [fc_refine]:
  assumes "queue_wf q" "length (queue_elems q) < unat (q_capacity q)"
  shows "queue_elems (snd (queue_put e q)) = queue_elems q @ [e]"
proof -
  let ?c = "unat (q_capacity q)" and ?h = "unat (q_head q)" and ?n = "unat (q_count q)"
  let ?items = "the (q_items q)"
  have n: "?n < ?c" and len: "length ?items = ?c" and tl: "unat (q_tail q) = (?h + ?n) mod ?c"
    using assms by (auto simp: queue_wf_def)
  have cnt: "unat (q_count q + 1) = ?n + 1"
    using n unat_Suc_less [of "q_count q" "q_capacity q"] by (simp add: word_less_nat_alt)
  have other: "?items[(?h + ?n) mod ?c := e] ! ((?h + i) mod ?c) = ?items ! ((?h + i) mod ?c)"
    if "i < ?n" for i
    using ring_index_inj [of ?h i ?c ?n] that n by (intro nth_list_update_neq) auto
  have new: "?items[(?h + ?n) mod ?c := e] ! ((?h + ?n) mod ?c) = e"
    using n len by (intro nth_list_update_eq) simp
  show ?thesis
    using assms cnt tl other new
    by (simp add: queue_put_room_eq queue_elems_def)
qed

lemma queue_get_empty: "queue_wf q \<Longrightarrow> queue_elems q = [] \<Longrightarrow> queue_get q = None"
  by (auto simp: queue_get_def fc_queue_receive_def queue_wf_def queue_elems_def
      receive_loop.simps unat_eq_zero)

lemma queue_get_eq:
  assumes "queue_wf q" "queue_elems q \<noteq> []"
  shows "queue_get q = Some (queue_take q)"
proof -
  have "q_count q \<noteq> 0" using assms(2) by (auto simp: queue_elems_def)
  then show ?thesis
    using assms(1)
    by (auto simp: queue_get_def fc_queue_receive_def queue_wf_def receive_loop.simps
        split: prod.splits)
qed

lemma queue_take_wf [fc_inv]:
  assumes "queue_wf q" "q_count q \<noteq> 0"
  shows "queue_wf (snd (queue_take q))"
proof -
  obtain n where cnt: "unat (q_count q) = Suc n" "unat (q_count q - 1) = n"
    using assms(2) by (metis unat_minus_one unat_gt_0 Suc_pred diff_Suc_1)
  have hd: "unat ((q_head q + 1) mod q_capacity q) = (unat (q_head q) + 1) mod unat (q_capacity q)"
    using assms(1) by (intro unat_mod_Suc) (simp add: queue_wf_def)
  have "(q_head q + 1) mod q_capacity q < q_capacity q"
    using assms(1) hd by (simp add: word_less_nat_alt queue_wf_def)
  moreover have "unat (q_tail q)
      = (unat ((q_head q + 1) mod q_capacity q) + unat (q_count q - 1)) mod unat (q_capacity q)"
    using assms(1) cnt by (simp add: hd queue_wf_def mod_add_left_eq)
  ultimately show ?thesis
    using assms(1) cnt by (auto simp: queue_take_def queue_wf_def word_le_nat_alt)
qed

lemma queue_take_elems [fc_refine]:
  assumes "queue_wf q" "q_count q \<noteq> 0"
  shows "queue_elems q = fst (queue_take q) # queue_elems (snd (queue_take q))"
proof -
  let ?c = "unat (q_capacity q)" and ?h = "unat (q_head q)"
  obtain n where n: "unat (q_count q) = Suc n" "unat (q_count q - 1) = n"
    using assms(2) by (metis unat_minus_one unat_gt_0 Suc_pred diff_Suc_1)
  have hd: "unat ((q_head q + 1) mod q_capacity q) = (?h + 1) mod ?c" "?h < ?c"
    using assms(1) unat_mod_Suc [of "q_head q" "q_capacity q"]
    by (auto simp: queue_wf_def word_less_nat_alt)
  have "map (\<lambda>i. the (q_items q) ! ((?h + i) mod ?c)) [0..<Suc n]
      = the (q_items q) ! ?h # map (\<lambda>i. the (q_items q) ! ((?h + Suc i) mod ?c)) [0..<n]"
    using hd(2) by (simp only: upt_conv_Cons [of 0 "Suc n"] map_Suc_upt [symmetric]) simp
  then show ?thesis
    using n hd by (simp add: queue_elems_def queue_take_def mod_add_left_eq)
qed

interpretation fcq: bounded_fifo queue_put queue_get queue_elems "\<lambda>q. unat (q_capacity q)" queue_wf
proof unfold_locales
  fix q e es
  assume q: "queue_wf q" "queue_elems q = e # es"
  then have "q_count q \<noteq> 0" by (auto simp: queue_elems_def)
  with q queue_take_elems [of q] show "\<exists>q'. queue_get q = Some (e, q') \<and> queue_elems q' = es"
    by (auto simp: queue_get_eq intro!: exI [of _ "snd (queue_take q)"] prod_eqI)
next
  fix q e q'
  assume q: "queue_wf q" "queue_get q = Some (e, q')"
  then have ne: "queue_elems q \<noteq> []" using queue_get_empty by fastforce
  then have "q_count q \<noteq> 0" by (auto simp: queue_elems_def)
  then show "queue_wf q'" "unat (q_capacity q') = unat (q_capacity q)"
    using q ne queue_take_wf [of q] by (auto simp: queue_get_eq queue_take_def)
next
  fix q e
  assume q: "queue_wf q"
  then show "unat (q_capacity (snd (queue_put e q))) = unat (q_capacity q)"
    by (cases "length (queue_elems q) < unat (q_capacity q)")
       (simp_all add: queue_put_room_eq queue_put_full)
next
  fix q e
  assume "queue_wf q" "length (queue_elems q) < unat (q_capacity q)"
  then show "fst (queue_put e q) = OK \<and> queue_elems (snd (queue_put e q)) = queue_elems q @ [e]"
    using queue_put_elems [of q e] by (simp add: queue_put_room_eq)
qed (simp_all add: queue_put_full queue_put_wf queue_get_empty queue_count_le)

section \<open>Properties\<close>

text \<open>
  C23. Whatever the interleaving of publishers and receivers, the events handed out followed by those
  still queued are exactly the events queued at first followed by those accepted, in order: nothing
  is lost, duplicated or reordered, across any wrap-around of the ring indices.  The queue stays
  well formed and never holds more than its capacity.
\<close>

theorem queue_fifo:
  assumes "queue_wf q" and "fifo_run queue_put queue_get q ops = (acc, out, q')"
  shows "queue_elems q @ acc = out @ queue_elems q' \<and> queue_wf q'
         \<and> length (queue_elems q') \<le> unat (q_capacity q)"
  using fcq.run_fifo [OF assms] fcq.run_inv [OF assms] fcq.run_bounded [OF assms] by simp

theorem queue_fifo_witness:
  "\<exists>q acc out q'. fc_queue_init True None None (Some zero_queue) = (OK, Some q)
     \<and> fifo_run queue_put queue_get q [Put (zero_event\<lparr>ev_id := ''a''\<rparr>), Put (zero_event\<lparr>ev_id := ''b''\<rparr>), Get]
         = (acc, out, q')
     \<and> acc = out @ queue_elems q'"
proof -
  let ?ops = "[Put (zero_event\<lparr>ev_id := ''a''\<rparr>), Put (zero_event\<lparr>ev_id := ''b''\<rparr>), Get]"
  obtain q where q: "fc_queue_init True None None (Some zero_queue) = (OK, Some q)"
    by (simp add: fc_queue_init_def zero_queue_def)
  obtain acc out q' where r: "fifo_run queue_put queue_get q ?ops = (acc, out, q')"
    by (cases "fifo_run queue_put queue_get q ?ops") auto
  have "queue_wf q" "queue_elems q = []"
    using q by (auto simp: fc_queue_init_def zero_queue_def queue_wf_def queue_elems_def
        CONFIG_FRUITCLAW_MAX_EVENT_QUEUE_def)
  then show ?thesis using q r queue_fifo [OF _ r] by auto
qed

text \<open>
  The queues that another thread can leave behind while a receiver waits.
\<close>

definition rounds_wf :: "wait_round list \<Rightarrow> bool" where
  "rounds_wf ws \<longleftrightarrow> (\<forall>(now, wait)\<in>set ws. \<forall>d. queue_wf (snd (wait d)))"

text \<open>The queues the receiver can have found non-empty: the first one or one found after a wait.\<close>

definition seen :: "int \<Rightarrow> fc_queue \<Rightarrow> wait_round list \<Rightarrow> fc_queue set" where
  "seen t q ws =
     insert q ((\<lambda>(now, wait). snd (wait (if t < 0 then None else Some (fc_abs_timeout now t)))) ` set ws)"

lemma receive_loop_ok:
  assumes "queue_wf q" "rounds_wf ws" "receive_loop t q ws = Some (OK, evp, q')"
  shows "\<exists>q0\<in>seen t q ws. \<exists>ev. evp = Some ev \<and> queue_elems q0 = ev # queue_elems q' \<and> queue_wf q'"
  using assms
proof (induction t q ws rule: receive_loop.induct)
  case (1 t q ws)
  show ?case
  proof (cases "q_count q = 0")
    case True
    then obtain now wait ws' where ws: "ws = (now, wait) # ws'"
      using "1.prems"(3) by (cases ws) (auto simp: receive_loop.simps)
    let ?w = "wait (if t < 0 then None else Some (fc_abs_timeout now t))"
    have "fst ?w = None" and l: "receive_loop t (snd ?w) ws' = Some (OK, evp, q')"
      using "1.prems"(3) True by (auto simp: ws receive_loop.simps [of t q] split: prod.splits option.splits)
    moreover have "queue_wf (snd ?w)" "rounds_wf ws'"
      using "1.prems"(2) by (auto simp: ws rounds_wf_def)
    ultimately have "\<exists>q0\<in>seen t (snd ?w) ws'. \<exists>ev. evp = Some ev \<and> queue_elems q0 = ev # queue_elems q' \<and> queue_wf q'"
      using "1.IH" [OF True ws refl, of "fst ?w" "snd ?w"] by (auto simp: prod_eq_iff)
    moreover have "seen t (snd ?w) ws' \<subseteq> seen t q ws" by (auto simp: seen_def ws)
    ultimately show ?thesis by blast
  next
    case False
    then have "evp = Some (fst (queue_take q))" "q' = snd (queue_take q)"
      using "1.prems"(3) by (auto simp: receive_loop.simps [of t q] split: prod.splits)
    then show ?thesis
      using "1.prems"(1) False queue_take_elems [of q] queue_take_wf [of q] by (auto simp: seen_def)
  qed
qed

lemma receive_loop_err:
  "receive_loop t q ws = Some (Err e, evp, q') \<Longrightarrow> evp = None
     \<and> (\<exists>(now, wait)\<in>set ws. wait (if t < 0 then None else Some (fc_abs_timeout now t)) = (Some e, q'))"
proof (induction t q ws rule: receive_loop.induct)
  case (1 t q ws)
  obtain now wait ws' where ws: "ws = (now, wait) # ws'" and z: "q_count q = 0"
    using "1.prems" by (cases ws) (auto simp: receive_loop.simps [of t q] split: if_splits prod.splits)
  obtain w q1 where w: "wait (if t < 0 then None else Some (fc_abs_timeout now t)) = (w, q1)" by fastforce
  show ?case
  proof (cases w)
    case None
    then have "receive_loop t q1 ws' = Some (Err e, evp, q')"
      using "1.prems" z w by (simp add: receive_loop.simps [of t q] ws)
    then show ?thesis using "1.IH" [OF z ws refl w [symmetric] None] by (auto simp: ws)
  qed (use "1.prems" z w in \<open>simp add: receive_loop.simps [of t q] ws\<close>)
qed

text \<open>
  A receiver that returns success, however often it was woken in between, hands out the oldest
  event of the queue as it found it at first or after one of its waits, and leaves exactly the rest; one that returns an error reports the
  error of the wait with the requested deadline and hands out nothing.
\<close>

theorem queue_receive_outcome:
  assumes "queue_wf q" and "rounds_wf ws"
    and "fc_queue_receive (Some q) True t ws = Some (r, evp, qp')"
  shows "case r of
           OK \<Rightarrow> \<exists>q0\<in>seen t q ws. \<exists>ev q'. evp = Some ev \<and> qp' = Some q' \<and> queue_wf q'
                  \<and> queue_elems q0 = ev # queue_elems q'
         | Err e \<Rightarrow> evp = None \<and> (\<exists>(now, wait)\<in>set ws. \<exists>q'. qp' = Some q'
                  \<and> wait (if t < 0 then None else Some (fc_abs_timeout now t)) = (Some e, q'))"
proof -
  obtain q' where l: "receive_loop t q ws = Some (r, evp, q')" "qp' = Some q'"
    using assms(1,3) by (auto simp: fc_queue_receive_def queue_wf_def)
  show ?thesis
  proof (cases r)
    case OK
    then show ?thesis using receive_loop_ok [OF assms(1,2)] l by fastforce
  next
    case (Err e)
    then show ?thesis using receive_loop_err [of t q ws e] l by fastforce
  qed
qed

theorem queue_receive_outcome_witness:
  "let q = \<lparr>q_items = Some [zero_event], q_capacity = 1, q_head = 0, q_tail = 0, q_count = 0,
            q_initialized = True\<rparr>;
       ts = \<lparr>tv_sec = 5, tv_nsec = 999000000\<rparr>;
       wait = (\<lambda>d. (if d = Some \<lparr>tv_sec = 6, tv_nsec = 1000000\<rparr> then Some ETIMEDOUT else None, q))
   in fc_queue_receive (Some q) True 2 [(ts, wait)] = Some (Err ETIMEDOUT, None, Some q)
      \<and> wait (Some (fc_abs_timeout ts 2)) = (Some ETIMEDOUT, q)"
proof -
  let ?q = "\<lparr>q_items = Some [zero_event], q_capacity = 1, q_head = 0, q_tail = 0, q_count = 0,
            q_initialized = True\<rparr>"
  let ?ts = "\<lparr>tv_sec = 5, tv_nsec = 999000000\<rparr>"
  let ?w = "\<lambda>d. (if d = Some \<lparr>tv_sec = 6, tv_nsec = 1000000\<rparr> then Some ETIMEDOUT else None, ?q)"
  have r: "fc_queue_receive (Some ?q) True 2 [(?ts, ?w)] = Some (Err ETIMEDOUT, None, Some ?q)"
    by (simp add: fc_queue_receive_def receive_loop.simps fc_abs_timeout_def)
  moreover have "queue_wf ?q" by (simp add: queue_wf_def)
  ultimately show ?thesis
    using queue_receive_outcome [OF _ _ r] by (simp add: rounds_wf_def)
qed

text \<open>
  The absolute deadline computed from a normalised clock value and a non-negative timeout is
  again normalised and lies exactly the requested number of milliseconds later.
\<close>

theorem abs_timeout_exact:
  assumes "0 \<le> tv_nsec ts" and "tv_nsec ts < 1000000000" and "0 \<le> ms"
  shows "let d = fc_abs_timeout ts ms
         in 0 \<le> tv_nsec d \<and> tv_nsec d < 1000000000
            \<and> tv_sec d * 1000000000 + tv_nsec d
              = tv_sec ts * 1000000000 + tv_nsec ts + ms * 1000000"
proof -
  have "(ms div 1000) * 1000 + ms mod 1000 = ms" "0 \<le> ms mod 1000" "ms mod 1000 < 1000" by auto
  then have "(ms div 1000) * 1000000000 + ms mod 1000 * 1000000 = ms * 1000000"
    "0 \<le> ms mod 1000" "ms mod 1000 < 1000" by linarith+
  then show ?thesis using assms unfolding fc_abs_timeout_def Let_def by auto
qed

theorem abs_timeout_exact_witness:
  "fc_abs_timeout \<lparr>tv_sec = 5, tv_nsec = 999000000\<rparr> 2 = \<lparr>tv_sec = 6, tv_nsec = 1000000\<rparr>
   \<and> tv_nsec (fc_abs_timeout \<lparr>tv_sec = 5, tv_nsec = 999000000\<rparr> 2) < 1000000000"
  using abs_timeout_exact [of "\<lparr>tv_sec = 5, tv_nsec = 999000000\<rparr>" 2]
  by (simp add: fc_abs_timeout_def Let_def)

end
