(* ===== verification/FC_Config.thy ===== *)
theory FC_Config
  imports FC_Prelude
begin

text \<open>
  The string, path and URL helpers of \<^verbatim>\<open>core/fc_config.c\<close>.  An output buffer is
  given by its size (\<open>None\<close> for a NULL pointer); the result pairs the return code
  with the string the buffer holds afterwards (\<open>None\<close> when it was not written).
  \<^verbatim>\<open>fc_json_escape\<close> can stop without terminating its buffer, so it is modelled
  on the raw bytes.
\<close>

definition FC_ID_LEN :: nat where "FC_ID_LEN = 40"
definition FC_SOURCE_LEN :: nat where "FC_SOURCE_LEN = 24"
definition FC_TYPE_LEN :: nat where "FC_TYPE_LEN = 32"
definition FC_CHANNEL_LEN :: nat where "FC_CHANNEL_LEN = 24"
definition FC_CHAT_ID_LEN :: nat where "FC_CHAT_ID_LEN = 48"
definition FC_SESSION_ID_LEN :: nat where "FC_SESSION_ID_LEN = 64"
definition FC_PATH_LEN :: nat where "FC_PATH_LEN = 192"
definition FC_TOOL_NAME_LEN :: nat where "FC_TOOL_NAME_LEN = 64"
definition CONFIG_FRUITCLAW_MAX_EVENT_TEXT :: nat where "CONFIG_FRUITCLAW_MAX_EVENT_TEXT = 1024"
definition CONFIG_FRUITCLAW_MAX_JSON :: nat where "CONFIG_FRUITCLAW_MAX_JSON = 8192"

lemmas fc_sizes =
  FC_ID_LEN_def FC_SOURCE_LEN_def FC_TYPE_LEN_def FC_CHANNEL_LEN_def FC_CHAT_ID_LEN_def
  FC_SESSION_ID_LEN_def FC_PATH_LEN_def FC_TOOL_NAME_LEN_def
  CONFIG_FRUITCLAW_MAX_EVENT_TEXT_def CONFIG_FRUITCLAW_MAX_JSON_def

section \<open>Clocks and identifiers\<close>

text \<open>The argument is what \<^verbatim>\<open>clock_gettime\<close> stored, \<open>None\<close> when it failed.\<close>

definition fc_time_ms :: "timespec option \<Rightarrow> int" where
  "fc_time_ms realtime =
     (case realtime of None \<Rightarrow> 0 | Some ts \<Rightarrow> tv_sec ts * 1000 + tv_nsec ts div 1000000)"

definition fc_mono_ms :: "timespec option \<Rightarrow> timespec option \<Rightarrow> int" where
  "fc_mono_ms monotonic realtime =
     (case monotonic of None \<Rightarrow> fc_time_ms realtime
      | Some ts \<Rightarrow> tv_sec ts * 1000 + tv_nsec ts div 1000000)"

text \<open>
  \<^verbatim>\<open>snprintf\<close> into a buffer of \<open>n > 0\<close> bytes keeps \<open>n - 1\<close> characters; the
  sources compare its return value, the full length, with the size.
\<close>

definition snprintf_buf :: "nat \<Rightarrow> string \<Rightarrow> string" where
  "snprintf_buf n s = take (n - 1) s"

definition fc_make_id ::
    "nat option \<Rightarrow> string option \<Rightarrow> int \<Rightarrow> u32 \<Rightarrow> string option \<times> u32" where
  "fc_make_id out pfx now seq =
     (case out of
        None \<Rightarrow> (None, seq)
      | Some n \<Rightarrow>
          if n = 0 then (None, seq)
          else (Some (snprintf_buf n
                  ((case pfx of Some p \<Rightarrow> p | None \<Rightarrow> ''ev'') @ ''-'' @ dec_int now
                   @ ''-'' @ dec_nat (unat (seq + 1)))), seq + 1))"

section \<open>Bounded copy and trimming\<close>

definition fc_strlcpy :: "nat option \<Rightarrow> string option \<Rightarrow> ret \<times> string option" where
  "fc_strlcpy dst src =
     (case dst of
        None \<Rightarrow> (Err EINVAL, None)
      | Some n \<Rightarrow>
          if n = 0 then (Err EINVAL, None)
          else case src of
                 None \<Rightarrow> (OK, Some [])
               | Some s \<Rightarrow>
                   let len = min (length s) (n - 1)
                   in (if len = length s then OK else Err ENOSPC, Some (take len s)))"

text \<open>
  Most callers copy into an array of known size and ignore the return code; the
  string the array then holds is \<open>cpy\<close>.
\<close>

definition cpy :: "nat \<Rightarrow> string \<Rightarrow> string" where
  "cpy n s = the (snd (fc_strlcpy (Some n) (Some s)))"

lemma cpy_eq: "0 < n \<Longrightarrow> cpy n s = take (n - 1) s"
  by (simp add: cpy_def fc_strlcpy_def Let_def min_def)

lemma cpy_id: "length s < n \<Longrightarrow> cpy n s = s"
  by (simp add: cpy_eq)

lemma length_cpy: "0 < n \<Longrightarrow> length (cpy n s) < n"
  by (simp add: cpy_eq)

lemma cpy_cpy [simp]: "0 < n \<Longrightarrow> cpy n (cpy n s) = cpy n s"
  by (simp add: cpy_eq)

definition rstrip :: "string \<Rightarrow> string" where
  "rstrip s = rev (dropWhile isspace (rev s))"

lemma rstrip_prefix: "prefix (rstrip s) s"
proof -
  have "s = rstrip s @ rev (takeWhile isspace (rev s))"
    unfolding rstrip_def rev_append [symmetric] takeWhile_dropWhile_id by simp
  then show ?thesis by (metis prefixI)
qed

lemma length_rstrip: "length (rstrip s) \<le> length s"
  using length_dropWhile_le [of isspace "rev s"] by (simp add: rstrip_def)

lemma rstrip_last: "rstrip s \<noteq> [] \<Longrightarrow> \<not> isspace (last (rstrip s))"
  by (simp add: rstrip_def last_rev hd_dropWhile)

lemma rstrip_id: "s = [] \<or> \<not> isspace (last s) \<Longrightarrow> rstrip s = s"
  by (cases s rule: rev_cases) (auto simp: rstrip_def)

text \<open>A literal backslash followed by \<open>n\<close> or \<open>r\<close> at the end, as serial setup writes it.\<close>

definition ends_escaped_newline :: "string \<Rightarrow> bool" where
  "ends_escaped_newline s \<longleftrightarrow>
     2 \<le> length s \<and> s ! (length s - 2) = BSL
     \<and> (s ! (length s - 1) = CHR ''n'' \<or> s ! (length s - 1) = CHR ''r'')"

text \<open>The \<^verbatim>\<open>for (; ; )\<close> loop of \<^verbatim>\<open>fc_trim\<close>.\<close>

function trim_tail :: "string \<Rightarrow> string" where
  "trim_tail s =
     (let t = rstrip s
      in if ends_escaped_newline t then trim_tail (take (length t - 2) t) else t)"
  by pat_completeness auto
termination
proof (relation "measure length", simp)
  fix s t :: string
  assume "t = rstrip s" "ends_escaped_newline t"
  then show "(take (length t - 2) t, s) \<in> measure length"
    using length_rstrip [of s] by (auto simp: ends_escaped_newline_def)
qed

declare trim_tail.simps [simp del]

definition fc_trim :: "string \<Rightarrow> string" where
  "fc_trim s = trim_tail (dropWhile isspace s)"

lemma trim_tail_prefix: "prefix (trim_tail s) s"
proof (induction s rule: trim_tail.induct)
  case (1 s)
  show ?case
  proof (cases "ends_escaped_newline (rstrip s)")
    case True
    then have "prefix (trim_tail s) (take (length (rstrip s) - 2) (rstrip s))"
      using "1.IH" by (subst trim_tail.simps) (simp add: Let_def)
    then show ?thesis
      using rstrip_prefix [of s] take_is_prefix prefix_order.trans by metis
  next
    case False
    then show ?thesis using rstrip_prefix by (subst trim_tail.simps) (simp add: Let_def)
  qed
qed

lemma trim_tail_final:
  "(trim_tail s = [] \<or> \<not> isspace (last (trim_tail s))) \<and> \<not> ends_escaped_newline (trim_tail s)"
proof (induction s rule: trim_tail.induct)
  case (1 s)
  show ?case
  proof (cases "ends_escaped_newline (rstrip s)")
    case True
    then have "trim_tail s = trim_tail (take (length (rstrip s) - 2) (rstrip s))"
      by (subst trim_tail.simps) (simp add: Let_def)
    then show ?thesis using "1.IH" True by simp
  next
    case False
    then have "trim_tail s = rstrip s" by (subst trim_tail.simps) (simp add: Let_def)
    then show ?thesis using rstrip_last False by auto
  qed
qed

lemma trim_tail_id:
  "s = [] \<or> \<not> isspace (last s) \<Longrightarrow> \<not> ends_escaped_newline s \<Longrightarrow> trim_tail s = s"
  by (subst trim_tail.simps) (simp add: Let_def rstrip_id)

definition trimmed :: "string \<Rightarrow> bool" where
  "trimmed s \<longleftrightarrow> s = [] \<or> \<not> isspace (hd s) \<and> \<not> isspace (last s) \<and> \<not> ends_escaped_newline s"

lemma fc_trim_trimmed: "trimmed (fc_trim s)"
proof (cases "fc_trim s = []")
  case False
  let ?t = "dropWhile isspace s"
  obtain z where z: "?t = fc_trim s @ z"
    using trim_tail_prefix [of ?t] unfolding fc_trim_def prefix_def by blast
  then have hd: "hd (fc_trim s) = hd ?t" using False by (metis hd_append2)
  have ne: "?t \<noteq> []" using z False by (metis append_is_Nil_conv)
  have "\<not> isspace (hd ?t)" using hd_dropWhile [OF ne] .
  then show ?thesis
    using trim_tail_final [of ?t] False hd by (simp add: trimmed_def fc_trim_def)
qed (simp add: trimmed_def)

lemma fc_trim_id: "trimmed s \<Longrightarrow> fc_trim s = s"
  by (cases s) (auto simp: trimmed_def fc_trim_def intro!: trim_tail_id
      simp: ends_escaped_newline_def)

section \<open>Paths\<close>

definition fc_path_has_parent_ref :: "string option \<Rightarrow> bool" where
  "fc_path_has_parent_ref path =
     (case path of
        None \<Rightarrow> True
      | Some p \<Rightarrow> strstr p ''../'' \<noteq> None \<or> strstr p ''/..'' \<noteq> None \<or> p = ''..'')"

definition fc_path_is_secret :: "string option \<Rightarrow> bool" where
  "fc_path_is_secret path =
     (case path of None \<Rightarrow> False | Some p \<Rightarrow> strstr p ''/secrets/'' \<noteq> None)"

text \<open>\<open>root\<close> is the value of \<^verbatim>\<open>fc_data_dir()\<close>.\<close>

definition fc_data_path :: "string \<Rightarrow> string option \<Rightarrow> nat option \<Rightarrow> ret \<times> string option" where
  "fc_data_path root leaf out =
     (case (leaf, out) of
        (Some l, Some n) \<Rightarrow>
          if n = 0 \<or> fc_path_has_parent_ref leaf then (Err EINVAL, None)
          else let p = root @ ''/'' @ l
               in (if length p \<ge> n then Err ENAMETOOLONG else OK, Some (snprintf_buf n p))
      | _ \<Rightarrow> (Err EINVAL, None))"

definition fc_secret_path :: "string \<Rightarrow> string option \<Rightarrow> nat option \<Rightarrow> ret \<times> string option" where
  "fc_secret_path root leaf out =
     (case (leaf, out) of
        (Some l, Some n) \<Rightarrow>
          if n = 0 \<or> fc_path_has_parent_ref leaf then (Err EINVAL, None)
          else let rel = ''secrets/'' @ l
               in if length rel \<ge> FC_PATH_LEN then (Err ENAMETOOLONG, None)
                  else fc_data_path root (Some rel) out
      | _ \<Rightarrow> (Err EINVAL, None))"

definition fc_tls_ca_cert_path :: "string \<Rightarrow> nat option \<Rightarrow> ret \<times> string option" where
  "fc_tls_ca_cert_path root out = fc_data_path root (Some ''certs/roots.pem'') out"

text \<open>
  The components of a path and lexical resolution, the reference against which
  the parent-reference check is judged: \<open>..\<close> drops the last component kept so far.
\<close>

fun components :: "string \<Rightarrow> string list" where
  "components [] = [[]]"
| "components (c # s) =
     (case components s of
        [] \<Rightarrow> [[c]]
      | w # ws \<Rightarrow> if c = CHR ''/'' then [] # w # ws else (c # w) # ws)"

fun resolve :: "string list \<Rightarrow> string list \<Rightarrow> string list" where
  "resolve acc [] = acc"
| "resolve acc (w # ws) =
     resolve (if w = ''..'' then butlast acc else if w = [] \<or> w = ''.'' then acc else acc @ [w]) ws"

lemma components_nonempty [simp]: "components s \<noteq> []"
  by (cases s) (auto split: list.splits)

lemma components_Cons:
  "components (c # s) =
     (if c = CHR ''/'' then [] # components s else (c # hd (components s)) # tl (components s))"
  using components_nonempty [of s] by (cases "components s") auto

declare components.simps(2) [simp del]
declare components_Cons [simp]

lemma components_append_slash: "components (a @ CHR ''/'' # b) = components a @ components b"
  by (induction a) auto

lemma prefix_hd_components: "prefix (hd (components s)) s"
  by (induction s) auto

text \<open>A first component is followed by the end of the string or by a slash.\<close>

lemma hd_components_end: "hd (components s) = w \<Longrightarrow> s = w \<or> prefix (w @ ''/'') s"
  by (induction s arbitrary: w) auto

lemma dotdot_component_sublist:
  "''..'' \<in> set (tl (components s)) \<Longrightarrow> sublist ''/..'' s"
proof (induction s)
  case (Cons c s)
  show ?case
  proof (cases "c = CHR ''/'' \<and> hd (components s) = ''..''")
    case True
    then have "prefix ''/..'' (c # s)" using prefix_hd_components [of s] by simp
    then show ?thesis by (rule prefix_imp_sublist)
  next
    case False
    then have "''..'' \<in> set (tl (components s))"
      using Cons.prems by (cases "components s") (auto split: if_splits)
    then show ?thesis using Cons.IH by (simp add: sublist_Cons_right)
  qed
qed simp

lemma no_dotdot_component:
  assumes "\<not> fc_path_has_parent_ref (Some p)"
  shows "''..'' \<notin> set (components p)"
proof
  assume "''..'' \<in> set (components p)"
  then consider "hd (components p) = ''..''" | "''..'' \<in> set (tl (components p))"
    by (cases "components p") auto
  then show False
  proof cases
    case 1
    then have "p = ''..'' \<or> prefix ''../'' p" using hd_components_end [of p "''..''"] by simp
    then show False
      using assms prefix_imp_sublist [of "''../''" p]
      by (auto simp: fc_path_has_parent_ref_def strstr_None_iff)
  next
    case 2
    then show False
      using assms dotdot_component_sublist [of p]
      by (auto simp: fc_path_has_parent_ref_def strstr_None_iff)
  qed
qed

lemma resolve_append: "resolve acc (a @ b) = resolve (resolve acc a) b"
  by (induction a arbitrary: acc) auto

lemma resolve_no_dotdot: "''..'' \<notin> set ws \<Longrightarrow> \<exists>z. resolve acc ws = acc @ z"
proof (induction ws arbitrary: acc)
  case (Cons w ws)
  then show ?case by (cases "w = [] \<or> w = ''.''") (auto, metis append_assoc)
qed simp

section \<open>The HTTP allow list\<close>

definition url_host_end :: "char \<Rightarrow> bool" where
  "url_host_end c \<longleftrightarrow> c = CHR ''/'' \<or> c = CHR '':'' \<or> c = CHR ''?'' \<or> c = CHR ''#''"

definition fc_parse_url_host :: "string option \<Rightarrow> nat option \<Rightarrow> string option" where
  "fc_parse_url_host url host_len =
     (case (url, host_len) of
        (Some u, Some n) \<Rightarrow>
          if n = 0 then None
          else (case strstr u ''://'' of
                  None \<Rightarrow> None
                | Some p \<Rightarrow>
                    let host = takeWhile (\<lambda>c. \<not> url_host_end c) (drop 3 p)
                    in if length host = 0 \<or> length host \<ge> n then None else Some host)
      | _ \<Rightarrow> None)"

text \<open>
  The lines \<^verbatim>\<open>fgets\<close> delivers with a buffer of \<open>n\<close> bytes: each call takes at most
  \<open>n - 1\<close> bytes and stops after a newline, so a longer line comes in pieces.
\<close>

definition fgets_len :: "nat \<Rightarrow> string \<Rightarrow> nat" where
  "fgets_len n s = min (n - 1) (Suc (length (takeWhile (\<lambda>c. c \<noteq> LF) s)))"

function fgets_lines :: "nat \<Rightarrow> string \<Rightarrow> string list" where
  "fgets_lines n s =
     (if s = [] \<or> n < 2 then []
      else take (fgets_len n s) s # fgets_lines n (drop (fgets_len n s) s))"
  by pat_completeness auto
termination
  by (relation "measure (\<lambda>(n, s). length s)") (auto simp: fgets_len_def)

declare fgets_lines.simps [simp del]

definition allow_line_matches :: "string \<Rightarrow> string \<Rightarrow> bool" where
  "allow_line_matches host raw =
     (let line = fc_trim (takeWhile (\<lambda>c. c \<noteq> NUL) raw)
      in \<not> (line = [] \<or> hd line = CHR ''#'') \<and> line = host)"

text \<open>\<open>files\<close> is what \<^verbatim>\<open>fopen\<close> finds at a path.\<close>

definition fc_url_host_allowed ::
    "string \<Rightarrow> (string \<Rightarrow> string option) \<Rightarrow> string option \<Rightarrow> bool" where
  "fc_url_host_allowed root files url =
     (case fc_parse_url_host url (Some 96) of
        None \<Rightarrow> False
      | Some host \<Rightarrow>
          (case fc_data_path root (Some ''http_allowlist.txt'') (Some FC_PATH_LEN) of
             (OK, Some path) \<Rightarrow>
               (case files path of
                  None \<Rightarrow> False
                | Some content \<Rightarrow>
                    list_ex (allow_line_matches host) (fgets_lines 128 content))
           | _ \<Rightarrow> False))"

section \<open>JSON escaping\<close>

definition hex_char :: "nat \<Rightarrow> char" where
  "hex_char d = (if d < 10 then char_of (48 + d) else char_of (87 + d))"

text \<open>The escape sequence of a character, \<open>None\<close> when it is copied as it is.\<close>

definition json_esc :: "char \<Rightarrow> string option" where
  "json_esc ch =
     (if ch = DQ then Some [BSL, DQ]
      else if ch = BSL then Some [BSL, BSL]
      else if ch = LF then Some [BSL, CHR ''n'']
      else if ch = CHR 0x0D then Some [BSL, CHR ''r'']
      else if ch = CHR 0x09 then Some [BSL, CHR ''t'']
      else if (of_char ch :: nat) < 32
      then Some ([BSL, CHR ''u'', CHR ''0'', CHR ''0'',
                  hex_char (of_char ch div 16), hex_char (of_char ch mod 16)])
      else None)"

text \<open>Storing characters at an offset of a buffer (\<^verbatim>\<open>memcpy\<close>).\<close>

definition buf_put :: "nat \<Rightarrow> string \<Rightarrow> char list \<Rightarrow> char list" where
  "buf_put off s buf = take off buf @ s @ drop (off + length s) buf"

fun json_escape_loop :: "string \<Rightarrow> nat \<Rightarrow> char list \<Rightarrow> ret \<times> char list" where
  "json_escape_loop [] off out = (OK, out[off := NUL])"
| "json_escape_loop (ch # inp) off out =
     (case json_esc ch of
        Some esc \<Rightarrow>
          if off + length esc \<ge> length out then (Err ENOSPC, out)
          else json_escape_loop inp (off + length esc) (buf_put off esc out)
      | None \<Rightarrow>
          if off + 1 \<ge> length out then (Err ENOSPC, out)
          else json_escape_loop inp (off + 1) (out[off := ch]))"

text \<open>\<open>out\<close> holds the bytes of the destination before the call; its length is the size.\<close>

definition fc_json_escape :: "string option \<Rightarrow> char list option \<Rightarrow> ret \<times> char list option" where
  "fc_json_escape inp out =
     (case (inp, out) of
        (Some s, Some buf) \<Rightarrow>
          if buf = [] then (Err EINVAL, out)
          else (case json_escape_loop s 0 buf of (r, buf') \<Rightarrow> (r, Some buf'))
      | _ \<Rightarrow> (Err EINVAL, out))"

text \<open>The C string in a buffer, \<open>None\<close> when no terminator is found inside it.\<close>

definition cstr_of :: "char list \<Rightarrow> string option" where
  "cstr_of buf = (if NUL \<in> set buf then Some (takeWhile (\<lambda>c. c \<noteq> NUL) buf) else None)"

text \<open>Reference: the escaped form of a string, and a decoder for JSON string bodies.\<close>

definition json_escaped :: "string \<Rightarrow> string" where
  "json_escaped s = concat (map (\<lambda>c. case json_esc c of Some e \<Rightarrow> e | None \<Rightarrow> [c]) s)"

definition hex_val :: "char \<Rightarrow> nat option" where
  "hex_val c =
     (let n = of_char c :: nat
      in if 48 \<le> n \<and> n \<le> 57 then Some (n - 48)
         else if 97 \<le> n \<and> n \<le> 102 then Some (n - 87)
         else if 65 \<le> n \<and> n \<le> 70 then Some (n - 55) else None)"

definition hex4 :: "string \<Rightarrow> nat option" where
  "hex4 w =
     (case map hex_val w of
        [Some a, Some b, Some c, Some d] \<Rightarrow> Some (((a * 16 + b) * 16 + c) * 16 + d)
      | _ \<Rightarrow> None)"

definition json_simple_escape :: "char \<Rightarrow> char option" where
  "json_simple_escape x =
     (if x = DQ \<or> x = BSL \<or> x = CHR ''/'' then Some x
      else if x = CHR ''n'' then Some LF
      else if x = CHR ''r'' then Some (CHR 0x0D)
      else if x = CHR ''t'' then Some (CHR 0x09)
      else if x = CHR ''b'' then Some (CHR 0x08)
      else if x = CHR ''f'' then Some (CHR 0x0C) else None)"

function json_unescape :: "string \<Rightarrow> string option" where
  "json_unescape s =
     (case s of
        [] \<Rightarrow> Some []
      | c # t \<Rightarrow>
          if c = BSL then
            (case t of
               [] \<Rightarrow> None
             | x # u \<Rightarrow>
                 if x = CHR ''u'' then
                   (case hex4 (take 4 u) of
                      Some n \<Rightarrow> if n < 256 then map_option ((#) (char_of n)) (json_unescape (drop 4 u))
                                else None
                    | None \<Rightarrow> None)
                 else
                   (case json_simple_escape x of
                      Some y \<Rightarrow> map_option ((#) y) (json_unescape u)
                    | None \<Rightarrow> None))
          else if c = DQ \<or> (of_char c :: nat) < 32 then None
          else map_option ((#) c) (json_unescape t))"
  by pat_completeness auto
termination
  by (relation "measure length") auto

declare json_unescape.simps [simp del]

lemma hex_val_hex_char [simp]: "d < 16 \<Longrightarrow> hex_val (hex_char d) = Some d"
  by (auto simp: hex_val_def hex_char_def Let_def)

lemma json_unescape_esc:
  "json_unescape ((case json_esc c of Some e \<Rightarrow> e | None \<Rightarrow> [c]) @ t)
     = map_option ((#) c) (json_unescape t)"
proof (cases "c = DQ \<or> c = BSL \<or> c = LF \<or> c = CHR 0x0D \<or> c = CHR 0x09")
  case True
  then show ?thesis
    by (subst json_unescape.simps) (auto simp: json_esc_def json_simple_escape_def)
next
  case False
  let ?n = "of_char c :: nat"
  have z: "hex_val (CHR ''0'') = Some 0" by (simp add: hex_val_def)
  have "?n < 32 \<Longrightarrow> hex4 [CHR ''0'', CHR ''0'', hex_char (?n div 16), hex_char (?n mod 16)] = Some ?n"
    by (simp add: hex4_def z)
  with False show ?thesis
    by (subst json_unescape.simps) (auto simp: json_esc_def)
qed

lemma json_unescape_escaped: "json_unescape (json_escaped s) = Some s"
proof (induction s)
  case Nil
  show ?case by (subst json_unescape.simps) (simp add: json_escaped_def)
next
  case (Cons c s)
  then show ?case
    using json_unescape_esc [of c "json_escaped s"] by (simp add: json_escaped_def)
qed

lemma length_json_esc: "json_esc c = Some e \<Longrightarrow> length e \<le> 6"
  by (auto simp: json_esc_def split: if_splits)

lemma length_json_escaped: "length (json_escaped s) \<le> 6 * length s"
  by (induction s) (auto simp: json_escaped_def split: option.splits dest: length_json_esc)

lemma hex_char_not_NUL: "d < 16 \<Longrightarrow> NUL \<noteq> hex_char d"
proof
  assume "d < 16" "NUL = hex_char d"
  then have "hex_val NUL = Some d" by simp
  then show False by (simp add: hex_val_def)
qed

lemma json_esc_no_NUL: "json_esc c = Some e \<Longrightarrow> NUL \<notin> set e"
  by (auto simp: json_esc_def hex_char_not_NUL split: if_splits)

lemma json_escaped_no_NUL: "NUL \<notin> set s \<Longrightarrow> NUL \<notin> set (json_escaped s)"
  by (induction s) (auto simp: json_escaped_def split: option.splits dest: json_esc_no_NUL)

lemma length_buf_put: "off + length s \<le> length buf \<Longrightarrow> length (buf_put off s buf) = length buf"
  by (simp add: buf_put_def)

lemma buf_put_buf_put:
  "off + length a + length b \<le> length buf \<Longrightarrow>
     buf_put (off + length a) b (buf_put off a buf) = buf_put off (a @ b) buf"
  by (simp add: buf_put_def ac_simps)

lemma buf_put_single: "off < length buf \<Longrightarrow> buf[off := c] = buf_put off [c] buf"
  by (simp add: buf_put_def upd_conv_take_nth_drop)

lemma cstr_of_buf_put:
  assumes "length s < length buf" "NUL \<notin> set s"
  shows "cstr_of (buf_put 0 (s @ [NUL]) buf) = Some s"
proof -
  have "takeWhile (\<lambda>c. c \<noteq> NUL) (s @ NUL # t) = s" for t
    using assms(2) by (induction s) auto
  then show ?thesis by (simp add: cstr_of_def buf_put_def)
qed

lemma json_escape_loop_spec:
  assumes "off < length out"
  shows "json_escape_loop s off out =
           (if off + length (json_escaped s) < length out
            then (OK, buf_put off (json_escaped s @ [NUL]) out)
            else (Err ENOSPC, snd (json_escape_loop s off out)))"
  using assms
proof (induction s arbitrary: off out)
  case Nil
  then show ?case by (simp add: json_escaped_def buf_put_single)
next
  case (Cons c s)
  let ?e = "case json_esc c of Some e \<Rightarrow> e | None \<Rightarrow> [c]"
  have esc: "json_escaped (c # s) = ?e @ json_escaped s" by (simp add: json_escaped_def)
  have step: "json_escape_loop (c # s) off out =
      (if off + length ?e \<ge> length out then (Err ENOSPC, out)
       else json_escape_loop s (off + length ?e) (buf_put off ?e out))"
    using Cons.prems by (auto simp: buf_put_single split: option.splits)
  show ?case
  proof (cases "off + length ?e < length out")
    case True
    then have "off + length ?e < length (buf_put off ?e out)" by (simp add: length_buf_put)
    from Cons.IH [OF this] show ?thesis
      using True unfolding step esc
      by (auto simp: length_buf_put buf_put_buf_put add.assoc simp del: append_assoc
          simp: append_assoc [symmetric])
  next
    case False
    then show ?thesis unfolding step esc by simp
  qed
qed

section \<open>Lines of a configuration file\<close>

definition plain_line :: "string \<Rightarrow> bool" where
  "plain_line h \<longleftrightarrow>
     trimmed h \<and> h \<noteq> [] \<and> hd h \<noteq> CHR ''#'' \<and> LF \<notin> set h \<and> NUL \<notin> set h \<and> length h < 127"

definition text_of_lines :: "string list \<Rightarrow> string" where
  "text_of_lines hs = concat (map (\<lambda>h. h @ [LF]) hs)"

lemma fgets_lines_text:
  "\<forall>h\<in>set hs. plain_line h \<Longrightarrow> fgets_lines 128 (text_of_lines hs) = map (\<lambda>h. h @ [LF]) hs"
proof (induction hs)
  case Nil
  show ?case by (simp add: text_of_lines_def fgets_lines.simps)
next
  case (Cons h hs)
  have h: "LF \<notin> set h" "length h < 127" using Cons.prems by (auto simp: plain_line_def)
  have "takeWhile (\<lambda>c. c \<noteq> LF) (h @ LF # t) = h" for t
    using h(1) by (induction h) auto
  then have "fgets_len 128 (text_of_lines (h # hs)) = Suc (length h)"
    using h(2) by (simp add: fgets_len_def text_of_lines_def)
  then show ?case
    using Cons by (subst fgets_lines.simps) (simp add: text_of_lines_def)
qed

lemma rstrip_rstrip [simp]: "rstrip (rstrip s) = rstrip s"
  using rstrip_last [of s] by (intro rstrip_id) blast

lemma trim_tail_rstrip: "trim_tail s = trim_tail (rstrip s)"
  by (subst (1 2) trim_tail.simps) simp

lemma fc_trim_line: "plain_line h \<Longrightarrow> fc_trim (h @ [LF]) = h"
proof -
  assume h: "plain_line h"
  have sp: "isspace LF" by (simp add: isspace_def)
  have "dropWhile isspace (h @ [LF]) = h @ [LF]"
    using h by (cases h) (auto simp: plain_line_def trimmed_def)
  moreover have "rstrip (h @ [LF]) = h"
    using h sp rstrip_id [of h] by (auto simp: rstrip_def plain_line_def trimmed_def)
  ultimately have "fc_trim (h @ [LF]) = trim_tail h"
    using trim_tail_rstrip [of "h @ [LF]"] by (simp add: fc_trim_def)
  then show ?thesis using h by (auto simp: plain_line_def trimmed_def trim_tail_id)
qed

lemma allow_line_matches_plain:
  assumes "plain_line h"
  shows "allow_line_matches host (h @ [LF]) \<longleftrightarrow> h = host"
proof -
  have "takeWhile (\<lambda>c. c \<noteq> NUL) (h @ [LF]) = h @ [LF]"
    using assms by (auto simp: takeWhile_eq_all_conv plain_line_def)
  then show ?thesis
    using assms fc_trim_line [OF assms] by (auto simp: allow_line_matches_def plain_line_def)
qed

section \<open>Properties\<close>

text \<open>
  C10. \<^verbatim>\<open>fc_data_path\<close> never leaves the data directory: when it succeeds, the path
  is the root, a slash and the leaf, uncut, and resolving its components
  (including \<open>..\<close> components) yields the resolved root followed by further
  components, whatever the leaf is.
\<close>

theorem data_path_confined:
  assumes "fc_data_path root (Some leaf) (Some n) = (OK, Some p)"
  shows "p = root @ ''/'' @ leaf
         \<and> (\<exists>z. resolve [] (components p) = resolve [] (components root) @ z)"
proof -
  have np: "\<not> fc_path_has_parent_ref (Some leaf)"
    and p: "p = root @ CHR ''/'' # leaf"
    using assms by (auto simp: fc_data_path_def Let_def snprintf_buf_def split: if_splits)
  then show ?thesis
    using resolve_no_dotdot [OF no_dotdot_component [OF np]]
    by (simp add: p components_append_slash resolve_append)
qed

theorem data_path_confined_witness:
  "fc_data_path ''/data/fruitclaw'' (Some ''notes/a.txt'') (Some FC_PATH_LEN)
     = (OK, Some ''/data/fruitclaw/notes/a.txt'')
   \<and> (\<exists>z. resolve [] (components ''/data/fruitclaw/notes/a.txt'')
            = resolve [] (components ''/data/fruitclaw'') @ z)"
proof -
  have "fc_data_path ''/data/fruitclaw'' (Some ''notes/a.txt'') (Some FC_PATH_LEN)
     = (OK, Some ''/data/fruitclaw/notes/a.txt'')"
    by (simp add: fc_data_path_def fc_path_has_parent_ref_def FC_PATH_LEN_def snprintf_buf_def)
  then show ?thesis using data_path_confined by blast
qed

text \<open>
  C26. \<^verbatim>\<open>fc_json_escape\<close> on a C string: it succeeds exactly when the escaped text and
  its terminator fit, it never writes outside the buffer, and the buffer then holds
  a C string that a JSON decoder maps back to the input; otherwise it returns
  \<open>ENOSPC\<close>.
\<close>

theorem json_escape_roundtrip:
  assumes "NUL \<notin> set s" "buf \<noteq> []"
  shows "if length (json_escaped s) < length buf
         then \<exists>b t. fc_json_escape (Some s) (Some buf) = (OK, Some b) \<and> length b = length buf
                \<and> cstr_of b = Some t \<and> json_unescape t = Some s
         else \<exists>b. fc_json_escape (Some s) (Some buf) = (Err ENOSPC, Some b)"
proof -
  let ?e = "json_escaped s"
  obtain r b where loop: "json_escape_loop s 0 buf = (r, b)" by fastforce
  then have esc: "fc_json_escape (Some s) (Some buf) = (r, Some b)"
    using assms(2) by (simp add: fc_json_escape_def)
  show ?thesis
  proof (cases "length ?e < length buf")
    case True
    then have "r = OK" "b = buf_put 0 (?e @ [NUL]) buf"
      using json_escape_loop_spec [of 0 buf s] assms(2) loop by simp_all
    then show ?thesis
      using True esc cstr_of_buf_put [OF True json_escaped_no_NUL [OF assms(1)]]
        json_unescape_escaped [of s] by (simp add: length_buf_put)
  next
    case False
    then have "r = Err ENOSPC"
      using json_escape_loop_spec [of 0 buf s] assms(2) loop by simp
    then show ?thesis using False esc by simp
  qed
qed

theorem json_escape_roundtrip_witness:
  "\<exists>b t. fc_json_escape (Some [CHR ''a'', DQ, LF]) (Some (replicate 16 (CHR ''x''))) = (OK, Some b)
      \<and> length b = 16 \<and> cstr_of b = Some t \<and> json_unescape t = Some [CHR ''a'', DQ, LF]"
proof -
  have "length (json_escaped [CHR ''a'', DQ, LF]) < length (replicate 16 (CHR ''x''))"
    by (simp add: json_escaped_def json_esc_def)
  then show ?thesis
    using json_escape_roundtrip [of "[CHR ''a'', DQ, LF]" "replicate 16 (CHR ''x'')"] by simp
qed

text \<open>
  \<^verbatim>\<open>fc_url_host_allowed\<close> with an allow list of plain host lines accepts a URL
  exactly when the host it parses from the URL is one of the listed hosts; nothing
  else opens the gate, and no listed host is missed.
\<close>

theorem url_host_allowed_iff:
  assumes "\<forall>h\<in>set hs. plain_line h"
    and "length root + 19 < FC_PATH_LEN"
    and "files (root @ ''/http_allowlist.txt'') = Some (text_of_lines hs)"
  shows "fc_url_host_allowed root files url \<longleftrightarrow>
           (\<exists>h. fc_parse_url_host url (Some 96) = Some h \<and> h \<in> set hs)"
proof -
  have path: "fc_data_path root (Some ''http_allowlist.txt'') (Some FC_PATH_LEN)
      = (OK, Some (root @ ''/http_allowlist.txt''))"
    using assms(2)
    by (simp add: fc_data_path_def fc_path_has_parent_ref_def FC_PATH_LEN_def snprintf_buf_def)
  have "list_ex (allow_line_matches host) (map (\<lambda>h. h @ [LF]) hs) \<longleftrightarrow> host \<in> set hs" for host
    using assms(1) by (induction hs) (auto simp: allow_line_matches_plain)
  then show ?thesis
    by (simp add: fc_url_host_allowed_def path assms(3) fgets_lines_text [OF assms(1)]
        split: option.splits)
qed

theorem url_host_allowed_iff_witness:
  "fc_url_host_allowed ''/data/fruitclaw''
     [''/data/fruitclaw/http_allowlist.txt'' \<mapsto> text_of_lines [''api.deepseek.com'', ''api.telegram.org'']]
     (Some ''https://api.telegram.org/bot'')"
proof -
  let ?hs = "[''api.deepseek.com'', ''api.telegram.org'']"
  have hs: "\<forall>h\<in>set ?hs. plain_line h"
    by (simp add: plain_line_def trimmed_def isspace_def ends_escaped_newline_def)
  have "fc_parse_url_host (Some ''https://api.telegram.org/bot'') (Some 96) = Some ''api.telegram.org''"
    by (simp add: fc_parse_url_host_def url_host_end_def)
  then show ?thesis
    using url_host_allowed_iff [OF hs, of "''/data/fruitclaw''"
        "[''/data/fruitclaw/http_allowlist.txt'' \<mapsto> text_of_lines ?hs]"]
    by (simp add: FC_PATH_LEN_def)
qed

end
