(* ===== verification/FC_Router.thy ===== *)
theory FC_Router
  imports FC_Queue FC_Config
begin

text \<open>
  The router of \<^verbatim>\<open>core/fc_router.c\<close>: it takes events off the main queue and hands the
  messages of the three known sources to the agent queue.  The second part gives the contract of a
  filtering forwarder between two bounded queues and shows that the router keeps it.
\<close>

section \<open>State and operations\<close>

record router =
  g_router_started :: bool
  g_router_routed_count :: u32
  g_router_dropped_count :: u32
  g_router_failed_count :: u32
  g_router_last_ms :: int
  g_router_last_ret :: ret
  g_router_last_source :: string
  g_router_last_type :: string

definition zero_router :: router where
  "zero_router = \<lparr>g_router_started = False, g_router_routed_count = 0, g_router_dropped_count = 0,
     g_router_failed_count = 0, g_router_last_ms = 0, g_router_last_ret = OK,
     g_router_last_source = [], g_router_last_type = []\<rparr>"

text \<open>The router with the two global queues it works between.\<close>

record rsys =
  g_main_queue :: fc_queue
  g_agent_queue :: fc_queue
  the_router :: router

definition fc_router_record :: "int \<Rightarrow> fc_event option \<Rightarrow> ret \<Rightarrow> bool \<Rightarrow> router \<Rightarrow> router" where
  "fc_router_record now ev ret routed r =
     (let r' = (if routed \<and> ret = OK then r\<lparr>g_router_routed_count := g_router_routed_count r + 1\<rparr>
                else if routed then r\<lparr>g_router_failed_count := g_router_failed_count r + 1\<rparr>
                else r\<lparr>g_router_dropped_count := g_router_dropped_count r + 1\<rparr>)
      in r'\<lparr>g_router_last_ms := now, g_router_last_ret := ret,
            g_router_last_source := cpy FC_SOURCE_LEN (case ev of Some e \<Rightarrow> ev_source e | None \<Rightarrow> []),
            g_router_last_type := cpy FC_TYPE_LEN (case ev of Some e \<Rightarrow> ev_type e | None \<Rightarrow> [])\<rparr>)"

definition routable :: "fc_event \<Rightarrow> bool" where
  "routable ev \<longleftrightarrow>
     ev_source ev = ''telegram'' \<and> ev_type ev = ''message.in''
     \<or> ev_source ev = ''scheduler'' \<and> ev_type ev = ''timer.fire''
     \<or> ev_source ev = ''cli'' \<and> ev_type ev = ''message.in''"

definition fc_router_route_event :: "int \<Rightarrow> fc_event option \<Rightarrow> rsys \<Rightarrow> ret \<times> rsys" where
  "fc_router_route_event now evp s =
     (case evp of
        None \<Rightarrow> (Err EINVAL, s)
      | Some ev \<Rightarrow>
          if routable ev
          then (case fc_queue_publish (Some (g_agent_queue s)) (Some ev) of
                  (ret, q) \<Rightarrow>
                    (ret, s\<lparr>g_agent_queue := the q,
                            the_router := fc_router_record now evp ret True (the_router s)\<rparr>))
          else (OK, s\<lparr>the_router := fc_router_record now evp OK False (the_router s)\<rparr>))"

text \<open>
  One turn of \<^verbatim>\<open>fc_router_thread_main\<close>'s loop: \<open>None\<close> while the receive
  blocks, otherwise the event taken (if any) and the state after the turn.
\<close>

definition router_turn :: "wait_round list \<Rightarrow> int \<Rightarrow> rsys \<Rightarrow> (fc_event option \<times> ret \<times> rsys) option" where
  "router_turn ws now s =
     (case fc_queue_receive (Some (g_main_queue s)) True (-1) ws of
        None \<Rightarrow> None
      | Some (r, evp, q) \<Rightarrow>
          let s' = s\<lparr>g_main_queue := the q\<rparr>
          in if r = OK
             then (case fc_router_route_event now evp s' of (ret, s'') \<Rightarrow> Some (evp, ret, s''))
             else Some (None, r, s'))"

definition fc_router_worker_start :: "errno option \<Rightarrow> router \<Rightarrow> ret \<times> router" where
  "fc_router_worker_start create_err r =
     (if g_router_started r then (OK, r)
      else case create_err of
             Some e \<Rightarrow> (Err e, r)
           | None \<Rightarrow> (OK, r\<lparr>g_router_started := True\<rparr>))"

text \<open>How \<^verbatim>\<open>%d\<close> prints a return code: the target's errno numbering is a parameter.\<close>

fun ret_code :: "(errno \<Rightarrow> int) \<Rightarrow> ret \<Rightarrow> int" where
  "ret_code no OK = 0"
| "ret_code no (Err e) = - no e"

definition fc_router_status_format ::
    "(errno \<Rightarrow> int) \<Rightarrow> int \<Rightarrow> nat option \<Rightarrow> router \<Rightarrow> ret \<times> string option" where
  "fc_router_status_format no now out r =
     (case out of
        None \<Rightarrow> (Err EINVAL, None)
      | Some n \<Rightarrow>
          if n = 0 then (Err EINVAL, None)
          else let source = cpy FC_SOURCE_LEN (g_router_last_source r);
                   type = cpy FC_TYPE_LEN (g_router_last_type r)
               in (OK, Some (snprintf_buf n
                     (''router_status: worker='' @ (if g_router_started r then ''started'' else ''stopped'')
                      @ '' routed='' @ dec_nat (unat (g_router_routed_count r))
                      @ '' dropped='' @ dec_nat (unat (g_router_dropped_count r))
                      @ '' failed='' @ dec_nat (unat (g_router_failed_count r))
                      @ '' last_ret='' @ dec_int (ret_code no (g_router_last_ret r))
                      @ '' last_age_ms='' @ dec_int (if g_router_last_ms r > 0 then now - g_router_last_ms r else -1)
                      @ '' last='' @ (if source \<noteq> [] then source else ''-'')
                      @ ''/'' @ (if type \<noteq> [] then type else ''-'')))))"

section \<open>The contract of a filtering forwarder\<close>

text \<open>What became of an event taken off the first queue.\<close>

datatype fate = Dropped | Sent ret

text \<open>The forwarder's turns carry what it reads from its environment, the time.\<close>

datatype ('e, 't) pop = Publish 'e | Route 't | Take

definition delivered :: "('e \<times> fate) list \<Rightarrow> 'e list" where
  "delivered log = map fst (filter (\<lambda>(e, f). f = Sent OK) log)"

text \<open>
  A run of publishers, forwarder and consumer; the result is the list of accepted events, the log of
  the forwarder, the list of events taken by the consumer, and the final state.
\<close>

fun pipe_run ::
    "('e \<Rightarrow> 's \<Rightarrow> ret \<times> 's) \<Rightarrow> ('t \<Rightarrow> 's \<Rightarrow> ('e \<times> fate \<times> 's) option) \<Rightarrow> ('s \<Rightarrow> ('e \<times> 's) option)
       \<Rightarrow> 's \<Rightarrow> ('e, 't) pop list \<Rightarrow> 'e list \<times> ('e \<times> fate) list \<times> 'e list \<times> 's" where
  "pipe_run pub fwd con s [] = ([], [], [], s)"
| "pipe_run pub fwd con s (Publish e # ops) =
     (case pub e s of (r, s1) \<Rightarrow>
        case pipe_run pub fwd con s1 ops of (acc, log, out, s2) \<Rightarrow>
          (if r = OK then e # acc else acc, log, out, s2))"
| "pipe_run pub fwd con s (Route t # ops) =
     (case fwd t s of
        None \<Rightarrow> pipe_run pub fwd con s ops
      | Some (e, f, s1) \<Rightarrow>
          (case pipe_run pub fwd con s1 ops of (acc, log, out, s2) \<Rightarrow> (acc, (e, f) # log, out, s2)))"
| "pipe_run pub fwd con s (Take # ops) =
     (case con s of
        None \<Rightarrow> pipe_run pub fwd con s ops
      | Some (e, s1) \<Rightarrow>
          (case pipe_run pub fwd con s1 ops of (acc, log, out, s2) \<Rightarrow> (acc, log, e # out, s2)))"

locale forwarder =
  fixes pub :: "'e \<Rightarrow> 's \<Rightarrow> ret \<times> 's"
    and fwd :: "'t \<Rightarrow> 's \<Rightarrow> ('e \<times> fate \<times> 's) option"
    and con :: "'s \<Rightarrow> ('e \<times> 's) option"
    and elems1 elems2 :: "'s \<Rightarrow> 'e list"
    and pass :: "'e \<Rightarrow> bool"
    and inv :: "'s \<Rightarrow> bool"
  assumes pub_law: "inv s \<Longrightarrow> pub e s = (r, s') \<Longrightarrow>
             inv s' \<and> elems1 s' = elems1 s @ (if r = OK then [e] else []) \<and> elems2 s' = elems2 s"
    and fwd_idle: "inv s \<Longrightarrow> fwd t s = None \<Longrightarrow> elems1 s = []"
    and fwd_law: "inv s \<Longrightarrow> fwd t s = Some (e, f, s') \<Longrightarrow>
             inv s' \<and> elems1 s = e # elems1 s' \<and> (f = Dropped \<longleftrightarrow> \<not> pass e)
             \<and> elems2 s' = elems2 s @ (if f = Sent OK then [e] else [])"
    and con_law: "inv s \<Longrightarrow> con s = Some (e, s') \<Longrightarrow>
             inv s' \<and> elems2 s = e # elems2 s' \<and> elems1 s' = elems1 s"
begin

lemma run_first: "inv s \<Longrightarrow> pipe_run pub fwd con s ops = (acc, log, out, s') \<Longrightarrow>
    inv s' \<and> elems1 s @ acc = map fst log @ elems1 s'"
proof (induction ops arbitrary: s acc log out)
  case (Cons a ops)
  show ?case
  proof (cases a)
    case (Publish e)
    obtain r s1 where p: "pub e s = (r, s1)" by fastforce
    show ?thesis using Cons.prems Cons.IH [of s1] pub_law [OF Cons.prems(1) p] p Publish
      by (auto split: prod.splits if_splits)
  next
    case (Route t)
    show ?thesis
    proof (cases "fwd t s")
      case (Some x)
      then obtain e f s1 where x: "fwd t s = Some (e, f, s1)" by (cases x) auto
      show ?thesis using Cons.prems Cons.IH [of s1] fwd_law [OF Cons.prems(1) x] x Route
        by (auto split: prod.splits)
    qed (use Cons Route in auto)
  next
    case Take
    show ?thesis
    proof (cases "con s")
      case (Some x)
      then obtain e s1 where x: "con s = Some (e, s1)" by (cases x) auto
      show ?thesis using Cons.prems Cons.IH [of s1] con_law [OF Cons.prems(1) x] x Take
        by (auto split: prod.splits)
    qed (use Cons Take in auto)
  qed
qed simp

lemma run_second: "inv s \<Longrightarrow> pipe_run pub fwd con s ops = (acc, log, out, s') \<Longrightarrow>
    elems2 s @ delivered log = out @ elems2 s' \<and> (\<forall>x\<in>set log. snd x = Dropped \<longleftrightarrow> \<not> pass (fst x))"
proof (induction ops arbitrary: s acc log out)
  case (Cons a ops)
  show ?case
  proof (cases a)
    case (Publish e)
    obtain r s1 where p: "pub e s = (r, s1)" by fastforce
    show ?thesis using Cons.prems Cons.IH [of s1] pub_law [OF Cons.prems(1) p] p Publish
      by (auto split: prod.splits if_splits)
  next
    case (Route t)
    show ?thesis
    proof (cases "fwd t s")
      case (Some x)
      then obtain e f s1 where x: "fwd t s = Some (e, f, s1)" by (cases x) auto
      show ?thesis using Cons.prems Cons.IH [of s1] fwd_law [OF Cons.prems(1) x] x Route
        by (auto simp: delivered_def split: prod.splits if_splits)
    qed (use Cons Route in auto)
  next
    case Take
    show ?thesis
    proof (cases "con s")
      case (Some x)
      then obtain e s1 where x: "con s = Some (e, s1)" by (cases x) auto
      show ?thesis using Cons.prems Cons.IH [of s1] con_law [OF Cons.prems(1) x] x Take
        by (auto split: prod.splits)
    qed (use Cons Take in auto)
  qed
qed (simp add: delivered_def)

end

section \<open>The router keeps the contract\<close>

definition rsys_wf :: "rsys \<Rightarrow> bool" where
  "rsys_wf s \<longleftrightarrow> queue_wf (g_main_queue s) \<and> queue_wf (g_agent_queue s)"

definition main_publish :: "fc_event \<Rightarrow> rsys \<Rightarrow> ret \<times> rsys" where
  "main_publish ev s = (case queue_put ev (g_main_queue s) of (r, q) \<Rightarrow> (r, s\<lparr>g_main_queue := q\<rparr>))"

definition agent_take :: "rsys \<Rightarrow> (fc_event \<times> rsys) option" where
  "agent_take s = map_option (\<lambda>(ev, q). (ev, s\<lparr>g_agent_queue := q\<rparr>)) (queue_get (g_agent_queue s))"

text \<open>A turn of the router that does not wait, with what became of the event.\<close>

definition router_forward :: "int \<Rightarrow> rsys \<Rightarrow> (fc_event \<times> fate \<times> rsys) option" where
  "router_forward now s =
     (case router_turn [] now s of
        Some (Some ev, r, s') \<Rightarrow> Some (ev, if routable ev then Sent r else Dropped, s')
      | _ \<Rightarrow> None)"

lemma router_turn_eq:
  assumes "queue_wf (g_main_queue s)"
  shows "router_turn [] now s =
           (case queue_get (g_main_queue s) of
              None \<Rightarrow> None
            | Some (ev, q) \<Rightarrow>
                (case fc_router_route_event now (Some ev) (s\<lparr>g_main_queue := q\<rparr>) of
                   (r, s') \<Rightarrow> Some (Some ev, r, s')))"
  using assms
  by (auto simp: router_turn_def queue_get_def fc_queue_receive_def queue_wf_def receive_loop.simps Let_def
      split: prod.splits)

lemma route_event_eq:
  "fc_router_route_event now (Some ev) s =
     (if routable ev
      then (case queue_put ev (g_agent_queue s) of
              (r, q) \<Rightarrow> (r, s\<lparr>g_agent_queue := q,
                             the_router := fc_router_record now (Some ev) r True (the_router s)\<rparr>))
      else (OK, s\<lparr>the_router := fc_router_record now (Some ev) OK False (the_router s)\<rparr>))"
  by (auto simp: fc_router_route_event_def queue_put_def split: prod.splits)

lemma queue_put_spec:
  assumes "queue_wf q" "queue_put e q = (r, q')"
  shows "queue_wf q' \<and> queue_elems q' = queue_elems q @ (if r = OK then [e] else [])"
  using fcq.put_inv [OF assms(1), of e] fcq.put_room [OF assms(1), of e]
    fcq.put_full [OF assms(1), of e] assms(2)
  by (cases "length (queue_elems q) < unat (q_capacity q)") auto

lemma queue_get_spec:
  assumes "queue_wf q" "queue_get q = Some (e, q')"
  shows "queue_wf q' \<and> queue_elems q = e # queue_elems q'"
proof (cases "queue_elems q")
  case Nil
  then show ?thesis using fcq.get_empty assms by simp
next
  case (Cons a list)
  then show ?thesis using fcq.get_cons [OF assms(1) Cons] fcq.get_inv [OF assms] assms(2) by auto
qed

lemma queue_get_None: "queue_wf q \<Longrightarrow> queue_get q = None \<Longrightarrow> queue_elems q = []"
  using fcq.get_cons by (metis list.exhaust option.distinct(1))

interpretation rt: forwarder main_publish router_forward agent_take
    "\<lambda>s. queue_elems (g_main_queue s)" "\<lambda>s. queue_elems (g_agent_queue s)" routable rsys_wf
proof
  fix s e r s'
  assume "rsys_wf s" "main_publish e s = (r, s')"
  then show "rsys_wf s' \<and> queue_elems (g_main_queue s') = queue_elems (g_main_queue s) @ (if r = OK then [e] else [])
      \<and> queue_elems (g_agent_queue s') = queue_elems (g_agent_queue s)"
    using queue_put_spec [of "g_main_queue s" e]
    by (auto simp: main_publish_def rsys_wf_def split: prod.splits)
next
  fix s now
  assume "rsys_wf s" "router_forward now s = None"
  then show "queue_elems (g_main_queue s) = []"
    using queue_get_None [of "g_main_queue s"]
    by (auto simp: router_forward_def rsys_wf_def router_turn_eq split: option.splits prod.splits)
next
  fix s now e f s'
  assume s: "rsys_wf s" and f: "router_forward now s = Some (e, f, s')"
  then obtain q where q: "queue_get (g_main_queue s) = Some (e, q)"
    by (auto simp: router_forward_def rsys_wf_def router_turn_eq split: option.splits prod.splits)
  have m: "queue_wf q" "queue_elems (g_main_queue s) = e # queue_elems q"
    using queue_get_spec [OF _ q] s by (auto simp: rsys_wf_def)
  show "rsys_wf s' \<and> queue_elems (g_main_queue s) = e # queue_elems (g_main_queue s')
      \<and> (f = Dropped \<longleftrightarrow> \<not> routable e)
      \<and> queue_elems (g_agent_queue s') = queue_elems (g_agent_queue s) @ (if f = Sent OK then [e] else [])"
    using s f q m queue_put_spec [of "g_agent_queue s" e]
    by (auto simp: router_forward_def rsys_wf_def router_turn_eq route_event_eq split: prod.splits if_splits)
next
  fix s e s'
  assume "rsys_wf s" "agent_take s = Some (e, s')"
  then show "rsys_wf s' \<and> queue_elems (g_agent_queue s) = e # queue_elems (g_agent_queue s')
      \<and> queue_elems (g_main_queue s') = queue_elems (g_main_queue s)"
    using queue_get_spec [of "g_agent_queue s" e] by (auto simp: agent_take_def rsys_wf_def)
qed

lemma router_record_counts:
  "g_router_routed_count (fc_router_record now ev r b x) = g_router_routed_count x + of_bool (b \<and> r = OK)"
  "g_router_failed_count (fc_router_record now ev r b x) = g_router_failed_count x + of_bool (b \<and> r \<noteq> OK)"
  "g_router_dropped_count (fc_router_record now ev r b x) = g_router_dropped_count x + of_bool (\<not> b)"
  by (simp_all add: fc_router_record_def)

text \<open>How many events of a log met a given fate.\<close>

definition fate_count :: "(fate \<Rightarrow> bool) \<Rightarrow> (fc_event \<times> fate) list \<Rightarrow> u32" where
  "fate_count P log = of_nat (length (filter (\<lambda>(e, f). P f) log))"

definition is_failed :: "fate \<Rightarrow> bool" where
  "is_failed f \<longleftrightarrow> (\<exists>e. f = Sent (Err e))"

lemma is_failed_simps: "is_failed (Sent r) \<longleftrightarrow> r \<noteq> OK" "\<not> is_failed Dropped"
  by (cases r; simp add: is_failed_def)+

lemma router_forward_counts:
  assumes "router_forward now s = Some (e, f, s')" "queue_wf (g_main_queue s)"
  shows "g_router_routed_count (the_router s') = g_router_routed_count (the_router s) + of_bool (f = Sent OK)"
    "g_router_failed_count (the_router s') = g_router_failed_count (the_router s) + of_bool (is_failed f)"
    "g_router_dropped_count (the_router s') = g_router_dropped_count (the_router s) + of_bool (f = Dropped)"
  using assms
  by (auto simp: router_forward_def router_turn_eq route_event_eq router_record_counts is_failed_simps
      split: option.splits prod.splits if_splits)

lemma router_other_counts:
  "main_publish e s = (r, s') \<Longrightarrow> the_router s' = the_router s"
  "agent_take s = Some (e, s') \<Longrightarrow> the_router s' = the_router s"
  by (auto simp: main_publish_def agent_take_def split: prod.splits)

definition router_run ::
    "rsys \<Rightarrow> (fc_event, int) pop list \<Rightarrow> fc_event list \<times> (fc_event \<times> fate) list \<times> fc_event list \<times> rsys" where
  "router_run s ops = pipe_run main_publish router_forward agent_take s ops"

lemma fate_count_simps:
  "fate_count P [] = 0" "fate_count P ((e, f) # log) = of_bool (P f) + fate_count P log"
  by (simp_all add: fate_count_def)

lemma pipe_run_counts:
  "rsys_wf s \<Longrightarrow> pipe_run main_publish router_forward agent_take s ops = (acc, log, out, s') \<Longrightarrow>
     g_router_routed_count (the_router s') = g_router_routed_count (the_router s) + fate_count (\<lambda>f. f = Sent OK) log
     \<and> g_router_failed_count (the_router s') = g_router_failed_count (the_router s) + fate_count is_failed log
     \<and> g_router_dropped_count (the_router s') = g_router_dropped_count (the_router s) + fate_count (\<lambda>f. f = Dropped) log"
proof (induction ops arbitrary: s acc log out)
  case (Cons a ops)
  show ?case
  proof (cases a)
    case (Publish e)
    obtain r s1 where p: "main_publish e s = (r, s1)" by fastforce
    show ?thesis
      using Cons.prems Cons.IH [of s1] rt.pub_law [OF Cons.prems(1) p] router_other_counts(1) [OF p] p Publish
      by (auto split: prod.splits)
  next
    case (Route t)
    show ?thesis
    proof (cases "router_forward t s")
      case (Some x)
      then obtain e f s1 where x: "router_forward t s = Some (e, f, s1)" by (cases x) auto
      have "queue_wf (g_main_queue s)" using Cons.prems(1) by (simp add: rsys_wf_def)
      from router_forward_counts [OF x this] show ?thesis
        using Cons.prems Cons.IH [of s1] rt.fwd_law [OF Cons.prems(1) x] x Route
        by (auto simp: fate_count_simps add.assoc split: prod.splits)
    qed (use Cons Route in auto)
  next
    case Take
    show ?thesis
    proof (cases "agent_take s")
      case (Some x)
      then obtain e s1 where x: "agent_take s = Some (e, s1)" by (cases x) auto
      show ?thesis
        using Cons.prems Cons.IH [of s1] rt.con_law [OF Cons.prems(1) x] router_other_counts(2) [OF x] x Take
        by (auto split: prod.splits)
    qed (use Cons Take in auto)
  qed
qed (simp add: fate_count_simps)

text \<open>The router empties its queue: as many turns as there are events, with room for them at the agent.\<close>

lemma router_forward_room:
  assumes "rsys_wf s" "queue_elems (g_main_queue s) = e # es"
    and "length (queue_elems (g_agent_queue s)) < unat (q_capacity (g_agent_queue s))"
  shows "\<exists>f s'. router_forward now s = Some (e, f, s') \<and> rsys_wf s' \<and> queue_elems (g_main_queue s') = es
     \<and> queue_elems (g_agent_queue s') = queue_elems (g_agent_queue s) @ (if routable e then [e] else [])
     \<and> q_capacity (g_agent_queue s') = q_capacity (g_agent_queue s)"
proof -
  obtain x f s' where x: "router_forward now s = Some (x, f, s')"
    using rt.fwd_idle [OF assms(1), of now] assms(2) by (cases "router_forward now s") auto
  note law = rt.fwd_law [OF assms(1) x]
  have q: "queue_wf (g_main_queue s)" "queue_wf (g_agent_queue s)" using assms(1) by (simp_all add: rsys_wf_def)
  have room: "fst (queue_put x (g_agent_queue s)) = OK" "q_capacity (snd (queue_put x (g_agent_queue s))) = q_capacity (g_agent_queue s)"
    using fcq.put_room [OF q(2) assms(3)] fcq.put_cap [OF q(2), of x] by (auto simp: word_unat_eq_iff)
  have "f = (if routable x then Sent OK else Dropped) \<and> q_capacity (g_agent_queue s') = q_capacity (g_agent_queue s)"
    using x q room by (auto simp: router_forward_def router_turn_eq route_event_eq split: option.splits prod.splits if_splits)
  then show ?thesis using x law assms(2) by auto
qed

lemma router_drains:
  "rsys_wf s \<Longrightarrow> length (queue_elems (g_agent_queue s)) + length (queue_elems (g_main_queue s)) \<le> unat (q_capacity (g_agent_queue s)) \<Longrightarrow>
     \<exists>log s'. router_run s (replicate (length (queue_elems (g_main_queue s))) (Route now)) = ([], log, [], s')
       \<and> queue_elems (g_main_queue s') = []
       \<and> queue_elems (g_agent_queue s') = queue_elems (g_agent_queue s) @ filter routable (queue_elems (g_main_queue s))"
proof (induction "queue_elems (g_main_queue s)" arbitrary: s)
  case Nil
  then show ?case using Nil(1) [symmetric] by (simp add: router_run_def del: length_queue_elems)
next
  case (Cons e es)
  have "length (queue_elems (g_agent_queue s)) < unat (q_capacity (g_agent_queue s))"
    using Cons.prems(2) Cons.hyps(2) [symmetric] by (simp del: length_queue_elems)
  then obtain f s1 where f: "router_forward now s = Some (e, f, s1)" "rsys_wf s1" "queue_elems (g_main_queue s1) = es"
    "queue_elems (g_agent_queue s1) = queue_elems (g_agent_queue s) @ (if routable e then [e] else [])"
    "q_capacity (g_agent_queue s1) = q_capacity (g_agent_queue s)"
    using router_forward_room [OF Cons.prems(1) Cons.hyps(2) [symmetric]] by blast
  have "length (queue_elems (g_agent_queue s1)) + length (queue_elems (g_main_queue s1)) \<le> unat (q_capacity (g_agent_queue s1))"
    using Cons.prems(2) f(3-5) Cons.hyps(2) [symmetric] by (simp del: length_queue_elems)
  from Cons.hyps(1) [OF f(3) [symmetric] f(2) this] obtain log s' where
    "router_run s1 (replicate (length es) (Route now)) = ([], log, [], s')" "queue_elems (g_main_queue s') = []"
    "queue_elems (g_agent_queue s') = queue_elems (g_agent_queue s1) @ filter routable es"
    using f(3) by auto
  then show ?case using f Cons.hyps(2) [symmetric] by (simp add: router_run_def del: length_queue_elems)
qed

section \<open>Properties\<close>

text \<open>
  C1. For any interleaving of publishers, router turns and the agent, started on well-formed queues:
  the router handles the accepted events in the order of publication, each exactly once; an event is
  dropped exactly when it is none of the three known kinds of message; the agent receives exactly the
  events the router placed, in that order; and what is not yet received is still in a queue.
\<close>

theorem router_in_order:
  assumes "rsys_wf s" and "router_run s ops = (acc, log, out, s')"
  shows "queue_elems (g_main_queue s) @ acc = map fst log @ queue_elems (g_main_queue s')
         \<and> queue_elems (g_agent_queue s) @ delivered log = out @ queue_elems (g_agent_queue s')
         \<and> (\<forall>x\<in>set log. snd x = Dropped \<longleftrightarrow> \<not> routable (fst x)) \<and> rsys_wf s'"
  using rt.run_first [OF assms(1)] rt.run_second [OF assms(1)] assms(2) unfolding router_run_def by blast

definition demo_sys :: rsys where
  "demo_sys = \<lparr>g_main_queue = \<lparr>q_items = Some [zero_event, zero_event], q_capacity = 2, q_head = 1, q_tail = 1,
                 q_count = 0, q_initialized = True\<rparr>,
              g_agent_queue = \<lparr>q_items = Some [zero_event], q_capacity = 1, q_head = 0, q_tail = 0,
                 q_count = 0, q_initialized = True\<rparr>,
              the_router = zero_router\<rparr>"

definition demo_events :: "fc_event list" where
  "demo_events = [zero_event\<lparr>ev_source := ''cli'', ev_type := ''message.in''\<rparr>,
                  zero_event\<lparr>ev_source := ''mcp'', ev_type := ''message.in''\<rparr>]"

lemma demo_run:
  "router_run demo_sys [Publish (demo_events ! 0), Publish (demo_events ! 1), Route 7, Route 8, Take]
     = (demo_events, [(demo_events ! 0, Sent OK), (demo_events ! 1, Dropped)], [demo_events ! 0],
        snd (snd (snd (router_run demo_sys
          [Publish (demo_events ! 0), Publish (demo_events ! 1), Route 7, Route 8, Take]))))"
  by (simp add: router_run_def demo_sys_def demo_events_def main_publish_def queue_put_def
      fc_queue_publish_def router_forward_def router_turn_def fc_queue_receive_def receive_loop.simps
      queue_take_def fc_router_route_event_def routable_def agent_take_def queue_get_def
      zero_event_def zero_router_def word_le_nat_alt)

lemma demo_wf: "rsys_wf demo_sys"
  by (simp add: rsys_wf_def demo_sys_def queue_wf_def)

theorem router_in_order_witness:
  "\<exists>s'. router_run demo_sys [Publish (demo_events ! 0), Publish (demo_events ! 1), Route 7, Route 8, Take]
     = (demo_events, [(demo_events ! 0, Sent OK), (demo_events ! 1, Dropped)], [demo_events ! 0], s')
     \<and> rsys_wf s' \<and> \<not> routable (demo_events ! 1)"
  using router_in_order [OF demo_wf demo_run] demo_run by auto

text \<open>
  The router's three statistics counters account, modulo their 32-bit width, for every event it
  handled: the placed ones, those refused by the full agent queue, and the dropped ones.
\<close>

theorem router_counters:
  assumes "rsys_wf s" and "router_run s ops = (acc, log, out, s')"
  shows "g_router_routed_count (the_router s') = g_router_routed_count (the_router s) + fate_count (\<lambda>f. f = Sent OK) log
         \<and> g_router_failed_count (the_router s') = g_router_failed_count (the_router s) + fate_count is_failed log
         \<and> g_router_dropped_count (the_router s') = g_router_dropped_count (the_router s) + fate_count (\<lambda>f. f = Dropped) log"
  using pipe_run_counts [OF assms(1)] assms(2) by (simp add: router_run_def)

theorem router_counters_witness:
  "\<exists>acc log out s'. router_run demo_sys [Publish (demo_events ! 0), Publish (demo_events ! 1), Route 7, Route 8, Take]
     = (acc, log, out, s')
     \<and> g_router_routed_count (the_router s') = 1 \<and> g_router_dropped_count (the_router s') = 1"
  using router_counters [OF demo_wf demo_run] demo_run
  by (auto simp: fate_count_simps demo_sys_def zero_router_def)

end
