(* ===== verification/FC_Cron.thy ===== *)
theory FC_Cron
  imports FC_Config
begin

text \<open>
  Cron expressions of \<^verbatim>\<open>sched/fc_scheduler.c\<close>: \<^verbatim>\<open>fc_parse_uint\<close>,
  \<^verbatim>\<open>fc_field_value_match\<close> and \<^verbatim>\<open>fc_cron_matches\<close>, and their meaning on
  the abstract syntax of an expression.
\<close>

section \<open>The matcher\<close>

text \<open>\<^verbatim>\<open>struct tm\<close> as far as the scheduler reads it.\<close>

record tm =
  tm_min :: int
  tm_hour :: int
  tm_mday :: int
  tm_mon :: int
  tm_wday :: int
  tm_yday :: int

text \<open>\<^verbatim>\<open>long\<close> and \<^verbatim>\<open>int\<close> have the same width on the target, so the cast is the identity.\<close>

definition fc_parse_uint :: "string option \<Rightarrow> int res" where
  "fc_parse_uint s =
     (case s of
        None \<Rightarrow> Inl EINVAL
      | Some t \<Rightarrow>
          if t = [] then Inl EINVAL
          else case strtol t of (v, rest) \<Rightarrow> if rest \<noteq> [] then Inl EINVAL else Inr v)"

text \<open>The parts of a token before and after the first occurrence of a character.\<close>

definition before_char :: "char \<Rightarrow> string \<Rightarrow> string" where
  "before_char c s = takeWhile (\<lambda>x. x \<noteq> c) s"

definition after_char :: "char \<Rightarrow> string \<Rightarrow> string option" where
  "after_char c s = (case dropWhile (\<lambda>x. x \<noteq> c) s of [] \<Rightarrow> None | _ # r \<Rightarrow> Some r)"

text \<open>The step of a token, \<open>None\<close> where the loop skips the token.\<close>

definition token_step :: "string \<Rightarrow> int option" where
  "token_step tok =
     (case after_char (CHR ''/'') tok of
        None \<Rightarrow> Some 1
      | Some slash \<Rightarrow>
          (case fc_parse_uint (Some slash) of
             Inl _ \<Rightarrow> None
           | Inr step \<Rightarrow> if step \<le> 0 then None else Some step))"

text \<open>The start and end of a token whose step has been cut off.\<close>

definition token_range :: "int \<Rightarrow> int \<Rightarrow> string \<Rightarrow> (int \<times> int) option" where
  "token_range minv maxv tok =
     (if tok = ''*'' then Some (minv, maxv)
      else case after_char (CHR ''-'') tok of
             Some dash \<Rightarrow>
               (case (fc_parse_uint (Some (before_char (CHR ''-'') tok)), fc_parse_uint (Some dash)) of
                  (Inr start, Inr end') \<Rightarrow> Some (start, end')
                | _ \<Rightarrow> None)
           | None \<Rightarrow>
               (case fc_parse_uint (Some tok) of Inr single \<Rightarrow> Some (single, single) | Inl _ \<Rightarrow> None))"

definition token_match :: "int \<Rightarrow> int \<Rightarrow> int \<Rightarrow> string \<Rightarrow> bool" where
  "token_match minv maxv value tok =
     (case token_step tok of
        None \<Rightarrow> False
      | Some step \<Rightarrow>
          (case token_range minv maxv (before_char (CHR ''/'') tok) of
             None \<Rightarrow> False
           | Some (start, end') \<Rightarrow>
               \<not> (start < minv \<or> end' > maxv \<or> start > end')
               \<and> value \<ge> start \<and> value \<le> end' \<and> (value - start) mod step = 0))"

definition fc_field_value_match :: "string option \<Rightarrow> int \<Rightarrow> int \<Rightarrow> int \<Rightarrow> bool" where
  "fc_field_value_match field minv maxv value =
     (case field of
        None \<Rightarrow> False
      | Some f \<Rightarrow>
          if f = ''*'' then True
          else if fst (fc_strlcpy (Some 48) field) \<noteq> OK then False
          else list_ex (token_match minv maxv value) (strtok (\<lambda>c. c = CHR '','') f))"

definition fc_cron_matches :: "string option \<Rightarrow> tm option \<Rightarrow> bool" where
  "fc_cron_matches expr tmv =
     (case (expr, tmv) of
        (Some e, Some t) \<Rightarrow>
          if fst (fc_strlcpy (Some 64) expr) \<noteq> OK then False
          else (case take 5 (strtok (\<lambda>c. c = CHR '' '' \<or> c = CHR 0x09) e) of
                  [f0, f1, f2, f3, f4] \<Rightarrow>
                    fc_field_value_match (Some f0) 0 59 (tm_min t)
                    \<and> fc_field_value_match (Some f1) 0 23 (tm_hour t)
                    \<and> fc_field_value_match (Some f2) 1 31 (tm_mday t)
                    \<and> fc_field_value_match (Some f3) 1 12 (tm_mon t + 1)
                    \<and> fc_field_value_match (Some f4) 0 6 (tm_wday t)
                | _ \<Rightarrow> False)
      | _ \<Rightarrow> False)"

section \<open>Abstract syntax and meaning\<close>

datatype cron_range = Star | Single nat | Range nat nat

datatype cron_item = Item cron_range "nat option"

fun render_range :: "cron_range \<Rightarrow> string" where
  "render_range Star = ''*''"
| "render_range (Single n) = dec_nat n"
| "render_range (Range a b) = dec_nat a @ CHR ''-'' # dec_nat b"

fun render_item :: "cron_item \<Rightarrow> string" where
  "render_item (Item r None) = render_range r"
| "render_item (Item r (Some s)) = render_range r @ CHR ''/'' # dec_nat s"

definition render_field :: "cron_item list \<Rightarrow> string" where
  "render_field is = join_with (CHR '','') (map render_item is)"

definition render_cron :: "cron_item list list \<Rightarrow> string" where
  "render_cron fs = join_with (CHR '' '') (map render_field fs)"

text \<open>The set of values a field selects between its bounds.\<close>

fun range_bounds :: "int \<Rightarrow> int \<Rightarrow> cron_range \<Rightarrow> int \<times> int" where
  "range_bounds minv maxv Star = (minv, maxv)"
| "range_bounds minv maxv (Single n) = (int n, int n)"
| "range_bounds minv maxv (Range a b) = (int a, int b)"

fun item_sem :: "int \<Rightarrow> int \<Rightarrow> cron_item \<Rightarrow> int set" where
  "item_sem minv maxv (Item r s) =
     (case range_bounds minv maxv r of (lo, hi) \<Rightarrow>
        let step = int (case s of None \<Rightarrow> 1 | Some k \<Rightarrow> k)
        in if 0 < step \<and> minv \<le> lo \<and> hi \<le> maxv
           then {v. lo \<le> v \<and> v \<le> hi \<and> (v - lo) mod step = 0} else {})"

definition field_sem :: "int \<Rightarrow> int \<Rightarrow> cron_item list \<Rightarrow> int set" where
  "field_sem minv maxv is = (\<Union>i\<in>set is. item_sem minv maxv i)"

fun range_numbers :: "cron_range \<Rightarrow> nat list" where
  "range_numbers Star = []"
| "range_numbers (Single n) = [n]"
| "range_numbers (Range a b) = [a, b]"

fun item_numbers :: "cron_item \<Rightarrow> nat list" where
  "item_numbers (Item r s) = range_numbers r @ (case s of None \<Rightarrow> [] | Some k \<Rightarrow> [k])"

definition representable :: "cron_item \<Rightarrow> bool" where
  "representable i \<longleftrightarrow> (\<forall>n\<in>set (item_numbers i). int n \<le> LONG_MAX)"

section \<open>The matcher computes the meaning\<close>

lemma split_at_char:
  assumes "c \<notin> set a"
  shows "before_char c (a @ c # b) = a" "after_char c (a @ c # b) = Some b"
    "before_char c a = a" "after_char c a = None"
proof -
  have "takeWhile (\<lambda>x. x \<noteq> c) (a @ c # b) = a" "dropWhile (\<lambda>x. x \<noteq> c) (a @ c # b) = c # b"
    "takeWhile (\<lambda>x. x \<noteq> c) a = a" "dropWhile (\<lambda>x. x \<noteq> c) a = []"
    using assms by (induction a) auto
  then show "before_char c (a @ c # b) = a" "after_char c (a @ c # b) = Some b"
    "before_char c a = a" "after_char c a = None"
    by (simp_all only: before_char_def after_char_def list.case)
qed

lemma dec_nat_no_char: "\<not> isdigit c \<Longrightarrow> c \<notin> set (dec_nat n)"
  using dec_nat_digits by blast

lemmas dec_nat_no_sep [simp] =
  dec_nat_no_char [OF isdigit_neq(1)] dec_nat_no_char [OF isdigit_neq(3)]
  dec_nat_no_char [OF isdigit_neq(4)] dec_nat_no_char [OF isdigit_neq(5)]

lemma dec_nat_no_blank [simp]: "CHR '' '' \<notin> set (dec_nat n)" "CHR 0x09 \<notin> set (dec_nat n)"
  by (rule dec_nat_no_char; simp add: isdigit_def)+

lemma fc_parse_uint_dec: "int n \<le> LONG_MAX \<Longrightarrow> fc_parse_uint (Some (dec_nat n)) = Inr (int n)"
  by (simp add: fc_parse_uint_def strtol_dec_nat)

lemma dec_nat_not_star: "dec_nat n \<noteq> ''*''" "dec_nat n @ CHR ''-'' # s \<noteq> ''*''"
proof -
  show "dec_nat n \<noteq> ''*''" using dec_nat_no_char [OF isdigit_neq(5), of n] by (metis list.set_intros(1))
  show "dec_nat n @ CHR ''-'' # s \<noteq> ''*''"
    using dec_nat_nonempty [of n] by (cases "dec_nat n") auto
qed

lemma token_range_render:
  assumes "\<forall>n\<in>set (range_numbers r). int n \<le> LONG_MAX"
  shows "token_range minv maxv (render_range r) = Some (range_bounds minv maxv r)"
  using assms
  by (cases r) (simp_all add: token_range_def split_at_char fc_parse_uint_dec dec_nat_not_star)

lemma render_range_no_slash [simp]: "CHR ''/'' \<notin> set (render_range r)"
  by (cases r) auto

lemma token_step_render:
  assumes "representable (Item r s)"
  shows "token_step (render_item (Item r s)) =
           (let step = int (case s of None \<Rightarrow> 1 | Some k \<Rightarrow> k) in if 0 < step then Some step else None)"
  using assms
  by (cases s) (auto simp: token_step_def split_at_char fc_parse_uint_dec representable_def)

lemma before_slash_render: "before_char (CHR ''/'') (render_item (Item r s)) = render_range r"
  by (cases s) (simp_all add: split_at_char)

lemma token_match_render:
  assumes "representable i"
  shows "token_match minv maxv v (render_item i) \<longleftrightarrow> v \<in> item_sem minv maxv i"
proof (cases i)
  case (Item r s)
  have "token_range minv maxv (render_range r) = Some (range_bounds minv maxv r)"
    using assms Item by (intro token_range_render) (auto simp: representable_def)
  then show ?thesis
    using assms token_step_render [of r s]
    by (cases "range_bounds minv maxv r")
       (auto simp: Item token_match_def before_slash_render Let_def simp del: render_item.simps
         split: option.splits)
qed

lemma render_item_no_sep:
  "CHR '','' \<notin> set (render_item i)" "CHR '' '' \<notin> set (render_item i)"
  "CHR 0x09 \<notin> set (render_item i)" "render_item i \<noteq> []"
proof -
  have "CHR '','' \<notin> set (render_range r) \<and> CHR '' '' \<notin> set (render_range r)
      \<and> CHR 0x09 \<notin> set (render_range r) \<and> render_range r \<noteq> []" for r
    by (cases r) auto
  then show "CHR '','' \<notin> set (render_item i)" "CHR '' '' \<notin> set (render_item i)"
    "CHR 0x09 \<notin> set (render_item i)" "render_item i \<noteq> []"
    by (cases i rule: render_item.cases; simp)+
qed

lemma strtok_render_field: "strtok (\<lambda>c. c = CHR '','') (render_field is) = map render_item is"
  unfolding render_field_def
  by (rule strtok_join_with) (auto simp: render_item_no_sep)

lemma render_field_star:
  assumes "render_field is = ''*''"
  shows "is = [Item Star None]"
proof -
  have "map render_item is = [''*'']"
    using strtok_render_field [of "is"] strtok_join_with [of "\<lambda>c. c = CHR '',''" "CHR '',''" "[''*'']"] assms
    by simp
  then obtain r s where i: "is = [Item r s]" "render_item (Item r s) = ''*''"
    by (cases "is") (auto, metis cron_item.exhaust)
  have "render_range r = ''*''" using before_slash_render [of r s] i(2) by (simp add: before_char_def)
  then have "r = Star" by (cases r) (auto simp: dec_nat_not_star)
  moreover have "s = None" using i(2) \<open>render_range r = ''*''\<close> by (cases s) auto
  ultimately show ?thesis using i(1) by simp
qed

lemma fc_strlcpy_OK_iff: "0 < n \<Longrightarrow> fst (fc_strlcpy (Some n) (Some s)) = OK \<longleftrightarrow> length s < n"
  by (auto simp: fc_strlcpy_def Let_def min_def split: if_splits)

lemma field_value_match_render:
  assumes "list_all representable is" "length (render_field is) < 48" "minv \<le> v" "v \<le> maxv"
  shows "fc_field_value_match (Some (render_field is)) minv maxv v \<longleftrightarrow> v \<in> field_sem minv maxv is"
proof (cases "render_field is = ''*''")
  case True
  then show ?thesis using render_field_star [OF True] assms(3,4)
    by (simp add: fc_field_value_match_def field_sem_def)
next
  case False
  have "list_ex (token_match minv maxv v) (map render_item is) \<longleftrightarrow> v \<in> field_sem minv maxv is"
    using assms(1) by (induction "is") (auto simp: field_sem_def token_match_render)
  then show ?thesis using False assms(2)
    by (simp add: fc_field_value_match_def fc_strlcpy_OK_iff strtok_render_field)
qed

lemma set_join_with: "x \<in> set (join_with c ws) \<Longrightarrow> x = c \<or> (\<exists>w\<in>set ws. x \<in> set w)"
  by (induction c ws rule: join_with.induct) auto

lemma render_field_no_blank: "CHR '' '' \<notin> set (render_field is) \<and> CHR 0x09 \<notin> set (render_field is)"
proof -
  have "c \<notin> set (render_field is)" if "c = CHR '' '' \<or> c = CHR 0x09" for c
  proof
    assume "c \<in> set (render_field is)"
    from set_join_with [OF this [unfolded render_field_def]] that show False
      by (auto simp: render_item_no_sep)
  qed
  then show ?thesis by blast
qed

lemma render_field_nonempty: "is \<noteq> [] \<Longrightarrow> render_field is \<noteq> []"
  unfolding render_field_def
  by (cases "is" rule: remdups_adj.cases) (auto simp: render_item_no_sep)

text \<open>A broken-down time the C library can produce.\<close>

definition tm_valid :: "tm \<Rightarrow> bool" where
  "tm_valid t \<longleftrightarrow> tm_min t \<in> {0..59} \<and> tm_hour t \<in> {0..23} \<and> tm_mday t \<in> {1..31}
     \<and> tm_mon t \<in> {0..11} \<and> tm_wday t \<in> {0..6}"

definition field_ok :: "cron_item list \<Rightarrow> bool" where
  "field_ok is \<longleftrightarrow> is \<noteq> [] \<and> list_all representable is \<and> length (render_field is) < 48"

lemma strtok_render_cron:
  assumes "list_all field_ok fs"
  shows "strtok (\<lambda>c. c = CHR '' '' \<or> c = CHR 0x09) (render_cron fs) = map render_field fs"
  unfolding render_cron_def
  using assms render_field_no_blank
  by (intro strtok_join_with) (auto simp: list_all_iff field_ok_def render_field_nonempty)

text \<open>
  C13. A cron expression of five fields, written from its abstract syntax and short enough for the
  scheduler's buffers, matches a broken-down time exactly when minute, hour, day of the month, month
  and day of the week each lie in the set of values their field denotes: lists, ranges, steps and
  stars, with ranges outside the field's bounds and zero steps selecting nothing.
\<close>

theorem cron_matches_meaning:
  assumes "list_all field_ok [mi, ho, dm, mo, dw]"
    and "length (render_cron [mi, ho, dm, mo, dw]) < 64" and "tm_valid t"
  shows "fc_cron_matches (Some (render_cron [mi, ho, dm, mo, dw])) (Some t) \<longleftrightarrow>
           tm_min t \<in> field_sem 0 59 mi \<and> tm_hour t \<in> field_sem 0 23 ho
           \<and> tm_mday t \<in> field_sem 1 31 dm \<and> tm_mon t + 1 \<in> field_sem 1 12 mo
           \<and> tm_wday t \<in> field_sem 0 6 dw"
  using assms strtok_render_cron [OF assms(1)]
  by (simp add: fc_cron_matches_def fc_strlcpy_OK_iff field_ok_def field_value_match_render tm_valid_def)

theorem cron_matches_meaning_witness:
  "fc_cron_matches (Some ''0-10/5,30 * * 1 1-5'')
     (Some \<lparr>tm_min = 5, tm_hour = 7, tm_mday = 12, tm_mon = 0, tm_wday = 3, tm_yday = 11\<rparr>)"
proof -
  let ?f = "[[Item (Range 0 10) (Some 5), Item (Single 30) None], [Item Star None], [Item Star None],
    [Item (Single 1) None], [Item (Range 1 5) None]]"
  let ?t = "\<lparr>tm_min = 5, tm_hour = 7, tm_mday = 12, tm_mon = 0, tm_wday = 3, tm_yday = 11\<rparr>"
  have d: "dec_nat 0 = ''0''" "dec_nat (Suc 0) = ''1''" "dec_nat 5 = ''5''" "dec_nat 10 = ''10''" "dec_nat 30 = ''30''"
    by code_simp+
  have r: "render_cron ?f = ''0-10/5,30 * * 1 1-5''"
    by (simp add: render_cron_def render_field_def d)
  have "list_all field_ok ?f"
    by (simp add: field_ok_def representable_def LONG_MAX_def render_field_def d)
  then show ?thesis
    using cron_matches_meaning [of "?f ! 0" "?f ! 1" "?f ! 2" "?f ! 3" "?f ! 4" ?t] r
    by (simp add: tm_valid_def field_sem_def)
qed

end
