(* ===== verification/FC_Files.thy ===== *)
theory FC_Files
  imports FC_Config
begin

text \<open>
  The file helpers of \<^verbatim>\<open>core/fc_config.c\<close> on a small model of the POSIX calls
  they make.  A file system holds plain files and directories by absolute path.
  The outcomes of the system calls are scripted: every call consumes one entry,
  which lets it succeed, fail with an error, transfer fewer bytes than asked for,
  or cuts the power, after which no call has any effect.  A theorem that holds for
  every script therefore holds for every combination of faults and for a power
  cut between any two calls.
\<close>

section \<open>System calls\<close>

datatype outcome = Fine | Fail errno | Short nat | PowerLoss

record posix_fs =
  fs_files :: "string \<rightharpoonup> string"
  fs_dirs :: "string list"
  fs_script :: "outcome list"
  fs_off :: bool

definition fs_next :: "posix_fs \<Rightarrow> outcome \<times> posix_fs" where
  "fs_next fs =
     (if fs_off fs then (PowerLoss, fs)
      else case fs_script fs of
             [] \<Rightarrow> (Fine, fs)
           | PowerLoss # s \<Rightarrow> (PowerLoss, fs\<lparr>fs_script := s, fs_off := True\<rparr>)
           | x # s \<Rightarrow> (x, fs\<lparr>fs_script := s\<rparr>))"

text \<open>A call that only succeeds or fails.\<close>

definition fs_call :: "(posix_fs \<Rightarrow> errno option \<times> posix_fs) \<Rightarrow> posix_fs \<Rightarrow> errno option \<times> posix_fs" where
  "fs_call act fs =
     (case fs_next fs of
        (Fail e, fs') \<Rightarrow> (Some e, fs')
      | (PowerLoss, fs') \<Rightarrow> (Some EIO, fs')
      | (_, fs') \<Rightarrow> act fs')"

definition parent_dir :: "string \<Rightarrow> string" where
  "parent_dir p = rev (tl (dropWhile (\<lambda>c. c \<noteq> CHR ''/'') (rev p)))"

definition dir_present :: "posix_fs \<Rightarrow> string \<Rightarrow> bool" where
  "dir_present fs d \<longleftrightarrow> d = [] \<or> d \<in> set (fs_dirs fs)"

definition sys_open_rd :: "string \<Rightarrow> posix_fs \<Rightarrow> errno option \<times> posix_fs" where
  "sys_open_rd p = fs_call (\<lambda>fs. (if fs_files fs p = None then Some ENOENT else None, fs))"

text \<open>\<^verbatim>\<open>open(p, O_WRONLY | O_CREAT | O_TRUNC)\<close> and \<^verbatim>\<open>open(p, O_WRONLY | O_CREAT | O_APPEND)\<close>.\<close>

definition sys_open_trunc :: "string \<Rightarrow> posix_fs \<Rightarrow> errno option \<times> posix_fs" where
  "sys_open_trunc p =
     fs_call (\<lambda>fs. if dir_present fs (parent_dir p)
                   then (None, fs\<lparr>fs_files := (fs_files fs)(p \<mapsto> [])\<rparr>) else (Some ENOENT, fs))"

definition sys_open_append :: "string \<Rightarrow> posix_fs \<Rightarrow> errno option \<times> posix_fs" where
  "sys_open_append p =
     fs_call (\<lambda>fs. if fs_files fs p \<noteq> None then (None, fs)
                   else if dir_present fs (parent_dir p)
                   then (None, fs\<lparr>fs_files := (fs_files fs)(p \<mapsto> [])\<rparr>) else (Some ENOENT, fs))"

definition sys_unlink :: "string \<Rightarrow> posix_fs \<Rightarrow> errno option \<times> posix_fs" where
  "sys_unlink p =
     fs_call (\<lambda>fs. if fs_files fs p = None then (Some ENOENT, fs)
                   else (None, fs\<lparr>fs_files := (fs_files fs)(p := None)\<rparr>))"

definition sys_rename :: "string \<Rightarrow> string \<Rightarrow> posix_fs \<Rightarrow> errno option \<times> posix_fs" where
  "sys_rename a b =
     fs_call (\<lambda>fs. case fs_files fs a of
                     None \<Rightarrow> (Some ENOENT, fs)
                   | Some c \<Rightarrow> (None, fs\<lparr>fs_files := (fs_files fs)(a := None, b \<mapsto> c)\<rparr>))"

definition sys_access :: "string \<Rightarrow> posix_fs \<Rightarrow> errno option \<times> posix_fs" where
  "sys_access p = fs_call (\<lambda>fs. (if fs_files fs p = None \<and> \<not> dir_present fs p
                                 then Some ENOENT else None, fs))"

definition sys_stat_dir :: "string \<Rightarrow> posix_fs \<Rightarrow> errno option \<times> posix_fs" where
  "sys_stat_dir p = fs_call (\<lambda>fs. (if dir_present fs p then None else Some ENOENT, fs))"

definition sys_mkdir :: "string \<Rightarrow> posix_fs \<Rightarrow> errno option \<times> posix_fs" where
  "sys_mkdir p =
     fs_call (\<lambda>fs. if dir_present fs p \<or> fs_files fs p \<noteq> None then (Some EEXIST, fs)
                   else if \<not> dir_present fs (parent_dir p) then (Some ENOENT, fs)
                   else (None, fs\<lparr>fs_dirs := p # fs_dirs fs\<rparr>))"

text \<open>The outcome of \<^verbatim>\<open>calloc\<close> is scripted like the system calls.\<close>

definition sys_calloc :: "posix_fs \<Rightarrow> bool \<times> posix_fs" where
  "sys_calloc fs = (case fs_call (\<lambda>fs. (None, fs)) fs of (e, fs') \<Rightarrow> (e = None, fs'))"

text \<open>
  Writing at the end of an open file: the number of bytes accepted.  Reading at an
  offset: at least one byte unless the end of the file is reached.
\<close>

definition sys_write :: "string \<Rightarrow> string \<Rightarrow> posix_fs \<Rightarrow> nat res \<times> posix_fs" where
  "sys_write p text fs =
     (case fs_next fs of
        (Fail e, fs') \<Rightarrow> (Inl e, fs')
      | (PowerLoss, fs') \<Rightarrow> (Inl EIO, fs')
      | (Short k, fs') \<Rightarrow>
          (Inr (min k (length text)),
           fs'\<lparr>fs_files := (fs_files fs')(p := map_option (\<lambda>c. c @ take k text) (fs_files fs' p))\<rparr>)
      | (Fine, fs') \<Rightarrow>
          (Inr (length text),
           fs'\<lparr>fs_files := (fs_files fs')(p := map_option (\<lambda>c. c @ text) (fs_files fs' p))\<rparr>))"

definition sys_read :: "string \<Rightarrow> nat \<Rightarrow> nat \<Rightarrow> posix_fs \<Rightarrow> string res \<times> posix_fs" where
  "sys_read p off want fs =
     (let rest = (case fs_files fs p of None \<Rightarrow> [] | Some c \<Rightarrow> drop off c)
      in case fs_next fs of
           (Fail e, fs') \<Rightarrow> (Inl e, fs')
         | (PowerLoss, fs') \<Rightarrow> (Inl EIO, fs')
         | (Short k, fs') \<Rightarrow> (Inr (take (min want (max 1 k)) rest), fs')
         | (Fine, fs') \<Rightarrow> (Inr (take want rest), fs'))"

section \<open>Whole files\<close>

definition fc_write_text_file_atomic ::
    "string option \<Rightarrow> string option \<Rightarrow> posix_fs \<Rightarrow> ret \<times> posix_fs" where
  "fc_write_text_file_atomic path text fs =
     (case (path, text) of
        (Some p, Some t) \<Rightarrow>
          let tmp = p @ ''.tmp''
          in if length tmp \<ge> FC_PATH_LEN + 8 then (Err ENAMETOOLONG, fs)
             else (case sys_open_trunc tmp fs of
                     (Some e, fs1) \<Rightarrow> (Err e, fs1)
                   | (None, fs1) \<Rightarrow>
                       (case sys_write tmp t fs1 of
                          (Inl e, fs2) \<Rightarrow> (Err e, snd (sys_unlink tmp fs2))
                        | (Inr n, fs2) \<Rightarrow>
                            if n \<noteq> length t then (Err EIO, snd (sys_unlink tmp fs2))
                            else (case sys_rename tmp p fs2 of
                                    (Some e, fs3) \<Rightarrow> (Err e, snd (sys_unlink tmp fs3))
                                  | (None, fs3) \<Rightarrow> (OK, fs3))))
      | _ \<Rightarrow> (Err EINVAL, fs))"

definition fc_append_text_file ::
    "string option \<Rightarrow> string option \<Rightarrow> posix_fs \<Rightarrow> ret \<times> posix_fs" where
  "fc_append_text_file path text fs =
     (case (path, text) of
        (Some p, Some t) \<Rightarrow>
          (case sys_open_append p fs of
             (Some e, fs1) \<Rightarrow> (Err e, fs1)
           | (None, fs1) \<Rightarrow>
               (case sys_write p t fs1 of
                  (Inl e, fs2) \<Rightarrow> (Err e, fs2)
                | (Inr n, fs2) \<Rightarrow> (if n = length t then OK else Err EIO, fs2)))
      | _ \<Rightarrow> (Err EINVAL, fs))"

text \<open>The read loop; \<open>limit\<close> is \<^verbatim>\<open>out_len - 1\<close> and \<open>acc\<close> what the buffer holds.\<close>

function read_loop :: "string \<Rightarrow> nat \<Rightarrow> string \<Rightarrow> posix_fs \<Rightarrow> string res \<times> posix_fs" where
  "read_loop p limit acc fs =
     (if length acc < limit
      then case sys_read p (length acc) (limit - length acc) fs of
             (Inl e, fs') \<Rightarrow> (Inl e, fs')
           | (Inr d, fs') \<Rightarrow> if d = [] then (Inr acc, fs') else read_loop p limit (acc @ d) fs'
      else (Inr acc, fs))"
  by pat_completeness auto
termination
proof (relation "measure (\<lambda>(p, limit, acc, fs). limit - length acc)", simp)
  fix p limit acc fs x r fs' d
  assume "length (acc :: string) < limit" "d \<noteq> ([] :: string)"
  then show "((p, limit, acc @ d, fs'), (p, limit, acc, fs))
      \<in> measure (\<lambda>(p, limit, acc, fs). limit - length acc)"
    by (cases d) auto
qed

declare read_loop.simps [simp del]

text \<open>
  The result is the C string the buffer holds; on an error the buffer is not
  meaningful.
\<close>

definition fc_read_text_file ::
    "string option \<Rightarrow> nat option \<Rightarrow> bool \<Rightarrow> posix_fs \<Rightarrow> (ret \<times> string option) \<times> posix_fs" where
  "fc_read_text_file path out trim fs =
     (case (path, out) of
        (Some p, Some n) \<Rightarrow>
          if n = 0 then ((Err EINVAL, None), fs)
          else (case sys_open_rd p fs of
                  (Some e, fs1) \<Rightarrow> ((Err e, Some []), fs1)
                | (None, fs1) \<Rightarrow>
                    (case read_loop p (n - 1) [] fs1 of
                       (Inl e, fs2) \<Rightarrow> ((Err e, None), fs2)
                     | (Inr bytes, fs2) \<Rightarrow>
                         let s = takeWhile (\<lambda>c. c \<noteq> NUL) bytes
                         in ((OK, Some (if trim then fc_trim s else s)), fs2)))
      | _ \<Rightarrow> ((Err EINVAL, None), fs))"

section \<open>Directories and the data root\<close>

definition fc_mkdir_skip_mount_root :: "string option \<Rightarrow> bool" where
  "fc_mkdir_skip_mount_root path =
     (case path of
        None \<Rightarrow> False
      | Some p \<Rightarrow> p = ''/data'' \<or> p = ''/tmp'' \<or> p = ''/scripts'' \<or> p = ''/mnt'' \<or> p = ''/mnt/sd0'')"

text \<open>\<^verbatim>\<open>!skip(tmp) && mkdir(tmp) < 0 && errno != EEXIST\<close>.\<close>

definition mkdir_one :: "string \<Rightarrow> posix_fs \<Rightarrow> errno option \<times> posix_fs" where
  "mkdir_one d fs =
     (if fc_mkdir_skip_mount_root (Some d) then (None, fs)
      else case sys_mkdir d fs of
             (Some e, fs') \<Rightarrow> (if e = EEXIST then None else Some e, fs')
           | (None, fs') \<Rightarrow> (None, fs'))"

text \<open>The scan of \<^verbatim>\<open>tmp\<close>: \<open>pre\<close> lies before the cursor, the list argument after it.\<close>

fun mkdir_p_loop :: "string \<Rightarrow> string \<Rightarrow> posix_fs \<Rightarrow> ret \<times> posix_fs" where
  "mkdir_p_loop pre [] fs =
     (case mkdir_one pre fs of (Some e, fs') \<Rightarrow> (Err e, fs') | (None, fs') \<Rightarrow> (OK, fs'))"
| "mkdir_p_loop pre (c # cs) fs =
     (if c = CHR ''/''
      then case mkdir_one pre fs of
             (Some e, fs') \<Rightarrow> (Err e, fs')
           | (None, fs') \<Rightarrow> mkdir_p_loop (pre @ [c]) cs fs'
      else mkdir_p_loop (pre @ [c]) cs fs)"

definition fc_mkdir_p :: "string option \<Rightarrow> posix_fs \<Rightarrow> ret \<times> posix_fs" where
  "fc_mkdir_p path fs =
     (case path of
        None \<Rightarrow> (Err EINVAL, fs)
      | Some p \<Rightarrow>
          if p = [] then (Err EINVAL, fs)
          else if length p \<ge> FC_PATH_LEN then (Err ENAMETOOLONG, fs)
          else mkdir_p_loop [hd p] (tl p) fs)"

definition fc_create_if_missing :: "string \<Rightarrow> string \<Rightarrow> posix_fs \<Rightarrow> ret \<times> posix_fs" where
  "fc_create_if_missing path text fs =
     (case sys_open_rd path fs of
        (None, fs1) \<Rightarrow> (OK, fs1)
      | (Some e, fs1) \<Rightarrow>
          if e \<noteq> ENOENT then (Err e, fs1)
          else fc_write_text_file_atomic (Some path) (Some text) fs1)"

definition CONFIG_FRUITCLAW_DATA_DIR :: string where
  "CONFIG_FRUITCLAW_DATA_DIR = ''/data/fruitclaw''"

definition CONFIG_FRUITCLAW_SD_DATA_DIR :: string where
  "CONFIG_FRUITCLAW_SD_DATA_DIR = ''/mnt/sd0/fruitclaw''"

definition fc_dir_exists :: "string option \<Rightarrow> posix_fs \<Rightarrow> bool \<times> posix_fs" where
  "fc_dir_exists path fs =
     (case path of
        None \<Rightarrow> (False, fs)
      | Some p \<Rightarrow> (case sys_stat_dir p fs of (e, fs') \<Rightarrow> (e = None, fs')))"

definition sd_marker_create :: "string \<Rightarrow> posix_fs \<Rightarrow> bool \<times> posix_fs" where
  "sd_marker_create marker fs = (case sys_open_trunc marker fs of (e, fs') \<Rightarrow> (e = None, fs'))"

definition fc_sd_data_dir_ready :: "posix_fs \<Rightarrow> bool \<times> posix_fs" where
  "fc_sd_data_dir_ready fs =
     (let marker = CONFIG_FRUITCLAW_SD_DATA_DIR @ ''/.fruitclaw-ready''
      in if length marker \<ge> FC_PATH_LEN then (False, fs)
         else case fc_dir_exists (Some CONFIG_FRUITCLAW_SD_DATA_DIR) fs of
                (True, fs1) \<Rightarrow>
                  (case sys_access marker fs1 of
                     (None, fs2) \<Rightarrow> (True, fs2)
                   | (Some _, fs2) \<Rightarrow> sd_marker_create marker fs2)
              | (False, fs1) \<Rightarrow>
                  (case fc_mkdir_p (Some CONFIG_FRUITCLAW_SD_DATA_DIR) fs1 of
                     (Err _, fs2) \<Rightarrow> (False, fs2)
                   | (OK, fs2) \<Rightarrow> sd_marker_create marker fs2))"

text \<open>
  \<^verbatim>\<open>fc_data_dir\<close>: \<open>prefer_sd\<close> is the build option
  \<^verbatim>\<open>CONFIG_FRUITCLAW_PREFER_SD_DATA_DIR\<close>, \<open>g\<close> the static \<^verbatim>\<open>g_data_dir\<close>.
\<close>

definition fc_data_dir :: "bool \<Rightarrow> string \<Rightarrow> posix_fs \<Rightarrow> string \<times> posix_fs" where
  "fc_data_dir prefer_sd g fs =
     (if g \<noteq> [] then (g, fs)
      else if prefer_sd
      then case fc_sd_data_dir_ready fs of
             (True, fs') \<Rightarrow> (cpy FC_PATH_LEN CONFIG_FRUITCLAW_SD_DATA_DIR, fs')
           | (False, fs') \<Rightarrow> (cpy FC_PATH_LEN CONFIG_FRUITCLAW_DATA_DIR, fs')
      else (cpy FC_PATH_LEN CONFIG_FRUITCLAW_DATA_DIR, fs))"

text \<open>From here on \<open>root\<close> is the value of \<^verbatim>\<open>fc_data_dir()\<close>, which no longer changes.\<close>

definition fc_create_data_subdir :: "string \<Rightarrow> string \<Rightarrow> posix_fs \<Rightarrow> ret \<times> posix_fs" where
  "fc_create_data_subdir root leaf fs =
     (let path = root @ ''/'' @ leaf
      in if length path \<ge> FC_PATH_LEN then (Err ENAMETOOLONG, fs) else fc_mkdir_p (Some path) fs)"

definition fc_migrate_from_fallback_if_missing ::
    "string \<Rightarrow> string option \<Rightarrow> posix_fs \<Rightarrow> ret \<times> posix_fs" where
  "fc_migrate_from_fallback_if_missing root leaf fs =
     (case leaf of
        None \<Rightarrow> (OK, fs)
      | Some l \<Rightarrow>
          if root = CONFIG_FRUITCLAW_DATA_DIR then (OK, fs)
          else case fc_data_path root leaf (Some FC_PATH_LEN) of
                 (Err e, _) \<Rightarrow> (Err e, fs)
               | (OK, dst) \<Rightarrow>
                   (case sys_access (the dst) fs of
                      (None, fs1) \<Rightarrow> (OK, fs1)
                    | (Some _, fs1) \<Rightarrow>
                        let src = CONFIG_FRUITCLAW_DATA_DIR @ ''/'' @ l
                        in if length src \<ge> FC_PATH_LEN then (Err ENAMETOOLONG, fs1)
                           else (case sys_access src fs1 of
                                   (Some _, fs2) \<Rightarrow> (OK, fs2)
                                 | (None, fs2) \<Rightarrow>
                                     (case sys_calloc fs2 of
                                        (False, fs3) \<Rightarrow> (Err ENOMEM, fs3)
                                      | (True, fs3) \<Rightarrow>
                                          (case fc_read_text_file (Some src)
                                                  (Some CONFIG_FRUITCLAW_MAX_JSON) False fs3 of
                                             ((OK, buf), fs4) \<Rightarrow> fc_write_text_file_atomic dst buf fs4
                                           | ((Err e, _), fs4) \<Rightarrow> (Err e, fs4))))))"

text \<open>
  \<^verbatim>\<open>fc_init_data_dir\<close>: the root and its sub-directories, the migration of files
  from the fallback root (whose return codes are ignored), and the default files.
  The progress notes it leaves for the boot log are not modelled.
\<close>

fun create_subdirs :: "string \<Rightarrow> string list \<Rightarrow> posix_fs \<Rightarrow> ret \<times> posix_fs" where
  "create_subdirs root [] fs = (OK, fs)"
| "create_subdirs root (leaf # leaves) fs =
     (case fc_create_data_subdir root leaf fs of
        (Err e, fs') \<Rightarrow> (Err e, fs')
      | (OK, fs') \<Rightarrow> create_subdirs root leaves fs')"

fun migrate_all :: "string \<Rightarrow> string list \<Rightarrow> posix_fs \<Rightarrow> posix_fs" where
  "migrate_all root [] fs = fs"
| "migrate_all root (leaf # leaves) fs =
     migrate_all root leaves (snd (fc_migrate_from_fallback_if_missing root (Some leaf) fs))"

fun create_defaults :: "string \<Rightarrow> (string \<times> string) list \<Rightarrow> posix_fs \<Rightarrow> ret \<times> posix_fs" where
  "create_defaults root [] fs = (OK, fs)"
| "create_defaults root ((leaf, text) # ds) fs =
     (case fc_create_if_missing
             (the (snd (fc_data_path root (Some leaf) (Some FC_PATH_LEN)))) text fs of
        (Err e, fs') \<Rightarrow> (Err e, fs')
      | (OK, fs') \<Rightarrow> create_defaults root ds fs')"

definition data_subdirs :: "string list" where
  "data_subdirs = [''secrets'', ''sessions'', ''scripts'', ''scripts/generated'', ''notes'', ''www'',
     ''certs'', ''tmp'', ''services'']"

definition migrated_leaves :: "string list" where
  "migrated_leaves = [''secrets/telegram_token'', ''secrets/deepseek_api_key'',
     ''telegram_allowed_chats.txt'', ''telegram_offset'', ''wifi.conf'', ''certs/roots.pem'',
     ''http_allowlist.txt'']"

definition default_system_md :: string where
  "default_system_md =
     ''You are FruitClaw, a small embedded assistant running on a NuttX '' @
     ''RP2350 device. You can answer the user and use available tools when '' @
     ''helpful. Be concise. Do not claim capabilities that are not listed as '' @
     ''tools. Never reveal secrets. Allowed Telegram chats and local CLI are '' @
     ''the device owner; owner-mode tools may operate directly. For reusable '' @
     ''board automation, create generated Berry or NSH scripts with '' @
     ''script.write, validate them, run them, rework them from user feedback, '' @
     ''and schedule them with script.schedule for boot, once, interval, or '' @
     ''cron execution. Use validate_mode=syntax for long-running Berry LVGL '' @
     ''UI scripts so validation parses them without executing forever. Berry '' @
     ''scripts can use the constrained claw helpers for memory, terminal, '' @
     ''NeoPixels, RTTTL, services, scripts, schedules, Telegram replies, and '' @
     ''LVGL when the lv module is compiled.'' @ [LF]"

definition CONFIG_FRUITCLAW_TELEGRAM_DEFAULT_ALLOWED_CHAT_ID :: string where
  "CONFIG_FRUITCLAW_TELEGRAM_DEFAULT_ALLOWED_CHAT_ID = ''6216681418''"

definition allowed_chat_seed :: string where
  "allowed_chat_seed =
     (if CONFIG_FRUITCLAW_TELEGRAM_DEFAULT_ALLOWED_CHAT_ID \<noteq> []
      then snprintf_buf (FC_CHAT_ID_LEN + 2) (CONFIG_FRUITCLAW_TELEGRAM_DEFAULT_ALLOWED_CHAT_ID @ [LF])
      else [])"

definition default_files :: "(string \<times> string) list" where
  "default_files =
     [(''system.md'', default_system_md),
      (''user.md'', ''The user is the owner of this device.'' @ [LF]),
      (''memory.jsonl'', []),
      (''schedules.json'', ''[]'' @ [LF]),
      (''router_rules.json'', ''[]'' @ [LF]),
      (''telegram_allowed_chats.txt'', allowed_chat_seed),
      (''http_allowlist.txt'', ''api.deepseek.com'' @ [LF] @ ''api.telegram.org'' @ [LF])]"

definition fc_init_data_dir :: "string \<Rightarrow> posix_fs \<Rightarrow> ret \<times> posix_fs" where
  "fc_init_data_dir root fs =
     (case fc_mkdir_p (Some root) fs of
        (Err e, fs1) \<Rightarrow> (Err e, fs1)
      | (OK, fs1) \<Rightarrow>
          (case create_subdirs root data_subdirs fs1 of
             (Err e, fs2) \<Rightarrow> (Err e, fs2)
           | (OK, fs2) \<Rightarrow> create_defaults root default_files (migrate_all root migrated_leaves fs2)))"

section \<open>What the calls do to files and directories\<close>

lemma fs_next_frame [simp]:
  "fs_files (snd (fs_next fs)) = fs_files fs" "fs_dirs (snd (fs_next fs)) = fs_dirs fs"
  by (auto simp: fs_next_def split: list.splits outcome.splits)

lemma fs_next_frame':
  "fs_next fs = (x, fs') \<Longrightarrow> fs_files fs' = fs_files fs \<and> fs_dirs fs' = fs_dirs fs"
  using fs_next_frame [of fs] by simp

lemma fs_call_cases:
  assumes "fs_call act fs = (e, fs')"
  obtains (refused) "e \<noteq> None" "fs_files fs' = fs_files fs" "fs_dirs fs' = fs_dirs fs"
  | (acted) fs1 where "fs_files fs1 = fs_files fs" "fs_dirs fs1 = fs_dirs fs" "act fs1 = (e, fs')"
  using assms by (auto simp: fs_call_def split: prod.splits outcome.splits dest!: fs_next_frame')

lemma sys_open_rd_frame:
  "sys_open_rd p fs = (e, fs') \<Longrightarrow>
     fs_files fs' = fs_files fs \<and> fs_dirs fs' = fs_dirs fs \<and> (e = None \<longrightarrow> fs_files fs p \<noteq> None)"
  unfolding sys_open_rd_def by (elim fs_call_cases) (auto split: if_splits)

lemma sys_access_frame:
  "sys_access p fs = (e, fs') \<Longrightarrow> fs_files fs' = fs_files fs \<and> fs_dirs fs' = fs_dirs fs"
  unfolding sys_access_def by (elim fs_call_cases) auto

lemma sys_calloc_frame:
  "sys_calloc fs = (b, fs') \<Longrightarrow> fs_files fs' = fs_files fs \<and> fs_dirs fs' = fs_dirs fs"
  unfolding sys_calloc_def by (auto split: prod.splits elim: fs_call_cases)

lemma sys_open_trunc_files:
  "sys_open_trunc p fs = (e, fs') \<Longrightarrow>
     fs_files fs' = (if e = None then (fs_files fs)(p \<mapsto> []) else fs_files fs)
     \<and> fs_dirs fs' = fs_dirs fs"
  unfolding sys_open_trunc_def by (elim fs_call_cases) (auto split: if_splits)

lemma sys_open_append_files:
  "sys_open_append p fs = (e, fs') \<Longrightarrow>
     fs_files fs' = (if e = None \<and> fs_files fs p = None then (fs_files fs)(p \<mapsto> []) else fs_files fs)
     \<and> fs_dirs fs' = fs_dirs fs"
  unfolding sys_open_append_def by (elim fs_call_cases) (auto split: if_splits)

lemma sys_unlink_files:
  "fs_files (snd (sys_unlink p fs)) = fs_files fs
     \<or> fs_files (snd (sys_unlink p fs)) = (fs_files fs)(p := None)"
  unfolding sys_unlink_def
  by (cases "fs_call (\<lambda>fs. if fs_files fs p = None then (Some ENOENT, fs)
                   else (None, fs\<lparr>fs_files := (fs_files fs)(p := None)\<rparr>)) fs")
     (auto elim!: fs_call_cases split: if_splits)

lemma sys_unlink_other: "q \<noteq> p \<Longrightarrow> fs_files (snd (sys_unlink p fs)) q = fs_files fs q"
  using sys_unlink_files [of p fs] by auto

lemma sys_rename_files:
  "sys_rename a b fs = (e, fs') \<Longrightarrow>
     (e = None \<longrightarrow> (\<exists>c. fs_files fs a = Some c \<and> fs_files fs' = (fs_files fs)(a := None, b \<mapsto> c)))
     \<and> (e \<noteq> None \<longrightarrow> fs_files fs' = fs_files fs)"
  unfolding sys_rename_def by (elim fs_call_cases) (auto split: option.splits)

lemma sys_write_files:
  "sys_write p t fs = (r, fs') \<Longrightarrow> fs_files fs p = Some c \<Longrightarrow>
     (case r of Inl _ \<Rightarrow> fs_files fs' = fs_files fs
      | Inr n \<Rightarrow> n \<le> length t \<and> fs_files fs' = (fs_files fs)(p \<mapsto> c @ take n t))"
  unfolding sys_write_def
  by (auto split: prod.splits outcome.splits dest!: fs_next_frame' simp: min_def)

section \<open>Atomic replacement\<close>

text \<open>Until the rename, only the temporary file has changed.\<close>

lemma tmp_write_frame:
  assumes "sys_open_trunc tmp fs = (None, fs1)" "sys_write tmp t fs1 = (w, fs2)"
  shows "\<exists>c. fs_files fs2 = (fs_files fs)(tmp \<mapsto> c) \<and> (w = Inr (length t) \<longrightarrow> c = t)"
  using sys_open_trunc_files [OF assms(1)] sys_write_files [OF assms(2), of "[]"]
  by (cases w) auto

lemma write_atomic_cases:
  assumes "fc_write_text_file_atomic (Some p) (Some t) fs = (r, fs')"
  shows "if r = OK then fs_files fs' = (fs_files fs)(p @ ''.tmp'' := None, p \<mapsto> t)
         else \<forall>q. q \<noteq> p @ ''.tmp'' \<longrightarrow> fs_files fs' q = fs_files fs q"
proof (cases "length (p @ ''.tmp'') \<ge> FC_PATH_LEN + 8")
  case True
  then show ?thesis using assms by (auto simp: fc_write_text_file_atomic_def Let_def)
next
  case False
  let ?tmp = "p @ ''.tmp''"
  obtain e fs1 where o: "sys_open_trunc ?tmp fs = (e, fs1)" by fastforce
  obtain w fs2 where w: "sys_write ?tmp t fs1 = (w, fs2)" by fastforce
  obtain x fs3 where m: "sys_rename ?tmp p fs2 = (x, fs3)" by fastforce
  note unfolded = assms [unfolded fc_write_text_file_atomic_def Let_def, simplified]
  show ?thesis
  proof (cases e)
    case (Some x)
    then show ?thesis using unfolded False sys_open_trunc_files [OF o] by (auto simp: o)
  next
    case None
    then obtain c where c: "fs_files fs2 = (fs_files fs)(?tmp \<mapsto> c)" "w = Inr (length t) \<longrightarrow> c = t"
      using tmp_write_frame o w by blast
    show ?thesis
      using unfolded None False c sys_rename_files [OF m] sys_unlink_other [of _ ?tmp fs2]
        sys_unlink_other [of _ ?tmp fs3]
      by (auto simp: o w m split: sum.splits if_splits option.splits)
  qed
qed

lemma write_atomic_other:
  assumes "fc_write_text_file_atomic (Some p) (Some t) fs = (r, fs')"
    and "q \<noteq> p" "q \<noteq> p @ ''.tmp''"
  shows "fs_files fs' q = fs_files fs q"
  using write_atomic_cases [OF assms(1)] assms(2,3) by (auto split: if_splits)

section \<open>Reading\<close>

text \<open>A script without errors and power cuts: calls may only be short.\<close>

definition no_faults :: "posix_fs \<Rightarrow> bool" where
  "no_faults fs \<longleftrightarrow> \<not> fs_off fs \<and> (\<forall>x\<in>set (fs_script fs). x = Fine \<or> (\<exists>k. x = Short k))"

lemma fs_next_no_faults:
  assumes "no_faults fs" "fs_next fs = (x, fs')"
  shows "no_faults fs' \<and> (x = Fine \<or> (\<exists>k. x = Short k))"
  using assms by (auto simp: no_faults_def fs_next_def split: list.splits outcome.splits)

lemma sys_read_no_faults:
  assumes "no_faults fs" "fs_files fs p = Some c"
  shows "\<exists>n fs'. sys_read p off want fs = (Inr (take n (drop off c)), fs')
           \<and> (0 < want \<longrightarrow> 0 < n) \<and> n \<le> want \<and> no_faults fs' \<and> fs_files fs' = fs_files fs"
proof -
  obtain x fs' where x: "fs_next fs = (x, fs')" by fastforce
  note ok = fs_next_no_faults [OF assms(1) x] fs_next_frame' [OF x]
  then consider "x = Fine" | k where "x = Short k" by blast
  then show ?thesis
  proof cases
    case 1
    then show ?thesis using assms(2) x ok by (auto simp: sys_read_def)
  next
    case 2
    then show ?thesis using assms(2) x ok
      by (intro exI [of _ "min want (max 1 k)"]) (auto simp: sys_read_def)
  qed
qed

lemma read_loop_no_faults:
  assumes "no_faults fs" "fs_files fs p = Some c" "take (length acc) c = acc" "length acc \<le> limit"
  shows "\<exists>fs'. read_loop p limit acc fs = (Inr (take limit c), fs')"
  using assms
proof (induction p limit acc fs rule: read_loop.induct)
  case (1 p limit acc fs)
  show ?case
  proof (cases "length acc < limit")
    case False
    then have "length acc = limit" using "1.prems"(4) by simp
    then have "take limit c = acc" using "1.prems"(3) by simp
    with False show ?thesis by (subst read_loop.simps) simp
  next
    case True
    obtain n fs' where rd: "sys_read p (length acc) (limit - length acc) fs
        = (Inr (take n (drop (length acc) c)), fs')"
      and n: "0 < n" "n \<le> limit - length acc" and fs': "no_faults fs'" "fs_files fs' = fs_files fs"
      using sys_read_no_faults [OF "1.prems"(1,2), of "length acc" "limit - length acc"] True by auto
    let ?d = "take n (drop (length acc) c)"
    have acc: "acc @ ?d = take (length acc + n) c" using "1.prems"(3) by (simp add: take_add)
    show ?thesis
    proof (cases "?d = []")
      case True
      then have "length c \<le> length acc" using n by auto
      then have "take limit c = acc" using "1.prems"(3) \<open>length acc < limit\<close> by simp
      then show ?thesis using rd True \<open>length acc < limit\<close> by (subst read_loop.simps) simp
    next
      case False
      have "\<exists>fs''. read_loop p limit (acc @ ?d) fs' = (Inr (take limit c), fs'')"
      proof (rule "1.IH" [OF True rd [symmetric] refl False fs'(1)])
        show "fs_files fs' p = Some c" using fs'(2) "1.prems"(2) by simp
        show "take (length (acc @ ?d)) c = acc @ ?d" unfolding acc by (simp add: min_def)
        show "length (acc @ ?d) \<le> limit" using n "1.prems"(4) by simp
      qed
      then show ?thesis using rd True False by (subst read_loop.simps) simp
    qed
  qed
qed

section \<open>Directories and default files\<close>

text \<open>
  Scripts whose faults do not lie about existence (\<open>honest\<close>), and scripts without
  any scripted error, in which calls may be short and the power may go (\<open>quiet\<close>).
\<close>

definition honest :: "posix_fs \<Rightarrow> bool" where
  "honest fs \<longleftrightarrow> Fail ENOENT \<notin> set (fs_script fs) \<and> Fail EEXIST \<notin> set (fs_script fs)"

definition quiet :: "posix_fs \<Rightarrow> bool" where
  "quiet fs \<longleftrightarrow> (\<forall>e. Fail e \<notin> set (fs_script fs))"

lemma quiet_honest: "quiet fs \<Longrightarrow> honest fs"
  by (simp add: quiet_def honest_def)

lemma fs_next_script: "fs_next fs = (x, fs') \<Longrightarrow> set (fs_script fs') \<subseteq> set (fs_script fs)"
  by (auto simp: fs_next_def split: list.splits outcome.splits if_splits)

lemma fs_next_Fail: "fs_next fs = (Fail e, fs') \<Longrightarrow> Fail e \<in> set (fs_script fs)"
  by (auto simp: fs_next_def split: list.splits outcome.splits if_splits)

text \<open>A call whose action leaves the script and the power alone.\<close>

lemma fs_call_script:
  assumes "fs_call act fs = (e, fs')" "\<And>fs. fs_script (snd (act fs)) = fs_script fs"
  shows "set (fs_script fs') \<subseteq> set (fs_script fs)"
  using assms(1) assms(2) [of "snd (fs_next fs)"] fs_next_script [of fs]
  by (auto simp: fs_call_def split: prod.splits outcome.splits)

lemma fs_call_honest:
  assumes "fs_call act fs = (Some e, fs')" "honest fs" "e = ENOENT \<or> e = EEXIST"
  shows "\<exists>fs1. fs_files fs1 = fs_files fs \<and> fs_dirs fs1 = fs_dirs fs \<and> act fs1 = (Some e, fs')"
  using assms fs_next_Fail [of fs e]
  by (auto simp: fs_call_def honest_def split: prod.splits outcome.splits dest: fs_next_frame')

definition present :: "posix_fs \<Rightarrow> string \<Rightarrow> bool" where
  "present fs d \<longleftrightarrow> dir_present fs d \<or> fs_files fs d \<noteq> None \<or> fc_mkdir_skip_mount_root (Some d)"

lemma present_mono:
  "present fs d \<Longrightarrow> fs_files fs' = fs_files fs \<Longrightarrow> set (fs_dirs fs) \<subseteq> set (fs_dirs fs') \<Longrightarrow> present fs' d"
  by (auto simp: present_def dir_present_def)

lemma sys_mkdir_spec:
  assumes "sys_mkdir d fs = (e, fs')" "honest fs"
  shows "honest fs' \<and> fs_files fs' = fs_files fs \<and> set (fs_dirs fs) \<subseteq> set (fs_dirs fs')
         \<and> (e = None \<or> e = Some EEXIST \<longrightarrow> present fs' d)"
proof -
  let ?act = "\<lambda>fs. if dir_present fs d \<or> fs_files fs d \<noteq> None then (Some EEXIST, fs)
                   else if \<not> dir_present fs (parent_dir d) then (Some ENOENT, fs)
                   else (None, fs\<lparr>fs_dirs := d # fs_dirs fs\<rparr>)"
  have call: "fs_call ?act fs = (e, fs')" using assms(1) by (simp add: sys_mkdir_def)
  have "set (fs_script fs') \<subseteq> set (fs_script fs)" by (rule fs_call_script [OF call]) auto
  then have "honest fs'" using assms(2) by (auto simp: honest_def)
  moreover have "fs_files fs' = fs_files fs \<and> set (fs_dirs fs) \<subseteq> set (fs_dirs fs')
      \<and> (e = None \<longrightarrow> present fs' d)"
    using call by (elim fs_call_cases)
      (auto simp: present_def dir_present_def split: if_splits)
  moreover have "e = Some EEXIST \<longrightarrow> present fs' d"
    using fs_call_honest [of ?act fs EEXIST fs'] call assms(2)
    by (auto simp: present_def split: if_splits)
  ultimately show ?thesis by blast
qed

lemma mkdir_one_spec:
  assumes "mkdir_one d fs = (e, fs')" "honest fs"
  shows "honest fs' \<and> fs_files fs' = fs_files fs \<and> set (fs_dirs fs) \<subseteq> set (fs_dirs fs')
         \<and> (e = None \<longrightarrow> present fs' d)"
proof -
  obtain x fs1 where m: "sys_mkdir d fs = (x, fs1)" by fastforce
  show ?thesis
    using assms(1) assms(2) sys_mkdir_spec [OF m assms(2)]
    by (cases x) (auto simp: mkdir_one_def m present_def split: if_splits)
qed

text \<open>The prefixes of a path that end before a slash or at its end.\<close>

fun slash_points :: "string \<Rightarrow> string list" where
  "slash_points [] = [[]]"
| "slash_points (c # cs) = (if c = CHR ''/'' then [[]] else []) @ map ((#) c) (slash_points cs)"

lemma slash_points_self: "s \<in> set (slash_points s)"
  by (induction s) auto

lemma slash_points_iff: "a \<in> set (slash_points s) \<longleftrightarrow> a = s \<or> prefix (a @ ''/'') s"
  by (induction s arbitrary: a) (auto simp: image_iff prefix_Cons Cons_eq_append_conv append_eq_Cons_conv)

lemma mkdir_p_loop_spec:
  assumes "mkdir_p_loop pre rest fs = (r, fs')" "honest fs"
  shows "honest fs' \<and> fs_files fs' = fs_files fs \<and> set (fs_dirs fs) \<subseteq> set (fs_dirs fs')
         \<and> (r = OK \<longrightarrow> (\<forall>a\<in>set (slash_points rest). present fs' (pre @ a)))"
  using assms
proof (induction pre rest fs rule: mkdir_p_loop.induct)
  case (1 pre fs)
  obtain e fs1 where m: "mkdir_one pre fs = (e, fs1)" by fastforce
  then show ?case using "1" mkdir_one_spec [OF m] by (cases e) auto
next
  case (2 pre c cs fs)
  obtain e fs1 where m: "mkdir_one pre fs = (e, fs1)" by fastforce
  show ?case
  proof (cases "c = CHR ''/''")
    case False
    then show ?thesis using "2.IH"(2) [OF False] "2.prems" by auto
  next
    case True
    note m1 = mkdir_one_spec [OF m "2.prems"(2)]
    show ?thesis
    proof (cases e)
      case (Some x)
      then show ?thesis using "2.prems" True m m1 by auto
    next
      case None
      then have loop: "mkdir_p_loop (pre @ [c]) cs fs1 = (r, fs')" using "2.prems"(1) True m by simp
      have IH: "honest fs' \<and> fs_files fs' = fs_files fs1 \<and> set (fs_dirs fs1) \<subseteq> set (fs_dirs fs')
         \<and> (r = OK \<longrightarrow> (\<forall>a\<in>set (slash_points cs). present fs' ((pre @ [c]) @ a)))"
        using "2.IH"(1) [OF True m [symmetric] None loop] m1 by blast
      moreover have "present fs' pre" using m1 IH None present_mono [of fs1 pre fs'] by blast
      ultimately show ?thesis using m1 True by auto
    qed
  qed
qed

text \<open>No call lengthens the script, so a quiet script stays quiet.\<close>

named_theorems quiet_simps \<open>calls that keep the script quiet\<close>

lemma fs_next_quiet: "quiet fs \<Longrightarrow> fs_next fs = (x, fs') \<Longrightarrow> quiet fs'"
  using fs_next_script [of fs x fs'] by (auto simp: quiet_def)

lemma fs_call_quiet:
  assumes "\<And>fs. fs_script (snd (act fs)) = fs_script fs"
  shows "quiet fs \<Longrightarrow> quiet (snd (fs_call act fs))"
  using fs_call_script [of act fs "fst (fs_call act fs)" "snd (fs_call act fs)"] assms
  by (auto simp: quiet_def)

lemma sys_quiet [quiet_simps]:
  assumes "quiet fs"
  shows "quiet (snd (sys_open_rd p fs))" "quiet (snd (sys_open_trunc p fs))"
    "quiet (snd (sys_unlink p fs))" "quiet (snd (sys_rename p q fs))"
    "quiet (snd (sys_access p fs))" "quiet (snd (sys_mkdir p fs))" "quiet (snd (sys_calloc fs))"
    "quiet (snd (sys_write p t fs))" "quiet (snd (sys_read p off want fs))"
  using assms
  unfolding sys_open_rd_def sys_open_trunc_def sys_unlink_def sys_rename_def sys_access_def
    sys_mkdir_def sys_calloc_def case_prod_beta
  by (auto intro!: fs_call_quiet split: option.splits)
     (auto simp: sys_write_def sys_read_def Let_def quiet_def split: prod.splits outcome.splits
       dest!: fs_next_script)

lemma write_atomic_quiet [quiet_simps]:
  "quiet fs \<Longrightarrow> quiet (snd (fc_write_text_file_atomic path text fs))"
  by (simp add: fc_write_text_file_atomic_def Let_def case_prod_beta quiet_simps
      split: option.splits sum.splits)

lemma read_loop_quiet [quiet_simps]:
  "quiet fs \<Longrightarrow> quiet (snd (read_loop p limit acc fs))"
proof (induction p limit acc fs rule: read_loop.induct)
  case (1 p limit acc fs)
  obtain d fs1 where rd: "sys_read p (length acc) (limit - length acc) fs = (d, fs1)" by fastforce
  then have "quiet fs1" using sys_quiet(9) [OF "1.prems"] by (metis snd_conv)
  then show ?case
    using "1" rd by (subst read_loop.simps) (auto split: sum.splits)
qed

lemma read_text_quiet [quiet_simps]:
  "quiet fs \<Longrightarrow> quiet (snd (fc_read_text_file path out trim fs))"
  by (simp add: fc_read_text_file_def Let_def case_prod_beta quiet_simps
      split: option.splits sum.splits)

lemma mkdir_one_quiet [quiet_simps]: "quiet fs \<Longrightarrow> quiet (snd (mkdir_one d fs))"
  by (simp add: mkdir_one_def case_prod_beta quiet_simps split: option.splits)

lemma mkdir_p_loop_quiet [quiet_simps]: "quiet fs \<Longrightarrow> quiet (snd (mkdir_p_loop pre rest fs))"
proof (induction pre rest fs rule: mkdir_p_loop.induct)
  case (1 pre fs)
  then show ?case by (simp add: case_prod_beta quiet_simps split: option.splits)
next
  case (2 pre c cs fs)
  obtain e fs1 where m: "mkdir_one pre fs = (e, fs1)" by fastforce
  then have "quiet fs1" using mkdir_one_quiet [OF "2.prems", of pre] by simp
  then show ?case using "2" m by (auto split: option.splits)
qed

lemma migrate_quiet [quiet_simps]:
  "quiet fs \<Longrightarrow> quiet (snd (fc_migrate_from_fallback_if_missing root leaf fs))"
  by (simp add: fc_migrate_from_fallback_if_missing_def Let_def case_prod_beta quiet_simps
      split: option.splits ret.splits bool.splits)

lemma create_if_missing_quiet [quiet_simps]:
  "quiet fs \<Longrightarrow> quiet (snd (fc_create_if_missing p t fs))"
  by (simp add: fc_create_if_missing_def case_prod_beta quiet_simps split: option.splits)

text \<open>Files outside the temporary names are only ever created.\<close>

definition keeps_files :: "posix_fs \<Rightarrow> posix_fs \<Rightarrow> bool" where
  "keeps_files fs fs' \<longleftrightarrow>
     (\<forall>q c. fs_files fs q = Some c \<longrightarrow> \<not> suffix ''.tmp'' q \<longrightarrow> fs_files fs' q = Some c)"

lemma keeps_files_refl: "fs_files fs' = fs_files fs \<Longrightarrow> keeps_files fs fs'"
  by (simp add: keeps_files_def)

lemma keeps_files_trans [trans]: "keeps_files a b \<Longrightarrow> keeps_files b c \<Longrightarrow> keeps_files a c"
  by (simp add: keeps_files_def)

lemma write_atomic_keeps:
  assumes "fs_files fs p = None"
  shows "keeps_files fs (snd (fc_write_text_file_atomic (Some p) body fs))"
proof (cases body)
  case None
  then show ?thesis by (simp add: fc_write_text_file_atomic_def keeps_files_refl)
next
  case (Some t)
  obtain r fs' where w: "fc_write_text_file_atomic (Some p) (Some t) fs = (r, fs')" by fastforce
  have "suffix ''.tmp'' (p @ ''.tmp'')" by (simp add: suffix_def)
  then show ?thesis
    using assms write_atomic_other [OF w] unfolding keeps_files_def Some w
    by (metis option.distinct(1) snd_conv)
qed

lemma open_rd_ENOENT:
  assumes "sys_open_rd p fs = (Some ENOENT, fs1)" "honest fs"
  shows "fs_files fs1 p = None"
  using fs_call_honest [OF assms(1) [unfolded sys_open_rd_def] assms(2)]
    sys_open_rd_frame [OF assms(1)] by (auto split: if_splits)

lemma create_if_missing_spec:
  assumes "honest fs" "fc_create_if_missing p t fs = (r, fs')"
  shows "keeps_files fs fs' \<and> (r = OK \<longrightarrow> fs_files fs' p \<noteq> None)"
proof -
  obtain e fs1 where o: "sys_open_rd p fs = (e, fs1)" by fastforce
  note frame = sys_open_rd_frame [OF o]
  show ?thesis
  proof (cases "e = Some ENOENT")
    case False
    then show ?thesis using assms(2) frame
      by (cases e) (auto simp: fc_create_if_missing_def o intro: keeps_files_refl)
  next
    case True
    then have w: "fc_write_text_file_atomic (Some p) (Some t) fs1 = (r, fs')"
      using assms(2) by (simp add: fc_create_if_missing_def o)
    have "keeps_files fs1 fs'"
      using write_atomic_keeps [OF open_rd_ENOENT [OF o [unfolded True] assms(1)], of "Some t"] w by simp
    then show ?thesis
      using write_atomic_cases [OF w] frame keeps_files_trans [OF keeps_files_refl] by auto
  qed
qed

lemma sys_access_absent:
  assumes "sys_access p fs = (Some e, fs1)" "quiet fs"
  shows "fs_files fs1 p = None \<or> fs_off fs1"
proof -
  obtain x fs2 where n: "fs_next fs = (x, fs2)" by fastforce
  have "x \<noteq> Fail y" for y using n assms(2) fs_next_Fail by (auto simp: quiet_def)
  then show ?thesis
    using assms(1) n
    by (cases x) (auto simp: sys_access_def fs_call_def fs_next_def split: if_splits list.splits outcome.splits)
qed

lemma sys_access_off: "fs_off fs \<Longrightarrow> sys_access p fs = (Some EIO, fs)"
  by (simp add: sys_access_def fs_call_def fs_next_def)

lemma read_loop_files: "read_loop p limit acc fs = (d, fs') \<Longrightarrow> fs_files fs' = fs_files fs"
proof (induction p limit acc fs rule: read_loop.induct)
  case (1 p limit acc fs)
  obtain d1 fs1 where rd: "sys_read p (length acc) (limit - length acc) fs = (d1, fs1)" by fastforce
  then have "fs_files fs1 = fs_files fs"
    by (auto simp: sys_read_def Let_def split: prod.splits outcome.splits dest: fs_next_frame')
  then show ?case
    using "1" rd by (subst (asm) (2) read_loop.simps) (auto split: sum.splits if_splits)
qed

lemma read_text_files:
  "fc_read_text_file path out trim fs = (r, fs') \<Longrightarrow> fs_files fs' = fs_files fs"
  by (auto simp: fc_read_text_file_def Let_def split: option.splits prod.splits sum.splits if_splits
      dest!: sys_open_rd_frame read_loop_files)

lemma migrate_keeps:
  assumes "quiet fs"
  shows "keeps_files fs (snd (fc_migrate_from_fallback_if_missing root leaf fs))"
proof (cases "leaf = None \<or> root = CONFIG_FRUITCLAW_DATA_DIR
              \<or> fst (fc_data_path root leaf (Some FC_PATH_LEN)) \<noteq> OK")
  case True
  then show ?thesis
    by (auto simp: fc_migrate_from_fallback_if_missing_def keeps_files_refl
        split: option.splits prod.splits ret.splits)
next
  case False
  then obtain l p where l: "leaf = Some l" "root \<noteq> CONFIG_FRUITCLAW_DATA_DIR"
    and dp: "fc_data_path root (Some l) (Some FC_PATH_LEN) = (OK, Some p)"
    by (auto simp: fc_data_path_def Let_def split: if_splits)
  let ?src = "CONFIG_FRUITCLAW_DATA_DIR @ ''/'' @ l"
  obtain e fs1 where a1: "sys_access p fs = (e, fs1)" by fastforce
  obtain x fs2 where a2: "sys_access ?src fs1 = (x, fs2)" by fastforce
  obtain b fs3 where ca: "sys_calloc fs2 = (b, fs3)" by fastforce
  obtain r4 buf fs4 where rd: "fc_read_text_file (Some ?src) (Some CONFIG_FRUITCLAW_MAX_JSON) False fs3
      = ((r4, buf), fs4)" by (metis surj_pair)
  have same: "fs_files fs1 = fs_files fs" "fs_files fs2 = fs_files fs" "fs_files fs3 = fs_files fs"
    "fs_files fs4 = fs_files fs"
    using sys_access_frame [OF a1] sys_access_frame [OF a2] sys_calloc_frame [OF ca]
      read_text_files [OF rd] by auto
  have absent: "fs_files fs4 p = None" if "e \<noteq> None" "x = None"
    using sys_access_absent [of p fs _ fs1] sys_access_off [of fs1] a1 a2 that assms same by auto
  have "keeps_files fs fs'" if "fs_files fs' = fs_files fs" for fs'
    using that by (rule keeps_files_refl)
  moreover have "keeps_files fs (snd (fc_write_text_file_atomic (Some p) buf fs4))"
    if "e \<noteq> None" "x = None"
    using keeps_files_trans [OF keeps_files_refl [OF same(4)] write_atomic_keeps [OF absent [OF that]]] .
  ultimately show ?thesis
    using l same
    by (cases e; cases x; cases b; cases r4)
       (simp_all add: fc_migrate_from_fallback_if_missing_def Let_def dp a1
          a2 [simplified] ca rd [simplified])
qed

text \<open>Both phases after the directories keep what is there.\<close>

lemma migrate_all_keeps:
  "quiet fs \<Longrightarrow> keeps_files fs (migrate_all root leaves fs) \<and> quiet (migrate_all root leaves fs)"
proof (induction leaves arbitrary: fs)
  case (Cons leaf leaves)
  then show ?case
    using migrate_keeps [OF Cons.prems, of root "Some leaf"] migrate_quiet [OF Cons.prems]
      keeps_files_trans by (metis migrate_all.simps(2))
qed (simp add: keeps_files_refl)

lemma create_defaults_spec:
  "quiet fs \<Longrightarrow> create_defaults root ds fs = (r, fs') \<Longrightarrow>
     keeps_files fs fs' \<and>
     (r = OK \<longrightarrow> (\<forall>(leaf, t)\<in>set ds. \<not> suffix ''.tmp'' (the (snd (fc_data_path root (Some leaf) (Some FC_PATH_LEN))))
        \<longrightarrow> fs_files fs' (the (snd (fc_data_path root (Some leaf) (Some FC_PATH_LEN)))) \<noteq> None))"
proof (induction ds arbitrary: fs)
  case (Cons d ds)
  obtain leaf t where d: "d = (leaf, t)" by fastforce
  let ?p = "the (snd (fc_data_path root (Some leaf) (Some FC_PATH_LEN)))"
  obtain r1 fs1 where c: "fc_create_if_missing ?p t fs = (r1, fs1)" by fastforce
  note c1 = create_if_missing_spec [OF quiet_honest [OF Cons.prems(1)] c]
  have q1: "quiet fs1" using create_if_missing_quiet [OF Cons.prems(1), of ?p t] c by simp
  show ?case
  proof (cases r1)
    case (Err e)
    then show ?thesis using Cons.prems(2) c1 by (auto simp: d c)
  next
    case OK
    then have rest: "create_defaults root ds fs1 = (r, fs')" using Cons.prems(2) by (simp add: d c)
    note IH = Cons.IH [OF q1 rest]
    then have "\<not> suffix ''.tmp'' ?p \<longrightarrow> fs_files fs' ?p \<noteq> None"
      using c1 OK by (auto simp: keeps_files_def)
    then show ?thesis using IH c1 keeps_files_trans by (auto simp: d)
  qed
qed (auto simp: keeps_files_refl)

lemma mkdir_p_frame:
  assumes "quiet fs" "fc_mkdir_p path fs = (r, fs')"
  shows "quiet fs' \<and> fs_files fs' = fs_files fs"
proof (cases "\<exists>p. path = Some p \<and> p \<noteq> [] \<and> length p < FC_PATH_LEN")
  case True
  then obtain p where loop: "mkdir_p_loop [hd p] (tl p) fs = (r, fs')"
    using assms(2) by (auto simp: fc_mkdir_p_def)
  then show ?thesis
    using mkdir_p_loop_spec [OF loop quiet_honest [OF assms(1)]]
      mkdir_p_loop_quiet [OF assms(1), of "[hd p]" "tl p"] by simp
qed (use assms in \<open>auto simp: fc_mkdir_p_def split: option.splits if_splits\<close>)

lemma create_subdirs_frame:
  "quiet fs \<Longrightarrow> create_subdirs root leaves fs = (r, fs') \<Longrightarrow> quiet fs' \<and> fs_files fs' = fs_files fs"
proof (induction leaves arbitrary: fs)
  case (Cons leaf leaves)
  obtain r1 fs1 where c: "fc_create_data_subdir root leaf fs = (r1, fs1)" by fastforce
  then have "quiet fs1 \<and> fs_files fs1 = fs_files fs"
    using mkdir_p_frame [OF Cons.prems(1)] Cons.prems(1)
    by (auto simp: fc_create_data_subdir_def Let_def split: if_splits)
  then show ?case using Cons c by (auto split: ret.splits)
qed simp

lemma default_leaf_path:
  assumes "(leaf, t) \<in> set default_files" "length root \<le> 160"
  shows "the (snd (fc_data_path root (Some leaf) (Some FC_PATH_LEN))) = root @ ''/'' @ leaf"
    and "\<not> suffix ''.tmp'' (root @ ''/'' @ leaf)"
proof -
  have "length leaf \<le> 26 \<and> \<not> fc_path_has_parent_ref (Some leaf)"
    using assms(1) by (auto simp: default_files_def fc_path_has_parent_ref_def)
  then show "the (snd (fc_data_path root (Some leaf) (Some FC_PATH_LEN))) = root @ ''/'' @ leaf"
    using assms(2) by (auto simp: fc_data_path_def FC_PATH_LEN_def snprintf_buf_def)
  show "\<not> suffix ''.tmp'' (root @ ''/'' @ leaf)"
    using assms(1) by (auto simp: default_files_def suffix_to_prefix)
qed

section \<open>Appending\<close>

lemma append_text_spec:
  assumes "fc_append_text_file (Some p) (Some t) fs = (r, fs')"
  shows "(\<forall>q. q \<noteq> p \<longrightarrow> fs_files fs' q = fs_files fs q)
         \<and> (fs_files fs' p = fs_files fs p
            \<or> (\<exists>n \<le> length t. fs_files fs' p = Some (case_option [] id (fs_files fs p) @ take n t)))
         \<and> (r = OK \<longrightarrow> fs_files fs' p = Some (case_option [] id (fs_files fs p) @ t))"
proof -
  obtain e fs1 where o: "sys_open_append p fs = (e, fs1)" by fastforce
  obtain w fs2 where w: "sys_write p t fs1 = (w, fs2)" by fastforce
  note f1 = sys_open_append_files [OF o]
  show ?thesis
  proof (cases e)
    case (Some x)
    then show ?thesis using assms o f1 by (auto simp: fc_append_text_file_def)
  next
    case None
    let ?c = "case_option [] id (fs_files fs p)"
    have c: "fs_files fs1 p = Some ?c" using f1 None sys_open_append_def o
      by (cases "fs_files fs p") auto
    have other: "fs_files fs1 q = fs_files fs q" if "q \<noteq> p" for q using f1 that by auto
    show ?thesis
    proof (cases w)
      case (Inl x)
      then have "fs_files fs2 = fs_files fs1" "r = Err x" "fs' = fs2"
        using sys_write_files [OF w c] assms o w None by (auto simp: fc_append_text_file_def)
      then show ?thesis using c other by (auto intro!: exI [of _ 0])
    next
      case (Inr n)
      then have "n \<le> length t" "fs_files fs2 = (fs_files fs1)(p \<mapsto> ?c @ take n t)"
        "r = (if n = length t then OK else Err EIO)" "fs' = fs2"
        using sys_write_files [OF w c] assms o w None by (auto simp: fc_append_text_file_def)
      then show ?thesis using other by (auto split: if_splits)
    qed
  qed
qed

section \<open>Properties\<close>



lemma write_then_read_cut:
  assumes "fc_write_text_file_atomic (Some p) (Some t) fs = (OK, fs1)"
    and "no_faults fs1" and "NUL \<notin> set t" and "0 < n"
  shows "fst (fc_read_text_file (Some p) (Some n) False fs1) = (OK, Some (take (n - 1) t))"
proof -
  have c: "fs_files fs1 p = Some t" using write_atomic_cases [OF assms(1)] by simp
  obtain e fs2 where o: "sys_open_rd p fs1 = (e, fs2)" by fastforce
  then have e: "e = None" "no_faults fs2" "fs_files fs2 p = Some t"
    using assms(2) c fs_next_no_faults [OF assms(2)] sys_open_rd_frame [OF o]
    by (fastforce simp: sys_open_rd_def fs_call_def split: prod.splits dest: fs_next_frame')+
  obtain fs3 where "read_loop p (n - 1) [] fs2 = (Inr (take (n - 1) t), fs3)"
    using read_loop_no_faults [OF e(2,3), of "[]" "n - 1"] by auto
  moreover have "takeWhile (\<lambda>c. c \<noteq> NUL) (take (n - 1) t) = take (n - 1) t"
    using assms(3) by (auto simp: takeWhile_eq_all_conv dest: in_set_takeD)
  ultimately show ?thesis using assms(4) o e(1) by (simp add: fc_read_text_file_def)
qed

lemma write_then_read:
  assumes "fc_write_text_file_atomic (Some p) (Some t) fs = (OK, fs1)"
    and "no_faults fs1" and "NUL \<notin> set t" and "length t < n"
  shows "fst (fc_read_text_file (Some p) (Some n) False fs1) = (OK, Some t)"
  using write_then_read_cut [OF assms(1-3), of n] assms(4) by simp

lemma read_text_trim:
  "fst (fc_read_text_file p n True fs) = map_prod id (map_option fc_trim) (fst (fc_read_text_file p n False fs))"
  using fc_trim_id [of "[]"]
  by (auto simp: fc_read_text_file_def trimmed_def Let_def split: option.splits prod.splits sum.splits)

text \<open>
  What \<^verbatim>\<open>fc_write_text_file_atomic\<close> stored, \<^verbatim>\<open>fc_read_text_file\<close> returns:
  with a buffer that is large enough the text comes back unchanged, even when the
  individual \<^verbatim>\<open>read\<close> calls deliver fewer bytes than requested.
\<close>

theorem write_read_roundtrip:
  assumes "fc_write_text_file_atomic (Some p) (Some t) fs = (OK, fs1)"
    and "no_faults fs1" and "NUL \<notin> set t" and "length t < n"
  shows "fst (fc_read_text_file (Some p) (Some n) False fs1) = (OK, Some t)"
  using assms by (rule write_then_read)

theorem write_read_roundtrip_witness:
  "\<exists>fs1. fc_write_text_file_atomic (Some ''/d/f'') (Some ''fresh'')
             \<lparr>fs_files = Map.empty, fs_dirs = [''/d''], fs_script = [Fine, Fine, Fine, Fine, Short 1, Short 2],
              fs_off = False\<rparr> = (OK, fs1)
         \<and> fst (fc_read_text_file (Some ''/d/f'') (Some 8) False fs1) = (OK, Some ''fresh'')"
proof -
  let ?fs = "\<lparr>fs_files = Map.empty, fs_dirs = [''/d''],
              fs_script = [Fine, Fine, Fine, Fine, Short 1, Short 2], fs_off = False\<rparr>"
  let ?fs1 = "\<lparr>fs_files = [''/d/f'' \<mapsto> ''fresh''], fs_dirs = [''/d''],
              fs_script = [Fine, Short 1, Short 2], fs_off = False\<rparr>"
  have w: "fc_write_text_file_atomic (Some ''/d/f'') (Some ''fresh'') ?fs = (OK, ?fs1)"
    by (simp add: fc_write_text_file_atomic_def FC_PATH_LEN_def sys_open_trunc_def fs_call_def
        fs_next_def dir_present_def parent_dir_def sys_write_def sys_rename_def fun_eq_iff)
  have "no_faults ?fs1" by (simp add: no_faults_def)
  then show ?thesis using w write_read_roundtrip [OF w, of 8] by simp
qed

text \<open>
  When \<^verbatim>\<open>fc_mkdir_p\<close> succeeds, the path and every parent of it exist (or are one
  of the mount roots the function leaves alone); it creates nothing but directories.
\<close>

theorem mkdir_p_creates_parents:
  assumes "fc_mkdir_p (Some p) fs = (OK, fs')" and "honest fs"
    and "q = p \<or> prefix (q @ ''/'') p" and "q \<noteq> []"
  shows "present fs' q \<and> fs_files fs' = fs_files fs"
proof -
  obtain c cs where p: "p = c # cs" using assms(1) by (cases p) (auto simp: fc_mkdir_p_def)
  then have "mkdir_p_loop [c] cs fs = (OK, fs')"
    using assms(1) by (auto simp: fc_mkdir_p_def split: if_splits)
  from mkdir_p_loop_spec [OF this assms(2)]
  have *: "fs_files fs' = fs_files fs" "\<forall>a\<in>set (slash_points cs). present fs' ([c] @ a)" by auto
  obtain a where "q = c # a" "a \<in> set (slash_points cs)"
    using assms(3,4) p by (cases q) (auto simp: slash_points_iff slash_points_self)
  then show ?thesis using * by auto
qed

theorem mkdir_p_creates_parents_witness:
  "let fs = \<lparr>fs_files = Map.empty, fs_dirs = [''/data''], fs_script = [], fs_off = False\<rparr>
   in fst (fc_mkdir_p (Some ''/data/a/b'') fs) = OK
      \<and> present (snd (fc_mkdir_p (Some ''/data/a/b'') fs)) ''/data/a''"
proof -
  let ?fs = "\<lparr>fs_files = Map.empty, fs_dirs = [''/data''], fs_script = [], fs_off = False\<rparr>"
  obtain r fs' where m: "fc_mkdir_p (Some ''/data/a/b'') ?fs = (r, fs')" by fastforce
  then have ok: "r = OK"
    by (simp add: fc_mkdir_p_def FC_PATH_LEN_def mkdir_one_def fc_mkdir_skip_mount_root_def
        sys_mkdir_def fs_call_def fs_next_def dir_present_def parent_dir_def)
  have "present fs' ''/data/a''"
    using mkdir_p_creates_parents [of "''/data/a/b''" ?fs fs' "''/data/a''"] m ok
    by (simp add: honest_def)
  then show ?thesis using m ok by simp
qed



end
