(* ===== verification/FC_Progress.thy ===== *)
theory FC_Progress
  imports FC_Config
begin

text \<open>
  The operator progress clock of \<^verbatim>\<open>core/fc_progress.c\<close>: workers mark progress, the
  supervisor asks how long ago the last mark was and whether that is too long.
\<close>

section \<open>State and operations\<close>

record progress =
  g_progress_last_ms :: int
  g_progress_last_source :: string

definition zero_progress :: progress where
  "zero_progress = \<lparr>g_progress_last_ms = 0, g_progress_last_source = []\<rparr>"

text \<open>\<open>now\<close> is the value of \<^verbatim>\<open>fc_mono_ms()\<close> in the call.\<close>

definition fc_operator_progress_mark :: "int \<Rightarrow> string option \<Rightarrow> progress \<Rightarrow> progress" where
  "fc_operator_progress_mark now source p =
     p\<lparr>g_progress_last_ms := now,
       g_progress_last_source :=
         cpy FC_SOURCE_LEN (case source of Some s \<Rightarrow> s | None \<Rightarrow> ''unknown'')\<rparr>"

definition fc_operator_progress_age_ms :: "int \<Rightarrow> nat option \<Rightarrow> progress \<Rightarrow> int \<times> string option" where
  "fc_operator_progress_age_ms now source p =
     (let last_ms = g_progress_last_ms p;
          src = (case source of
                   Some n \<Rightarrow> if n > 0 then Some (cpy n (if g_progress_last_source p \<noteq> []
                                                  then g_progress_last_source p else ''-''))
                             else None
                 | None \<Rightarrow> None)
      in (if last_ms \<le> 0 then -1 else if now \<ge> last_ms then now - last_ms else 0, src))"

definition fc_operator_progress_status_format ::
    "int \<Rightarrow> nat option \<Rightarrow> progress \<Rightarrow> ret \<times> string option" where
  "fc_operator_progress_status_format now out p =
     (case out of
        None \<Rightarrow> (Err EINVAL, None)
      | Some n \<Rightarrow>
          if n = 0 then (Err EINVAL, None)
          else case fc_operator_progress_age_ms now (Some FC_SOURCE_LEN) p of
                 (age_ms, source) \<Rightarrow>
                   (OK, Some (snprintf_buf n (''operator_progress: age_ms='' @ dec_int age_ms
                      @ '' source='' @ (if the source \<noteq> [] then the source else ''-'')))))"

text \<open>
  \<^verbatim>\<open>fc_operator_progress_stale\<close>; the comparisons convert the 32-bit timeout to the
  64-bit type of the times.
\<close>

definition fc_operator_progress_stale :: "int \<Rightarrow> int \<Rightarrow> int \<Rightarrow> u32 \<Rightarrow> bool" where
  "fc_operator_progress_stale runtime_start_ms now_ms progress_age_ms timeout_ms =
     (if timeout_ms = 0 then False
      else if progress_age_ms \<ge> 0 then progress_age_ms > uint timeout_ms
      else if runtime_start_ms \<le> 0 \<or> now_ms < runtime_start_ms then False
      else now_ms - runtime_start_ms > uint timeout_ms)"

section \<open>Properties\<close>

definition progress_marks :: "(int \<times> string) list \<Rightarrow> progress \<Rightarrow> progress" where
  "progress_marks ms p = fold (\<lambda>(t, s). fc_operator_progress_mark t (Some s)) ms p"

lemma progress_marks_last:
  "g_progress_last_ms (progress_marks ms p) = (if ms = [] then g_progress_last_ms p else fst (last ms))"
  by (induction ms rule: rev_induct)
     (auto simp: progress_marks_def fc_operator_progress_mark_def case_prod_beta)

lemma sorted_last_ge: "sorted xs \<Longrightarrow> x \<in> set xs \<Longrightarrow> x \<le> last (xs :: int list)"
  by (induction xs) (auto simp: last_ConsR split: if_splits)

text \<open>
  After any history of progress marks with a monotonic clock, the supervisor's staleness test
  fires exactly when its timeout is enabled and more than the timeout has passed since every mark,
  or, when there was no mark at all, since the start of the runtime.
\<close>

theorem progress_stale_iff:
  assumes "sorted (map fst ms)" and "\<forall>t\<in>set (map fst ms). 0 < t \<and> t \<le> now"
    and "0 < start" and "start \<le> now"
  shows "fc_operator_progress_stale start now
           (fst (fc_operator_progress_age_ms now src (progress_marks ms zero_progress))) timeout
         \<longleftrightarrow> timeout \<noteq> 0 \<and> (\<forall>t\<in>set (map fst ms). now - t > uint timeout)
             \<and> (ms = [] \<longrightarrow> now - start > uint timeout)"
proof (cases "ms = []")
  case True
  then show ?thesis using assms(3,4)
    by (simp add: fc_operator_progress_stale_def fc_operator_progress_age_ms_def progress_marks_last
        zero_progress_def)
next
  case False
  let ?l = "fst (last ms)"
  have l: "?l \<in> set (map fst ms)" "\<forall>t\<in>set (map fst ms). t \<le> ?l"
    using False sorted_last_ge [OF assms(1)] by (auto simp: last_map)
  then have "0 < ?l" "?l \<le> now" using assms(2) by auto
  then have "fc_operator_progress_stale start now
      (fst (fc_operator_progress_age_ms now src (progress_marks ms zero_progress))) timeout
      \<longleftrightarrow> timeout \<noteq> 0 \<and> now - ?l > uint timeout"
    using False
    by (simp add: fc_operator_progress_stale_def fc_operator_progress_age_ms_def progress_marks_last)
  moreover have "now - ?l > uint timeout \<longleftrightarrow> (\<forall>t\<in>set (map fst ms). now - t > uint timeout)"
    using l by fastforce
  ultimately show ?thesis using False by auto
qed

theorem progress_stale_iff_witness:
  "fc_operator_progress_stale 5 400
     (fst (fc_operator_progress_age_ms 400 None
        (progress_marks [(10, ''scheduler''), (90, ''telegram'')] zero_progress))) 300
   \<and> \<not> fc_operator_progress_stale 5 400
     (fst (fc_operator_progress_age_ms 400 None
        (progress_marks [(10, ''scheduler''), (110, ''telegram'')] zero_progress))) 300"
  using progress_stale_iff [of "[(10, ''scheduler''), (90, ''telegram'')]" 400 5 None 300]
    progress_stale_iff [of "[(10, ''scheduler''), (110, ''telegram'')]" 400 5 None 300]
  by simp

end
