(* ===== verification/FC_CJson.thy ===== *)
theory FC_CJson
  imports FC_Prelude
begin

text \<open>
  The interface of the cJSON library, which is not part of the repository: a record of its
  operations that the definitions using it take as an argument.
\<close>

text \<open>
  The operations of cJSON the program calls.  \<open>cj_string\<close> is
  \<^verbatim>\<open>cJSON_GetStringValue\<close>, \<open>cj_int\<close> the integer part of
  \<^verbatim>\<open>valuedouble\<close> when \<^verbatim>\<open>cJSON_IsNumber\<close> holds; the argument of
  \<open>cj_object\<close> tells which of the allocations of a loop it is.
\<close>

record 'j cjson =
  cj_parse :: "string \<Rightarrow> 'j option"
  cj_print :: "'j \<Rightarrow> string option"
  cj_items :: "'j \<Rightarrow> 'j list"
  cj_get :: "'j \<Rightarrow> string \<Rightarrow> 'j option"
  cj_string :: "'j option \<Rightarrow> string option"
  cj_is_true :: "'j \<Rightarrow> bool"
  cj_int :: "'j option \<Rightarrow> int option"
  cj_array :: "'j option"
  cj_object :: "nat \<Rightarrow> 'j option"
  cj_add_string :: "'j \<Rightarrow> string \<Rightarrow> string \<Rightarrow> 'j"
  cj_add_bool :: "'j \<Rightarrow> string \<Rightarrow> bool \<Rightarrow> 'j"
  cj_add_number :: "'j \<Rightarrow> string \<Rightarrow> int \<Rightarrow> 'j"
  cj_add_item :: "'j \<Rightarrow> 'j \<Rightarrow> 'j"
  cj_add_child :: "'j \<Rightarrow> string \<Rightarrow> 'j \<Rightarrow> 'j"
  cj_is_array :: "'j option \<Rightarrow> bool"
  cj_is_object :: "'j option \<Rightarrow> bool"
  cj_add_null :: "'j \<Rightarrow> string \<Rightarrow> 'j"
  cj_dup :: "'j \<Rightarrow> 'j option"

text \<open>A small instance of the interface, with one document that can be parsed and printed.\<close>

datatype demo_json = DNull | DString string | DBool bool | DNumber int | DArray "demo_json list" | DObject "(string \<times> demo_json) list"

fun demo_get :: "demo_json \<Rightarrow> string \<Rightarrow> demo_json option" where
  "demo_get (DObject kvs) k = map_of kvs k"
| "demo_get _ k = None"

fun demo_add :: "demo_json \<Rightarrow> string \<Rightarrow> demo_json \<Rightarrow> demo_json" where
  "demo_add (DObject kvs) k v = DObject (kvs @ [(k, v)])"
| "demo_add _ k v = DObject [(k, v)]"

fun demo_items :: "demo_json \<Rightarrow> demo_json list" where
  "demo_items (DArray xs) = xs"
| "demo_items _ = []"

definition demo_cjson :: "string \<Rightarrow> demo_json \<Rightarrow> demo_json cjson" where
  "demo_cjson printed tree = \<lparr>
     cj_parse = (\<lambda>s. if s = printed then Some tree else None),
     cj_print = (\<lambda>x. if x = tree then Some printed else None),
     cj_items = demo_items, cj_get = demo_get,
     cj_string = (\<lambda>x. case x of Some (DString s) \<Rightarrow> Some s | _ \<Rightarrow> None),
     cj_is_true = (\<lambda>x. x = DBool True),
     cj_int = (\<lambda>x. case x of Some (DNumber n) \<Rightarrow> Some n | _ \<Rightarrow> None),
     cj_array = Some (DArray []), cj_object = (\<lambda>_. Some (DObject [])),
     cj_add_string = (\<lambda>ob k v. demo_add ob k (DString v)), cj_add_bool = (\<lambda>ob k v. demo_add ob k (DBool v)),
     cj_add_number = (\<lambda>ob k v. demo_add ob k (DNumber v)),
     cj_add_item = (\<lambda>a x. DArray (demo_items a @ [x])), cj_add_child = demo_add,
     cj_is_array = (\<lambda>x. case x of Some (DArray _) \<Rightarrow> True | _ \<Rightarrow> False),
     cj_is_object = (\<lambda>x. case x of Some (DObject _) \<Rightarrow> True | _ \<Rightarrow> False),
     cj_add_null = (\<lambda>ob k. demo_add ob k DNull), cj_dup = Some\<rparr>"

lemma demo_get_add:
  "k' \<noteq> k \<Longrightarrow> demo_get (demo_add ob k v) k' = demo_get ob k'"
  "demo_get ob k = None \<Longrightarrow> demo_get (demo_add ob k v) k = Some v"
  by (cases ob; auto simp: map_add_def split: option.splits)+

end
