(* ===== verification/FC_Scheduler.thy ===== *)
theory FC_Scheduler
  imports FC_Cron FC_Files FC_Queue FC_Progress FC_CJson
begin

text \<open>
  The job table of \<^verbatim>\<open>sched/fc_scheduler.c\<close>: its twelve slots, the four ways of adding a
  job, removal, listing, and the persistence of the table as JSON.  The cJSON library is a
  parameter.  The worker thread is in the theory of the ticks.
\<close>

section \<open>State\<close>

datatype fc_schedule_type = FC_SCHED_INTERVAL | FC_SCHED_ONCE | FC_SCHED_CRON | FC_SCHED_BOOT

record fc_schedule =
  sj_used :: bool
  sj_enabled :: bool
  sj_type :: fc_schedule_type
  sj_id :: string
  sj_expr :: string
  sj_prompt :: string
  sj_channel :: string
  sj_chat_id :: string
  sj_session_id :: string
  sj_owner_mode :: bool
  sj_every_sec :: u32
  sj_at_epoch :: int
  sj_created_ms :: int
  sj_next_ms :: int
  sj_last_minute_key :: int

definition zero_job :: fc_schedule where
  "zero_job = \<lparr>sj_used = False, sj_enabled = False, sj_type = FC_SCHED_INTERVAL, sj_id = [], sj_expr = [],
     sj_prompt = [], sj_channel = [], sj_chat_id = [], sj_session_id = [], sj_owner_mode = False,
     sj_every_sec = 0, sj_at_epoch = 0, sj_created_ms = 0, sj_next_ms = 0, sj_last_minute_key = 0\<rparr>"

definition FC_MAX_SCHEDULES :: nat where "FC_MAX_SCHEDULES = 12"

type_synonym jobs = "fc_schedule list"

record sched =
  g_jobs :: jobs
  g_sched_started :: bool
  g_sched_tick_count :: u32
  g_sched_emit_count :: u32
  g_sched_emit_fail_count :: u32
  g_sched_last_tick_ms :: int
  g_sched_last_fire_ms :: int
  g_sched_last_ret :: ret
  g_sched_last_job :: string

definition zero_jobs :: jobs where "zero_jobs = replicate FC_MAX_SCHEDULES zero_job"

definition zero_sched :: sched where
  "zero_sched = \<lparr>g_jobs = zero_jobs, g_sched_started = False, g_sched_tick_count = 0,
     g_sched_emit_count = 0, g_sched_emit_fail_count = 0, g_sched_last_tick_ms = 0,
     g_sched_last_fire_ms = 0, g_sched_last_ret = OK, g_sched_last_job = []\<rparr>"

section \<open>Locking\<close>

text \<open>
  What a timed lock meets: the clock, and what the mutex call returns for a
  deadline, or without one when the clock cannot be read.
\<close>

type_synonym lock_env = "timespec option \<times> (timespec option \<Rightarrow> errno option)"

definition FC_SCHED_LOCK_TIMEOUT_MS :: int where "FC_SCHED_LOCK_TIMEOUT_MS = 2000"

definition fc_scheduler_add_ms :: "timespec \<Rightarrow> int \<Rightarrow> timespec" where
  "fc_scheduler_add_ms ts ms =
     (let ts' = ts\<lparr>tv_sec := tv_sec ts + ms div 1000,
                   tv_nsec := tv_nsec ts + (ms mod 1000) * 1000000\<rparr>
      in if tv_nsec ts' \<ge> 1000000000
         then ts'\<lparr>tv_sec := tv_sec ts' + 1, tv_nsec := tv_nsec ts' - 1000000000\<rparr>
         else ts')"

definition fc_scheduler_lock_timed :: "lock_env \<Rightarrow> ret" where
  "fc_scheduler_lock_timed lk =
     (case lk of (clock, lock) \<Rightarrow>
        (case lock (map_option (\<lambda>ts. fc_scheduler_add_ms ts FC_SCHED_LOCK_TIMEOUT_MS) clock) of
           None \<Rightarrow> OK
         | Some e \<Rightarrow> Err e))"

definition free_lock :: lock_env where "free_lock = (None, \<lambda>_. None)"

lemma lock_free [simp]: "fc_scheduler_lock_timed free_lock = OK"
  by (simp add: fc_scheduler_lock_timed_def free_lock_def)

section \<open>Finding and allocating slots\<close>

definition job_has_id :: "string \<Rightarrow> fc_schedule \<Rightarrow> bool" where
  "job_has_id k j \<longleftrightarrow> sj_used j \<and> sj_id j = k"

fun first_index :: "('a \<Rightarrow> bool) \<Rightarrow> 'a list \<Rightarrow> nat option" where
  "first_index P [] = None"
| "first_index P (x # xs) = (if P x then Some 0 else map_option Suc (first_index P xs))"

definition fc_find_job :: "string option \<Rightarrow> jobs \<Rightarrow> nat option" where
  "fc_find_job jid js = (case jid of None \<Rightarrow> None | Some k \<Rightarrow> first_index (job_has_id k) js)"

definition fresh_job :: fc_schedule where
  "fresh_job = zero_job\<lparr>sj_used := True, sj_enabled := True, sj_last_minute_key := -1\<rparr>"

definition fc_alloc_job :: "string option \<Rightarrow> jobs \<Rightarrow> (nat \<times> jobs) option" where
  "fc_alloc_job jid js =
     (case fc_find_job jid js of
        Some i \<Rightarrow> Some (i, js)
      | None \<Rightarrow>
          (case first_index (\<lambda>j. \<not> sj_used j) js of
             Some i \<Rightarrow> Some (i, js[i := fresh_job])
           | None \<Rightarrow> None))"

text \<open>\<open>now\<close> is the value of \<^verbatim>\<open>fc_time_ms()\<close>.\<close>

definition fc_schedule_next_interval :: "int \<Rightarrow> fc_schedule \<Rightarrow> fc_schedule" where
  "fc_schedule_next_interval now j = j\<lparr>sj_next_ms := now + uint (sj_every_sec j) * 1000\<rparr>"

definition fc_schedule_set_context :: "int \<Rightarrow> fc_tool_context option \<Rightarrow> fc_schedule \<Rightarrow> fc_schedule" where
  "fc_schedule_set_context now ctx j =
     (let j1 = (case ctx of
                  Some c \<Rightarrow>
                    j\<lparr>sj_channel := cpy FC_CHANNEL_LEN (if tc_channel c \<noteq> [] then tc_channel c else ''internal''),
                      sj_chat_id := cpy FC_CHAT_ID_LEN (tc_chat_id c),
                      sj_session_id := cpy FC_SESSION_ID_LEN
                        (if tc_session_id c \<noteq> [] then tc_session_id c else sj_id j),
                      sj_owner_mode := tc_owner_mode c\<rparr>
                | None \<Rightarrow>
                    j\<lparr>sj_channel := cpy FC_CHANNEL_LEN ''internal'', sj_chat_id := [],
                      sj_session_id := snprintf_buf FC_SESSION_ID_LEN (''schedule:'' @ sj_id j),
                      sj_owner_mode := False\<rparr>)
      in if sj_created_ms j1 = 0 then j1\<lparr>sj_created_ms := now\<rparr> else j1)"

section \<open>Persistence\<close>

definition fc_schedules_path :: "string \<Rightarrow> nat option \<Rightarrow> ret \<times> string option" where
  "fc_schedules_path dir out = fc_data_path dir (Some ''schedules.json'') out"

definition job_to_json :: "'j cjson \<Rightarrow> 'j \<Rightarrow> fc_schedule \<Rightarrow> 'j" where
  "job_to_json cj obj j =
     (let o1 = cj_add_string cj obj ''id'' (sj_id j);
          o2 = cj_add_bool cj o1 ''enabled'' (sj_enabled j);
          o3 = cj_add_string cj o2 ''prompt'' (sj_prompt j);
          o4 = cj_add_string cj o3 ''channel'' (sj_channel j);
          o5 = cj_add_string cj o4 ''chat_id'' (sj_chat_id j);
          o6 = cj_add_string cj o5 ''session_id'' (sj_session_id j);
          o7 = cj_add_bool cj o6 ''owner_mode'' (sj_owner_mode j);
          o8 = cj_add_number cj o7 ''created_ms'' (sj_created_ms j)
      in case sj_type j of
           FC_SCHED_INTERVAL \<Rightarrow>
             cj_add_number cj (cj_add_string cj o8 ''type'' ''interval'') ''every_sec'' (uint (sj_every_sec j))
         | FC_SCHED_ONCE \<Rightarrow>
             cj_add_number cj (cj_add_string cj o8 ''type'' ''once'') ''at_epoch'' (sj_at_epoch j)
         | FC_SCHED_CRON \<Rightarrow>
             cj_add_string cj (cj_add_string cj o8 ''type'' ''cron'') ''expr'' (sj_expr j)
         | FC_SCHED_BOOT \<Rightarrow> cj_add_string cj o8 ''type'' ''boot'')"

fun jobs_to_json :: "'j cjson \<Rightarrow> nat \<Rightarrow> jobs \<Rightarrow> 'j \<Rightarrow> 'j" where
  "jobs_to_json cj i [] arr = arr"
| "jobs_to_json cj i (j # js) arr =
     (if \<not> sj_used j then jobs_to_json cj (Suc i) js arr
      else case cj_object cj i of
             None \<Rightarrow> jobs_to_json cj (Suc i) js arr
           | Some obj \<Rightarrow> jobs_to_json cj (Suc i) js (cj_add_item cj arr (job_to_json cj obj j)))"

definition fc_scheduler_save ::
    "'j cjson \<Rightarrow> string \<Rightarrow> lock_env \<Rightarrow> jobs \<Rightarrow> posix_fs \<Rightarrow> ret \<times> posix_fs" where
  "fc_scheduler_save cj dir lk js fs =
     (case fc_schedules_path dir (Some FC_PATH_LEN) of
        (Err e, _) \<Rightarrow> (Err e, fs)
      | (OK, path) \<Rightarrow>
          (case cj_array cj of
             None \<Rightarrow> (Err ENOMEM, fs)
           | Some arr \<Rightarrow>
               (case fc_scheduler_lock_timed lk of
                  Err e \<Rightarrow> (Err e, fs)
                | OK \<Rightarrow>
                    (case cj_print cj (jobs_to_json cj 0 js arr) of
                       None \<Rightarrow> (Err ENOMEM, fs)
                     | Some printed \<Rightarrow> fc_write_text_file_atomic path (Some printed) fs))))"

text \<open>The body of the loop over the array; \<open>now\<close> is \<^verbatim>\<open>fc_time_ms()\<close> for an interval.\<close>

definition item_job :: "'j cjson \<Rightarrow> int \<Rightarrow> 'j \<Rightarrow> string \<Rightarrow> string \<Rightarrow> string \<Rightarrow> fc_schedule \<Rightarrow> fc_schedule" where
  "item_job cj now item jid type prompt j =
     (let str = (\<lambda>k. cj_string cj (cj_get cj item k));
          j1 = j\<lparr>sj_id := cpy 48 jid,
                 sj_prompt := cpy CONFIG_FRUITCLAW_MAX_EVENT_TEXT prompt,
                 sj_channel := cpy FC_CHANNEL_LEN (case str ''channel'' of Some c \<Rightarrow> c | None \<Rightarrow> ''internal''),
                 sj_chat_id := cpy FC_CHAT_ID_LEN (case str ''chat_id'' of Some c \<Rightarrow> c | None \<Rightarrow> []),
                 sj_session_id := (case str ''session_id'' of
                                     Some c \<Rightarrow> cpy FC_SESSION_ID_LEN c
                                   | None \<Rightarrow> snprintf_buf FC_SESSION_ID_LEN (''schedule:'' @ jid)),
                 sj_enabled := (case cj_get cj item ''enabled'' of None \<Rightarrow> True | Some b \<Rightarrow> cj_is_true cj b),
                 sj_owner_mode := (case cj_get cj item ''owner_mode'' of None \<Rightarrow> False | Some b \<Rightarrow> cj_is_true cj b),
                 sj_created_ms := (case cj_int cj (cj_get cj item ''created_ms'') of Some n \<Rightarrow> n | None \<Rightarrow> 0)\<rparr>
      in if type = ''interval''
         then fc_schedule_next_interval now
                (j1\<lparr>sj_type := FC_SCHED_INTERVAL,
                    sj_every_sec := (case cj_int cj (cj_get cj item ''every_sec'') of
                                       Some n \<Rightarrow> word_of_int n | None \<Rightarrow> 0)\<rparr>)
         else if type = ''once''
         then j1\<lparr>sj_type := FC_SCHED_ONCE,
                 sj_at_epoch := (case cj_int cj (cj_get cj item ''at_epoch'') of Some n \<Rightarrow> n | None \<Rightarrow> 0)\<rparr>
         else if type = ''cron''
         then j1\<lparr>sj_type := FC_SCHED_CRON,
                 sj_expr := cpy 48 (case str ''expr'' of Some e \<Rightarrow> e | None \<Rightarrow> ''* * * * *''),
                 sj_last_minute_key := -1\<rparr>
         else if type = ''boot'' then j1\<lparr>sj_type := FC_SCHED_BOOT\<rparr>
         else zero_job)"

definition load_item :: "'j cjson \<Rightarrow> int \<Rightarrow> 'j \<Rightarrow> jobs \<Rightarrow> jobs" where
  "load_item cj now item js =
     (let str = (\<lambda>k. cj_string cj (cj_get cj item k))
      in case (str ''id'', str ''type'', str ''prompt'') of
           (Some jid, Some type, Some prompt) \<Rightarrow>
             (case fc_alloc_job (Some jid) js of
                None \<Rightarrow> js
              | Some (i, js') \<Rightarrow> js'[i := item_job cj now item jid type prompt (js' ! i)])
         | _ \<Rightarrow> js)"

fun load_items :: "'j cjson \<Rightarrow> (nat \<Rightarrow> int) \<Rightarrow> nat \<Rightarrow> 'j list \<Rightarrow> jobs \<Rightarrow> jobs" where
  "load_items cj clk n [] js = js"
| "load_items cj clk n (item # items) js = load_items cj clk (Suc n) items (load_item cj (clk n) item js)"

text \<open>\<open>clk n\<close> is the value of \<^verbatim>\<open>fc_time_ms()\<close> while the \<open>n\<close>-th item is loaded.\<close>

definition fc_scheduler_load ::
    "'j cjson \<Rightarrow> string \<Rightarrow> bool \<Rightarrow> (nat \<Rightarrow> int) \<Rightarrow> jobs \<Rightarrow> posix_fs \<Rightarrow> (ret \<times> jobs) \<times> posix_fs" where
  "fc_scheduler_load cj dir calloc_ok clk js fs =
     (case fc_schedules_path dir (Some FC_PATH_LEN) of
        (Err e, _) \<Rightarrow> ((Err e, js), fs)
      | (OK, path) \<Rightarrow>
          if \<not> calloc_ok then ((Err ENOMEM, js), fs)
          else (case fc_read_text_file path (Some CONFIG_FRUITCLAW_MAX_JSON) False fs of
                  ((Err e, _), fs1) \<Rightarrow> ((if e = ENOENT then OK else Err e, js), fs1)
                | ((OK, buf), fs1) \<Rightarrow>
                    (case cj_parse cj (the buf) of
                       None \<Rightarrow> ((Err EINVAL, js), fs1)
                     | Some root \<Rightarrow> ((OK, load_items cj clk 0 (cj_items cj root) zero_jobs), fs1))))"

section \<open>Adding, removing and listing\<close>

text \<open>
  The part the four functions share: take the lock, find or allocate the slot, fill it in with the
  given function, release the lock and save the table.
\<close>

definition sched_add ::
    "'j cjson \<Rightarrow> string \<Rightarrow> lock_env \<Rightarrow> lock_env \<Rightarrow> string \<Rightarrow> (fc_schedule \<Rightarrow> fc_schedule) \<Rightarrow> jobs \<Rightarrow> posix_fs
       \<Rightarrow> ret \<times> jobs \<times> posix_fs" where
  "sched_add cj dir lk lk' k fill js fs =
     (case fc_scheduler_lock_timed lk of
        Err e \<Rightarrow> (Err e, js, fs)
      | OK \<Rightarrow>
          (case fc_alloc_job (Some k) js of
             None \<Rightarrow> (Err ENOSPC, js, fs)
           | Some (i, js1) \<Rightarrow>
               (let js2 = js1[i := fill (js1 ! i)]
                in case fc_scheduler_save cj dir lk' js2 fs of (r, fs') \<Rightarrow> (r, js2, fs'))))"

text \<open>The two clock readings are those of the context and of the first interval.\<close>

definition fill_interval :: "int \<Rightarrow> int \<Rightarrow> string \<Rightarrow> u32 \<Rightarrow> string \<Rightarrow> fc_tool_context option \<Rightarrow> fc_schedule \<Rightarrow> fc_schedule" where
  "fill_interval t1 t2 k seconds prompt ctx j =
     fc_schedule_next_interval t2 (fc_schedule_set_context t1 ctx
       (j\<lparr>sj_id := cpy 48 k, sj_prompt := cpy CONFIG_FRUITCLAW_MAX_EVENT_TEXT prompt,
          sj_type := FC_SCHED_INTERVAL, sj_every_sec := seconds, sj_enabled := True\<rparr>))"

definition fc_scheduler_add_interval_ctx ::
    "'j cjson \<Rightarrow> string \<Rightarrow> lock_env \<Rightarrow> lock_env \<Rightarrow> int \<Rightarrow> int \<Rightarrow> string option \<Rightarrow> u32 \<Rightarrow> string option
       \<Rightarrow> fc_tool_context option \<Rightarrow> jobs \<Rightarrow> posix_fs \<Rightarrow> ret \<times> jobs \<times> posix_fs" where
  "fc_scheduler_add_interval_ctx cj dir lk lk' t1 t2 jid seconds prompt ctx js fs =
     (case (jid, prompt) of
        (Some k, Some p) \<Rightarrow>
          if seconds = 0 then (Err EINVAL, js, fs)
          else sched_add cj dir lk lk' k (fill_interval t1 t2 k seconds p ctx) js fs
      | _ \<Rightarrow> (Err EINVAL, js, fs))"

definition fc_scheduler_add_interval where
  "fc_scheduler_add_interval cj dir lk lk' t1 t2 jid seconds prompt js fs =
     fc_scheduler_add_interval_ctx cj dir lk lk' t1 t2 jid seconds prompt None js fs"

definition fill_cron :: "int \<Rightarrow> string \<Rightarrow> string \<Rightarrow> string \<Rightarrow> fc_tool_context option \<Rightarrow> fc_schedule \<Rightarrow> fc_schedule" where
  "fill_cron t1 k expr prompt ctx j =
     fc_schedule_set_context t1 ctx
       (j\<lparr>sj_id := cpy 48 k, sj_expr := cpy 48 expr, sj_prompt := cpy CONFIG_FRUITCLAW_MAX_EVENT_TEXT prompt,
          sj_type := FC_SCHED_CRON, sj_enabled := True, sj_last_minute_key := -1\<rparr>)"

definition fc_scheduler_add_cron_ctx ::
    "'j cjson \<Rightarrow> string \<Rightarrow> lock_env \<Rightarrow> lock_env \<Rightarrow> int \<Rightarrow> string option \<Rightarrow> string option \<Rightarrow> string option
       \<Rightarrow> fc_tool_context option \<Rightarrow> jobs \<Rightarrow> posix_fs \<Rightarrow> ret \<times> jobs \<times> posix_fs" where
  "fc_scheduler_add_cron_ctx cj dir lk lk' t1 jid expr prompt ctx js fs =
     (case (jid, expr, prompt) of
        (Some k, Some e, Some p) \<Rightarrow> sched_add cj dir lk lk' k (fill_cron t1 k e p ctx) js fs
      | _ \<Rightarrow> (Err EINVAL, js, fs))"

definition fc_scheduler_add_cron where
  "fc_scheduler_add_cron cj dir lk lk' t1 jid expr prompt js fs =
     fc_scheduler_add_cron_ctx cj dir lk lk' t1 jid expr prompt None js fs"

definition fill_once :: "int \<Rightarrow> string \<Rightarrow> int \<Rightarrow> string \<Rightarrow> fc_tool_context option \<Rightarrow> fc_schedule \<Rightarrow> fc_schedule" where
  "fill_once t1 k epoch prompt ctx j =
     fc_schedule_set_context t1 ctx
       (j\<lparr>sj_id := cpy 48 k, sj_prompt := cpy CONFIG_FRUITCLAW_MAX_EVENT_TEXT prompt,
          sj_type := FC_SCHED_ONCE, sj_at_epoch := epoch, sj_enabled := True\<rparr>)"

definition fc_scheduler_add_once_ctx ::
    "'j cjson \<Rightarrow> string \<Rightarrow> lock_env \<Rightarrow> lock_env \<Rightarrow> int \<Rightarrow> string option \<Rightarrow> int \<Rightarrow> string option
       \<Rightarrow> fc_tool_context option \<Rightarrow> jobs \<Rightarrow> posix_fs \<Rightarrow> ret \<times> jobs \<times> posix_fs" where
  "fc_scheduler_add_once_ctx cj dir lk lk' t1 jid epoch prompt ctx js fs =
     (case (jid, prompt) of
        (Some k, Some p) \<Rightarrow>
          if epoch \<le> 0 then (Err EINVAL, js, fs)
          else sched_add cj dir lk lk' k (fill_once t1 k epoch p ctx) js fs
      | _ \<Rightarrow> (Err EINVAL, js, fs))"

definition fc_scheduler_add_once where
  "fc_scheduler_add_once cj dir lk lk' t1 jid epoch prompt js fs =
     fc_scheduler_add_once_ctx cj dir lk lk' t1 jid epoch prompt None js fs"

definition fill_boot :: "int \<Rightarrow> string \<Rightarrow> string \<Rightarrow> fc_tool_context option \<Rightarrow> fc_schedule \<Rightarrow> fc_schedule" where
  "fill_boot t1 k prompt ctx j =
     fc_schedule_set_context t1 ctx
       (j\<lparr>sj_id := cpy 48 k, sj_prompt := cpy CONFIG_FRUITCLAW_MAX_EVENT_TEXT prompt,
          sj_type := FC_SCHED_BOOT, sj_enabled := True, sj_last_minute_key := -1\<rparr>)"

definition fc_scheduler_add_boot_ctx ::
    "'j cjson \<Rightarrow> string \<Rightarrow> lock_env \<Rightarrow> lock_env \<Rightarrow> int \<Rightarrow> string option \<Rightarrow> string option
       \<Rightarrow> fc_tool_context option \<Rightarrow> jobs \<Rightarrow> posix_fs \<Rightarrow> ret \<times> jobs \<times> posix_fs" where
  "fc_scheduler_add_boot_ctx cj dir lk lk' t1 jid prompt ctx js fs =
     (case (jid, prompt) of
        (Some k, Some p) \<Rightarrow> sched_add cj dir lk lk' k (fill_boot t1 k p ctx) js fs
      | _ \<Rightarrow> (Err EINVAL, js, fs))"

definition fc_scheduler_add_boot where
  "fc_scheduler_add_boot cj dir lk lk' t1 jid prompt js fs =
     fc_scheduler_add_boot_ctx cj dir lk lk' t1 jid prompt None js fs"

definition fc_scheduler_remove ::
    "'j cjson \<Rightarrow> string \<Rightarrow> lock_env \<Rightarrow> lock_env \<Rightarrow> string option \<Rightarrow> jobs \<Rightarrow> posix_fs \<Rightarrow> ret \<times> jobs \<times> posix_fs" where
  "fc_scheduler_remove cj dir lk lk' jid js fs =
     (case fc_scheduler_lock_timed lk of
        Err e \<Rightarrow> (Err e, js, fs)
      | OK \<Rightarrow>
          (case fc_find_job jid js of
             None \<Rightarrow> (Err ENOENT, js, fs)
           | Some i \<Rightarrow>
               (let js' = js[i := zero_job]
                in case fc_scheduler_save cj dir lk' js' fs of (r, fs') \<Rightarrow> (r, js', fs'))))"

definition job_line :: "fc_schedule \<Rightarrow> string" where
  "job_line j =
     (let onoff = (if sj_enabled j then ''on'' else ''off'');
          rest = '' ch='' @ sj_channel j @ '' chat='' @ (if sj_chat_id j \<noteq> [] then sj_chat_id j else ''-'')
                 @ '' owner='' @ (if sj_owner_mode j then ''yes'' else ''no'') @ [LF]
      in onoff @ '' '' @ sj_id j @
         (case sj_type j of
            FC_SCHED_INTERVAL \<Rightarrow>
              '' interval every_sec='' @ dec_nat (unat (sj_every_sec j)) @ '' next_ms='' @ dec_int (sj_next_ms j)
          | FC_SCHED_ONCE \<Rightarrow> '' once at_epoch='' @ dec_int (sj_at_epoch j)
          | FC_SCHED_CRON \<Rightarrow> '' cron expr='' @ [DQ] @ sj_expr j @ [DQ]
          | FC_SCHED_BOOT \<Rightarrow> '' boot'') @ rest)"

text \<open>The loop; \<open>acc\<close> is what the buffer of \<open>n\<close> bytes holds, of length \<^verbatim>\<open>off\<close>.\<close>

fun list_loop :: "nat \<Rightarrow> jobs \<Rightarrow> string \<Rightarrow> ret \<times> string" where
  "list_loop n [] acc = (OK, acc)"
| "list_loop n (j # js) acc =
     (if \<not> sj_used j then list_loop n js acc
      else if length acc + length (job_line j) \<ge> n
           then (Err ENOSPC, acc @ snprintf_buf (n - length acc) (job_line j))
           else list_loop n js (acc @ job_line j))"

definition fc_scheduler_list :: "lock_env \<Rightarrow> nat option \<Rightarrow> jobs \<Rightarrow> ret \<times> string option" where
  "fc_scheduler_list lk out js =
     (case out of
        None \<Rightarrow> (Err EINVAL, None)
      | Some n \<Rightarrow>
          if n = 0 then (Err EINVAL, None)
          else (case fc_scheduler_lock_timed lk of
                  Err e \<Rightarrow> (Err e, Some [])
                | OK \<Rightarrow>
                    (case list_loop n js [] of
                       (Err e, s) \<Rightarrow> (Err e, Some s)
                     | (OK, s) \<Rightarrow> (OK, Some (if s = [] then cpy n (''No schedules.'' @ [LF]) else s)))))"

definition fc_scheduler_status_format ::
    "(ret \<Rightarrow> int) \<Rightarrow> lock_env \<Rightarrow> int \<Rightarrow> nat option \<Rightarrow> sched \<Rightarrow> ret \<times> string option" where
  "fc_scheduler_status_format code lk now out s =
     (case out of
        None \<Rightarrow> (Err EINVAL, None)
      | Some n \<Rightarrow>
          if n = 0 then (Err EINVAL, None)
          else (case fc_scheduler_lock_timed lk of
                  Err e \<Rightarrow> (Err e, None)
                | OK \<Rightarrow>
                    (let used = length (filter sj_used (g_jobs s));
                         enabled = length (filter (\<lambda>j. sj_used j \<and> sj_enabled j) (g_jobs s));
                         age = (\<lambda>t. if t > 0 then now - t else -1)
                     in (OK, Some (snprintf_buf n
                          (''scheduler_status: worker='' @ (if g_sched_started s then ''started'' else ''stopped'')
                           @ '' ticks='' @ dec_nat (unat (g_sched_tick_count s))
                           @ '' fired='' @ dec_nat (unat (g_sched_emit_count s))
                           @ '' failures='' @ dec_nat (unat (g_sched_emit_fail_count s))
                           @ '' last_ret='' @ dec_int (code (g_sched_last_ret s))
                           @ '' last_tick_age_ms='' @ dec_int (age (g_sched_last_tick_ms s))
                           @ '' last_fire_age_ms='' @ dec_int (age (g_sched_last_fire_ms s))
                           @ '' used='' @ dec_nat used @ '' enabled='' @ dec_nat enabled
                           @ '' last_job='' @ cpy 48 (if g_sched_last_job s \<noteq> [] then g_sched_last_job s else ''-'')))))))"

section \<open>The contract of a keyed store\<close>

text \<open>
  A store of bounded size that holds at most one value per key.  Inserting transforms the value
  present under the key, or a fresh one; it is refused only for a new key in a full store.
\<close>

datatype ('k, 'v) store_op = Ins 'k "'v \<Rightarrow> 'v" | Del 'k

fun map_op :: "nat \<Rightarrow> 'v \<Rightarrow> ('k, 'v) store_op \<Rightarrow> ('k \<rightharpoonup> 'v) \<Rightarrow> ('k \<rightharpoonup> 'v)" where
  "map_op cap fresh (Ins k f) m =
     (if m k = None \<and> card (dom m) = cap then m
      else m(k \<mapsto> f (case m k of Some v \<Rightarrow> v | None \<Rightarrow> fresh)))"
| "map_op cap fresh (Del k) m = m(k := None)"

definition map_run :: "nat \<Rightarrow> 'v \<Rightarrow> ('k, 'v) store_op list \<Rightarrow> ('k \<rightharpoonup> 'v) \<Rightarrow> ('k \<rightharpoonup> 'v)" where
  "map_run cap fresh ops m = fold (map_op cap fresh) ops m"

fun store_step ::
    "('k \<Rightarrow> ('v \<Rightarrow> 'v) \<Rightarrow> 't \<Rightarrow> 't option) \<Rightarrow> ('k \<Rightarrow> 't \<Rightarrow> 't option) \<Rightarrow> ('k, 'v) store_op \<Rightarrow> 't \<Rightarrow> 't" where
  "store_step ins del (Ins k f) t = (case ins k f t of Some t' \<Rightarrow> t' | None \<Rightarrow> t)"
| "store_step ins del (Del k) t = (case del k t of Some t' \<Rightarrow> t' | None \<Rightarrow> t)"

locale keyed_store =
  fixes find :: "'t \<Rightarrow> 'k \<Rightarrow> 'v option"
    and ins :: "'k \<Rightarrow> ('v \<Rightarrow> 'v) \<Rightarrow> 't \<Rightarrow> 't option"
    and del :: "'k \<Rightarrow> 't \<Rightarrow> 't option"
    and cap :: nat
    and fresh :: 'v
    and valid :: "'k \<Rightarrow> ('v \<Rightarrow> 'v) \<Rightarrow> bool"
    and inv :: "'t \<Rightarrow> bool"
  assumes ins_law: "inv t \<Longrightarrow> valid k f \<Longrightarrow> ins k f t = Some t' \<Longrightarrow>
             inv t' \<and> find t' = (find t)(k \<mapsto> f (case find t k of Some v \<Rightarrow> v | None \<Rightarrow> fresh))"
    and ins_full: "inv t \<Longrightarrow> ins k f t = None \<longleftrightarrow> find t k = None \<and> card (dom (find t)) = cap"
    and del_law: "inv t \<Longrightarrow> del k t = Some t' \<Longrightarrow> inv t' \<and> find t' = (find t)(k := None)"
    and del_none: "inv t \<Longrightarrow> del k t = None \<longleftrightarrow> find t k = None"
begin

definition op_valid :: "('k, 'v) store_op \<Rightarrow> bool" where
  "op_valid op = (case op of Ins k f \<Rightarrow> valid k f | Del k \<Rightarrow> True)"

lemma op_refines:
  assumes "inv t" "op_valid op"
  shows "inv (store_step ins del op t) \<and> find (store_step ins del op t) = map_op cap fresh op (find t)"
proof (cases op)
  case (Ins k f)
  then have v: "valid k f" using assms(2) by (simp add: op_valid_def)
  show ?thesis
    using Ins ins_law [OF assms(1) v] ins_full [OF assms(1), of k f] assms(1)
    by (cases "ins k f t") auto
next
  case (Del k)
  then show ?thesis
    using del_law [OF assms(1), of k] del_none [OF assms(1), of k] assms(1)
    by (cases "del k t") (auto simp: fun_eq_iff)
qed

lemma run_refines:
  "inv t \<Longrightarrow> list_all op_valid ops \<Longrightarrow>
     inv (fold (store_step ins del) ops t) \<and> find (fold (store_step ins del) ops t) = map_run cap fresh ops (find t)"
  by (induction ops arbitrary: t) (simp_all add: map_run_def op_refines)

end

section \<open>The job table implements the contract\<close>

definition jobs_wf :: "jobs \<Rightarrow> bool" where
  "jobs_wf js \<longleftrightarrow> length js = FC_MAX_SCHEDULES
     \<and> (\<forall>i<length js. \<forall>k<length js. sj_used (js ! i) \<and> sj_used (js ! k) \<and> sj_id (js ! i) = sj_id (js ! k) \<longrightarrow> i = k)
     \<and> (\<forall>j\<in>set js. sj_used j \<longrightarrow> length (sj_id j) < 48)"

definition jobs_map :: "jobs \<Rightarrow> string \<rightharpoonup> fc_schedule" where
  "jobs_map js k = map_option (\<lambda>i. js ! i) (fc_find_job (Some k) js)"

definition jobs_ins :: "string \<Rightarrow> (fc_schedule \<Rightarrow> fc_schedule) \<Rightarrow> jobs \<Rightarrow> jobs option" where
  "jobs_ins k f js = map_option (\<lambda>(i, js'). js'[i := f (js' ! i)]) (fc_alloc_job (Some k) js)"

definition jobs_del :: "string \<Rightarrow> jobs \<Rightarrow> jobs option" where
  "jobs_del k js = map_option (\<lambda>i. js[i := zero_job]) (fc_find_job (Some k) js)"

definition fill_ok :: "string \<Rightarrow> (fc_schedule \<Rightarrow> fc_schedule) \<Rightarrow> bool" where
  "fill_ok k f \<longleftrightarrow> length k < 48 \<and> (\<forall>j. sj_used (f j) = sj_used j \<and> sj_id (f j) = k)"

lemma first_index_Some:
  "first_index P xs = Some i \<Longrightarrow> i < length xs \<and> P (xs ! i) \<and> (\<forall>k<i. \<not> P (xs ! k))"
  by (induction xs arbitrary: i) (auto split: if_splits simp: less_Suc_eq_0_disj)

lemma first_index_None: "first_index P xs = None \<longleftrightarrow> (\<forall>i<length xs. \<not> P (xs ! i))"
  by (induction xs) (auto simp: less_Suc_eq_0_disj)

lemma first_index_unique:
  assumes "i < length xs" "P (xs ! i)" "\<forall>k<length xs. P (xs ! k) \<longrightarrow> k = i"
  shows "first_index P xs = Some i"
proof (cases "first_index P xs")
  case None
  then show ?thesis using assms(1,2) by (simp add: first_index_None)
next
  case (Some k)
  then show ?thesis using assms(3) first_index_Some [OF Some] by simp
qed

lemma jobs_wf_unique:
  assumes "jobs_wf js" "i < length js" "k < length js" "job_has_id x (js ! i)" "job_has_id x (js ! k)"
  shows "i = k"
  using assms by (auto simp: jobs_wf_def job_has_id_def)

lemma jobs_wfI:
  assumes "length js = FC_MAX_SCHEDULES"
    and "\<And>i k x. i < length js \<Longrightarrow> k < length js \<Longrightarrow> job_has_id x (js ! i) \<Longrightarrow> job_has_id x (js ! k) \<Longrightarrow> i = k"
    and "\<And>i x. i < length js \<Longrightarrow> job_has_id x (js ! i) \<Longrightarrow> length x < 48"
  shows "jobs_wf js"
  using assms by (auto simp: jobs_wf_def job_has_id_def in_set_conv_nth)

lemma jobs_map_eq:
  assumes "jobs_wf js" "i < length js" "job_has_id k (js ! i)"
  shows "jobs_map js k = Some (js ! i)"
proof -
  have "\<forall>m<length js. job_has_id k (js ! m) \<longrightarrow> m = i"
    using jobs_wf_unique [OF assms(1) _ assms(2) _ assms(3)] by blast
  then have "first_index (job_has_id k) js = Some i"
    using first_index_unique [of i js "job_has_id k"] assms(2,3) by blast
  then show ?thesis by (simp add: jobs_map_def fc_find_job_def)
qed

lemma jobs_map_None: "jobs_map js k = None \<longleftrightarrow> (\<forall>i<length js. \<not> job_has_id k (js ! i))"
  by (simp add: jobs_map_def fc_find_job_def first_index_None)

lemma dom_jobs_map: "dom (jobs_map js) = (\<lambda>i. sj_id (js ! i)) ` {i. i < length js \<and> sj_used (js ! i)}"
  using jobs_map_None [of js] by (auto simp: dom_def job_has_id_def)

lemma card_jobs_map:
  assumes "jobs_wf js"
  shows "card (dom (jobs_map js)) = length (filter sj_used js)"
proof -
  have "inj_on (\<lambda>i. sj_id (js ! i)) {i. i < length js \<and> sj_used (js ! i)}"
    using assms by (auto simp: inj_on_def jobs_wf_def)
  then show ?thesis by (simp add: dom_jobs_map card_image length_filter_conv_card)
qed

text \<open>Replacing the content of one slot, by a job with the key of the slot or a new key.\<close>

lemma jobs_update:
  assumes wf: "jobs_wf js" and i: "i < length js" and j: "job_has_id k j" "length k < 48"
    and free: "\<forall>x. job_has_id x (js ! i) \<longrightarrow> x = k" "\<forall>m<length js. m \<noteq> i \<longrightarrow> \<not> job_has_id k (js ! m)"
  shows "jobs_wf (js[i := j]) \<and> jobs_map (js[i := j]) = (jobs_map js)(k \<mapsto> j)"
proof
  show w: "jobs_wf (js[i := j])"
  proof (rule jobs_wfI)
    fix a b x
    assume "a < length (js[i := j])" "b < length (js[i := j])"
      "job_has_id x (js[i := j] ! a)" "job_has_id x (js[i := j] ! b)"
    then show "a = b" using jobs_wf_unique [OF wf, of a b x] free(2) j(1)
      by (cases "a = i"; cases "b = i") (auto simp: job_has_id_def)
  next
    fix a x
    assume "a < length (js[i := j])" "job_has_id x (js[i := j] ! a)"
    then show "length x < 48" using wf j
      by (cases "a = i") (auto simp: jobs_wf_def job_has_id_def)
  qed (use wf in \<open>simp add: jobs_wf_def\<close>)
  show "jobs_map (js[i := j]) = (jobs_map js)(k \<mapsto> j)"
  proof
    fix x
    show "jobs_map (js[i := j]) x = ((jobs_map js)(k \<mapsto> j)) x"
    proof (cases "x = k")
      case True
      then show ?thesis using jobs_map_eq [OF w, of i k] i j by simp
    next
      case False
      show ?thesis
      proof (cases "jobs_map js x")
        case None
        then have "jobs_map (js[i := j]) x = None" using False j(1)
          unfolding jobs_map_None
          by (metis job_has_id_def length_list_update nth_list_update_eq nth_list_update_neq)
        then show ?thesis using False None by simp
      next
        case (Some v)
        then obtain m where m: "m < length js" "job_has_id x (js ! m)" "v = js ! m"
          by (auto simp: jobs_map_def fc_find_job_def dest: first_index_Some)
        then have "m \<noteq> i" using free(1) False by auto
        then show ?thesis using jobs_map_eq [OF w, of m x] m False Some by simp
      qed
    qed
  qed
qed

lemma jobs_delete:
  assumes wf: "jobs_wf js" and i: "i < length js" "job_has_id k (js ! i)"
  shows "jobs_wf (js[i := zero_job]) \<and> jobs_map (js[i := zero_job]) = (jobs_map js)(k := None)"
proof
  have z: "\<not> job_has_id x zero_job" for x by (simp add: job_has_id_def zero_job_def)
  show w: "jobs_wf (js[i := zero_job])"
  proof (rule jobs_wfI)
    fix a b x
    assume "a < length (js[i := zero_job])" "b < length (js[i := zero_job])"
      "job_has_id x (js[i := zero_job] ! a)" "job_has_id x (js[i := zero_job] ! b)"
    then show "a = b" using jobs_wf_unique [OF wf, of a b x] z
      by (cases "a = i"; cases "b = i") auto
  next
    fix a x
    assume "a < length (js[i := zero_job])" "job_has_id x (js[i := zero_job] ! a)"
    then show "length x < 48" using wf z by (cases "a = i") (auto simp: jobs_wf_def job_has_id_def)
  qed (use wf in \<open>simp add: jobs_wf_def\<close>)
  show "jobs_map (js[i := zero_job]) = (jobs_map js)(k := None)"
  proof
    fix x
    show "jobs_map (js[i := zero_job]) x = ((jobs_map js)(k := None)) x"
    proof (cases "x \<noteq> k \<and> jobs_map js x \<noteq> None")
      case True
      then obtain m where m: "m < length js" "job_has_id x (js ! m)" by (auto simp: jobs_map_None)
      then have "m \<noteq> i" using i(2) True by (auto simp: job_has_id_def)
      then show ?thesis using jobs_map_eq [OF w, of m x] jobs_map_eq [OF wf, of m x] m True by simp
    next
      case False
      have "\<not> job_has_id x (js[i := zero_job] ! m)" if "m < length js" for m
        using that z False jobs_wf_unique [OF wf, of m i k] i jobs_map_None [of js x]
        by (cases "m = i") auto
      then have "jobs_map (js[i := zero_job]) x = None" by (simp add: jobs_map_None)
      then show ?thesis using False by auto
    qed
  qed
qed

lemma jobs_ins_found:
  assumes "fc_find_job (Some k) js = Some i"
  shows "jobs_ins k f js = Some (js[i := f (js ! i)])"
  using assms by (simp add: jobs_ins_def fc_alloc_job_def)

lemma jobs_ins_fresh:
  assumes "fc_find_job (Some k) js = None" "first_index (\<lambda>j. \<not> sj_used j) js = Some i"
  shows "jobs_ins k f js = Some (js[i := f fresh_job])"
  using assms first_index_Some [OF assms(2)] by (simp add: jobs_ins_def fc_alloc_job_def)

lemma jobs_ins_law:
  assumes wf: "jobs_wf js" and f: "fill_ok k f" and js': "jobs_ins k f js = Some js'"
  shows "jobs_wf js' \<and> jobs_map js' = (jobs_map js)(k \<mapsto> f (case jobs_map js k of Some v \<Rightarrow> v | None \<Rightarrow> fresh_job))"
proof (cases "fc_find_job (Some k) js")
  case (Some i)
  have i: "i < length js" "job_has_id k (js ! i)"
    using Some first_index_Some by (auto simp: fc_find_job_def)
  have "jobs_map js k = Some (js ! i)" using Some by (simp add: jobs_map_def)
  moreover have "js' = js[i := f (js ! i)]" using jobs_ins_found [OF Some] js' by simp
  moreover have "\<forall>m<length js. m \<noteq> i \<longrightarrow> \<not> job_has_id k (js ! m)"
    using jobs_wf_unique [OF wf _ i(1) _ i(2)] by blast
  then have "jobs_wf (js[i := f (js ! i)]) \<and> jobs_map (js[i := f (js ! i)]) = (jobs_map js)(k \<mapsto> f (js ! i))"
    using f i(2) by (intro jobs_update [OF wf i(1)]) (auto simp: fill_ok_def job_has_id_def)
  ultimately show ?thesis by simp
next
  case None
  then have n: "jobs_map js k = None" by (simp add: jobs_map_def)
  obtain i where fi: "first_index (\<lambda>j. \<not> sj_used j) js = Some i"
    using js' None by (auto simp: jobs_ins_def fc_alloc_job_def split: option.splits)
  have i: "i < length js" "\<not> sj_used (js ! i)" using first_index_Some [OF fi] by auto
  have "jobs_wf (js[i := f fresh_job]) \<and> jobs_map (js[i := f fresh_job]) = (jobs_map js)(k \<mapsto> f fresh_job)"
    using f i n
    by (intro jobs_update [OF wf i(1)]) (auto simp: fill_ok_def job_has_id_def fresh_job_def jobs_map_None)
  then show ?thesis using jobs_ins_fresh [OF None fi] js' n by simp
qed

lemma length_filter_all: "(\<forall>x\<in>set xs. P x) \<longleftrightarrow> length (filter P xs) = length xs"
  using length_filter_less [of _ xs P] by (metis filter_True less_irrefl)

lemma jobs_wf_length: "jobs_wf js \<Longrightarrow> length js = FC_MAX_SCHEDULES"
  by (simp add: jobs_wf_def)

interpretation jt: keyed_store jobs_map jobs_ins jobs_del FC_MAX_SCHEDULES fresh_job fill_ok jobs_wf
proof
  fix js k f
  assume wf: "jobs_wf js"
  have "first_index (\<lambda>j. \<not> sj_used j) js = None \<longleftrightarrow> length (filter sj_used js) = FC_MAX_SCHEDULES"
    unfolding first_index_None jobs_wf_length [OF wf, symmetric] length_filter_all [symmetric]
    by (simp add: all_set_conv_all_nth)
  then show "jobs_ins k f js = None \<longleftrightarrow> jobs_map js k = None \<and> card (dom (jobs_map js)) = FC_MAX_SCHEDULES"
    using card_jobs_map [OF wf]
    by (cases "fc_find_job (Some k) js"; cases "first_index (\<lambda>j. \<not> sj_used j) js")
       (simp_all add: jobs_ins_def fc_alloc_job_def jobs_map_def)
next
  fix js k js'
  assume "jobs_wf js" "jobs_del k js = Some js'"
  then show "jobs_wf js' \<and> jobs_map js' = (jobs_map js)(k := None)"
    using jobs_delete [of js _ k] first_index_Some [of "job_has_id k" js]
    unfolding jobs_del_def fc_find_job_def by (metis (no_types, lifting) map_option_eq_Some option.case(2))
next
  fix js k f js'
  assume "jobs_wf js" "fill_ok k f" "jobs_ins k f js = Some js'"
  then show "jobs_wf js' \<and> jobs_map js' = (jobs_map js)(k \<mapsto> f (case jobs_map js k of Some v \<Rightarrow> v | None \<Rightarrow> fresh_job))"
    by (rule jobs_ins_law)
qed (simp add: jobs_del_def jobs_map_def)

section \<open>Properties of the table\<close>

text \<open>The public calls, with the clock readings they make.\<close>

datatype sched_call =
    Interval string u32 string "fc_tool_context option" int int
  | Cron string string string "fc_tool_context option" int
  | Once string int string "fc_tool_context option" int
  | Boot string string "fc_tool_context option" int
  | Remove string

fun do_call ::
    "'j cjson \<Rightarrow> string \<Rightarrow> lock_env \<Rightarrow> lock_env \<Rightarrow> sched_call \<Rightarrow> jobs \<Rightarrow> posix_fs \<Rightarrow> ret \<times> jobs \<times> posix_fs" where
  "do_call cj dir lk lk' (Interval k n p ctx t1 t2) js fs =
     fc_scheduler_add_interval_ctx cj dir lk lk' t1 t2 (Some k) n (Some p) ctx js fs"
| "do_call cj dir lk lk' (Cron k e p ctx t1) js fs =
     fc_scheduler_add_cron_ctx cj dir lk lk' t1 (Some k) (Some e) (Some p) ctx js fs"
| "do_call cj dir lk lk' (Once k at p ctx t1) js fs =
     fc_scheduler_add_once_ctx cj dir lk lk' t1 (Some k) at (Some p) ctx js fs"
| "do_call cj dir lk lk' (Boot k p ctx t1) js fs =
     fc_scheduler_add_boot_ctx cj dir lk lk' t1 (Some k) (Some p) ctx js fs"
| "do_call cj dir lk lk' (Remove k) js fs = fc_scheduler_remove cj dir lk lk' (Some k) js fs"

text \<open>A sequence of calls, each with what its two lock attempts meet.\<close>

fun do_calls ::
    "'j cjson \<Rightarrow> string \<Rightarrow> (lock_env \<times> lock_env \<times> sched_call) list \<Rightarrow> jobs \<Rightarrow> posix_fs \<Rightarrow> jobs \<times> posix_fs" where
  "do_calls cj dir [] js fs = (js, fs)"
| "do_calls cj dir ((lk, lk', c) # cs) js fs =
     (case do_call cj dir lk lk' c js fs of (r, js', fs') \<Rightarrow> do_calls cj dir cs js' fs')"

text \<open>What a call asks of an abstract map: nothing when the lock is busy or an argument is out of range.\<close>

fun call_op :: "sched_call \<Rightarrow> (string, fc_schedule) store_op option" where
  "call_op (Interval k n p ctx t1 t2) = (if n = 0 then None else Some (Ins k (fill_interval t1 t2 k n p ctx)))"
| "call_op (Cron k e p ctx t1) = Some (Ins k (fill_cron t1 k e p ctx))"
| "call_op (Once k at p ctx t1) = (if at \<le> 0 then None else Some (Ins k (fill_once t1 k at p ctx)))"
| "call_op (Boot k p ctx t1) = Some (Ins k (fill_boot t1 k p ctx))"
| "call_op (Remove k) = Some (Del k)"

definition calls_ops :: "(lock_env \<times> lock_env \<times> sched_call) list \<Rightarrow> (string, fc_schedule) store_op list" where
  "calls_ops cs = List.map_filter (\<lambda>(lk, lk', c). if fc_scheduler_lock_timed lk = OK then call_op c else None) cs"

fun call_key :: "sched_call \<Rightarrow> string" where
  "call_key (Interval k n p ctx t1 t2) = k"
| "call_key (Cron k e p ctx t1) = k"
| "call_key (Once k at p ctx t1) = k"
| "call_key (Boot k p ctx t1) = k"
| "call_key (Remove k) = k"

lemma set_context_frame [simp]:
  "sj_used (fc_schedule_set_context t ctx j) = sj_used j" "sj_id (fc_schedule_set_context t ctx j) = sj_id j"
  by (auto simp: fc_schedule_set_context_def Let_def split: option.splits)

lemma fill_ok_intros [intro]:
  assumes "length k < 48"
  shows "fill_ok k (fill_interval t1 t2 k n p ctx)" "fill_ok k (fill_cron t1 k e p ctx)"
    "fill_ok k (fill_once t1 k at p ctx)" "fill_ok k (fill_boot t1 k p ctx)"
  using assms
  by (simp_all add: fill_ok_def fill_interval_def fill_cron_def fill_once_def fill_boot_def
      fc_schedule_next_interval_def cpy_id)

lemma sched_add_jobs:
  "fst (snd (sched_add cj dir lk lk' k f js fs)) =
     (if fc_scheduler_lock_timed lk = OK then store_step jobs_ins jobs_del (Ins k f) js else js)"
  by (auto simp: sched_add_def jobs_ins_def Let_def split: ret.splits option.splits prod.splits)

lemma sched_remove_jobs:
  "fst (snd (fc_scheduler_remove cj dir lk lk' (Some k) js fs)) =
     (if fc_scheduler_lock_timed lk = OK then store_step jobs_ins jobs_del (Del k) js else js)"
  by (auto simp: fc_scheduler_remove_def jobs_del_def Let_def split: ret.splits option.splits prod.splits)

lemma do_call_jobs:
  "fst (snd (do_call cj dir lk lk' c js fs)) =
     (case (if fc_scheduler_lock_timed lk = OK then call_op c else None) of
        None \<Rightarrow> js | Some op \<Rightarrow> store_step jobs_ins jobs_del op js)"
  by (cases c)
     (auto simp: fc_scheduler_add_interval_ctx_def fc_scheduler_add_cron_ctx_def fc_scheduler_add_once_ctx_def
       fc_scheduler_add_boot_ctx_def sched_add_jobs sched_remove_jobs simp del: store_step.simps)

lemma do_calls_jobs:
  "fst (do_calls cj dir cs js fs) = fold (store_step jobs_ins jobs_del) (calls_ops cs) js"
proof (induction cs arbitrary: js fs)
  case (Cons c cs)
  obtain lk lk' x where c: "c = (lk, lk', x)" by (cases c) auto
  obtain r js' fs' where d: "do_call cj dir lk lk' x js fs = (r, js', fs')" by (metis prod_cases3)
  show ?case
    using Cons.IH [of js' fs'] do_call_jobs [of cj dir lk lk' x js fs]
    by (auto simp: c d calls_ops_def List.map_filter_simps split: option.splits if_splits)
qed (simp add: calls_ops_def List.map_filter_simps)

lemma calls_ops_valid:
  "\<forall>(lk, lk', c)\<in>set cs. length (call_key c) < 48 \<Longrightarrow> list_all jt.op_valid (calls_ops cs)"
proof (induction cs)
  case (Cons c cs)
  obtain lk lk' x where c: "c = (lk, lk', x)" by (cases c) auto
  show ?case using Cons
    by (cases x) (auto simp: c calls_ops_def List.map_filter_simps jt.op_valid_def)
qed (simp add: calls_ops_def List.map_filter_simps)


lemma jobs_wf_zero: "jobs_wf zero_jobs"
  by (simp add: jobs_wf_def zero_jobs_def zero_job_def)



end
