(* ===== verification/FC_Sched_Persist.thy ===== *)
theory FC_Sched_Persist
  imports FC_Scheduler
begin

text \<open>
  Saving and reloading the job table: what the scheduler relies on in cJSON, and that a table read
  back after a restart holds the jobs that were saved.
\<close>

section \<open>What is relied on in cJSON\<close>

definition sched_keys :: "string list" where
  "sched_keys = [''id'', ''enabled'', ''prompt'', ''channel'', ''chat_id'', ''session_id'', ''owner_mode'',
     ''created_ms'', ''type'', ''every_sec'', ''at_epoch'', ''expr'']"

text \<open>
  New containers are empty, an added member is found under its key and leaves the others alone (the keys
  are lower case, so that the case-insensitive lookup does not matter), integers up to \<open>2 ^ 53\<close> survive the
  conversion to double, array items are kept in order, and printed text parses back.
\<close>

definition get_frame :: "'j cjson \<Rightarrow> ('j \<Rightarrow> string \<Rightarrow> 'j) \<Rightarrow> bool" where
  "get_frame cj add \<longleftrightarrow>
     (\<forall>ob. \<forall>k\<in>set sched_keys. \<forall>k'\<in>set sched_keys. k' \<noteq> k \<longrightarrow> cj_get cj (add ob k) k' = cj_get cj ob k')"

definition cjson_laws :: "'j cjson \<Rightarrow> bool" where
  "cjson_laws cj \<longleftrightarrow>
     (\<forall>i ob. cj_object cj i = Some ob \<longrightarrow> (\<forall>k\<in>set sched_keys. cj_get cj ob k = None))
     \<and> (\<forall>a. cj_array cj = Some a \<longrightarrow> cj_items cj a = [])
     \<and> (\<forall>a x. cj_items cj (cj_add_item cj a x) = cj_items cj a @ [x])
     \<and> (\<forall>v. get_frame cj (\<lambda>ob k. cj_add_string cj ob k v))
     \<and> (\<forall>v. get_frame cj (\<lambda>ob k. cj_add_bool cj ob k v))
     \<and> (\<forall>v. get_frame cj (\<lambda>ob k. cj_add_number cj ob k v))
     \<and> (\<forall>ob v. \<forall>k\<in>set sched_keys. cj_get cj ob k = None \<longrightarrow>
          cj_string cj (cj_get cj (cj_add_string cj ob k v) k) = Some v)
     \<and> (\<forall>ob v. \<forall>k\<in>set sched_keys. cj_get cj ob k = None \<longrightarrow>
          cj_get cj (cj_add_bool cj ob k v) k \<noteq> None \<and> cj_is_true cj (the (cj_get cj (cj_add_bool cj ob k v) k)) = v)
     \<and> (\<forall>ob v. \<forall>k\<in>set sched_keys. cj_get cj ob k = None \<and> \<bar>v\<bar> \<le> 2 ^ 53 \<longrightarrow>
          cj_int cj (cj_get cj (cj_add_number cj ob k v) k) = Some v)
     \<and> (\<forall>x s. cj_print cj x = Some s \<longrightarrow> cj_parse cj s = Some x \<and> NUL \<notin> set s)"

lemma cjson_get_other:
  assumes "cjson_laws cj" "k \<in> set sched_keys" "k' \<in> set sched_keys" "k' \<noteq> k"
  shows "cj_get cj (cj_add_string cj ob k v) k' = cj_get cj ob k'"
    "cj_get cj (cj_add_bool cj ob k b) k' = cj_get cj ob k'"
    "cj_get cj (cj_add_number cj ob k n) k' = cj_get cj ob k'"
  using assms by (simp_all add: cjson_laws_def get_frame_def)

lemma cjson_get_same:
  assumes "cjson_laws cj" "k \<in> set sched_keys" "cj_get cj ob k = None"
  shows "cj_string cj (cj_get cj (cj_add_string cj ob k v) k) = Some v"
    "cj_get cj (cj_add_bool cj ob k b) k \<noteq> None"
    "cj_is_true cj (the (cj_get cj (cj_add_bool cj ob k b) k)) = b"
    "\<bar>n\<bar> \<le> 2 ^ 53 \<Longrightarrow> cj_int cj (cj_get cj (cj_add_number cj ob k n) k) = Some n"
  using assms by (simp_all add: cjson_laws_def)

lemma cjson_containers:
  assumes "cjson_laws cj"
  shows "cj_object cj i = Some ob \<Longrightarrow> k \<in> set sched_keys \<Longrightarrow> cj_get cj ob k = None"
    "cj_array cj = Some a \<Longrightarrow> cj_items cj a = []"
    "cj_items cj (cj_add_item cj a x) = cj_items cj a @ [x]"
    "cj_print cj x = Some s \<Longrightarrow> cj_parse cj s = Some x" "cj_print cj x = Some s \<Longrightarrow> NUL \<notin> set s"
  using assms by (simp_all add: cjson_laws_def)

section \<open>An object describes a job\<close>

text \<open>Every field of the job fits its array and every number is exact as a double.\<close>

definition storable :: "fc_schedule \<Rightarrow> bool" where
  "storable j \<longleftrightarrow> length (sj_id j) < 48 \<and> length (sj_expr j) < 48
     \<and> length (sj_prompt j) < CONFIG_FRUITCLAW_MAX_EVENT_TEXT \<and> length (sj_channel j) < FC_CHANNEL_LEN
     \<and> length (sj_chat_id j) < FC_CHAT_ID_LEN \<and> length (sj_session_id j) < FC_SESSION_ID_LEN
     \<and> \<bar>sj_created_ms j\<bar> \<le> 2 ^ 53 \<and> \<bar>sj_at_epoch j\<bar> \<le> 2 ^ 53"

fun type_name :: "fc_schedule_type \<Rightarrow> string" where
  "type_name FC_SCHED_INTERVAL = ''interval''"
| "type_name FC_SCHED_ONCE = ''once''"
| "type_name FC_SCHED_CRON = ''cron''"
| "type_name FC_SCHED_BOOT = ''boot''"

definition describes :: "'j cjson \<Rightarrow> 'j \<Rightarrow> fc_schedule \<Rightarrow> bool" where
  "describes cj x j \<longleftrightarrow>
     (let str = (\<lambda>k. cj_string cj (cj_get cj x k))
      in str ''id'' = Some (sj_id j) \<and> str ''type'' = Some (type_name (sj_type j))
         \<and> str ''prompt'' = Some (sj_prompt j) \<and> str ''channel'' = Some (sj_channel j)
         \<and> str ''chat_id'' = Some (sj_chat_id j) \<and> str ''session_id'' = Some (sj_session_id j)
         \<and> cj_get cj x ''enabled'' \<noteq> None \<and> cj_is_true cj (the (cj_get cj x ''enabled'')) = sj_enabled j
         \<and> cj_get cj x ''owner_mode'' \<noteq> None \<and> cj_is_true cj (the (cj_get cj x ''owner_mode'')) = sj_owner_mode j
         \<and> cj_int cj (cj_get cj x ''created_ms'') = Some (sj_created_ms j)
         \<and> (sj_type j = FC_SCHED_INTERVAL \<longrightarrow> cj_int cj (cj_get cj x ''every_sec'') = Some (uint (sj_every_sec j)))
         \<and> (sj_type j = FC_SCHED_ONCE \<longrightarrow> cj_int cj (cj_get cj x ''at_epoch'') = Some (sj_at_epoch j))
         \<and> (sj_type j = FC_SCHED_CRON \<longrightarrow> str ''expr'' = Some (sj_expr j)))"

lemma uint_u32_double: "\<bar>uint (w :: u32)\<bar> \<le> 2 ^ 53"
  using unsigned_less [of w, where ?'a = int] unsigned_greater_eq [of w, where ?'a = int] by simp

lemma job_to_json_describes:
  assumes cj: "cjson_laws cj" and ob: "\<forall>k\<in>set sched_keys. cj_get cj ob k = None" and j: "storable j"
  shows "describes cj (job_to_json cj ob j) j"
proof -
  note other = cjson_get_other [OF cj]
  note same = cjson_get_same [OF cj]
  have keys: "set sched_keys = {''id'', ''enabled'', ''prompt'', ''channel'', ''chat_id'', ''session_id'', ''owner_mode'',
     ''created_ms'', ''type'', ''every_sec'', ''at_epoch'', ''expr''}" by (simp add: sched_keys_def)
  show ?thesis
    using ob j uint_u32_double [of "sj_every_sec j"]
    unfolding describes_def job_to_json_def Let_def storable_def keys
    by (cases "sj_type j") (simp_all add: other same keys)
qed

lemma jobs_to_json_items:
  assumes cj: "cjson_laws cj" and mem: "\<forall>i. cj_object cj i \<noteq> None"
  shows "\<forall>j\<in>set js. sj_used j \<longrightarrow> storable j \<Longrightarrow>
     \<exists>xs. cj_items cj (jobs_to_json cj i js arr) = cj_items cj arr @ xs
          \<and> list_all2 (describes cj) xs (filter sj_used js)"
proof (induction js arbitrary: i arr)
  case (Cons j js)
  show ?case
  proof (cases "sj_used j")
    case True
    obtain ob where ob: "cj_object cj i = Some ob" using mem by auto
    let ?x = "job_to_json cj ob j"
    have d: "describes cj ?x j"
      using cjson_containers(1) [OF cj ob] Cons.prems True by (intro job_to_json_describes [OF cj]) auto
    obtain xs where "cj_items cj (jobs_to_json cj (Suc i) js (cj_add_item cj arr ?x)) = cj_items cj arr @ ?x # xs"
      "list_all2 (describes cj) xs (filter sj_used js)"
      using Cons.IH [of "Suc i" "cj_add_item cj arr ?x"] Cons.prems cjson_containers(3) [OF cj] by auto
    then show ?thesis using True d by (intro exI [of _ "?x # xs"]) (simp add: ob)
  qed (use Cons in simp)
qed simp

section \<open>Loading what was saved\<close>

text \<open>The job a restart makes of a saved one: an interval starts anew, nothing has fired yet.\<close>

definition reload :: "int \<Rightarrow> fc_schedule \<Rightarrow> fc_schedule" where
  "reload now j =
     (let b = fresh_job\<lparr>sj_id := sj_id j, sj_prompt := sj_prompt j, sj_channel := sj_channel j,
                sj_chat_id := sj_chat_id j, sj_session_id := sj_session_id j, sj_enabled := sj_enabled j,
                sj_owner_mode := sj_owner_mode j, sj_created_ms := sj_created_ms j, sj_type := sj_type j\<rparr>
      in case sj_type j of
           FC_SCHED_INTERVAL \<Rightarrow> b\<lparr>sj_every_sec := sj_every_sec j, sj_next_ms := now + uint (sj_every_sec j) * 1000\<rparr>
         | FC_SCHED_ONCE \<Rightarrow> b\<lparr>sj_at_epoch := sj_at_epoch j\<rparr>
         | FC_SCHED_CRON \<Rightarrow> b\<lparr>sj_expr := sj_expr j\<rparr>
         | FC_SCHED_BOOT \<Rightarrow> b)"

lemma reload_id [simp]: "sj_used (reload now j)" "sj_id (reload now j) = sj_id j"
  by (cases "sj_type j"; simp add: reload_def fresh_job_def)+

lemma item_job_reload:
  assumes "describes cj x j" "storable j"
  shows "item_job cj now x (sj_id j) (type_name (sj_type j)) (sj_prompt j) fresh_job = reload now j"
proof -
  obtain a b where "cj_get cj x ''enabled'' = Some a" "cj_is_true cj a = sj_enabled j"
    "cj_get cj x ''owner_mode'' = Some b" "cj_is_true cj b = sj_owner_mode j"
    using assms(1) by (auto simp: describes_def Let_def)
  then show ?thesis
    using assms
    by (cases "sj_type j")
       (simp_all add: item_job_def reload_def describes_def storable_def fc_schedule_next_interval_def cpy_id
         fresh_job_def fc_sizes Let_def)
qed

lemma load_item_reload:
  assumes "describes cj x j" "storable j" "\<forall>y\<in>set ys. sj_used y \<and> sj_id y \<noteq> sj_id j"
  shows "load_item cj now x (ys @ replicate (Suc m) zero_job) = (ys @ [reload now j]) @ replicate m zero_job"
proof -
  let ?js = "ys @ replicate (Suc m) zero_job"
  have "fc_find_job (Some (sj_id j)) ?js = None"
    using assms(3)
    by (auto simp: fc_find_job_def first_index_None nth_append job_has_id_def zero_job_def simp del: replicate_Suc)
  moreover have "first_index (\<lambda>j. \<not> sj_used j) (ys @ zero_job # zs) = Some (length ys)" for zs
    using assms(3) by (induction ys) (auto simp: zero_job_def)
  ultimately have "fc_alloc_job (Some (sj_id j)) ?js = Some (length ys, ys @ fresh_job # replicate m zero_job)"
    by (simp add: fc_alloc_job_def)
  then show ?thesis
    using item_job_reload [OF assms(1,2), of now] assms(1)
    by (simp add: load_item_def describes_def Let_def)
qed

text \<open>The saved jobs in their order, each reloaded with the clock of its turn.\<close>

definition reloaded :: "(nat \<Rightarrow> int) \<Rightarrow> nat \<Rightarrow> jobs \<Rightarrow> jobs" where
  "reloaded clk n js = map (\<lambda>(i, j). reload (clk i) j) (enumerate n js)"

lemma load_items_reload:
  assumes "list_all2 (describes cj) xs us"
  shows "list_all storable us \<Longrightarrow> distinct (map sj_id (ys @ us)) \<Longrightarrow> list_all sj_used ys \<Longrightarrow>
    load_items cj clk n xs (ys @ replicate (length us + m) zero_job)
      = ys @ reloaded clk n us @ replicate m zero_job"
  using assms
proof (induction xs us arbitrary: n ys rule: list_all2_induct)
  case (Cons x xs u us)
  have "\<forall>y\<in>set ys. sj_used y \<and> sj_id y \<noteq> sj_id u" using Cons.prems(2,3)
    by (auto simp: list_all_iff) (metis imageI)
  then have l: "load_item cj (clk n) x (ys @ replicate (length (u # us) + m) zero_job)
      = (ys @ [reload (clk n) u]) @ replicate (length us + m) zero_job"
    using load_item_reload [OF Cons.hyps(1), of ys "clk n" "length us + m"] Cons.prems(1) by simp
  have "load_items cj clk n (x # xs) (ys @ replicate (length (u # us) + m) zero_job)
      = load_items cj clk (Suc n) xs ((ys @ [reload (clk n) u]) @ replicate (length us + m) zero_job)"
    by (simp only: load_items.simps l)
  also have "\<dots> = (ys @ [reload (clk n) u]) @ reloaded clk (Suc n) us @ replicate m zero_job"
    using Cons.prems by (intro Cons.IH) auto
  finally show ?case by (simp add: reloaded_def)
qed (simp add: reloaded_def)

lemma jobs_wf_distinct:
  assumes "jobs_wf js"
  shows "distinct (map sj_id (filter sj_used js))"
proof (rule card_distinct)
  have "set (map sj_id (filter sj_used js)) = dom (jobs_map js)"
    unfolding dom_jobs_map by (force simp: in_set_conv_nth)
  then show "card (set (map sj_id (filter sj_used js))) = length (map sj_id (filter sj_used js))"
    using card_jobs_map [OF assms] by simp
qed

lemma save_OK:
  assumes "fc_scheduler_save cj dir lk js fs = (OK, fs1)"
  obtains p arr printed where
    "fc_schedules_path dir (Some FC_PATH_LEN) = (OK, Some p)" "cj_array cj = Some arr"
    "cj_print cj (jobs_to_json cj 0 js arr) = Some printed"
    "fc_write_text_file_atomic (Some p) (Some printed) fs = (OK, fs1)"
proof -
  obtain pth where p: "fc_schedules_path dir (Some FC_PATH_LEN) = (OK, pth)"
    using assms by (auto simp: fc_scheduler_save_def split: prod.splits ret.splits)
  obtain arr where a: "cj_array cj = Some arr"
    using assms p by (auto simp: fc_scheduler_save_def split: option.splits)
  obtain printed where pr: "cj_print cj (jobs_to_json cj 0 js arr) = Some printed"
    using assms p a by (auto simp: fc_scheduler_save_def split: option.splits ret.splits)
  have w: "fc_write_text_file_atomic pth (Some printed) fs = (OK, fs1)"
    using assms p a pr by (auto simp: fc_scheduler_save_def split: ret.splits)
  then obtain q where "pth = Some q" by (cases pth) (auto simp: fc_write_text_file_atomic_def)
  then show thesis using that [of q arr printed] p a pr w by simp
qed

section \<open>Properties\<close>

text \<open>A file system that works.\<close>

lemma demo_laws: "NUL \<notin> set printed \<Longrightarrow> cjson_laws (demo_cjson printed tree)"
  by (auto simp: cjson_laws_def get_frame_def demo_cjson_def demo_get_add)

definition demo_job :: fc_schedule where
  "demo_job = fresh_job\<lparr>sj_type := FC_SCHED_ONCE, sj_id := ''tea'', sj_prompt := ''Boil water'',
     sj_channel := ''cli'', sj_at_epoch := 1700000000, sj_created_ms := 5\<rparr>"

definition demo_jobs :: jobs where
  "demo_jobs = zero_job # demo_job # replicate 10 zero_job"

definition demo_tree :: demo_json where
  "demo_tree = jobs_to_json (demo_cjson [] (DArray [])) 0 demo_jobs (DArray [])"

definition demo_fs :: posix_fs where
  "demo_fs = \<lparr>fs_files = Map.empty, fs_dirs = [''/data''], fs_script = [], fs_off = False\<rparr>"

lemma demo_tree_eq: "jobs_to_json (demo_cjson printed tree) i js arr = jobs_to_json (demo_cjson [] (DArray [])) i js arr"
  by (induction js arbitrary: i arr)
     (auto simp: demo_cjson_def job_to_json_def Let_def split: fc_schedule_type.splits)

lemma demo_write:
  "fc_write_text_file_atomic (Some ''/data/schedules.json'') (Some t) demo_fs
     = (OK, demo_fs\<lparr>fs_files := [''/data/schedules.json'' \<mapsto> t]\<rparr>)"
  by (simp add: fc_write_text_file_atomic_def demo_fs_def FC_PATH_LEN_def sys_open_trunc_def fs_call_def
      fs_next_def dir_present_def parent_dir_def sys_write_def sys_rename_def fun_eq_iff)

lemma demo_path: "fc_schedules_path ''/data'' (Some FC_PATH_LEN) = (OK, Some ''/data/schedules.json'')"
  by (simp add: fc_schedules_path_def fc_data_path_def FC_PATH_LEN_def fc_path_has_parent_ref_def Let_def
      snprintf_buf_def)

lemma demo_sel:
  "cj_array (demo_cjson printed tree) = Some (DArray [])"
  "cj_object (demo_cjson printed tree) i = Some (DObject [])"
  "cj_print (demo_cjson printed tree) x = (if x = tree then Some printed else None)"
  "cj_parse (demo_cjson printed tree) t = (if t = printed then Some tree else None)"
  by (simp_all add: demo_cjson_def)

lemma demo_tree_printed:
  "jobs_to_json (demo_cjson printed demo_tree) 0 demo_jobs (DArray []) = demo_tree"
  unfolding demo_tree_def by (rule demo_tree_eq)

lemma demo_save:
  "fc_scheduler_save (demo_cjson printed demo_tree) ''/data'' free_lock demo_jobs demo_fs
     = (OK, demo_fs\<lparr>fs_files := [''/data/schedules.json'' \<mapsto> printed]\<rparr>)"
  using demo_write [of printed]
  by (simp add: fc_scheduler_save_def demo_path demo_sel demo_tree_printed)



definition demo_long :: string where
  "demo_long = replicate 9000 (CHR ''x'')"

lemma length_demo_long: "length demo_long = 9000"
  by (simp only: demo_long_def length_replicate)

lemma demo_long_NUL: "NUL \<notin> set demo_long"
  using in_set_replicate [of NUL 9000 "CHR ''x''"] by (simp only: demo_long_def) simp

text \<open>
  C34. The file may be larger than the load buffer, because saving has no limit while loading reads into a
  fixed buffer: when the parser rejects the cut-off text, loading what was just saved fails with
  \<open>EINVAL\<close> and every job is lost to the restarted scheduler.
\<close>

theorem scheduler_load_overlong:
  assumes "fc_scheduler_save cj dir lk js fs = (OK, fs1)" and "no_faults fs1"
    and "\<forall>arr s. cj_array cj = Some arr \<and> cj_print cj (jobs_to_json cj 0 js arr) = Some s \<longrightarrow>
           CONFIG_FRUITCLAW_MAX_JSON \<le> length s \<and> NUL \<notin> set s \<and> cj_parse cj (take (CONFIG_FRUITCLAW_MAX_JSON - 1) s) = None"
  shows "fst (fc_scheduler_load cj dir True clk js0 fs1) = (Err EINVAL, js0)"
proof -
  obtain p arr printed where p: "fc_schedules_path dir (Some FC_PATH_LEN) = (OK, Some p)" "cj_array cj = Some arr"
    "cj_print cj (jobs_to_json cj 0 js arr) = Some printed"
    "fc_write_text_file_atomic (Some p) (Some printed) fs = (OK, fs1)"
    using save_OK [OF assms(1)] .
  have "fst (fc_read_text_file (Some p) (Some CONFIG_FRUITCLAW_MAX_JSON) False fs1)
      = (OK, Some (take (CONFIG_FRUITCLAW_MAX_JSON - 1) printed))"
    using write_then_read_cut [OF p(4) assms(2)] assms(3) p(2,3) by (simp add: CONFIG_FRUITCLAW_MAX_JSON_def)
  then show ?thesis
    using p(1) assms(3) p(2,3) by (auto simp: fc_scheduler_load_def split: prod.splits)
qed

theorem scheduler_load_overlong_witness:
  "\<exists>fs1. fc_scheduler_save (demo_cjson demo_long demo_tree) ''/data'' free_lock demo_jobs demo_fs = (OK, fs1)
     \<and> fst (fc_scheduler_load (demo_cjson demo_long demo_tree) ''/data'' True (\<lambda>_. 0) zero_jobs fs1)
       = (Err EINVAL, zero_jobs)"
proof -
  let ?cj = "demo_cjson demo_long demo_tree"
  let ?fs1 = "demo_fs\<lparr>fs_files := [''/data/schedules.json'' \<mapsto> demo_long]\<rparr>"
  have "length (take 8191 demo_long) \<noteq> length demo_long" by (simp add: length_demo_long)
  then have "take 8191 demo_long \<noteq> demo_long" by metis
  then have "\<forall>arr s. cj_array ?cj = Some arr \<and> cj_print ?cj (jobs_to_json ?cj 0 demo_jobs arr) = Some s \<longrightarrow>
      CONFIG_FRUITCLAW_MAX_JSON \<le> length s \<and> NUL \<notin> set s
      \<and> cj_parse ?cj (take (CONFIG_FRUITCLAW_MAX_JSON - 1) s) = None"
    by (simp add: demo_sel demo_tree_printed CONFIG_FRUITCLAW_MAX_JSON_def length_demo_long demo_long_NUL)
  moreover have "no_faults ?fs1" by (simp add: no_faults_def demo_fs_def)
  ultimately show ?thesis
    using scheduler_load_overlong [OF demo_save] demo_save by blast
qed

end
