(* ===== verification/FC_Guard.thy ===== *)
theory FC_Guard
  imports FC_Config
begin

text \<open>
  The execution guard of \<^verbatim>\<open>core/fc_guard.c\<close>, with the exec guard, the session guard and
  the board's boot guard compiled in: short guards held by one thread at a time, long guards with a
  feeder thread, the session monitor and the uptime limit, down to the watchdog registers they write.
  Threads are numbers, clock readings and device results are inputs.
\<close>

unbundle bit_operations_syntax

section \<open>Configuration and state\<close>

text \<open>
  The constants of the target's headers and the configuration options without a fixed meaning
  here: \<open>ctrl_pause\<close> is the union of the three pause bits, \<open>wdsel\<close> the reset
  selection written when arming.
\<close>

record guard_cfg =
  load_mask :: u32
  ctrl_enable :: u32
  ctrl_pause :: u32
  ctrl_trigger :: u32
  tick_cycles :: u32
  tick_enable :: u32
  wdsel :: u32
  bootsel_recovery :: bool
  max_uptime_ms :: int

definition CONFIG_FRUITCLAW_GUARD_TIMEOUT_MS :: u32 where "CONFIG_FRUITCLAW_GUARD_TIMEOUT_MS = 12000"
definition CONFIG_FRUITCLAW_GUARD_ACQUIRE_TIMEOUT_MS :: int where
  "CONFIG_FRUITCLAW_GUARD_ACQUIRE_TIMEOUT_MS = 5000"
definition CONFIG_FRUITCLAW_SESSION_GUARD_TIMEOUT_MS :: int where
  "CONFIG_FRUITCLAW_SESSION_GUARD_TIMEOUT_MS = 600000"
definition CONFIG_FRUITCLAW_SESSION_GUARD_HW_TIMEOUT_MS :: u32 where
  "CONFIG_FRUITCLAW_SESSION_GUARD_HW_TIMEOUT_MS = 60000"

definition FC_BOOTGUARD_MAGIC :: u32 where "FC_BOOTGUARD_MAGIC = 0x464a4247"
definition FC_GUARD_STAGE_SESSION :: u32 where "FC_GUARD_STAGE_SESSION = 0x46435347"
definition FC_GUARD_STAGE_UPTIME :: u32 where "FC_GUARD_STAGE_UPTIME = 0x46435550"

text \<open>The registers the guard writes.\<close>

record guard_hw =
  powman_scratch :: "u32 \<times> u32 \<times> u32"
  wd_scratch :: "u32 \<times> u32 \<times> u32"
  wd_load :: u32
  wd_ctrl :: u32
  ticks_cycles :: u32
  ticks_ctrl :: u32
  psm_wdsel :: u32

datatype wdioc = WDIOC_STOP | WDIOC_START | WDIOC_KEEPALIVE | WDIOC_SETTIMEOUT u32
  | WDIOC_SET_SCRATCH0 u32 | WDIOC_SET_SCRATCH1 u32 | WDIOC_SET_SCRATCH2 u32

text \<open>What the guard asks of the watchdog device and of the board, in order.\<close>

datatype dev_event = DevIoctl int wdioc | DevClose int | BootguardDisarm | SystemReset

record guard =
  g_session_started :: bool
  g_session_stop :: bool
  g_session_tripped :: bool
  g_session_watchdog_armed :: bool
  g_uptime_started :: bool
  g_uptime_tripped :: bool
  g_short_guard_active :: bool
  g_short_guard_owner_valid :: bool
  g_short_guard_fd :: int
  g_short_guard_owner :: nat
  g_guard_active_stage :: u32
  g_guard_last_stage :: u32
  g_session_last_ms :: int
  g_uptime_start_ms :: int
  g_session_last_source :: string
  hw :: guard_hw
  dev_results :: "errno option list"
  dev_log :: "dev_event list"

definition zero_guard :: "guard_hw \<Rightarrow> guard" where
  "zero_guard h = \<lparr>g_session_started = False, g_session_stop = False, g_session_tripped = False,
     g_session_watchdog_armed = False, g_uptime_started = False, g_uptime_tripped = False,
     g_short_guard_active = False, g_short_guard_owner_valid = False, g_short_guard_fd = -1,
     g_short_guard_owner = 0, g_guard_active_stage = 0, g_guard_last_stage = 0, g_session_last_ms = 0,
     g_uptime_start_ms = 0, g_session_last_source = [], hw = h, dev_results = [], dev_log = []\<rparr>"

section \<open>Registers and device calls\<close>

definition fc_guard_bootguard_magic :: "guard_cfg \<Rightarrow> u32" where
  "fc_guard_bootguard_magic c = (if bootsel_recovery c then FC_BOOTGUARD_MAGIC else 0)"

text \<open>\<^verbatim>\<open>modreg32(bits, mask, reg)\<close> replaces the bits under the mask.\<close>

definition modreg32 :: "u32 \<Rightarrow> u32 \<Rightarrow> u32 \<Rightarrow> u32" where
  "modreg32 bits msk r = (r AND NOT msk) OR (bits AND msk)"

definition guard_log :: "dev_event \<Rightarrow> guard \<Rightarrow> guard" where
  "guard_log e g = g\<lparr>dev_log := dev_log g @ [e]\<rparr>"

text \<open>
  \<^verbatim>\<open>ioctl\<close>: the device's answer is the next scripted result, success when the
  script is exhausted.
\<close>

definition dev_ioctl :: "int \<Rightarrow> wdioc \<Rightarrow> guard \<Rightarrow> errno option \<times> guard" where
  "dev_ioctl fd cmd g =
     (let g' = guard_log (DevIoctl fd cmd) g
      in case dev_results g' of
           [] \<Rightarrow> (None, g')
         | r # rs \<Rightarrow> (r, g'\<lparr>dev_results := rs\<rparr>))"

definition fc_guard_ioctl :: "int \<Rightarrow> wdioc \<Rightarrow> guard \<Rightarrow> ret \<times> guard" where
  "fc_guard_ioctl fd cmd g =
     (case dev_ioctl fd cmd g of (None, g') \<Rightarrow> (OK, g') | (Some e, g') \<Rightarrow> (Err e, g'))"

definition fc_guard_hw_start_tick :: "guard_cfg \<Rightarrow> guard_hw \<Rightarrow> guard_hw" where
  "fc_guard_hw_start_tick c h = h\<lparr>ticks_cycles := tick_cycles c, ticks_ctrl := tick_enable c\<rparr>"

definition fc_guard_hw_set_scratch :: "guard_cfg \<Rightarrow> u32 \<Rightarrow> u32 \<Rightarrow> guard_hw \<Rightarrow> guard_hw" where
  "fc_guard_hw_set_scratch c timeout_ms stage h =
     h\<lparr>powman_scratch := (fc_guard_bootguard_magic c, timeout_ms, stage),
       wd_scratch := (fc_guard_bootguard_magic c, timeout_ms, stage)\<rparr>"

definition fc_guard_hw_clear_scratch :: "guard_hw \<Rightarrow> guard_hw" where
  "fc_guard_hw_clear_scratch h = h\<lparr>powman_scratch := (0, 0, 0), wd_scratch := (0, 0, 0)\<rparr>"

definition fc_guard_hw_arm :: "guard_cfg \<Rightarrow> u32 \<Rightarrow> u32 \<Rightarrow> guard_hw \<Rightarrow> guard_hw" where
  "fc_guard_hw_arm c timeout_ms stage h =
     (let timeout_us = timeout_ms * 1000;
          timeout_us = (if timeout_us > load_mask c then load_mask c else timeout_us);
          h1 = fc_guard_hw_start_tick c (fc_guard_hw_set_scratch c timeout_ms stage h)
      in h1\<lparr>wd_load := timeout_us, psm_wdsel := wdsel c,
            wd_ctrl := modreg32 (ctrl_enable c) (ctrl_enable c OR ctrl_pause c) (wd_ctrl h1)\<rparr>)"

definition fc_guard_hw_stop :: "guard_cfg \<Rightarrow> guard_hw \<Rightarrow> guard_hw" where
  "fc_guard_hw_stop c h = h\<lparr>wd_ctrl := modreg32 0 (ctrl_enable c) (wd_ctrl h)\<rparr>"

definition fc_guard_hw_reset_now :: "guard_cfg \<Rightarrow> u32 \<Rightarrow> guard_hw \<Rightarrow> guard_hw" where
  "fc_guard_hw_reset_now c stage h =
     (let h1 = fc_guard_hw_start_tick c (fc_guard_hw_set_scratch c CONFIG_FRUITCLAW_GUARD_TIMEOUT_MS stage h)
      in h1\<lparr>psm_wdsel := wdsel c,
            wd_ctrl := modreg32 (ctrl_enable c OR ctrl_trigger c)
              (ctrl_enable c OR ctrl_pause c OR ctrl_trigger c) (wd_ctrl h1)\<rparr>)"

abbreviation on_hw :: "(guard_hw \<Rightarrow> guard_hw) \<Rightarrow> guard \<Rightarrow> guard" where
  "on_hw f g \<equiv> g\<lparr>hw := f (hw g)\<rparr>"

section \<open>Short guards\<close>

definition fc_guard_takeover_board_bootguard :: "guard \<Rightarrow> guard" where
  "fc_guard_takeover_board_bootguard g =
     (if g_short_guard_active g then g else guard_log BootguardDisarm g)"

definition fc_guard_set_short_active :: "nat \<Rightarrow> bool \<Rightarrow> u32 \<Rightarrow> guard \<Rightarrow> guard" where
  "fc_guard_set_short_active self active stage g =
     (if active
      then g\<lparr>g_short_guard_active := True, g_guard_active_stage := stage, g_guard_last_stage := stage,
             g_short_guard_fd := -1, g_short_guard_owner := self, g_short_guard_owner_valid := True\<rparr>
      else g\<lparr>g_short_guard_active := False, g_guard_active_stage := 0, g_short_guard_fd := -1,
             g_short_guard_owner_valid := False\<rparr>)"

text \<open>
  \<^verbatim>\<open>fc_guard_recover_now\<close> never returns; this is the state it leaves for the reset.
\<close>

definition fc_guard_recover_now :: "guard_cfg \<Rightarrow> nat \<Rightarrow> u32 \<Rightarrow> guard \<Rightarrow> guard" where
  "fc_guard_recover_now c self stage g =
     (let g1 = on_hw (fc_guard_hw_set_scratch c CONFIG_FRUITCLAW_GUARD_TIMEOUT_MS stage)
                 (fc_guard_set_short_active self True stage g);
          g2 = (if bootsel_recovery c then g1 else guard_log SystemReset g1)
      in on_hw (fc_guard_hw_reset_now c stage) g2)"

definition fc_guard_session_heartbeat :: "int \<Rightarrow> string option \<Rightarrow> guard \<Rightarrow> guard" where
  "fc_guard_session_heartbeat now source g =
     g\<lparr>g_session_last_ms := now,
       g_session_last_source := cpy FC_SOURCE_LEN (case source of Some s \<Rightarrow> s | None \<Rightarrow> ''unknown'')\<rparr>"

text \<open>The result of \<^verbatim>\<open>fc_guard_begin_short\<close>: zero, one, or an error.\<close>

datatype begun = Acquired | Reentrant | BeginErr errno

definition try_begin :: "nat \<Rightarrow> u32 \<Rightarrow> guard \<Rightarrow> begun \<times> u32 \<times> guard" where
  "try_begin self stage g =
     (if g_uptime_tripped g then (BeginErr ETIMEDOUT, 0, g)
      else if g_short_guard_active g
      then (if g_short_guard_owner_valid g \<and> g_short_guard_owner g = self then (Reentrant, 0, g)
            else (BeginErr EBUSY, g_guard_active_stage g, g))
      else (Acquired, 0, guard_log BootguardDisarm
              (g\<lparr>g_short_guard_active := True, g_guard_active_stage := stage, g_guard_last_stage := stage,
                 g_short_guard_fd := -1, g_short_guard_owner := self, g_short_guard_owner_valid := True\<rparr>)))"

text \<open>
  A round of the polling loop: the clock read after the attempt, the clock of the
  heartbeat, and what the other threads do during the pause.
\<close>

type_synonym begin_round = "int \<times> int \<times> (guard \<Rightarrow> guard)"

fun begin_loop ::
    "guard_cfg \<Rightarrow> nat \<Rightarrow> u32 \<Rightarrow> int \<Rightarrow> begin_round list \<Rightarrow> guard \<Rightarrow> (begun \<times> guard) option" where
  "begin_loop c self stage deadline [] g = None"
| "begin_loop c self stage deadline ((now, hb, others) # rs) g =
     (case try_begin self stage g of (r, active_stage, g1) \<Rightarrow>
        if r \<noteq> BeginErr EBUSY \<or> CONFIG_FRUITCLAW_GUARD_ACQUIRE_TIMEOUT_MS \<le> 0 \<or> now \<ge> deadline
        then Some (r, g1)
        else let g2 = (if active_stage \<noteq> 0
                       then fc_guard_session_heartbeat hb (Some ''guard-wait'')
                              (on_hw (fc_guard_hw_arm c CONFIG_FRUITCLAW_GUARD_TIMEOUT_MS active_stage) g1)
                       else g1)
             in begin_loop c self stage deadline rs (others g2))"

definition fc_guard_begin_short ::
    "guard_cfg \<Rightarrow> nat \<Rightarrow> u32 \<Rightarrow> int \<Rightarrow> begin_round list \<Rightarrow> guard \<Rightarrow> (begun \<times> guard) option" where
  "fc_guard_begin_short c self stage now rs g =
     begin_loop c self stage (now + CONFIG_FRUITCLAW_GUARD_ACQUIRE_TIMEOUT_MS) rs g"

definition fc_guard_bind_short_fd :: "int \<Rightarrow> guard \<Rightarrow> guard" where
  "fc_guard_bind_short_fd fd g = (if g_short_guard_active g then g\<lparr>g_short_guard_fd := fd\<rparr> else g)"

definition fc_guard_short_fd_matches :: "int \<Rightarrow> guard \<Rightarrow> bool" where
  "fc_guard_short_fd_matches fd g \<longleftrightarrow>
     g_short_guard_active g \<and> (g_short_guard_fd g < 0 \<or> g_short_guard_fd g = fd)"

definition fc_guard_set_session_watchdog :: "bool \<Rightarrow> guard \<Rightarrow> guard" where
  "fc_guard_set_session_watchdog armed g = g\<lparr>g_session_watchdog_armed := armed\<rparr>"

text \<open>The priority the feeder threads get: none when the range is empty.\<close>

definition fc_guard_attr_set_feeder_priority :: "int \<Rightarrow> int \<Rightarrow> int option" where
  "fc_guard_attr_set_feeder_priority max_priority min_priority =
     (if max_priority < min_priority then None
      else Some (if max_priority > min_priority then max_priority - 1 else max_priority))"

definition fc_guard_mono_ms :: "timespec option \<Rightarrow> int \<Rightarrow> int" where
  "fc_guard_mono_ms monotonic ticks_ms =
     (case monotonic of Some ts \<Rightarrow> tv_sec ts * 1000 + tv_nsec ts div 1000000 | None \<Rightarrow> ticks_ms)"

definition fc_guard_uptime_due_locked :: "guard_cfg \<Rightarrow> int \<Rightarrow> guard \<Rightarrow> bool" where
  "fc_guard_uptime_due_locked c now g \<longleftrightarrow>
     max_uptime_ms c > 0 \<and> g_uptime_started g \<and> \<not> g_uptime_tripped g \<and> g_uptime_start_ms g > 0
     \<and> now - g_uptime_start_ms g \<ge> max_uptime_ms c"

definition fc_guard_uptime_is_tripped :: "guard \<Rightarrow> bool" where
  "fc_guard_uptime_is_tripped g = g_uptime_tripped g"

definition fc_guard_mark_uptime_tripped :: "guard \<Rightarrow> guard" where
  "fc_guard_mark_uptime_tripped g = g\<lparr>g_uptime_tripped := True\<rparr>"

text \<open>A sequence of device calls that stops at the first error.\<close>

fun ioctls :: "int \<Rightarrow> wdioc list \<Rightarrow> guard \<Rightarrow> ret \<times> guard" where
  "ioctls fd [] g = (OK, g)"
| "ioctls fd (cmd # cmds) g =
     (case fc_guard_ioctl fd cmd g of (Err e, g1) \<Rightarrow> (Err e, g1) | (OK, g1) \<Rightarrow> ioctls fd cmds g1)"

definition fc_guard_program_fd :: "guard_cfg \<Rightarrow> int \<Rightarrow> u32 \<Rightarrow> u32 \<Rightarrow> guard \<Rightarrow> ret \<times> guard" where
  "fc_guard_program_fd c fd timeout_ms stage g =
     (case ioctls fd [WDIOC_SET_SCRATCH0 (fc_guard_bootguard_magic c), WDIOC_SET_SCRATCH1 timeout_ms,
                      WDIOC_SET_SCRATCH2 stage, WDIOC_SETTIMEOUT timeout_ms] g of
        (Err e, g1) \<Rightarrow> (Err e, g1)
      | (OK, g1) \<Rightarrow>
          (case dev_ioctl fd WDIOC_START g1 of
             (Some e, g2) \<Rightarrow>
               if e \<noteq> EBUSY then (Err e, g2) else (OK, on_hw (fc_guard_hw_arm c timeout_ms stage) g2)
           | (None, g2) \<Rightarrow> (OK, on_hw (fc_guard_hw_arm c timeout_ms stage) g2)))"

text \<open>The common clean-up of a failed arm: registers, guard state, descriptor.\<close>

definition guard_errout :: "guard_cfg \<Rightarrow> nat \<Rightarrow> int \<Rightarrow> guard \<Rightarrow> guard" where
  "guard_errout c self fd g =
     guard_log (DevClose fd) (fc_guard_set_short_active self False 0
       (on_hw (\<lambda>h. fc_guard_hw_stop c (fc_guard_hw_clear_scratch h)) g))"

text \<open>
  \<^verbatim>\<open>fc_guard_arm\<close> with a place for the descriptor or without; the result is the
  return code, what it stored there, and the state, \<open>None\<close> while it still waits.
\<close>

definition fc_guard_arm ::
    "guard_cfg \<Rightarrow> nat \<Rightarrow> u32 \<Rightarrow> bool \<Rightarrow> int \<Rightarrow> begin_round list \<Rightarrow> (errno + int) \<Rightarrow> guard
       \<Rightarrow> (ret \<times> int \<times> guard) option" where
  "fc_guard_arm c self stage has_fd now rs opened g =
     (if \<not> has_fd then Some (Err EINVAL, -1, g)
      else map_option (\<lambda>(b, g1).
        case b of
          Reentrant \<Rightarrow> (OK, -1, g1)
        | BeginErr e \<Rightarrow> (Err e, -1, g1)
        | Acquired \<Rightarrow>
            (case opened of
               Inl e \<Rightarrow> (Err e, -1, fc_guard_set_short_active self False 0 g1)
             | Inr fd \<Rightarrow>
                 (case fc_guard_ioctl fd WDIOC_STOP (fc_guard_bind_short_fd fd g1) of
                    (Err e, g2) \<Rightarrow> (Err e, -1, guard_errout c self fd g2)
                  | (OK, g2) \<Rightarrow>
                      (case fc_guard_program_fd c fd CONFIG_FRUITCLAW_GUARD_TIMEOUT_MS stage g2 of
                         (Err e, g3) \<Rightarrow> (Err e, -1, guard_errout c self fd g3)
                       | (OK, g3) \<Rightarrow> (OK, fd, g3)))))
        (fc_guard_begin_short c self stage now rs g))"

text \<open>Device calls whose errors are only remembered.\<close>

fun ioctls_all :: "int \<Rightarrow> wdioc list \<Rightarrow> ret \<Rightarrow> guard \<Rightarrow> ret \<times> guard" where
  "ioctls_all fd [] r g = (r, g)"
| "ioctls_all fd (cmd # cmds) r g =
     (case fc_guard_ioctl fd cmd g of (r1, g1) \<Rightarrow> ioctls_all fd cmds (if r1 = OK then r else Err EIO) g1)"

definition fc_guard_disarm :: "guard_cfg \<Rightarrow> nat \<Rightarrow> int \<Rightarrow> guard \<Rightarrow> ret \<times> guard" where
  "fc_guard_disarm c self fd g =
     (if fd < 0 then (OK, g)
      else if fc_guard_uptime_is_tripped g then (OK, guard_log (DevClose fd) g)
      else if \<not> fc_guard_short_fd_matches fd g then (OK, guard_log (DevClose fd) g)
      else case ioctls_all fd [WDIOC_SET_SCRATCH0 0, WDIOC_SET_SCRATCH1 0, WDIOC_SET_SCRATCH2 0, WDIOC_STOP] OK
                  (on_hw fc_guard_hw_clear_scratch g) of
             (r, g1) \<Rightarrow>
               (r, fc_guard_set_short_active self False 0 (guard_log (DevClose fd) (on_hw (fc_guard_hw_stop c) g1))))"

section \<open>Long guards\<close>

record fc_guard_long =
  gl_stop :: bool
  gl_started :: bool
  gl_expired :: bool
  gl_reentrant :: bool
  gl_fd :: int
  gl_stage :: u32
  gl_timeout_ms :: u32
  gl_deadline_ms :: int

text \<open>
  \<^verbatim>\<open>fc_guard_long_start\<close>: \<open>t0\<close> is the clock of the deadline, \<open>created\<close> the
  result of \<^verbatim>\<open>pthread_create\<close>; the pointer is not NULL.
\<close>

definition fc_guard_long_start ::
    "guard_cfg \<Rightarrow> nat \<Rightarrow> u32 \<Rightarrow> u32 \<Rightarrow> int \<Rightarrow> int \<Rightarrow> begin_round list \<Rightarrow> (errno + int) \<Rightarrow> errno option \<Rightarrow> guard
       \<Rightarrow> (ret \<times> fc_guard_long \<times> guard) option" where
  "fc_guard_long_start c self stage timeout_ms t0 now rs opened created g =
     (let l = \<lparr>gl_stop = False, gl_started = False, gl_expired = False, gl_reentrant = False, gl_fd = -1,
               gl_stage = stage, gl_timeout_ms = timeout_ms, gl_deadline_ms = t0 + uint timeout_ms\<rparr>
      in map_option (\<lambda>(b, g1).
           case b of
             Reentrant \<Rightarrow> (OK, l\<lparr>gl_reentrant := True\<rparr>, g1)
           | BeginErr e \<Rightarrow> (Err e, l, g1)
           | Acquired \<Rightarrow>
               (case opened of
                  Inl e \<Rightarrow> (Err e, l, fc_guard_set_short_active self False 0 g1)
                | Inr fd \<Rightarrow>
                    (case fc_guard_ioctl fd WDIOC_STOP (fc_guard_bind_short_fd fd g1) of
                       (Err e, g2) \<Rightarrow> (Err e, l, guard_errout c self fd g2)
                     | (OK, g2) \<Rightarrow>
                         (case fc_guard_program_fd c fd CONFIG_FRUITCLAW_GUARD_TIMEOUT_MS stage g2 of
                            (Err e, g3) \<Rightarrow> (Err e, l, guard_errout c self fd g3)
                          | (OK, g3) \<Rightarrow>
                              (case created of
                                 Some e \<Rightarrow> (Err e, l, snd (fc_guard_disarm c self fd g3))
                               | None \<Rightarrow> (OK, l\<lparr>gl_fd := fd, gl_started := True\<rparr>, g3))))))
           (fc_guard_begin_short c self stage now rs g))"

definition fc_guard_long_set_stage :: "guard_cfg \<Rightarrow> u32 \<Rightarrow> fc_guard_long \<Rightarrow> guard \<Rightarrow> fc_guard_long \<times> guard" where
  "fc_guard_long_set_stage c stage l g =
     (if stage = 0 then (l, g)
      else let l1 = l\<lparr>gl_stage := stage\<rparr>;
               g1 = (if g_short_guard_active g
                     then g\<lparr>g_guard_active_stage := stage, g_guard_last_stage := stage\<rparr> else g)
           in (l1, if gl_started l1 \<and> gl_fd l1 \<ge> 0
                   then on_hw (fc_guard_hw_arm c CONFIG_FRUITCLAW_GUARD_TIMEOUT_MS stage) g1 else g1))"

text \<open>
  How a turn of a thread's loop ends: it goes on, the thread returns, or the
  device is being reset.
\<close>

datatype turn = Continues | Returns | Resets

text \<open>A turn of \<^verbatim>\<open>fc_guard_long_thread\<close>, the feeder of a long guard.\<close>

definition fc_guard_long_thread ::
    "guard_cfg \<Rightarrow> nat \<Rightarrow> int \<Rightarrow> int \<Rightarrow> fc_guard_long \<Rightarrow> guard \<Rightarrow> turn \<times> fc_guard_long \<times> guard" where
  "fc_guard_long_thread c self now hb l g =
     (if gl_stop l then (Returns, l, g)
      else if now \<ge> gl_deadline_ms l
      then (Resets, l\<lparr>gl_expired := True\<rparr>, fc_guard_recover_now c self (gl_stage l) g)
      else let g1 = on_hw (fc_guard_hw_arm c CONFIG_FRUITCLAW_GUARD_TIMEOUT_MS (gl_stage l)) g;
               g2 = snd (fc_guard_ioctl (gl_fd l) WDIOC_KEEPALIVE g1)
           in (Continues, l, fc_guard_session_heartbeat hb (Some ''longguard'') g2))"

text \<open>
  \<^verbatim>\<open>fc_guard_long_stop\<close> on the guard as it is once the feeder has ended;
  \<open>None\<close> when the guard has expired, since the caller then waits for the reset.
\<close>

definition fc_guard_long_stop ::
    "guard_cfg \<Rightarrow> nat \<Rightarrow> fc_guard_long \<Rightarrow> guard \<Rightarrow> (ret \<times> fc_guard_long \<times> guard) option" where
  "fc_guard_long_stop c self l g =
     (if \<not> gl_started l
      then (if gl_reentrant l then Some (OK, l, g)
            else case fc_guard_disarm c self (gl_fd l) g of (r, g') \<Rightarrow> Some (r, l, g'))
      else let l' = l\<lparr>gl_stop := True, gl_started := False\<rparr>
           in if gl_expired l' then None
              else case fc_guard_disarm c self (gl_fd l') g of (r, g') \<Rightarrow> Some (r, l', g'))"

section \<open>The monitors\<close>

text \<open>The rest of the uptime budget.\<close>

definition uptime_remaining :: "guard_cfg \<Rightarrow> int \<Rightarrow> guard \<Rightarrow> int" where
  "uptime_remaining c now g = max_uptime_ms c - (now - g_uptime_start_ms g)"

text \<open>The time the uptime thread sleeps, in milliseconds.\<close>

definition uptime_sleep_ms :: "int \<Rightarrow> int" where
  "uptime_sleep_ms remaining =
     (let r = (if remaining > 5000 then 5000 else remaining)
      in if r \<ge> 1000 then (r + 1000 - 1) div 1000 * 1000 else r)"

definition fc_guard_uptime_thread :: "guard_cfg \<Rightarrow> nat \<Rightarrow> int \<Rightarrow> guard \<Rightarrow> turn \<times> guard" where
  "fc_guard_uptime_thread c self now g =
     (if uptime_remaining c now g \<le> 0
      then (Resets, fc_guard_recover_now c self FC_GUARD_STAGE_UPTIME (g\<lparr>g_uptime_tripped := True\<rparr>))
      else (Continues, g))"

text \<open>
  A turn of \<^verbatim>\<open>fc_guard_session_thread\<close>; \<open>fd\<close> is the descriptor it opened (negative when
  that failed) and \<open>armed\<close> its local flag.
\<close>

definition session_exit :: "guard_cfg \<Rightarrow> nat \<Rightarrow> int \<Rightarrow> guard \<Rightarrow> guard" where
  "session_exit c self fd g =
     (let g1 = on_hw (\<lambda>h. fc_guard_hw_stop c (fc_guard_hw_clear_scratch h)) g;
          g2 = (if fd \<ge> 0 then guard_log (DevClose fd) (snd (fc_guard_ioctl fd WDIOC_STOP g1)) else g1)
      in fc_guard_set_short_active self False 0 (fc_guard_set_session_watchdog False g2))"

definition fc_guard_session_thread ::
    "guard_cfg \<Rightarrow> nat \<Rightarrow> int \<Rightarrow> int \<Rightarrow> bool \<Rightarrow> guard \<Rightarrow> turn \<times> bool \<times> guard" where
  "fc_guard_session_thread c self fd now armed g =
     (let last = g_session_last_ms g
      in if g_session_stop g then (Returns, armed, session_exit c self fd g)
         else if fc_guard_uptime_due_locked c now g
         then (Resets, armed, fc_guard_recover_now c self FC_GUARD_STAGE_UPTIME (fc_guard_mark_uptime_tripped g))
         else if g_short_guard_active g
         then (Continues, False, fc_guard_set_session_watchdog False g)
         else let g1 = (if armed then g
                        else fc_guard_set_session_watchdog True
                               (if fd \<ge> 0
                                then snd (fc_guard_program_fd c fd CONFIG_FRUITCLAW_SESSION_GUARD_HW_TIMEOUT_MS
                                            FC_GUARD_STAGE_SESSION g)
                                else g))
              in if now - last > CONFIG_FRUITCLAW_SESSION_GUARD_TIMEOUT_MS
                 then (Resets, True, fc_guard_recover_now c self FC_GUARD_STAGE_SESSION
                         (fc_guard_set_short_active self True FC_GUARD_STAGE_SESSION (g1\<lparr>g_session_tripped := True\<rparr>)))
                 else let g2 = on_hw (fc_guard_hw_arm c CONFIG_FRUITCLAW_SESSION_GUARD_HW_TIMEOUT_MS
                                        FC_GUARD_STAGE_SESSION) g1
                      in (Continues, True, if fd \<ge> 0 then snd (fc_guard_ioctl fd WDIOC_KEEPALIVE g2) else g2))"

definition fc_guard_uptime_start :: "guard_cfg \<Rightarrow> int \<Rightarrow> errno option \<Rightarrow> guard \<Rightarrow> ret \<times> guard" where
  "fc_guard_uptime_start c now created g =
     (if max_uptime_ms c \<le> 0 then (OK, g)
      else if g_uptime_started g then (OK, g)
      else let g1 = fc_guard_takeover_board_bootguard (g\<lparr>g_uptime_start_ms := now, g_uptime_tripped := False\<rparr>)
           in case created of
                Some e \<Rightarrow> (Err e, g1\<lparr>g_uptime_start_ms := 0\<rparr>)
              | None \<Rightarrow> (OK, g1\<lparr>g_uptime_started := True\<rparr>))"

definition fc_guard_session_start :: "int \<Rightarrow> errno option \<Rightarrow> guard \<Rightarrow> ret \<times> guard" where
  "fc_guard_session_start now created g =
     (if g_session_started g then (OK, g)
      else let g1 = (fc_guard_session_heartbeat now (Some ''start'') (fc_guard_takeover_board_bootguard g))
                      \<lparr>g_session_stop := False, g_session_tripped := False\<rparr>
           in case created of Some e \<Rightarrow> (Err e, g1) | None \<Rightarrow> (OK, g1\<lparr>g_session_started := True\<rparr>))"

definition fc_guard_session_stop :: "guard \<Rightarrow> guard" where
  "fc_guard_session_stop g = g\<lparr>g_session_stop := True\<rparr>"

text \<open>
  \<^verbatim>\<open>fc_guard_prepare_controlled_reboot\<close>: \<open>joined\<close> is what happens until the session
  thread has ended.
\<close>

definition fc_guard_prepare_controlled_reboot :: "guard_cfg \<Rightarrow> (guard \<Rightarrow> guard) \<Rightarrow> guard \<Rightarrow> ret \<times> guard" where
  "fc_guard_prepare_controlled_reboot c joined g =
     (let g1 = (if g_session_started g
                then (joined (g\<lparr>g_session_stop := True\<rparr>))
                       \<lparr>g_session_started := False, g_session_stop := False, g_session_tripped := False\<rparr>
                else g)
      in (OK, guard_log BootguardDisarm (on_hw (\<lambda>h. fc_guard_hw_stop c (fc_guard_hw_clear_scratch h)) g1)))"

definition fc_guard_force_recovery :: "guard_cfg \<Rightarrow> nat \<Rightarrow> u32 \<Rightarrow> guard \<Rightarrow> guard" where
  "fc_guard_force_recovery c self stage g = fc_guard_recover_now c self stage g"

text \<open>\<^verbatim>\<open>0x%08lx\<close>.\<close>

definition hex8 :: "u32 \<Rightarrow> string" where
  "hex8 w = ''0x'' @ map (\<lambda>i. hex_char (unat w div 16 ^ (7 - i) mod 16)) [0..<8]"

definition fc_guard_status :: "guard_cfg \<Rightarrow> int \<Rightarrow> nat option \<Rightarrow> guard \<Rightarrow> ret \<times> string option" where
  "fc_guard_status c now out g =
     (case out of
        None \<Rightarrow> (Err EINVAL, None)
      | Some n \<Rightarrow>
          if n = 0 then (Err EINVAL, None)
          else let source = cpy FC_SOURCE_LEN (g_session_last_source g);
                   age = (if g_session_last_ms g > 0 then now - g_session_last_ms g else 0);
                   rest = (if g_uptime_started g \<and> g_uptime_start_ms g > 0
                           then max 0 (max_uptime_ms c - (now - g_uptime_start_ms g)) else -1);
                   yn = (\<lambda>b. if b then ''yes'' else ''no'')
               in (OK, Some (snprintf_buf n
                    (''exec=enabled bootsel_recovery='' @ (if bootsel_recovery c then ''enabled'' else ''disabled'')
                     @ '' short_active='' @ yn (g_short_guard_active g)
                     @ '' recovery_target='' @ (if bootsel_recovery c then ''bootsel'' else ''reset'')
                     @ '' active_stage='' @ hex8 (g_guard_active_stage g)
                     @ '' last_stage='' @ hex8 (g_guard_last_stage g)
                     @ '' session='' @ (if g_session_started g then ''started'' else ''stopped'')
                     @ '' watchdog='' @ (if g_session_watchdog_armed g then ''armed'' else ''ready'')
                     @ '' tripped='' @ yn (g_session_tripped g)
                     @ '' src='' @ (if source \<noteq> [] then source else ''none'')
                     @ '' age_ms='' @ dec_int age
                     @ '' uptime_guard='' @ (if g_uptime_started g then ''started''
                                            else if max_uptime_ms c > 0 then ''ready'' else ''disabled'')
                     @ '' uptime_tripped='' @ yn (g_uptime_tripped g)
                     @ '' uptime_remaining_ms='' @ dec_int rest
                     @ '' max_uptime_ms='' @ dec_nat (nat (max_uptime_ms c))))))"

end
