(* ===== verification/FC_Sched_Tick.thy ===== *)
theory FC_Sched_Tick
  imports FC_Scheduler FC_Guard
begin

text \<open>
  The worker of \<^verbatim>\<open>sched/fc_scheduler.c\<close>: emission of a job as an event on the main queue,
  the boot jobs, and the tick that visits the slots once a second.  The lock is released while an event is emitted;
  what the other threads do meanwhile is an input of every visit.
\<close>

section \<open>State\<close>

record sworld =
  sw_sched :: sched
  sw_main :: fc_queue
  sw_progress :: progress
  sw_guard :: guard
  sw_fs :: posix_fs
  sw_seq :: u32

text \<open>The clock readings of one emission.\<close>

record emit_clock =
  ec_id_ms :: int
  ec_ts_ms :: int
  ec_fire_ms :: int
  ec_mark_ms :: int

text \<open>
  What a visit of a slot meets: the clocks of the two interval computations, those of the emission, the lock of a
  save, and the other threads between unlock and lock.
\<close>

record slot_env =
  se_t0 :: int
  se_t1 :: int
  se_emit :: emit_clock
  se_lock :: lock_env
  se_others :: "sworld \<Rightarrow> sworld"

abbreviation the_jobs :: "sworld \<Rightarrow> jobs" where
  "the_jobs w \<equiv> g_jobs (sw_sched w)"

definition set_jobs :: "jobs \<Rightarrow> sworld \<Rightarrow> sworld" where
  "set_jobs js w = w\<lparr>sw_sched := (sw_sched w)\<lparr>g_jobs := js\<rparr>\<rparr>"

section \<open>Emission\<close>

definition fc_scheduler_record_tick :: "int \<Rightarrow> sched \<Rightarrow> sched" where
  "fc_scheduler_record_tick now s =
     s\<lparr>g_sched_tick_count := g_sched_tick_count s + 1, g_sched_last_tick_ms := now\<rparr>"

definition fc_scheduler_record_emit :: "int \<Rightarrow> int \<Rightarrow> string option \<Rightarrow> ret \<Rightarrow> sworld \<Rightarrow> sworld" where
  "fc_scheduler_record_emit now mark jid ret w =
     (let s = sw_sched w;
          s1 = s\<lparr>g_sched_emit_count := g_sched_emit_count s + 1, g_sched_last_fire_ms := now,
                 g_sched_last_ret := ret,
                 g_sched_emit_fail_count := g_sched_emit_fail_count s + (if ret_neg ret then 1 else 0),
                 g_sched_last_job := cpy 48 (case jid of Some k \<Rightarrow> k | None \<Rightarrow> ''-'')\<rparr>
      in w\<lparr>sw_sched := s1,
           sw_progress := (if ret_neg ret then sw_progress w
                           else fc_operator_progress_mark mark (Some ''scheduler'') (sw_progress w))\<rparr>)"

definition schedule_event :: "string \<Rightarrow> int \<Rightarrow> fc_schedule \<Rightarrow> fc_event" where
  "schedule_event eid ts j =
     zero_event\<lparr>ev_id := eid,
       ev_source := cpy FC_SOURCE_LEN ''scheduler'',
       ev_type := cpy FC_TYPE_LEN ''timer.fire'',
       ev_channel := cpy FC_CHANNEL_LEN (if sj_channel j \<noteq> [] then sj_channel j else ''internal''),
       ev_chat_id := cpy FC_CHAT_ID_LEN (sj_chat_id j),
       ev_session_id := cpy FC_SESSION_ID_LEN (if sj_session_id j \<noteq> [] then sj_session_id j else ''schedule''),
       ev_owner_mode := sj_owner_mode j,
       ev_text := cpy CONFIG_FRUITCLAW_MAX_EVENT_TEXT (sj_prompt j),
       ev_payload_json := snprintf_buf CONFIG_FRUITCLAW_MAX_JSON
         (''{'' @ [DQ] @ ''job_id'' @ [DQ] @ '':'' @ [DQ] @ sj_id j @ [DQ] @ ''}''),
       ev_ts_ms := ts\<rparr>"

definition fc_emit_schedule :: "emit_clock \<Rightarrow> fc_schedule \<Rightarrow> sworld \<Rightarrow> ret \<times> sworld" where
  "fc_emit_schedule ec j w =
     (case fc_make_id (Some FC_ID_LEN) (Some ''sched'') (ec_id_ms ec) (sw_seq w) of (eid, seq) \<Rightarrow>
        case fc_queue_publish (Some (sw_main w)) (Some (schedule_event (the eid) (ec_ts_ms ec) j)) of (ret, q) \<Rightarrow>
          (ret, fc_scheduler_record_emit (ec_fire_ms ec) (ec_mark_ms ec) (Some (sj_id j)) ret
                  (w\<lparr>sw_seq := seq, sw_main := the q\<rparr>)))"

section \<open>The boot jobs\<close>

definition boot_due :: "fc_schedule \<Rightarrow> bool" where
  "boot_due j \<longleftrightarrow> sj_used j \<and> sj_enabled j \<and> sj_type j = FC_SCHED_BOOT"

fun boot_loop :: "(nat \<Rightarrow> slot_env) \<Rightarrow> nat list \<Rightarrow> sworld \<Rightarrow> fc_schedule list \<times> sworld" where
  "boot_loop env [] w = ([], w)"
| "boot_loop env (i # is) w =
     (let j = the_jobs w ! i
      in if \<not> boot_due j then boot_loop env is w
         else case boot_loop env is (se_others (env i) (snd (fc_emit_schedule (se_emit (env i)) j w))) of
                (fs, w') \<Rightarrow> (j # fs, w'))"

definition fc_scheduler_emit_boot_jobs ::
    "lock_env \<Rightarrow> emit_clock \<Rightarrow> (nat \<Rightarrow> slot_env) \<Rightarrow> sworld \<Rightarrow> fc_schedule list \<times> sworld" where
  "fc_scheduler_emit_boot_jobs lk ec env w =
     (case fc_scheduler_lock_timed lk of
        Err e \<Rightarrow> ([], fc_scheduler_record_emit (ec_fire_ms ec) (ec_mark_ms ec) (Some ''boot-scan'') (Err e) w)
      | OK \<Rightarrow> boot_loop env [0..<FC_MAX_SCHEDULES] w)"

section \<open>The tick\<close>

text \<open>\<^verbatim>\<open>now_ms / 1000\<close>, which truncates.\<close>

definition c_div :: "int \<Rightarrow> int \<Rightarrow> int" where
  "c_div a b = (if a \<ge> 0 then a div b else - ((- a) div b))"

definition minute_key :: "tm \<Rightarrow> int" where
  "minute_key t = tm_yday t * 24 * 60 + tm_hour t * 60 + tm_min t"

text \<open>
  What the lock protects in the visit of a slot: the job afterwards and, when it
  fires, the snapshot that is emitted.
\<close>

definition slot_step :: "int \<Rightarrow> tm \<Rightarrow> int \<Rightarrow> int \<Rightarrow> fc_schedule \<Rightarrow> fc_schedule \<times> fc_schedule option" where
  "slot_step now_ms tmv t0 t1 j =
     (if \<not> sj_used j \<or> \<not> sj_enabled j then (j, None)
      else case sj_type j of
        FC_SCHED_INTERVAL \<Rightarrow>
          (let j1 = (if sj_next_ms j = 0 then fc_schedule_next_interval t0 j else j)
           in if now_ms \<ge> sj_next_ms j1 then (fc_schedule_next_interval t1 j1, Some j1) else (j1, None))
      | FC_SCHED_ONCE \<Rightarrow>
          (if sj_at_epoch j > 0 \<and> c_div now_ms 1000 \<ge> sj_at_epoch j
           then (j\<lparr>sj_enabled := False\<rparr>, Some j) else (j, None))
      | FC_SCHED_CRON \<Rightarrow>
          (if minute_key tmv \<noteq> sj_last_minute_key j \<and> fc_cron_matches (Some (sj_expr j)) (Some tmv)
           then (j\<lparr>sj_last_minute_key := minute_key tmv\<rparr>, Some j) else (j, None))
      | FC_SCHED_BOOT \<Rightarrow> (j, None))"

definition visit_slot ::
    "'j cjson \<Rightarrow> string \<Rightarrow> int \<Rightarrow> tm \<Rightarrow> slot_env \<Rightarrow> nat \<Rightarrow> sworld \<Rightarrow> fc_schedule option \<times> sworld" where
  "visit_slot cj dir now_ms tmv e i w =
     (case slot_step now_ms tmv (se_t0 e) (se_t1 e) (the_jobs w ! i) of (j', fired) \<Rightarrow>
        let w1 = set_jobs ((the_jobs w)[i := j']) w
        in case fired of
             None \<Rightarrow> (None, w1)
           | Some snapshot \<Rightarrow>
               (let w2 = snd (fc_emit_schedule (se_emit e) snapshot w1);
                    w3 = (if sj_type snapshot = FC_SCHED_ONCE
                          then w2\<lparr>sw_fs := snd (fc_scheduler_save cj dir (se_lock e) (the_jobs w2) (sw_fs w2))\<rparr>
                          else w2)
                in (fired, se_others e w3)))"

fun visit_slots ::
    "'j cjson \<Rightarrow> string \<Rightarrow> int \<Rightarrow> tm \<Rightarrow> (nat \<Rightarrow> slot_env) \<Rightarrow> nat list \<Rightarrow> sworld
       \<Rightarrow> (nat \<times> fc_schedule) list \<times> sworld" where
  "visit_slots cj dir now_ms tmv env [] w = ([], w)"
| "visit_slots cj dir now_ms tmv env (i # is) w =
     (case visit_slot cj dir now_ms tmv (env i) i w of (f, w1) \<Rightarrow>
        case visit_slots cj dir now_ms tmv env is w1 of (fs, w2) \<Rightarrow>
          (case f of None \<Rightarrow> fs | Some j \<Rightarrow> (i, j) # fs, w2))"

text \<open>
  One turn of \<^verbatim>\<open>fc_scheduler_thread_main\<close>: \<open>gmtime\<close> is the C library's
  \<^verbatim>\<open>gmtime_r\<close>, \<open>mono_ms\<close> and \<open>beat\<close> the clocks of the tick record and of the guard's heartbeat.
\<close>

definition scheduler_tick ::
    "'j cjson \<Rightarrow> string \<Rightarrow> (int \<Rightarrow> tm) \<Rightarrow> int \<Rightarrow> (nat \<Rightarrow> slot_env) \<Rightarrow> int \<Rightarrow> int \<Rightarrow> sworld
       \<Rightarrow> (nat \<times> fc_schedule) list \<times> sworld" where
  "scheduler_tick cj dir gmtime now_ms env mono_ms beat w =
     (case visit_slots cj dir now_ms (gmtime (c_div now_ms 1000)) env [0..<FC_MAX_SCHEDULES] w of (fs, w1) \<Rightarrow>
        (fs, w1\<lparr>sw_sched := fc_scheduler_record_tick mono_ms (sw_sched w1),
               sw_guard := fc_guard_session_heartbeat beat (Some ''scheduler'') (sw_guard w1)\<rparr>))"

record tick_env =
  te_now :: int
  te_slots :: "nat \<Rightarrow> slot_env"
  te_mono :: int
  te_beat :: int

fun scheduler_run ::
    "'j cjson \<Rightarrow> string \<Rightarrow> (int \<Rightarrow> tm) \<Rightarrow> tick_env list \<Rightarrow> sworld
       \<Rightarrow> (int \<times> nat \<times> fc_schedule) list \<times> sworld" where
  "scheduler_run cj dir gmtime [] w = ([], w)"
| "scheduler_run cj dir gmtime (e # es) w =
     (case scheduler_tick cj dir gmtime (te_now e) (te_slots e) (te_mono e) (te_beat e) w of (fs, w1) \<Rightarrow>
        case scheduler_run cj dir gmtime es w1 of (gs, w2) \<Rightarrow> (map (\<lambda>(i, j). (te_now e, i, j)) fs @ gs, w2))"

text \<open>\<^verbatim>\<open>fc_scheduler_worker_start\<close>: load the table, then start the thread.\<close>

definition fc_scheduler_worker_start ::
    "'j cjson \<Rightarrow> string \<Rightarrow> bool \<Rightarrow> (nat \<Rightarrow> int) \<Rightarrow> errno option \<Rightarrow> sworld \<Rightarrow> ret \<times> sworld" where
  "fc_scheduler_worker_start cj dir calloc_ok clk create_err w =
     (if g_sched_started (sw_sched w) then (OK, w)
      else case fc_scheduler_load cj dir calloc_ok clk (the_jobs w) (sw_fs w) of
             ((Err e, js), fs) \<Rightarrow> (Err e, set_jobs js (w\<lparr>sw_fs := fs\<rparr>))
           | ((OK, js), fs) \<Rightarrow>
               (let w1 = set_jobs js (w\<lparr>sw_fs := fs\<rparr>)
                in case create_err of
                     Some e \<Rightarrow> (Err e, w1)
                   | None \<Rightarrow> (OK, w1\<lparr>sw_sched := (sw_sched w1)\<lparr>g_sched_started := True\<rparr>\<rparr>)))"

section \<open>A slot that is left alone\<close>

text \<open>
  The other threads do not touch slot \<open>i\<close>: they may do anything else while the
  scheduler emits an event.
\<close>

definition leaves_slot :: "nat \<Rightarrow> slot_env \<Rightarrow> bool" where
  "leaves_slot i e \<longleftrightarrow>
     (\<forall>w. the_jobs (se_others e w) ! i = the_jobs w ! i \<and> length (the_jobs (se_others e w)) = length (the_jobs w))"

lemma emit_jobs [simp]: "the_jobs (snd (fc_emit_schedule ec j w)) = the_jobs w"
  by (simp add: fc_emit_schedule_def fc_scheduler_record_emit_def Let_def split: prod.splits)

lemma set_jobs_jobs [simp]: "the_jobs (set_jobs js w) = js"
  by (simp add: set_jobs_def)

lemma visit_slot_jobs:
  assumes "leaves_slot k e" "k < length (the_jobs w)"
    and "visit_slot cj dir now tmv e i w = (f, w')"
  shows "the_jobs w' ! k = (if k = i then fst (slot_step now tmv (se_t0 e) (se_t1 e) (the_jobs w ! i)) else the_jobs w ! k)
         \<and> length (the_jobs w') = length (the_jobs w)"
    and "f = snd (slot_step now tmv (se_t0 e) (se_t1 e) (the_jobs w ! i))"
  using assms
  by (auto simp: visit_slot_def leaves_slot_def Let_def nth_list_update split: prod.splits option.splits if_splits)

lemma visit_slots_slot:
  assumes "\<forall>i. leaves_slot k (env i)"
  shows "k < length (the_jobs w) \<Longrightarrow> distinct is \<Longrightarrow> visit_slots cj dir now tmv env is w = (fs, w') \<Longrightarrow>
    (let s = slot_step now tmv (se_t0 (env k)) (se_t1 (env k)) (the_jobs w ! k)
     in if k \<in> set is
        then the_jobs w' ! k = fst s \<and> map snd (filter (\<lambda>(i, j). i = k) fs) = (case snd s of None \<Rightarrow> [] | Some j \<Rightarrow> [j])
        else the_jobs w' ! k = the_jobs w ! k \<and> filter (\<lambda>(i, j). i = k) fs = [])
    \<and> length (the_jobs w') = length (the_jobs w)"
proof (induction "is" arbitrary: w fs)
  case (Cons i "is")
  obtain f w1 where v: "visit_slot cj dir now tmv (env i) i w = (f, w1)" by fastforce
  obtain gs where vs: "visit_slots cj dir now tmv env is w1 = (gs, w')"
    and fs: "fs = (case f of None \<Rightarrow> gs | Some j \<Rightarrow> (i, j) # gs)"
    using Cons.prems(3) v by (auto split: prod.splits)
  note one = visit_slot_jobs [OF _ Cons.prems(1) v]
  have one': "the_jobs w1 ! k = (if k = i then fst (slot_step now tmv (se_t0 (env i)) (se_t1 (env i)) (the_jobs w ! i)) else the_jobs w ! k)"
    "length (the_jobs w1) = length (the_jobs w)"
    "f = snd (slot_step now tmv (se_t0 (env i)) (se_t1 (env i)) (the_jobs w ! i))"
    using one assms by auto
  have IH: "(let s = slot_step now tmv (se_t0 (env k)) (se_t1 (env k)) (the_jobs w1 ! k)
     in if k \<in> set is
        then the_jobs w' ! k = fst s \<and> map snd (filter (\<lambda>(i, j). i = k) gs) = (case snd s of None \<Rightarrow> [] | Some j \<Rightarrow> [j])
        else the_jobs w' ! k = the_jobs w1 ! k \<and> filter (\<lambda>(i, j). i = k) gs = [])
    \<and> length (the_jobs w') = length (the_jobs w1)"
    using Cons.IH [OF _ _ vs] Cons.prems(1,2) one'(2) by simp
  show ?case
  proof (cases "k = i")
    case True
    then show ?thesis using IH one' Cons.prems(2) by (auto simp: Let_def fs split: option.splits)
  next
    case False
    then show ?thesis using IH one'(1,2) by (auto simp: Let_def fs split: option.splits)
  qed
qed simp

text \<open>The life of one slot over a sequence of ticks, and the jobs it fires with their times.\<close>

fun slot_run :: "(int \<Rightarrow> tm) \<Rightarrow> nat \<Rightarrow> tick_env list \<Rightarrow> fc_schedule \<Rightarrow> (int \<times> fc_schedule) list \<times> fc_schedule" where
  "slot_run gmtime k [] j = ([], j)"
| "slot_run gmtime k (e # es) j =
     (case slot_step (te_now e) (gmtime (c_div (te_now e) 1000)) (se_t0 (te_slots e k)) (se_t1 (te_slots e k)) j of
        (j1, f) \<Rightarrow>
          (case slot_run gmtime k es j1 of
             (fs, j2) \<Rightarrow> (case f of None \<Rightarrow> fs | Some s \<Rightarrow> (te_now e, s) # fs, j2)))"

definition fired :: "nat \<Rightarrow> (int \<times> nat \<times> fc_schedule) list \<Rightarrow> (int \<times> fc_schedule) list" where
  "fired k log = map (\<lambda>(t, i, j). (t, j)) (filter (\<lambda>(t, i, j). i = k) log)"

lemma scheduler_run_slot:
  assumes "\<forall>e\<in>set es. \<forall>i. leaves_slot k (te_slots e i)" "k < FC_MAX_SCHEDULES"
  shows "length (the_jobs w) = FC_MAX_SCHEDULES \<Longrightarrow> scheduler_run cj dir gmtime es w = (log, w') \<Longrightarrow>
    fired k log = fst (slot_run gmtime k es (the_jobs w ! k)) \<and> the_jobs w' ! k = snd (slot_run gmtime k es (the_jobs w ! k))"
  using assms(1)
proof (induction es arbitrary: w log)
  case (Cons e es)
  let ?s = "slot_step (te_now e) (gmtime (c_div (te_now e) 1000)) (se_t0 (te_slots e k)) (se_t1 (te_slots e k)) (the_jobs w ! k)"
  obtain fs w1 where t: "scheduler_tick cj dir gmtime (te_now e) (te_slots e) (te_mono e) (te_beat e) w = (fs, w1)" by fastforce
  obtain gs where r: "scheduler_run cj dir gmtime es w1 = (gs, w')"
    and log: "log = map (\<lambda>(i, j). (te_now e, i, j)) fs @ gs"
    using Cons.prems(2) t by (auto split: prod.splits)
  obtain w0 where v: "visit_slots cj dir (te_now e) (gmtime (c_div (te_now e) 1000)) (te_slots e) [0..<FC_MAX_SCHEDULES] w = (fs, w0)"
    and w1: "the_jobs w1 = the_jobs w0"
    using t by (auto simp: scheduler_tick_def fc_scheduler_record_tick_def split: prod.splits)
  have one: "the_jobs w1 ! k = fst ?s" "map snd (filter (\<lambda>(i, j). i = k) fs) = (case snd ?s of None \<Rightarrow> [] | Some j \<Rightarrow> [j])"
    "length (the_jobs w1) = FC_MAX_SCHEDULES"
    using visit_slots_slot [OF _ _ _ v, of k] Cons.prems(1,3) assms(2) w1 by (auto simp: Let_def)
  have "map (\<lambda>(t, i, j). (t, j)) (filter (\<lambda>(t, i, j). i = k) (map (\<lambda>(i, j). (te_now e, i, j)) fs))
      = map (Pair (te_now e)) (map snd (filter (\<lambda>(i, j). i = k) fs))"
    by (induction fs) auto
  then have "fired k log = map (Pair (te_now e)) (case snd ?s of None \<Rightarrow> [] | Some j \<Rightarrow> [j]) @ fired k gs"
    using one(2) by (simp add: log fired_def)
  then show ?case
    using Cons.IH [OF one(3) r] Cons.prems(3) one(1)
    by (auto split: prod.splits option.splits)
qed (simp add: fired_def)

section \<open>Properties\<close>

lemma slot_run_disabled: "\<not> sj_enabled j \<Longrightarrow> slot_run gmtime k es j = ([], j)"
  by (induction es) (simp_all add: slot_step_def)

lemma slot_run_once:
  assumes "sj_used j" "sj_enabled j" "sj_type j = FC_SCHED_ONCE" "0 < sj_at_epoch j"
  shows "fst (slot_run gmtime k es j) =
    (case List.find (\<lambda>e. c_div (te_now e) 1000 \<ge> sj_at_epoch j) es of None \<Rightarrow> [] | Some e \<Rightarrow> [(te_now e, j)])"
  using assms by (induction es) (auto simp: slot_step_def slot_run_disabled split: prod.splits)

text \<open>
  C12. A one-shot job fires exactly once: at the first tick at or after its time and never again, whatever
  the other threads do to the rest of the scheduler meanwhile; it does not fire before its time.
\<close>

theorem once_fires_exactly_once:
  assumes "\<forall>e\<in>set es. \<forall>i. leaves_slot k (te_slots e i)" and "k < FC_MAX_SCHEDULES"
    and "length (the_jobs w) = FC_MAX_SCHEDULES" and "j = the_jobs w ! k"
    and "sj_used j" and "sj_enabled j" and "sj_type j = FC_SCHED_ONCE" and "0 < sj_at_epoch j"
    and "scheduler_run cj dir gmtime es w = (log, w')"
  shows "fired k log = (case List.find (\<lambda>e. c_div (te_now e) 1000 \<ge> sj_at_epoch j) es of
                          None \<Rightarrow> [] | Some e \<Rightarrow> [(te_now e, j)])"
  using scheduler_run_slot [OF assms(1,2,3,9)] slot_run_once [OF assms(5-8)] assms(4) by simp

definition idle_slot :: "int \<Rightarrow> slot_env" where
  "idle_slot t = \<lparr>se_t0 = t, se_t1 = t, se_emit = \<lparr>ec_id_ms = t, ec_ts_ms = t, ec_fire_ms = t, ec_mark_ms = t\<rparr>,
     se_lock = free_lock, se_others = (\<lambda>w. w)\<rparr>"

definition idle_tick :: "int \<Rightarrow> tick_env" where
  "idle_tick t = \<lparr>te_now = t, te_slots = (\<lambda>_. idle_slot t), te_mono = t, te_beat = t\<rparr>"

definition some_hw :: guard_hw where
  "some_hw = \<lparr>powman_scratch = (0, 0, 0), wd_scratch = (0, 0, 0), wd_load = 0, wd_ctrl = 0, ticks_cycles = 0,
     ticks_ctrl = 0, psm_wdsel = 0\<rparr>"

definition world_with :: "fc_schedule \<Rightarrow> sworld" where
  "world_with j = \<lparr>sw_sched = zero_sched\<lparr>g_jobs := j # replicate 11 zero_job\<rparr>, sw_main = zero_queue,
     sw_progress = zero_progress, sw_guard = zero_guard some_hw,
     sw_fs = \<lparr>fs_files = Map.empty, fs_dirs = [], fs_script = [], fs_off = False\<rparr>, sw_seq = 0\<rparr>"

lemma idle_leaves [simp]: "leaves_slot k (te_slots (idle_tick t) i)"
  by (simp add: leaves_slot_def idle_tick_def idle_slot_def)

lemma te_now_idle [simp]: "te_now (idle_tick t) = t" "se_t0 (te_slots (idle_tick t) i) = t" "se_t1 (te_slots (idle_tick t) i) = t"
  by (simp_all add: idle_tick_def idle_slot_def)

lemma world_with_jobs [simp]: "the_jobs (world_with j) = j # replicate 11 zero_job"
  by (simp add: world_with_def)

definition some_cjson :: "unit cjson" where
  "some_cjson = \<lparr>cj_parse = \<lambda>_. None, cj_print = \<lambda>_. None, cj_items = \<lambda>_. [], cj_get = \<lambda>_ _. None,
     cj_string = \<lambda>_. None, cj_is_true = \<lambda>_. False, cj_int = \<lambda>_. None, cj_array = None, cj_object = \<lambda>_. None,
     cj_add_string = \<lambda>_ _ _. (), cj_add_bool = \<lambda>_ _ _. (), cj_add_number = \<lambda>_ _ _. (), cj_add_item = \<lambda>_ _. (),
     cj_add_child = \<lambda>_ _ _. (), cj_is_array = \<lambda>_. False, cj_is_object = \<lambda>_. False,
     cj_add_null = \<lambda>_ _. (), cj_dup = \<lambda>_. None\<rparr>"

definition some_tm :: "int \<Rightarrow> tm" where
  "some_tm s = \<lparr>tm_min = 0, tm_hour = 0, tm_mday = 1, tm_mon = 0, tm_wday = 3, tm_yday = 0\<rparr>"

theorem once_fires_exactly_once_witness:
  "let j = fresh_job\<lparr>sj_type := FC_SCHED_ONCE, sj_at_epoch := 50\<rparr>
   in fired 0 (fst (scheduler_run some_cjson [] some_tm (map idle_tick [49000, 50500, 51500]) (world_with j))) = [(50500, j)]"
proof -
  let ?j = "fresh_job\<lparr>sj_type := FC_SCHED_ONCE, sj_at_epoch := 50\<rparr>"
  let ?es = "map idle_tick [49000, 50500, 51500]"
  obtain log w' where r: "scheduler_run some_cjson [] some_tm ?es (world_with ?j) = (log, w')" by fastforce
  show ?thesis
    using once_fires_exactly_once [OF _ _ _ _ _ _ _ _ r, of 0 ?j] r
    by (simp add: FC_MAX_SCHEDULES_def fresh_job_def c_div_def)
qed

lemma remdups_adj_hd: "remdups_adj (x # xs) = x # tl (remdups_adj (x # xs))"
  by (induction xs arbitrary: x) auto

lemma slot_run_cron:
  fixes gmtime k es
  defines "tm_of \<equiv> \<lambda>t. gmtime (c_div t 1000)"
  assumes "sj_used j" "sj_enabled j" "sj_type j = FC_SCHED_CRON"
  shows "map (\<lambda>(t, s). minute_key (tm_of t)) (fst (slot_run gmtime k es j)) =
    tl (remdups_adj (sj_last_minute_key j #
      map (minute_key \<circ> tm_of) (filter (\<lambda>t. fc_cron_matches (Some (sj_expr j)) (Some (tm_of t))) (map te_now es))))"
  using assms(2-)
proof (induction es arbitrary: j)
  case (Cons e es)
  show ?case
  proof (cases "fc_cron_matches (Some (sj_expr j)) (Some (tm_of (te_now e)))")
    case m: True
    show ?thesis
    proof (cases "minute_key (tm_of (te_now e)) = sj_last_minute_key j")
      case True
      then show ?thesis using Cons m by (simp add: slot_step_def tm_of_def split: prod.splits)
    next
      case False
      let ?j = "j\<lparr>sj_last_minute_key := minute_key (tm_of (te_now e))\<rparr>"
      have "slot_step (te_now e) (gmtime (c_div (te_now e) 1000)) t0 t1 j = (?j, Some j)" for t0 t1
        using Cons.prems m False by (simp add: slot_step_def tm_of_def)
      then show ?thesis
        using Cons.IH [of ?j] Cons.prems m False remdups_adj_hd
        by (auto simp: tm_of_def split: prod.splits)
    qed
  next
    case False
    then show ?thesis using Cons by (simp add: slot_step_def tm_of_def split: prod.splits)
  qed
qed simp

text \<open>
  A cron job fires exactly at the ticks that match its expression, except that a tick whose minute key equals
  the one of its latest firing is skipped: several ticks within a matching minute make one event, and no matching minute
  with a new key is missed.
\<close>

theorem cron_fires_once_per_key:
  fixes gmtime es
  defines "tm_of \<equiv> \<lambda>t. gmtime (c_div t 1000)"
  assumes "\<forall>e\<in>set es. \<forall>i. leaves_slot k (te_slots e i)" and "k < FC_MAX_SCHEDULES"
    and "length (the_jobs w) = FC_MAX_SCHEDULES" and "j = the_jobs w ! k"
    and "sj_used j" and "sj_enabled j" and "sj_type j = FC_SCHED_CRON"
    and "scheduler_run cj dir gmtime es w = (log, w')"
  shows "map (\<lambda>(t, s). minute_key (tm_of t)) (fired k log) =
    tl (remdups_adj (sj_last_minute_key j #
      map (minute_key \<circ> tm_of) (filter (\<lambda>t. fc_cron_matches (Some (sj_expr j)) (Some (tm_of t))) (map te_now es))))"
  using scheduler_run_slot [OF assms(2,3,4,9)] slot_run_cron [OF assms(6-8), of gmtime k es] assms(5)
  by (simp add: tm_of_def)

lemma new_year_matches:
  "fc_cron_matches (Some ''0 0 1 1 *'') (Some \<lparr>tm_min = 0, tm_hour = 0, tm_mday = 1, tm_mon = 0, tm_wday = d, tm_yday = y\<rparr>)"
  unfolding fc_cron_matches_def by code_simp

theorem cron_fires_once_per_key_witness:
  "let j = fresh_job\<lparr>sj_type := FC_SCHED_CRON, sj_expr := ''0 0 1 1 *''\<rparr>
   in length (fired 0 (fst (scheduler_run some_cjson [] some_tm (map idle_tick [0, 1000, 2000]) (world_with j)))) = 1"
proof -
  let ?j = "fresh_job\<lparr>sj_type := FC_SCHED_CRON, sj_expr := ''0 0 1 1 *''\<rparr>"
  let ?es = "map idle_tick [0, 1000, 2000]"
  obtain log w' where r: "scheduler_run some_cjson [] some_tm ?es (world_with ?j) = (log, w')" by fastforce
  have "map (\<lambda>(t, s). minute_key (some_tm (c_div t 1000))) (fired 0 log) = [0]"
    using cron_fires_once_per_key [OF _ _ _ _ _ _ _ r, of 0 ?j]
    by (simp add: FC_MAX_SCHEDULES_def fresh_job_def some_tm_def new_year_matches minute_key_def)
  then have "length (map (\<lambda>(t, s). minute_key (some_tm (c_div t 1000))) (fired 0 log)) = length [0 :: int]" by (simp only:)
  then show ?thesis using r by simp
qed

text \<open>New Year's midnight of two consecutive years, as the C library breaks it down.\<close>

definition new_years :: "int \<Rightarrow> tm" where
  "new_years s = \<lparr>tm_min = 0, tm_hour = 0, tm_mday = 1, tm_mon = 0,
     tm_wday = (if s = 1735689600 then 3 else 4), tm_yday = 0\<rparr>"


lemma slot_run_interval:
  assumes "\<forall>e\<in>set es. te_now e \<le> se_t1 (te_slots e k) \<and> 0 < se_t1 (te_slots e k)"
  shows "sj_used j \<Longrightarrow> sj_enabled j \<Longrightarrow> sj_type j = FC_SCHED_INTERVAL \<Longrightarrow> 0 < sj_next_ms j \<Longrightarrow>
    (\<forall>t\<in>set (map fst (fst (slot_run gmtime k es j))). sj_next_ms j \<le> t)
    \<and> sorted_wrt (\<lambda>a b. a + uint (sj_every_sec j) * 1000 \<le> b) (map fst (fst (slot_run gmtime k es j)))
    \<and> ((\<exists>e\<in>set es. sj_next_ms j \<le> te_now e) \<longrightarrow> fst (slot_run gmtime k es j) \<noteq> [])"
  using assms
proof (induction es arbitrary: j)
  case (Cons e es)
  show ?case
  proof (cases "sj_next_ms j \<le> te_now e")
    case True
    let ?j = "fc_schedule_next_interval (se_t1 (te_slots e k)) j"
    have nx: "sj_next_ms ?j = se_t1 (te_slots e k) + uint (sj_every_sec j) * 1000" "0 \<le> uint (sj_every_sec j)"
      by (simp_all add: fc_schedule_next_interval_def)
    have t: "te_now e \<le> se_t1 (te_slots e k)" "0 < se_t1 (te_slots e k)" using Cons.prems(5) by auto
    have n: "te_now e + uint (sj_every_sec j) * 1000 \<le> sj_next_ms ?j" "0 < sj_next_ms ?j"
      using nx t by linarith+
    have j: "sj_used ?j" "sj_enabled ?j" "sj_type ?j = FC_SCHED_INTERVAL" "sj_every_sec ?j = sj_every_sec j"
      using Cons.prems by (simp_all add: fc_schedule_next_interval_def)
    have "slot_step (te_now e) tmv t0 (se_t1 (te_slots e k)) j = (?j, Some j)" for tmv t0
      using Cons.prems True by (simp add: slot_step_def)
    moreover obtain fs j2 where r: "slot_run gmtime k es ?j = (fs, j2)" by fastforce
    ultimately have e: "fst (slot_run gmtime k (e # es) j) = (te_now e, j) # fs" by simp
    have IH: "\<forall>t\<in>fst ` set fs. sj_next_ms ?j \<le> t"
      "sorted_wrt (\<lambda>a b. a + uint (sj_every_sec j) * 1000 \<le> b) (map fst fs)"
      using Cons.IH [OF j(1-3) n(2)] Cons.prems(5) j(4) r by simp_all
    have "\<forall>t\<in>fst ` set fs. te_now e + uint (sj_every_sec j) * 1000 \<le> t"
      using IH(1) n(1) by (meson order_trans)
    moreover have "sj_next_ms j \<le> sj_next_ms ?j" using True nx t by linarith
    then have "\<forall>t\<in>fst ` set fs. sj_next_ms j \<le> t" using IH(1) by (meson order_trans)
    ultimately show ?thesis using IH(2) True by (simp only: e) simp
  next
    case False
    then have "slot_step (te_now e) tmv t0 t1 j = (j, None)" for tmv t0 t1
      using Cons.prems by (simp add: slot_step_def)
    then show ?thesis using Cons False by (auto split: prod.splits)
  qed
qed simp

text \<open>
  An interval job fires at the first tick at or after its due time, never before it, and any two of its firings are
  at least its interval apart, however irregularly the ticks come.
\<close>

theorem interval_spacing:
  assumes "\<forall>e\<in>set es. \<forall>i. leaves_slot k (te_slots e i)" and "k < FC_MAX_SCHEDULES"
    and "length (the_jobs w) = FC_MAX_SCHEDULES" and "j = the_jobs w ! k"
    and "sj_used j" and "sj_enabled j" and "sj_type j = FC_SCHED_INTERVAL" and "0 < sj_next_ms j"
    and "\<forall>e\<in>set es. te_now e \<le> se_t1 (te_slots e k) \<and> 0 < se_t1 (te_slots e k)"
    and "scheduler_run cj dir gmtime es w = (log, w')"
  shows "(\<forall>t\<in>set (map fst (fired k log)). sj_next_ms j \<le> t)
         \<and> sorted_wrt (\<lambda>a b. a + uint (sj_every_sec j) * 1000 \<le> b) (map fst (fired k log))
         \<and> ((\<exists>e\<in>set es. sj_next_ms j \<le> te_now e) \<longrightarrow> fired k log \<noteq> [])"
  using scheduler_run_slot [OF assms(1,2,3,10)] slot_run_interval [OF assms(9,5-8), of gmtime] assms(4) by simp

theorem interval_spacing_witness:
  "let j = fresh_job\<lparr>sj_every_sec := 2, sj_next_ms := 2000\<rparr>
   in fired 0 (fst (scheduler_run some_cjson [] some_tm (map idle_tick [1500, 2500, 3500]) (world_with j))) \<noteq> []"
proof -
  let ?j = "fresh_job\<lparr>sj_every_sec := 2, sj_next_ms := 2000\<rparr>"
  let ?es = "map idle_tick [1500, 2500, 3500]"
  obtain log w' where r: "scheduler_run some_cjson [] some_tm ?es (world_with ?j) = (log, w')" by fastforce
  show ?thesis
    using interval_spacing [OF _ _ _ _ _ _ _ _ _ r, of 0 ?j] r
    by (simp add: FC_MAX_SCHEDULES_def fresh_job_def zero_job_def)
qed

end
