(* ===== verification/FC_Guard_Props.thy ===== *)
theory FC_Guard_Props
  imports FC_Guard
begin

text \<open>
  Properties of the execution guard: one holder at a time under every step of the other threads,
  arming and disarming as inverse operations down to the registers, clean failure, bounded waiting,
  and when the monitors reset the device.
\<close>

section \<open>Frames\<close>

text \<open>Device calls touch the registers, the script and the log only.\<close>

definition blank_hw :: guard_hw where
  "blank_hw = \<lparr>powman_scratch = (0, 0, 0), wd_scratch = (0, 0, 0), wd_load = 0, wd_ctrl = 0,
     ticks_cycles = 0, ticks_ctrl = 0, psm_wdsel = 0\<rparr>"

definition dev_only :: "guard \<Rightarrow> guard \<Rightarrow> bool" where
  "dev_only g g' \<longleftrightarrow>
     g'\<lparr>hw := blank_hw, dev_results := [], dev_log := []\<rparr> = g\<lparr>hw := blank_hw, dev_results := [], dev_log := []\<rparr>"

lemma dev_only_refl [simp, intro]: "dev_only g g"
  by (simp add: dev_only_def)

lemma dev_only_trans [trans]: "dev_only g g' \<Longrightarrow> dev_only g' g'' \<Longrightarrow> dev_only g g''"
  by (simp add: dev_only_def)

lemma dev_only_hw [simp]: "dev_only g (g'\<lparr>hw := h\<rparr>) \<longleftrightarrow> dev_only g g'" "dev_only (g\<lparr>hw := h\<rparr>) g' \<longleftrightarrow> dev_only g g'"
  by (simp_all add: dev_only_def)

lemma dev_only_log [simp]: "dev_only g (guard_log e g') \<longleftrightarrow> dev_only g g'"
  by (simp add: dev_only_def guard_log_def)

lemma dev_only_results [simp]: "dev_only g (g'\<lparr>dev_results := rs\<rparr>) \<longleftrightarrow> dev_only g g'"
  by (simp add: dev_only_def)

lemma dev_only_ioctl: "dev_ioctl fd cmd g = (r, g') \<Longrightarrow> dev_only g g'"
  by (auto simp: dev_ioctl_def Let_def split: list.splits)

lemma dev_only_guard_ioctl: "fc_guard_ioctl fd cmd g = (r, g') \<Longrightarrow> dev_only g g'"
  by (auto simp: fc_guard_ioctl_def dest: dev_only_ioctl split: prod.splits option.splits)

lemma dev_only_ioctls: "ioctls fd cmds g = (r, g') \<Longrightarrow> dev_only g g'"
proof (induction cmds arbitrary: g)
  case (Cons cmd cmds)
  obtain r1 g1 where c: "fc_guard_ioctl fd cmd g = (r1, g1)" by fastforce
  show ?case using Cons dev_only_guard_ioctl [OF c] c by (cases r1) (auto intro: dev_only_trans)
qed simp

lemma dev_only_ioctls_all: "ioctls_all fd cmds r g = (r', g') \<Longrightarrow> dev_only g g'"
proof (induction cmds arbitrary: r g)
  case (Cons cmd cmds)
  obtain r1 g1 where c: "fc_guard_ioctl fd cmd g = (r1, g1)" by fastforce
  show ?case using Cons.prems Cons.IH [of _ g1] dev_only_guard_ioctl [OF c] c by (auto intro: dev_only_trans)
qed simp

lemma dev_only_program:
  assumes "fc_guard_program_fd c fd t st g = (r, g')"
  shows "dev_only g g'"
proof -
  let ?cmds = "[WDIOC_SET_SCRATCH0 (fc_guard_bootguard_magic c), WDIOC_SET_SCRATCH1 t, WDIOC_SET_SCRATCH2 st, WDIOC_SETTIMEOUT t]"
  obtain r1 g1 where a: "ioctls fd ?cmds g = (r1, g1)" by fastforce
  obtain r2 g2 where b: "dev_ioctl fd WDIOC_START g1 = (r2, g2)" by fastforce
  have "dev_only g g1" "dev_only g g2"
    using dev_only_ioctls [OF a] dev_only_ioctl [OF b] dev_only_trans by blast+
  moreover have "g' = g1 \<or> g' = g2 \<or> (\<exists>h. g' = g2\<lparr>hw := h\<rparr>)"
    using assms a b
    by (auto simp: fc_guard_program_fd_def simp del: ioctls.simps split: ret.splits option.splits if_splits)
  ultimately show ?thesis by auto
qed

lemma dev_only_sel:
  assumes "dev_only g g'"
  shows "g_short_guard_active g' = g_short_guard_active g" "g_short_guard_owner_valid g' = g_short_guard_owner_valid g"
    "g_short_guard_owner g' = g_short_guard_owner g" "g_short_guard_fd g' = g_short_guard_fd g"
    "g_uptime_tripped g' = g_uptime_tripped g" "g_session_stop g' = g_session_stop g"
    "g_guard_active_stage g' = g_guard_active_stage g" "g_session_last_ms g' = g_session_last_ms g"
  using assms by (cases g; cases g'; simp add: dev_only_def)+

section \<open>One holder at a time\<close>

definition held :: "nat \<Rightarrow> int \<Rightarrow> guard \<Rightarrow> bool" where
  "held a f g \<longleftrightarrow> g_short_guard_active g \<and> g_short_guard_owner_valid g
     \<and> g_short_guard_owner g = a \<and> g_short_guard_fd g = f"

text \<open>
  What may happen while a thread \<open>a\<close> holds the guard through descriptor \<open>f\<close>, apart from its own
  release, a reset of the device and the end of the session thread.
\<close>

inductive other_step :: "guard_cfg \<Rightarrow> int \<Rightarrow> guard \<Rightarrow> guard \<Rightarrow> bool" for c f where
  attempt: "try_begin t stage g = (b, st, g') \<Longrightarrow> other_step c f g g'"
| waiting: "other_step c f g (fc_guard_session_heartbeat hb (Some ''guard-wait'')
              (on_hw (fc_guard_hw_arm c CONFIG_FRUITCLAW_GUARD_TIMEOUT_MS st) g))"
| disarm: "fd \<noteq> f \<Longrightarrow> fc_guard_disarm c t fd g = (r, g') \<Longrightarrow> other_step c f g g'"
| stage: "fc_guard_long_set_stage c st l g = (l', g') \<Longrightarrow> other_step c f g g'"
| feeder: "fc_guard_long_thread c t now hb l g = (Continues, l', g') \<Longrightarrow> other_step c f g g'"
| heartbeat: "other_step c f g (fc_guard_session_heartbeat now src g)"
| session: "fc_guard_session_thread c t fd now armed g = (Continues, armed', g') \<Longrightarrow> other_step c f g g'"
| uptime: "fc_guard_uptime_thread c t now g = (Continues, g') \<Longrightarrow> other_step c f g g'"
| session_stop: "other_step c f g (fc_guard_session_stop g)"

lemma held_disarm_other:
  assumes "held a f g" "0 \<le> f" "fd \<noteq> f" "fc_guard_disarm c t fd g = (r, g')"
  shows "held a f g'"
  using assms
  by (auto simp: fc_guard_disarm_def held_def fc_guard_short_fd_matches_def guard_log_def split: if_splits)

lemma held_session:
  assumes "held a f g" "fc_guard_session_thread c t fd now armed g = (Continues, armed', g')"
  shows "held a f g'"
  using assms
  by (auto simp: fc_guard_session_thread_def held_def fc_guard_set_session_watchdog_def Let_def split: if_splits)

lemma held_feeder:
  assumes "held a f g" "fc_guard_long_thread c t now hb l g = (Continues, l', g')"
  shows "held a f g'"
proof -
  let ?g1 = "on_hw (fc_guard_hw_arm c CONFIG_FRUITCLAW_GUARD_TIMEOUT_MS (gl_stage l)) g"
  obtain r g2 where i: "fc_guard_ioctl (gl_fd l) WDIOC_KEEPALIVE ?g1 = (r, g2)" by fastforce
  have "dev_only g g2" using dev_only_guard_ioctl [OF i] by simp
  then show ?thesis
    using assms i dev_only_sel
    by (auto simp: fc_guard_long_thread_def held_def fc_guard_session_heartbeat_def Let_def split: if_splits)
qed

lemma held_step: "other_step c f g g' \<Longrightarrow> held a f g \<Longrightarrow> 0 \<le> f \<Longrightarrow> held a f g'"
proof (induction rule: other_step.induct)
  case (attempt t stage g b st g')
  then show ?case by (auto simp: try_begin_def held_def split: if_splits)
next
  case (stage st l g l' g')
  then show ?case by (auto simp: fc_guard_long_set_stage_def held_def Let_def split: if_splits)
next
  case (uptime t now g g')
  then show ?case by (auto simp: fc_guard_uptime_thread_def split: if_splits)
next
  case (disarm fd t g r g')
  then show ?case by (metis held_disarm_other)
next
  case (feeder t now hb l g l' g')
  then show ?case by (metis held_feeder)
next
  case (session t fd now armed g armed' g')
  then show ?case by (metis held_session)
qed (auto simp: fc_guard_session_heartbeat_def fc_guard_session_stop_def held_def)


definition demo_cfg :: guard_cfg where
  "demo_cfg = \<lparr>load_mask = 0xFFFFFF, ctrl_enable = 0x40000000, ctrl_pause = 0x7000000, ctrl_trigger = 0x80000000,
     tick_cycles = 12, tick_enable = 1, wdsel = 0x1FFFFF3, bootsel_recovery = True, max_uptime_ms = 100000\<rparr>"

definition demo_held :: guard where
  "demo_held = (zero_guard blank_hw)\<lparr>g_short_guard_active := True, g_short_guard_owner_valid := True,
     g_short_guard_owner := 1, g_short_guard_fd := 5, g_guard_active_stage := 7\<rparr>"


section \<open>Arming and disarming\<close>

lemma modreg_set: "modreg32 (a OR b) (a OR b OR m) r AND a = a" "modreg32 a (a OR m) r AND a = a"
  unfolding modreg32_def by (rule bit_word_eqI; auto simp: bit_simps)+

lemma modreg_clear: "modreg32 0 a r AND a = 0"
  unfolding modreg32_def by (rule bit_word_eqI) (auto simp: bit_simps)

lemma ioctl_works:
  "dev_results g = [] \<Longrightarrow> dev_ioctl fd cmd g = (None, guard_log (DevIoctl fd cmd) g)"
  "dev_results g = [] \<Longrightarrow> fc_guard_ioctl fd cmd g = (OK, guard_log (DevIoctl fd cmd) g)"
  by (simp_all add: dev_ioctl_def fc_guard_ioctl_def guard_log_def Let_def)

lemma guard_log_sel [simp]:
  "dev_results (guard_log e g) = dev_results g" "hw (guard_log e g) = hw g"
  "g_short_guard_active (guard_log e g) = g_short_guard_active g"
  "g_short_guard_fd (guard_log e g) = g_short_guard_fd g"
  "g_short_guard_owner (guard_log e g) = g_short_guard_owner g"
  "g_short_guard_owner_valid (guard_log e g) = g_short_guard_owner_valid g"
  "g_uptime_tripped (guard_log e g) = g_uptime_tripped g"
  by (simp_all add: guard_log_def)

lemma program_works:
  assumes "dev_results g = []"
  shows "\<exists>lg. fc_guard_program_fd c fd t st g = (OK, g\<lparr>hw := fc_guard_hw_arm c t st (hw g), dev_log := lg\<rparr>)"
  by (rule exI [of _ "dev_log g @ [DevIoctl fd (WDIOC_SET_SCRATCH0 (fc_guard_bootguard_magic c)),
        DevIoctl fd (WDIOC_SET_SCRATCH1 t), DevIoctl fd (WDIOC_SET_SCRATCH2 st),
        DevIoctl fd (WDIOC_SETTIMEOUT t), DevIoctl fd WDIOC_START]"])
     (use assms in \<open>simp add: fc_guard_program_fd_def ioctl_works guard_log_def\<close>)

text \<open>What a register file says: armed for a stage, or quiet.\<close>

definition hw_armed :: "guard_cfg \<Rightarrow> u32 \<Rightarrow> u32 \<Rightarrow> guard_hw \<Rightarrow> bool" where
  "hw_armed c timeout stage h \<longleftrightarrow>
     wd_ctrl h AND ctrl_enable c = ctrl_enable c
     \<and> wd_scratch h = (fc_guard_bootguard_magic c, timeout, stage) \<and> powman_scratch h = wd_scratch h
     \<and> wd_load h = min (timeout * 1000) (load_mask c)"

definition hw_quiet :: "guard_cfg \<Rightarrow> guard_hw \<Rightarrow> bool" where
  "hw_quiet c h \<longleftrightarrow> wd_ctrl h AND ctrl_enable c = 0 \<and> wd_scratch h = (0, 0, 0) \<and> powman_scratch h = (0, 0, 0)"

lemma hw_armed_arm [simp]: "hw_armed c t st (fc_guard_hw_arm c t st h)"
  by (auto simp: hw_armed_def fc_guard_hw_arm_def fc_guard_hw_set_scratch_def fc_guard_hw_start_tick_def modreg_set
      Let_def min_def)

lemma hw_quiet_stop [simp]: "hw_quiet c (fc_guard_hw_stop c (fc_guard_hw_clear_scratch h))"
  by (simp add: hw_quiet_def fc_guard_hw_stop_def fc_guard_hw_clear_scratch_def modreg_clear)

lemma set_short_active_sel [simp]:
  "hw (fc_guard_set_short_active t b st g) = hw g"
  "g_short_guard_active (fc_guard_set_short_active t b st g) = b"
  "g_short_guard_owner_valid (fc_guard_set_short_active t b st g) = b"
  "g_uptime_tripped (fc_guard_set_short_active t b st g) = g_uptime_tripped g"
  by (simp_all add: fc_guard_set_short_active_def)

lemma begin_idle:
  assumes "\<not> g_short_guard_active g" "\<not> g_uptime_tripped g"
  shows "fc_guard_begin_short c self stage now (r # rs) g
         = Some (Acquired, guard_log BootguardDisarm (fc_guard_set_short_active self True stage g))"
  using assms by (cases r) (simp add: fc_guard_begin_short_def try_begin_def fc_guard_set_short_active_def)

text \<open>
  On an idle guard with a working device, arming succeeds, makes the caller the holder and leaves
  the watchdog enabled with the stage in both scratch banks and the requested load, cut off at the counter's width;
  disarming through the returned descriptor then succeeds, releases the guard and leaves the
  watchdog disabled with the scratch registers cleared.
\<close>

theorem guard_arm_disarm:
  assumes "\<not> g_short_guard_active g" and "\<not> g_uptime_tripped g" and "dev_results g = []" and "0 \<le> fd"
  shows "\<exists>g1 g2. fc_guard_arm c self stage True now (r # rs) (Inr fd) g = Some (OK, fd, g1)
           \<and> held self fd g1 \<and> hw_armed c CONFIG_FRUITCLAW_GUARD_TIMEOUT_MS stage (hw g1)
           \<and> fc_guard_disarm c self fd g1 = (OK, g2)
           \<and> \<not> g_short_guard_active g2 \<and> hw_quiet c (hw g2)"
proof -
  let ?a = "guard_log (DevIoctl fd WDIOC_STOP) (fc_guard_bind_short_fd fd
    (guard_log BootguardDisarm (fc_guard_set_short_active self True stage g)))"
  have a: "dev_results ?a = []" "held self fd ?a" "\<not> g_uptime_tripped ?a"
    using assms by (simp_all add: fc_guard_bind_short_fd_def fc_guard_set_short_active_def held_def)
  obtain lg where p: "fc_guard_program_fd c fd CONFIG_FRUITCLAW_GUARD_TIMEOUT_MS stage ?a
      = (OK, ?a\<lparr>hw := fc_guard_hw_arm c CONFIG_FRUITCLAW_GUARD_TIMEOUT_MS stage (hw ?a), dev_log := lg\<rparr>)"
    using program_works [OF a(1)] by blast
  let ?g1 = "?a\<lparr>hw := fc_guard_hw_arm c CONFIG_FRUITCLAW_GUARD_TIMEOUT_MS stage (hw ?a), dev_log := lg\<rparr>"
  have s: "fc_guard_ioctl fd WDIOC_STOP (fc_guard_bind_short_fd fd
      (guard_log BootguardDisarm (fc_guard_set_short_active self True stage g))) = (OK, ?a)"
    using assms(3) by (intro ioctl_works) (simp add: fc_guard_bind_short_fd_def fc_guard_set_short_active_def)
  have arm: "fc_guard_arm c self stage True now (r # rs) (Inr fd) g = Some (OK, fd, ?g1)"
    by (simp add: fc_guard_arm_def begin_idle [OF assms(1,2)] s p)
  have g1: "held self fd ?g1" "dev_results ?g1 = []" "\<not> g_uptime_tripped ?g1" using a by (simp_all add: held_def)
  have "fst (fc_guard_disarm c self fd ?g1) = OK \<and> \<not> g_short_guard_active (snd (fc_guard_disarm c self fd ?g1))
      \<and> hw_quiet c (hw (snd (fc_guard_disarm c self fd ?g1)))"
    using g1 assms(4)
    by (simp add: fc_guard_disarm_def fc_guard_uptime_is_tripped_def fc_guard_short_fd_matches_def held_def ioctl_works)
  then show ?thesis using arm g1(1) by (auto simp: prod_eq_iff)
qed

theorem guard_arm_disarm_witness:
  "\<exists>g1 g2. fc_guard_arm demo_cfg 3 7 True 0 [(0, 0, \<lambda>g. g)] (Inr 4) (zero_guard blank_hw) = Some (OK, 4, g1)
     \<and> hw_armed demo_cfg 12000 7 (hw g1) \<and> fc_guard_disarm demo_cfg 3 4 g1 = (OK, g2) \<and> hw_quiet demo_cfg (hw g2)"
  using guard_arm_disarm [of "zero_guard blank_hw" 4 demo_cfg 3 7 0 "(0, 0, \<lambda>g. g)" "[]"]
  by (auto simp: zero_guard_def CONFIG_FRUITCLAW_GUARD_TIMEOUT_MS_def)

text \<open>
  Arming an idle guard either succeeds or fails without a trace: on every error the caller gets no
  descriptor, the guard is free again, and unless the device could not even be opened the
  watchdog is disabled and its scratch registers are cleared.
\<close>

theorem guard_arm_failure_clean:
  assumes "\<not> g_short_guard_active g" and "\<not> g_uptime_tripped g"
    and "fc_guard_arm c self stage True now (r # rs) opened g = Some (Err e, fd, g')"
  shows "fd = -1 \<and> \<not> g_short_guard_active g' \<and> \<not> g_short_guard_owner_valid g'
         \<and> (case opened of Inl _ \<Rightarrow> hw g' = hw g | Inr _ \<Rightarrow> hw_quiet c (hw g'))"
  using assms(3)
  by (auto simp: fc_guard_arm_def begin_idle [OF assms(1,2)] guard_errout_def
      split: sum.splits ret.splits prod.splits)

theorem guard_arm_failure_clean_witness:
  "let g = (zero_guard blank_hw)\<lparr>dev_results := [None, None, Some EIO]\<rparr>
   in \<exists>g'. fc_guard_arm demo_cfg 3 7 True 0 [(0, 0, \<lambda>g. g)] (Inr 4) g = Some (Err EIO, -1, g')
       \<and> \<not> g_short_guard_active g' \<and> hw_quiet demo_cfg (hw g')"
proof -
  let ?g = "(zero_guard blank_hw)\<lparr>dev_results := [None, None, Some EIO]\<rparr>"
  obtain g' where "fc_guard_arm demo_cfg 3 7 True 0 [(0, 0, \<lambda>g. g)] (Inr 4) ?g = Some (Err EIO, -1, g')"
    by (simp add: fc_guard_arm_def begin_idle zero_guard_def fc_guard_ioctl_def dev_ioctl_def Let_def guard_log_def
        fc_guard_bind_short_fd_def fc_guard_set_short_active_def fc_guard_program_fd_def)
  then show ?thesis using guard_arm_failure_clean [of ?g demo_cfg 3 7 0 "(0, 0, \<lambda>g. g)" "[]" "Inr 4" EIO "-1" g']
    by (auto simp: zero_guard_def)
qed

text \<open>
  Guards nest: a thread that already holds the guard may arm it again or start and stop a long guard; each
  inner operation succeeds, leaves the whole guard state unchanged, and so keeps the outer guard
  in force.
\<close>

theorem guard_nested_neutral:
  assumes "held self f g" and "\<not> g_uptime_tripped g"
  shows "fc_guard_arm c self stage True now (r # rs) opened g = Some (OK, -1, g)
         \<and> fc_guard_disarm c self (-1) g = (OK, g)
         \<and> (\<exists>l. fc_guard_long_start c self stage ms t0 now (r # rs) opened created g = Some (OK, l, g)
                \<and> fc_guard_long_stop c self l g = Some (OK, l, g))"
proof -
  have "fc_guard_begin_short c self stage now (r # rs) g = Some (Reentrant, g)"
    using assms by (cases r) (simp add: fc_guard_begin_short_def try_begin_def held_def)
  then show ?thesis
    by (simp add: fc_guard_arm_def fc_guard_disarm_def fc_guard_long_start_def fc_guard_long_stop_def Let_def)
qed

theorem guard_nested_neutral_witness:
  "fc_guard_arm demo_cfg 1 9 True 0 [(0, 0, \<lambda>g. g)] (Inl EIO) demo_held = Some (OK, -1, demo_held)"
  using guard_nested_neutral [of 1 5 demo_held demo_cfg 9 0 "(0, 0, \<lambda>g. g)" "[]" "Inl EIO"]
  by (simp add: held_def demo_held_def zero_guard_def)

section \<open>Waiting and limits\<close>

text \<open>
  Acquiring a short guard never waits past its deadline: whatever the other threads do, the
  polling loop returns by the first round whose clock has reached five seconds after the start.
\<close>

theorem guard_begin_returns:
  assumes "\<exists>x\<in>set rs. fst x \<ge> now + CONFIG_FRUITCLAW_GUARD_ACQUIRE_TIMEOUT_MS"
  shows "\<exists>b g'. fc_guard_begin_short c self stage now rs g = Some (b, g')"
proof -
  have "\<exists>x\<in>set rs. fst x \<ge> d \<Longrightarrow> \<exists>b g'. begin_loop c self stage d rs g = Some (b, g')" for d
  proof (induction rs arbitrary: g)
    case (Cons r rs)
    obtain t hb oth where r: "r = (t, hb, oth)" by (cases r)
    obtain b st g1 where b: "try_begin self stage g = (b, st, g1)" by (cases "try_begin self stage g")
    show ?case using Cons by (cases "t \<ge> d") (auto simp: r b Let_def)
  qed simp
  then show ?thesis using assms by (simp add: fc_guard_begin_short_def)
qed

theorem guard_begin_returns_witness:
  "\<exists>b g'. fc_guard_begin_short demo_cfg 2 9 0 [(100, 100, \<lambda>g. g), (5000, 5000, \<lambda>g. g)] demo_held = Some (b, g')"
  by (rule guard_begin_returns) (simp add: CONFIG_FRUITCLAW_GUARD_ACQUIRE_TIMEOUT_MS_def)

text \<open>
  The watchdog load is the requested time in microseconds, cut off at the counter's limit and never
  longer than requested, for every timeout whose microseconds fit in 32 bits, up to 4294967 ms; the configured timeouts are far
  below that.  Past it the multiplication wraps around.
\<close>

theorem guard_load_exact:
  assumes "unat ms \<le> 4294967"
  shows "unat (wd_load (fc_guard_hw_arm c ms stage h)) = min (1000 * unat ms) (unat (load_mask c))"
proof -
  have "unat (ms * 1000) = 1000 * unat ms"
    using assms unat_mult_lem [of ms 1000] by (simp add: mult.commute)
  then show ?thesis
    by (auto simp: fc_guard_hw_arm_def fc_guard_hw_start_tick_def fc_guard_hw_set_scratch_def Let_def word_less_nat_alt)
qed

theorem guard_load_exact_witness:
  "unat (wd_load (fc_guard_hw_arm demo_cfg CONFIG_FRUITCLAW_GUARD_TIMEOUT_MS 7 blank_hw)) = 12000000
   \<and> unat (wd_load (fc_guard_hw_arm demo_cfg CONFIG_FRUITCLAW_SESSION_GUARD_HW_TIMEOUT_MS 7 blank_hw)) = 16777215"
  using guard_load_exact [of CONFIG_FRUITCLAW_GUARD_TIMEOUT_MS demo_cfg 7 blank_hw]
    guard_load_exact [of CONFIG_FRUITCLAW_SESSION_GUARD_HW_TIMEOUT_MS demo_cfg 7 blank_hw]
  by (simp add: CONFIG_FRUITCLAW_GUARD_TIMEOUT_MS_def CONFIG_FRUITCLAW_SESSION_GUARD_HW_TIMEOUT_MS_def demo_cfg_def)

section \<open>The monitors\<close>

lemma recover_triggers:
  "wd_ctrl (hw (fc_guard_recover_now c t st g)) AND ctrl_trigger c = ctrl_trigger c"
  unfolding fc_guard_recover_now_def fc_guard_hw_reset_now_def Let_def modreg32_def
  by (rule bit_word_eqI) (auto simp: bit_simps)

lemma recover_scratch:
  "wd_scratch (hw (fc_guard_recover_now c t st g)) = (fc_guard_bootguard_magic c, CONFIG_FRUITCLAW_GUARD_TIMEOUT_MS, st)"
  by (simp add: fc_guard_recover_now_def fc_guard_hw_reset_now_def fc_guard_hw_set_scratch_def
      fc_guard_hw_start_tick_def Let_def)

text \<open>
  C28. With no short guard active, the session monitor resets the device in a turn exactly when the last heartbeat is
  more than ten minutes old, and then the watchdog is triggered with the session stage recorded;
  otherwise it feeds the watchdog for the session stage.
\<close>

theorem session_guard_trips_iff:
  assumes "\<not> g_session_stop g" and "\<not> fc_guard_uptime_due_locked c now g" and "\<not> g_short_guard_active g"
  shows "case fc_guard_session_thread c t fd now armed g of
           (Resets, _, g') \<Rightarrow> now - g_session_last_ms g > 600000 \<and> g_session_tripped g'
              \<and> wd_ctrl (hw g') AND ctrl_trigger c = ctrl_trigger c
              \<and> wd_scratch (hw g') = (fc_guard_bootguard_magic c, CONFIG_FRUITCLAW_GUARD_TIMEOUT_MS, FC_GUARD_STAGE_SESSION)
         | (Continues, armed', g') \<Rightarrow> now - g_session_last_ms g \<le> 600000 \<and> armed'
              \<and> hw_armed c CONFIG_FRUITCLAW_SESSION_GUARD_HW_TIMEOUT_MS FC_GUARD_STAGE_SESSION (hw g')
         | (Returns, _, _) \<Rightarrow> False"
proof -
  have tr: "g_session_tripped (fc_guard_recover_now c t st x) = g_session_tripped x" for st x
    by (simp add: fc_guard_recover_now_def fc_guard_set_short_active_def guard_log_def Let_def)
  have hw: "hw (snd (fc_guard_ioctl fd cmd x)) = hw x" for cmd x
    by (auto simp: fc_guard_ioctl_def dev_ioctl_def guard_log_def Let_def split: list.splits option.splits)
  show ?thesis
    using assms
    by (auto simp: fc_guard_session_thread_def Let_def recover_triggers recover_scratch tr hw
        CONFIG_FRUITCLAW_SESSION_GUARD_TIMEOUT_MS_def fc_guard_set_short_active_def)
qed

theorem session_guard_trips_iff_witness:
  "case fc_guard_session_thread demo_cfg 2 4 600010 True ((zero_guard blank_hw)\<lparr>g_session_last_ms := 9\<rparr>) of
     (Resets, _, g') \<Rightarrow> g_session_tripped g' | _ \<Rightarrow> False"
  using session_guard_trips_iff [of "(zero_guard blank_hw)\<lparr>g_session_last_ms := 9\<rparr>" demo_cfg 600010 2 4 True]
  by (auto simp: zero_guard_def fc_guard_uptime_due_locked_def split: prod.splits turn.splits)

text \<open>Consecutive clock readings of the uptime thread: it sleeps at least as long as it asks for.\<close>

fun uptime_readings :: "guard_cfg \<Rightarrow> guard \<Rightarrow> int list \<Rightarrow> bool" where
  "uptime_readings c g (t # t' # ts) \<longleftrightarrow>
     t' \<ge> t + uptime_sleep_ms (uptime_remaining c t g) \<and> uptime_readings c g (t' # ts)"
| "uptime_readings c g _ \<longleftrightarrow> True"

lemma uptime_sleep_bounds:
  assumes "0 < r"
  shows "uptime_sleep_ms r \<ge> min r 1000" "uptime_sleep_ms r < r + 1000"
proof -
  have d: "x \<le> (x + 999) div 1000 * 1000" "(x + 999) div 1000 * 1000 < x + 1000" for x :: int
    using pos_mod_bound [of 1000 "x + 999"] pos_mod_sign [of 1000 "x + 999"]
      div_mult_mod_eq [of "x + 999" 1000] by linarith+
  show "uptime_sleep_ms r \<ge> min r 1000" "uptime_sleep_ms r < r + 1000"
    using assms d(1) [of r] d(2) [of r] by (auto simp: uptime_sleep_ms_def Let_def)
qed

lemma uptime_progress:
  "uptime_readings c g (t # ts) \<Longrightarrow> uptime_remaining c t g \<le> int n * 1000 \<Longrightarrow> n < length (t # ts) \<Longrightarrow>
     \<exists>x\<in>set (t # ts). uptime_remaining c x g \<le> 0"
proof (induction n arbitrary: t ts)
  case (Suc n)
  show ?case
  proof (cases "uptime_remaining c t g \<le> 0")
    case False
    obtain t' ts' where ts: "ts = t' # ts'" using Suc.prems(3) by (cases ts) auto
    have "t' \<ge> t + min (uptime_remaining c t g) 1000"
      using Suc.prems(1) uptime_sleep_bounds(1) [of "uptime_remaining c t g"] False by (simp add: ts)
    then have "uptime_remaining c t' g \<le> int n * 1000"
      using Suc.prems(2) by (auto simp: uptime_remaining_def)
    then show ?thesis using Suc.IH [of t' ts'] Suc.prems by (simp add: ts)
  qed simp
qed simp

text \<open>
  The uptime limit is enforced: once the thread has looked at the clock more often than the limit has started
  seconds, some turn has tripped the limit, triggered the watchdog and recorded the uptime stage; and it never
  sleeps a second or more past the moment the limit is reached.
\<close>

theorem uptime_guard_trips:
  assumes "uptime_readings c g ts" and "ts \<noteq> []" and "\<forall>t\<in>set ts. g_uptime_start_ms g \<le> t"
    and "max_uptime_ms c \<le> int n * 1000" and "n < length ts"
  shows "\<exists>t\<in>set ts. \<exists>g'. fc_guard_uptime_thread c self t g = (Resets, g') \<and> g_uptime_tripped g'
           \<and> wd_ctrl (hw g') AND ctrl_trigger c = ctrl_trigger c
           \<and> (\<forall>u. 0 < uptime_remaining c u g \<longrightarrow>
                u + uptime_sleep_ms (uptime_remaining c u g) < g_uptime_start_ms g + max_uptime_ms c + 1000)"
proof -
  obtain t ts' where ts: "ts = t # ts'" using assms(2) by (cases ts) auto
  have "uptime_remaining c t g \<le> int n * 1000" using assms(3,4) by (auto simp: ts uptime_remaining_def)
  then obtain x where x: "x \<in> set ts" "uptime_remaining c x g \<le> 0"
    using uptime_progress assms(1,5) unfolding ts by blast
  have "g_uptime_tripped (fc_guard_recover_now c self st y) = g_uptime_tripped y" for st y
    by (simp add: fc_guard_recover_now_def Let_def)
  then have "fc_guard_uptime_thread c self x g = (Resets, fc_guard_recover_now c self FC_GUARD_STAGE_UPTIME (g\<lparr>g_uptime_tripped := True\<rparr>))"
    "g_uptime_tripped (fc_guard_recover_now c self FC_GUARD_STAGE_UPTIME (g\<lparr>g_uptime_tripped := True\<rparr>))"
    using x(2) by (simp_all add: fc_guard_uptime_thread_def)
  moreover have "u + uptime_sleep_ms (uptime_remaining c u g) < g_uptime_start_ms g + max_uptime_ms c + 1000"
    if "0 < uptime_remaining c u g" for u
    using uptime_sleep_bounds(2) [OF that] by (simp add: uptime_remaining_def)
  ultimately show ?thesis using x(1) recover_triggers by blast
qed

theorem uptime_guard_trips_witness:
  "\<exists>t\<in>set [0, 2000, 2001, 3000]. \<exists>g'.
     fc_guard_uptime_thread (demo_cfg\<lparr>max_uptime_ms := 1500\<rparr>) 2 t (zero_guard blank_hw) = (Resets, g') \<and> g_uptime_tripped g'"
proof -
  let ?c = "demo_cfg\<lparr>max_uptime_ms := 1500\<rparr>" and ?g = "zero_guard blank_hw"
  have r: "uptime_readings ?c ?g [0, 2000, 2001, 3000]" "\<forall>t\<in>set [0, 2000, 2001, 3000]. g_uptime_start_ms ?g \<le> t"
    "max_uptime_ms ?c \<le> int 2 * 1000" "2 < length [0 :: int, 2000, 2001, 3000]"
    by (simp_all add: uptime_sleep_ms_def uptime_remaining_def zero_guard_def)
  show ?thesis using uptime_guard_trips [OF r(1) _ r(2-4), of 2] by blast
qed

text \<open>
  C37. When the session monitor is asked to stop it releases the short guard unconditionally: a tool that another
  thread is running under its own guard loses both the guard and the watchdog that protects it.
\<close>

theorem session_exit_drops_foreign_guard:
  assumes "held a f g" and "g_session_stop g" and "t \<noteq> a"
  shows "\<exists>armed' g'. fc_guard_session_thread c t fd now armed g = (Returns, armed', g')
           \<and> \<not> g_short_guard_active g' \<and> hw_quiet c (hw g')"
proof -
  have hw: "hw (snd (fc_guard_ioctl fd cmd x)) = hw x" for cmd x
    by (auto simp: fc_guard_ioctl_def dev_ioctl_def guard_log_def Let_def split: list.splits option.splits)
  show ?thesis
    using assms by (simp add: fc_guard_session_thread_def session_exit_def fc_guard_set_session_watchdog_def hw Let_def)
qed

theorem session_exit_drops_foreign_guard_witness:
  "\<exists>armed' g'. fc_guard_session_thread demo_cfg 2 4 0 True (fc_guard_session_stop demo_held) = (Returns, armed', g')
     \<and> \<not> g_short_guard_active g'"
  using session_exit_drops_foreign_guard [of 1 5 "fc_guard_session_stop demo_held" 2 demo_cfg 4 0 True]
  by (auto simp: held_def demo_held_def fc_guard_session_stop_def)

end
