(* ===== verification/FC_Cap.thy ===== *)
theory FC_Cap
  imports FC_Queue FC_Progress FC_CJson
begin

text \<open>
  The capability registry of \<^verbatim>\<open>core/fc_cap.c\<close>: registration and lookup of tools, the owner gate in
  front of their execution, the mapping of tool names, and the tool descriptions for the language
  model and for MCP.  What a tool does is the function stored in its entry; \<open>'w\<close> is the state it works on.
\<close>

section \<open>State\<close>

text \<open>A tool: context, arguments and buffer size to the return code and the text it leaves.\<close>

type_synonym 'w cap_fn = "fc_tool_context option \<Rightarrow> string \<Rightarrow> nat \<Rightarrow> 'w \<Rightarrow> (ret \<times> string) \<times> 'w"

record 'w fc_cap =
  cap_id :: "string option"
  cap_name :: "string option"
  cap_description :: "string option"
  cap_schema :: "string option"
  visible_to_llm :: bool
  requires_confirmation :: bool
  cap_execute :: "'w cap_fn option"

text \<open>\<open>g_caps\<close> holds the first \<^verbatim>\<open>g_cap_count\<close> entries of the array.\<close>

record 'w registry =
  g_caps :: "'w fc_cap list"
  g_caps_initialized :: bool
  g_last_tool_ret :: ret
  g_last_tool_ms :: int
  g_last_tool_id :: string

definition FC_MAX_CAPS :: nat where "FC_MAX_CAPS = 48"
definition CONFIG_FRUITCLAW_MCP_MAX_RESPONSE :: nat where "CONFIG_FRUITCLAW_MCP_MAX_RESPONSE = 32768"

definition zero_registry :: "'w registry" where
  "zero_registry = \<lparr>g_caps = [], g_caps_initialized = False, g_last_tool_ret = OK, g_last_tool_ms = 0,
     g_last_tool_id = []\<rparr>"

section \<open>Registration and lookup\<close>

definition fc_cap_record_error :: "int \<Rightarrow> string option \<Rightarrow> ret \<Rightarrow> 'w registry \<Rightarrow> 'w registry" where
  "fc_cap_record_error now k ret r =
     (if ret = OK then r
      else r\<lparr>g_last_tool_ret := ret, g_last_tool_ms := now,
             g_last_tool_id := cpy FC_TOOL_NAME_LEN (case k of Some s \<Rightarrow> s | None \<Rightarrow> ''unknown'')\<rparr>)"

definition fc_cap_find :: "string option \<Rightarrow> 'w registry \<Rightarrow> 'w fc_cap option" where
  "fc_cap_find k r =
     (case k of None \<Rightarrow> None | Some s \<Rightarrow> List.find (\<lambda>c. cap_id c = Some s) (g_caps r))"

definition fc_cap_register :: "'w fc_cap option \<Rightarrow> 'w registry \<Rightarrow> ret \<times> 'w registry" where
  "fc_cap_register cap r =
     (case cap of
        None \<Rightarrow> (Err EINVAL, r)
      | Some c \<Rightarrow>
          if cap_id c = None \<or> cap_execute c = None then (Err EINVAL, r)
          else if fc_cap_find (cap_id c) r \<noteq> None then (Err EEXIST, r)
          else if length (g_caps r) \<ge> FC_MAX_CAPS then (Err ENOSPC, r)
          else (OK, r\<lparr>g_caps := g_caps r @ [c]\<rparr>))"

text \<open>\<^verbatim>\<open>fc_register_builtin_caps\<close> over a table.\<close>

fun fc_register_builtin_caps :: "'w fc_cap list \<Rightarrow> 'w registry \<Rightarrow> ret \<times> 'w registry" where
  "fc_register_builtin_caps [] r = (OK, r)"
| "fc_register_builtin_caps (c # cs) r =
     (case fc_cap_register (Some c) r of
        (Err e, r1) \<Rightarrow> (Err e, r1)
      | (OK, r1) \<Rightarrow> fc_register_builtin_caps cs r1)"

definition fc_cap_init :: "'w fc_cap list \<Rightarrow> 'w registry \<Rightarrow> ret \<times> 'w registry" where
  "fc_cap_init table r =
     (if g_caps_initialized r then (OK, r)
      else case fc_register_builtin_caps table (r\<lparr>g_caps := []\<rparr>) of
             (OK, r1) \<Rightarrow> (OK, r1\<lparr>g_caps_initialized := True\<rparr>)
           | (Err e, r1) \<Rightarrow> (Err e, r1))"

definition fc_cap_count :: "bool \<Rightarrow> 'w registry \<Rightarrow> nat" where
  "fc_cap_count visible_only r = length (filter (\<lambda>c. \<not> visible_only \<or> visible_to_llm c) (g_caps r))"

section \<open>Contexts and execution\<close>

definition zero_context :: fc_tool_context where
  "zero_context = \<lparr>tc_source = [], tc_channel = [], tc_chat_id = [], tc_session_id = [], tc_owner_mode = False,
     tc_guarded = False\<rparr>"

definition fc_tool_context_from_event :: "fc_event option \<Rightarrow> fc_tool_context" where
  "fc_tool_context_from_event ev =
     (case ev of
        None \<Rightarrow> zero_context
      | Some e \<Rightarrow> zero_context\<lparr>tc_source := cpy FC_SOURCE_LEN (ev_source e),
                               tc_channel := cpy FC_CHANNEL_LEN (ev_channel e),
                               tc_chat_id := cpy FC_CHAT_ID_LEN (ev_chat_id e),
                               tc_session_id := cpy FC_SESSION_ID_LEN (ev_session_id e),
                               tc_owner_mode := ev_owner_mode e\<rparr>)"

text \<open>The argument tells whether \<^verbatim>\<open>CONFIG_FRUITCLAW_OWNER_MODE\<close> is set.\<close>

definition fc_tool_context_local :: "bool \<Rightarrow> fc_tool_context" where
  "fc_tool_context_local owner_config =
     zero_context\<lparr>tc_source := cpy FC_SOURCE_LEN ''cli'', tc_channel := cpy FC_CHANNEL_LEN ''cli'',
                  tc_session_id := cpy FC_SESSION_ID_LEN ''cli'', tc_owner_mode := owner_config\<rparr>"

text \<open>The state of an execution: registry, progress clock and the tools' own state.\<close>

record 'w cap_world =
  cw_registry :: "'w registry"
  cw_progress :: progress
  cw_state :: 'w

text \<open>The clock readings: error record, start mark, end mark.\<close>

definition fc_cap_execute_ctx ::
    "int \<times> int \<times> int \<Rightarrow> fc_tool_context option \<Rightarrow> string option \<Rightarrow> string option \<Rightarrow> nat option \<Rightarrow> 'w cap_world
       \<Rightarrow> (ret \<times> string option) \<times> 'w cap_world" where
  \<open>fc_cap_execute_ctx clk ctx k args out w =
     (case clk of (t_err, t_start, t_end) \<Rightarrow>
        let cap = fc_cap_find k (cw_registry w)
        in case out of
             None \<Rightarrow> ((Err EINVAL, None), w)
           | Some n \<Rightarrow>
               if n = 0 then ((Err EINVAL, None), w)
               else (case cap of
                 None \<Rightarrow>
                   ((Err ENOENT, Some (snprintf_buf n ''{"ok":false,"error":"unknown tool"}'')),
                    w\<lparr>cw_registry := fc_cap_record_error t_err k (Err ENOENT) (cw_registry w)\<rparr>)
               | Some c \<Rightarrow>
                   if requires_confirmation c \<and> (case ctx of None \<Rightarrow> True | Some x \<Rightarrow> \<not> tc_owner_mode x)
                   then ((Err EACCES, Some (snprintf_buf n ''{"ok":false,"error":"owner mode required"}'')),
                         w\<lparr>cw_registry := fc_cap_record_error t_err k (Err EACCES) (cw_registry w)\<rparr>)
                   else (case the (cap_execute c) ctx (case args of Some a \<Rightarrow> a | None \<Rightarrow> ''{}'') n (cw_state w) of
                           ((ret, text'), s) \<Rightarrow>
                             let p1 = fc_operator_progress_mark t_start (Some ''tool-start'') (cw_progress w);
                                 p2 = fc_operator_progress_mark t_end
                                        (Some (if ret \<noteq> OK then ''tool-fail'' else ''tool-ok'')) p1
                             in ((ret, Some text'),
                                 \<lparr>cw_registry = fc_cap_record_error t_err k ret (cw_registry w),
                                  cw_progress = p2, cw_state = s\<rparr>))))\<close>

definition fc_cap_execute ::
    "bool \<Rightarrow> int \<times> int \<times> int \<Rightarrow> string option \<Rightarrow> string option \<Rightarrow> nat option \<Rightarrow> 'w cap_world
       \<Rightarrow> (ret \<times> string option) \<times> 'w cap_world" where
  "fc_cap_execute owner_config clk k args out w =
     fc_cap_execute_ctx clk (Some (fc_tool_context_local owner_config)) k args out w"

section \<open>Tool names\<close>

definition openai_char :: "char \<Rightarrow> char" where
  "openai_char c = (if isalnum c \<or> c = CHR ''_'' then c else CHR ''_'')"

text \<open>On \<open>ENOSPC\<close> the buffer is left without a terminator.\<close>

definition fc_tool_name_to_openai :: "string option \<Rightarrow> nat option \<Rightarrow> ret \<times> string option" where
  "fc_tool_name_to_openai k out =
     (case (k, out) of
        (Some s, Some n) \<Rightarrow>
          if n = 0 then (Err EINVAL, None)
          else if length s \<ge> n then (Err ENOSPC, None)
          else (OK, Some (map openai_char s))
      | _ \<Rightarrow> (Err EINVAL, None))"

definition fc_tool_name_from_openai :: "string option \<Rightarrow> nat option \<Rightarrow> 'w registry \<Rightarrow> ret \<times> string option" where
  "fc_tool_name_from_openai nm out r =
     (case (nm, out) of
        (Some s, Some n) \<Rightarrow>
          if n = 0 then (Err EINVAL, None)
          else (case List.find (\<lambda>c. fc_tool_name_to_openai (cap_id c) (Some FC_TOOL_NAME_LEN) = (OK, Some s)) (g_caps r) of
                  Some c \<Rightarrow> fc_strlcpy out (cap_id c)
                | None \<Rightarrow> (Err ENOENT, None))
      | _ \<Rightarrow> (Err EINVAL, None))"

section \<open>Descriptions for clients\<close>

text \<open>
  One tool as the language model sees it; \<open>None\<close> where an allocation or the
  parse of the schema fails.  The numbers name the allocations.
\<close>

definition openai_tool :: "'j cjson \<Rightarrow> nat \<Rightarrow> string \<Rightarrow> 'w fc_cap \<Rightarrow> 'j option" where
  "openai_tool cj i mapped c =
     (case (cj_object cj (2 * i), cj_object cj (2 * i + 1),
            cj_parse cj (case cap_schema c of Some s \<Rightarrow> s | None \<Rightarrow> ''{}'')) of
        (Some tool, Some fn, Some schema) \<Rightarrow>
          (let tool1 = cj_add_string cj tool ''type'' ''function'';
               fn1 = cj_add_string cj fn ''name'' mapped;
               fn2 = cj_add_string cj fn1 ''description''
                       (case cap_description c of Some d \<Rightarrow> d | None \<Rightarrow> the (cap_id c));
               fn3 = cj_add_child cj fn2 ''parameters'' schema
           in Some (cj_add_child cj tool1 ''function'' fn3))
      | _ \<Rightarrow> None)"

fun openai_loop :: "'j cjson \<Rightarrow> bool \<Rightarrow> nat \<Rightarrow> 'w fc_cap list \<Rightarrow> 'j \<Rightarrow> 'j option" where
  "openai_loop cj visible_only i [] arr = Some arr"
| "openai_loop cj visible_only i (c # cs) arr =
     (if visible_only \<and> \<not> visible_to_llm c then openai_loop cj visible_only (Suc i) cs arr
      else case fc_tool_name_to_openai (cap_id c) (Some FC_TOOL_NAME_LEN) of
             (Err e, _) \<Rightarrow> openai_loop cj visible_only (Suc i) cs arr
           | (OK, mapped) \<Rightarrow>
               (case openai_tool cj i (the mapped) c of
                  None \<Rightarrow> None
                | Some tool \<Rightarrow> openai_loop cj visible_only (Suc i) cs (cj_add_item cj arr tool)))"

text \<open>Printing into the caller's buffer.\<close>

definition print_to :: "'j cjson \<Rightarrow> nat \<Rightarrow> 'j \<Rightarrow> ret \<times> string option" where
  "print_to cj n x =
     (case cj_print cj x of
        None \<Rightarrow> (Err ENOMEM, None)
      | Some s \<Rightarrow> (if fst (fc_strlcpy (Some n) (Some s)) = OK then OK else Err ENOSPC,
                   snd (fc_strlcpy (Some n) (Some s))))"

definition fc_cap_build_openai_tools_json ::
    "'j cjson \<Rightarrow> nat option \<Rightarrow> bool \<Rightarrow> 'w registry \<Rightarrow> ret \<times> string option" where
  "fc_cap_build_openai_tools_json cj out visible_only r =
     (case out of
        None \<Rightarrow> (Err EINVAL, None)
      | Some n \<Rightarrow>
          if n = 0 then (Err EINVAL, None)
          else (case cj_array cj of
                  None \<Rightarrow> (Err ENOMEM, None)
                | Some arr \<Rightarrow>
                    (case openai_loop cj visible_only 0 (g_caps r) arr of
                       None \<Rightarrow> (Err ENOMEM, None)
                     | Some arr' \<Rightarrow> print_to cj n arr')))"

definition mcp_tool :: "'j cjson \<Rightarrow> nat \<Rightarrow> 'w fc_cap \<Rightarrow> 'j option" where
  "mcp_tool cj i c =
     (let schema = (case cj_parse cj (case cap_schema c of Some s \<Rightarrow> s | None \<Rightarrow> ''{}'') of
                      Some s \<Rightarrow> Some s | None \<Rightarrow> cj_object cj (2 * i + 2))
      in case (cj_object cj (2 * i + 1), schema) of
           (Some tool, Some s) \<Rightarrow>
             (let t1 = cj_add_string cj tool ''name'' (the (cap_id c));
                  t2 = cj_add_string cj t1 ''title'' (case cap_name c of Some m \<Rightarrow> m | None \<Rightarrow> the (cap_id c));
                  t3 = cj_add_string cj t2 ''description''
                         (case cap_description c of Some d \<Rightarrow> d | None \<Rightarrow> the (cap_id c))
              in Some (cj_add_child cj t3 ''inputSchema'' s))
         | _ \<Rightarrow> None)"

fun mcp_loop :: "'j cjson \<Rightarrow> bool \<Rightarrow> nat \<Rightarrow> 'w fc_cap list \<Rightarrow> 'j \<Rightarrow> 'j option" where
  "mcp_loop cj visible_only i [] arr = Some arr"
| "mcp_loop cj visible_only i (c # cs) arr =
     (if visible_only \<and> \<not> visible_to_llm c then mcp_loop cj visible_only (Suc i) cs arr
      else case mcp_tool cj i c of
             None \<Rightarrow> None
           | Some tool \<Rightarrow> mcp_loop cj visible_only (Suc i) cs (cj_add_item cj arr tool))"

text \<open>
  The array is added to the root before it is filled; as values that is adding
  the filled array.
\<close>

definition fc_cap_build_mcp_tools_json ::
    "'j cjson \<Rightarrow> nat option \<Rightarrow> bool \<Rightarrow> 'w registry \<Rightarrow> ret \<times> string option" where
  "fc_cap_build_mcp_tools_json cj out visible_only r =
     (case out of
        None \<Rightarrow> (Err EINVAL, None)
      | Some n \<Rightarrow>
          if n = 0 then (Err EINVAL, None)
          else (case (cj_object cj 0, cj_array cj) of
                  (Some root, Some arr) \<Rightarrow>
                    (case mcp_loop cj visible_only 0 (g_caps r) arr of
                       None \<Rightarrow> (Err ENOMEM, None)
                     | Some arr' \<Rightarrow> print_to cj n (cj_add_child cj root ''tools'' arr'))
                | _ \<Rightarrow> (Err ENOMEM, None)))"

section \<open>Listing and status\<close>

definition fc_cap_list :: "'w registry \<Rightarrow> string" where
  "fc_cap_list r =
     concat (map (\<lambda>c. the (cap_id c) @ [CHR 0x09] @ (if visible_to_llm c then ''llm'' else ''local'')
                      @ (if requires_confirmation c then '',owner'' else []) @ [LF]) (g_caps r))"

definition fc_cap_status :: "(ret \<Rightarrow> int) \<Rightarrow> int \<Rightarrow> 'w registry \<Rightarrow> string" where
  "fc_cap_status code now r =
     (if g_last_tool_ms r = 0 then ''  last_tool_error: none'' @ [LF]
      else ''  last_tool_error: tool='' @ (if g_last_tool_id r \<noteq> [] then g_last_tool_id r else ''unknown'')
           @ '' ret='' @ dec_int (code (g_last_tool_ret r)) @ '' age_ms='' @ dec_int (now - g_last_tool_ms r) @ [LF])"

definition fc_cap_clear_status :: "'w registry \<Rightarrow> 'w registry" where
  "fc_cap_clear_status r = r\<lparr>g_last_tool_ret := OK, g_last_tool_ms := 0, g_last_tool_id := []\<rparr>"

end
