(* ===== verification/FC_Builtin_Caps.thy ===== *)
theory FC_Builtin_Caps
  imports FC_Cap
begin

text \<open>
  The table of built-in tools of \<^verbatim>\<open>caps/fc_caps_builtin.c\<close>, entry by entry, and what the registry
  makes of it.  The argument \<open>h\<close> gives the function behind each C name.
\<close>

section \<open>The table\<close>

definition builtin_caps_1 :: "(string \<Rightarrow> 'w cap_fn) \<Rightarrow> 'w fc_cap list" where
  \<open>builtin_caps_1 h = [
   \<lparr>cap_id = Some ''time.now'', cap_name = Some ''Current time'',
     cap_description = Some (''Return current device time.''),
     cap_schema = Some (''{"type":"object","properties":{},"additionalProperties":false}''),
     visible_to_llm = True, requires_confirmation = False, cap_execute = Some (h ''cap_time_now'')\<rparr>,
   \<lparr>cap_id = Some ''system.info'', cap_name = Some ''System info'',
     cap_description = Some (''Return non-secret FruitClaw and board information.''),
     cap_schema = Some (''{"type":"object","properties":{},"additionalProperties":false}''),
     visible_to_llm = True, requires_confirmation = False, cap_execute = Some (h ''cap_system_info'')\<rparr>,
   \<lparr>cap_id = Some ''system.status'', cap_name = Some ''System status'',
     cap_description = Some (''Return non-secret FruitClaw runtime health counters without running a terminal command.''),
     cap_schema = Some (''{"type":"object","properties":{},"additionalProperties":false}''),
     visible_to_llm = True, requires_confirmation = False, cap_execute = Some (h ''cap_system_status'')\<rparr>,
   \<lparr>cap_id = Some ''service.status'', cap_name = Some ''Service status'',
     cap_description = Some (''Return Telnet and FTP service state, autostart flags, counters, and known lifecycle limi'' @
       ''tations.''),
     cap_schema = Some (''{"type":"object","properties":{"service":{"type":"string","enum":["all","telnetd","ftpd"'' @
       '']}},"additionalProperties":false}''),
     visible_to_llm = True, requires_confirmation = False, cap_execute = Some (h ''cap_service_status'')\<rparr>,
   \<lparr>cap_id = Some ''service.control'', cap_name = Some ''Control service'',
     cap_description = Some (''Start, stop, restart, enable, or disable Telnet/FTP services. Telnet stop/restart uses t'' @
       ''he local telnetd PID file; FTP uses ftpd_stop.''),
     cap_schema = Some (''{"type":"object","properties":{"service":{"type":"string","enum":["telnetd","ftpd"]},"ac'' @
       ''tion":{"type":"string","enum":["start","stop","restart","enable","disable"]}},"required"'' @
       '':["service","action"],"additionalProperties":false}''),
     visible_to_llm = True, requires_confirmation = True, cap_execute = Some (h ''cap_service_control'')\<rparr>,
   \<lparr>cap_id = Some ''memory.append'', cap_name = Some ''Append memory'',
     cap_description = Some (''Append a short memory note to FruitClaw memory.''),
     cap_schema = Some (''{"type":"object","properties":{"text":{"type":"string"}},"required":["text"],"additional'' @
       ''Properties":false}''),
     visible_to_llm = True, requires_confirmation = False, cap_execute = Some (h ''cap_memory_append'')\<rparr>,
   \<lparr>cap_id = Some ''memory.read'', cap_name = Some ''Read memory'',
     cap_description = Some (''Read a bounded tail from FruitClaw memory.''),
     cap_schema = Some (''{"type":"object","properties":{"max_bytes":{"type":"integer"},"include_selftest":{"type"'' @
       '':"boolean"}},"additionalProperties":false}''),
     visible_to_llm = True, requires_confirmation = False, cap_execute = Some (h ''cap_memory_read'')\<rparr>,
   \<lparr>cap_id = Some ''file.read'', cap_name = Some ''Read data file'',
     cap_description = Some (''Read a bounded file under the FruitClaw data directory.''),
     cap_schema = Some (''{"type":"object","properties":{"path":{"type":"string"},"max_bytes":{"type":"integer"}},'' @
       ''"required":["path"],"additionalProperties":false}''),
     visible_to_llm = True, requires_confirmation = False, cap_execute = Some (h ''cap_file_read'')\<rparr>,
   \<lparr>cap_id = Some ''file.write_limited'', cap_name = Some ''Write limited data file'',
     cap_description = Some (''Write a file under scripts/ or notes/ in the FruitClaw data directory.''),
     cap_schema = Some (''{"type":"object","properties":{"path":{"type":"string"},"text":{"type":"string"}},"requi'' @
       ''red":["path","text"],"additionalProperties":false}''),
     visible_to_llm = True, requires_confirmation = True, cap_execute = Some (h ''cap_file_write_limited'')\<rparr>,
   \<lparr>cap_id = Some ''web.home.read'', cap_name = Some ''Read web home page'',
     cap_description = Some (''Read the Markdown body rendered by the root web page. Custom content lives at www/home.m'' @
       ''d under the active FruitClaw data root.''),
     cap_schema = Some (''{"type":"object","properties":{},"additionalProperties":false}''),
     visible_to_llm = True, requires_confirmation = False, cap_execute = Some (h ''cap_web_home_read'')\<rparr>,
   \<lparr>cap_id = Some ''web.home.write'', cap_name = Some ''Write web home page'',
     cap_description = Some (''Replace the Markdown body rendered by the root web page and served through /site/home.md'' @
       ''. The static root shell links to /docs/ for the manual.''),
     cap_schema = Some (''{"type":"object","properties":{"markdown":{"type":"string"},"text":{"type":"string"}},"a'' @
       ''dditionalProperties":false}''),
     visible_to_llm = True, requires_confirmation = True, cap_execute = Some (h ''cap_web_home_write'')\<rparr>,
   \<lparr>cap_id = Some ''script.list'', cap_name = Some ''List generated scripts'',
     cap_description = Some (''List generated Berry .be and NSH .nsh scripts created by FruitClaw under scripts/generat'' @
       ''ed/, including stored descriptions when present.''),
     cap_schema = Some (''{"type":"object","properties":{},"additionalProperties":false}''),
     visible_to_llm = True, requires_confirmation = False, cap_execute = Some (h ''cap_script_list'')\<rparr>]\<close>

definition builtin_caps_2 :: "(string \<Rightarrow> 'w cap_fn) \<Rightarrow> 'w fc_cap list" where
  \<open>builtin_caps_2 h = [
   \<lparr>cap_id = Some ''script.read'', cap_name = Some ''Read generated script'',
     cap_description = Some (''Read a generated Berry or NSH script from scripts/generated/ so the owner or agent can i'' @
       ''nspect and rework it.''),
     cap_schema = Some (''{"type":"object","properties":{"name":{"type":"string"},"path":{"type":"string"},"kind":'' @
       ''{"type":"string","enum":["auto","berry","be","shell","nsh","sh"]}},"additionalProperties'' @
       ''":false}''),
     visible_to_llm = True, requires_confirmation = False, cap_execute = Some (h ''cap_script_read'')\<rparr>,
   \<lparr>cap_id = Some ''script.write'', cap_name = Some ''Write generated script'',
     cap_description = Some (''Create or replace a generated Berry .be or NSH .nsh script under scripts/generated/. By '' @
       ''default the script is validated by running it once through the guarded runner; use valid'' @
       ''ate_mode=syntax for long-running Berry UI scripts.''),
     cap_schema = Some (''{"type":"object","properties":{"name":{"type":"string"},"path":{"type":"string"},"descri'' @
       ''ption":{"type":"string"},"kind":{"type":"string","enum":["auto","berry","be","shell","ns'' @
       ''h","sh"]},"text":{"type":"string"},"validate":{"type":"boolean"},"validate_mode":{"type"'' @
       '':"string","enum":["run","syntax"]}},"required":["text"],"additionalProperties":false}''),
     visible_to_llm = True, requires_confirmation = True, cap_execute = Some (h ''cap_script_write'')\<rparr>,
   \<lparr>cap_id = Some ''script.validate'', cap_name = Some ''Validate generated script'',
     cap_description = Some (''Validate a generated Berry or NSH script. Default mode runs it once through the guarded '' @
       ''runner; mode=syntax checks Berry syntax without executing the script.''),
     cap_schema = Some (''{"type":"object","properties":{"name":{"type":"string"},"path":{"type":"string"},"kind":'' @
       ''{"type":"string","enum":["auto","berry","be","shell","nsh","sh"]},"mode":{"type":"string'' @
       ''","enum":["run","syntax"]},"validate_mode":{"type":"string","enum":["run","syntax"]}},"a'' @
       ''dditionalProperties":false}''),
     visible_to_llm = True, requires_confirmation = True, cap_execute = Some (h ''cap_script_validate'')\<rparr>,
   \<lparr>cap_id = Some ''script.remove'', cap_name = Some ''Remove generated script'',
     cap_description = Some (''Remove a generated Berry or NSH script from scripts/generated/ after the owner confirms '' @
       ''it is no longer wanted.''),
     cap_schema = Some (''{"type":"object","properties":{"name":{"type":"string"},"path":{"type":"string"},"kind":'' @
       ''{"type":"string","enum":["auto","berry","be","shell","nsh","sh"]}},"additionalProperties'' @
       ''":false}''),
     visible_to_llm = True, requires_confirmation = True, cap_execute = Some (h ''cap_script_remove'')\<rparr>,
   \<lparr>cap_id = Some ''script.run'', cap_name = Some ''Run generated script'',
     cap_description = Some (''Run a generated Berry or NSH script under scripts/generated/ through the guarded runner.''),
     cap_schema = Some (''{"type":"object","properties":{"name":{"type":"string"},"path":{"type":"string"},"kind":'' @
       ''{"type":"string","enum":["auto","berry","be","shell","nsh","sh"]},"args_json":{"type":"s'' @
       ''tring"}},"additionalProperties":false}''),
     visible_to_llm = True, requires_confirmation = True, cap_execute = Some (h ''cap_script_run'')\<rparr>,
   \<lparr>cap_id = Some ''script.schedule'', cap_name = Some ''Schedule generated script'',
     cap_description = Some (''Schedule a generated Berry or NSH script to run at boot, once, on an interval, or from a'' @
       '' 5-field cron expression. The scheduler fires script.run directly without needing the LL'' @
       ''M.''),
     cap_schema = Some (''{"type":"object","properties":{"id":{"type":"string"},"name":{"type":"string"},"path":{"'' @
       ''type":"string"},"kind":{"type":"string","enum":["auto","berry","be","shell","nsh","sh"]}'' @
       '',"type":{"type":"string","enum":["interval","once","cron","boot"]},"every_sec":{"type":"'' @
       ''integer"},"at_epoch":{"type":"integer"},"after_sec":{"type":"integer"},"expr":{"type":"s'' @
       ''tring"},"args_json":{"type":"string"}},"required":["type"],"additionalProperties":false}''),
     visible_to_llm = True, requires_confirmation = True, cap_execute = Some (h ''cap_script_schedule'')\<rparr>,
   \<lparr>cap_id = Some ''telegram.send_message'', cap_name = Some ''Send Telegram message'',
     cap_description = Some (''Send a plain text Telegram message to an allowed chat. If chat_id is omitted, use the cu'' @
       ''rrent Telegram chat.''),
     cap_schema = Some (''{"type":"object","properties":{"chat_id":{"type":"string"},"text":{"type":"string"}},"re'' @
       ''quired":["text"],"additionalProperties":false}''),
     visible_to_llm = True, requires_confirmation = False, cap_execute = Some (h ''cap_telegram_send'')\<rparr>,
   \<lparr>cap_id = Some ''scheduler.add'', cap_name = Some ''Add schedule'',
     cap_description = Some (''Add a boot, interval, once, or cron schedule. Schedules inherit the current owner chat a'' @
       ''nd session. Plain prompts are delivered directly at fire time; prefix prompt with agent:'' @
       '' to run the full LLM/tool loop.''),
     cap_schema = Some (''{"type":"object","properties":{"id":{"type":"string"},"type":{"type":"string","enum":["i'' @
       ''nterval","once","cron","boot"]},"every_sec":{"type":"integer"},"at_epoch":{"type":"integ'' @
       ''er"},"after_sec":{"type":"integer"},"expr":{"type":"string"},"prompt":{"type":"string"}}'' @
       '',"required":["type","prompt"],"additionalProperties":false}''),
     visible_to_llm = True, requires_confirmation = True, cap_execute = Some (h ''cap_scheduler_add'')\<rparr>,
   \<lparr>cap_id = Some ''scheduler.list'', cap_name = Some ''List schedules'',
     cap_description = Some (''List configured FruitClaw schedules.''),
     cap_schema = Some (''{"type":"object","properties":{},"additionalProperties":false}''),
     visible_to_llm = True, requires_confirmation = False, cap_execute = Some (h ''cap_scheduler_list'')\<rparr>,
   \<lparr>cap_id = Some ''scheduler.remove'', cap_name = Some ''Remove schedule'',
     cap_description = Some (''Remove a configured schedule by id.''),
     cap_schema = Some (''{"type":"object","properties":{"id":{"type":"string"}},"required":["id"],"additionalProp'' @
       ''erties":false}''),
     visible_to_llm = True, requires_confirmation = True, cap_execute = Some (h ''cap_scheduler_remove'')\<rparr>,
   \<lparr>cap_id = Some ''berry.run_script'', cap_name = Some ''Run Berry script'',
     cap_description = Some (''Run a Berry script under scripts/ with JSON args. The script can use the constrained cla'' @
       ''w module.''),
     cap_schema = Some (''{"type":"object","properties":{"path":{"type":"string"},"args_json":{"type":"string"}},"'' @
       ''required":["path"],"additionalProperties":false}''),
     visible_to_llm = True, requires_confirmation = True, cap_execute = Some (h ''cap_berry_run_script'')\<rparr>,
   \<lparr>cap_id = Some ''terminal.run'', cap_name = Some ''Run terminal command'',
     cap_description = Some (''Run a bounded NuttX/NSH command as the device owner and return captured output.''),
     cap_schema = Some (''{"type":"object","properties":{"command":{"type":"string"}},"required":["command"],"addi'' @
       ''tionalProperties":false}''),
     visible_to_llm = True, requires_confirmation = True, cap_execute = Some (h ''fc_builtin_terminal_run'')\<rparr>]\<close>

definition builtin_caps_3 :: "(string \<Rightarrow> 'w cap_fn) \<Rightarrow> 'w fc_cap list" where
  \<open>builtin_caps_3 h = [
   \<lparr>cap_id = Some ''rtttl.play'', cap_name = Some ''Play RTTTL tune'',
     cap_description = Some (''Play a built-in tune name or bounded RTTTL string through the installed NuttX rtttl app.'' @
       '' Built-ins include gta3, scratchy, simpsons, and cantina.''),
     cap_schema = Some (''{"type":"object","properties":{"name":{"type":"string"},"tune":{"type":"string"},"volume'' @
       ''":{"type":"integer"}},"additionalProperties":false}''),
     visible_to_llm = True, requires_confirmation = True, cap_execute = Some (h ''cap_rtttl_play'')\<rparr>,
   \<lparr>cap_id = Some ''neopixels.set'', cap_name = Some ''Set NeoPixels'',
     cap_description = Some (''Set /dev/leds0 to a color or run an effect. Effects: off, fill, rainbow, chase, pulse.''),
     cap_schema = Some (''{"type":"object","properties":{"effect":{"type":"string"},"color":{"type":"string"},"r":'' @
       ''{"type":"integer"},"g":{"type":"integer"},"b":{"type":"integer"},"brightness":{"type":"i'' @
       ''nteger"},"cycles":{"type":"integer"},"delay_ms":{"type":"integer"},"duration_ms":{"type"'' @
       '':"integer"}},"additionalProperties":false}''),
     visible_to_llm = True, requires_confirmation = True, cap_execute = Some (h ''fc_builtin_neopixels_set'')\<rparr>,
   \<lparr>cap_id = Some ''neopixels.off'', cap_name = Some ''NeoPixels off'',
     cap_description = Some (''Turn all /dev/leds0 NeoPixels off.''),
     cap_schema = Some (''{"type":"object","properties":{},"additionalProperties":false}''),
     visible_to_llm = True, requires_confirmation = True, cap_execute = Some (h ''cap_neopixels_off'')\<rparr>,
   \<lparr>cap_id = Some ''neopixels.effect'', cap_name = Some ''NeoPixel effect'',
     cap_description = Some (''Run a NeoPixel rainbow, chase, or pulse effect on /dev/leds0.''),
     cap_schema = Some (''{"type":"object","properties":{"effect":{"type":"string"},"color":{"type":"string"},"r":'' @
       ''{"type":"integer"},"g":{"type":"integer"},"b":{"type":"integer"},"brightness":{"type":"i'' @
       ''nteger"},"cycles":{"type":"integer"},"delay_ms":{"type":"integer"},"duration_ms":{"type"'' @
       '':"integer"}},"required":["effect"],"additionalProperties":false}''),
     visible_to_llm = True, requires_confirmation = True, cap_execute = Some (h ''fc_builtin_neopixels_set'')\<rparr>,
   \<lparr>cap_id = Some ''device.list'', cap_name = Some ''List /dev'',
     cap_description = Some (''List registered NuttX device nodes under /dev.''),
     cap_schema = Some (''{"type":"object","properties":{},"additionalProperties":false}''),
     visible_to_llm = True, requires_confirmation = False, cap_execute = Some (h ''cap_device_list'')\<rparr>,
   \<lparr>cap_id = Some ''device.read'', cap_name = Some ''Read character /dev node'',
     cap_description = Some (''Read bounded bytes from a non-block /dev path and return text plus hex.''),
     cap_schema = Some (''{"type":"object","properties":{"path":{"type":"string"},"max_bytes":{"type":"integer"}},'' @
       ''"required":["path"],"additionalProperties":false}''),
     visible_to_llm = True, requires_confirmation = True, cap_execute = Some (h ''cap_device_read'')\<rparr>,
   \<lparr>cap_id = Some ''device.write'', cap_name = Some ''Write character /dev node'',
     cap_description = Some (''Write bounded text or hex bytes to a non-block /dev path.''),
     cap_schema = Some (''{"type":"object","properties":{"path":{"type":"string"},"mode":{"type":"string","enum":['' @
       ''"text","hex"]},"data":{"type":"string"}},"required":["path","data"],"additionalPropertie'' @
       ''s":false}''),
     visible_to_llm = True, requires_confirmation = True, cap_execute = Some (h ''cap_device_write'')\<rparr>,
   \<lparr>cap_id = Some ''http.request'', cap_name = Some ''HTTP request'',
     cap_description = Some (''Run an allowlisted HTTP GET or POST request.''),
     cap_schema = Some (''{"type":"object","properties":{"method":{"type":"string"},"url":{"type":"string"},"body"'' @
       '':{"type":"string"}},"required":["url"],"additionalProperties":false}''),
     visible_to_llm = True, requires_confirmation = True, cap_execute = Some (h ''cap_http_request'')\<rparr>,
   \<lparr>cap_id = Some ''gpio.read'', cap_name = Some ''Read GPIO'',
     cap_description = Some (''GPIO read stub.''),
     cap_schema = Some (''{"type":"object","properties":{"pin":{"type":"integer"}},"required":["pin"],"additionalP'' @
       ''roperties":false}''),
     visible_to_llm = False, requires_confirmation = False, cap_execute = Some (h ''cap_gpio_stub'')\<rparr>,
   \<lparr>cap_id = Some ''gpio.write'', cap_name = Some ''Write GPIO'',
     cap_description = Some (''GPIO write stub.''),
     cap_schema = Some (''{"type":"object","properties":{"pin":{"type":"integer"},"value":{"type":"integer"}},"req'' @
       ''uired":["pin","value"],"additionalProperties":false}''),
     visible_to_llm = False, requires_confirmation = True, cap_execute = Some (h ''cap_gpio_stub'')\<rparr>]\<close>

definition shell_cap :: "(string \<Rightarrow> 'w cap_fn) \<Rightarrow> 'w fc_cap list" where
  \<open>shell_cap h = [
   \<lparr>cap_id = Some ''shell.safe_command'', cap_name = Some ''Safe shell command'',
     cap_description = Some (''Legacy alias for terminal.run.''),
     cap_schema = Some (''{"type":"object","properties":{"command":{"type":"string"}},"required":["command"],"addi'' @
       ''tionalProperties":false}''),
     visible_to_llm = False, requires_confirmation = True, cap_execute = Some (h ''fc_builtin_terminal_run'')\<rparr>]\<close>

text \<open>The flag is \<^verbatim>\<open>CONFIG_FRUITCLAW_ENABLE_SHELL_TOOL\<close>.\<close>

definition builtin_caps :: "bool \<Rightarrow> (string \<Rightarrow> 'w cap_fn) \<Rightarrow> 'w fc_cap list" where
  "builtin_caps shell h = builtin_caps_1 h @ builtin_caps_2 h @ builtin_caps_3 h @ (if shell then shell_cap h else [])"

lemmas builtin_caps_defs = builtin_caps_def builtin_caps_1_def builtin_caps_2_def builtin_caps_3_def shell_cap_def

section \<open>The contract of a write-once registry\<close>

fun register_all :: "('v \<Rightarrow> 'r \<Rightarrow> ret \<times> 'r) \<Rightarrow> 'v list \<Rightarrow> 'r \<Rightarrow> ret \<times> 'r" where
  "register_all reg [] r = (OK, r)"
| "register_all reg (v # vs) r =
     (case reg v r of (Err e, r1) \<Rightarrow> (Err e, r1) | (OK, r1) \<Rightarrow> register_all reg vs r1)"

locale write_once =
  fixes find :: "'k \<Rightarrow> 'r \<Rightarrow> 'v option"
    and reg :: "'v \<Rightarrow> 'r \<Rightarrow> ret \<times> 'r"
    and key :: "'v \<Rightarrow> 'k"
    and valid :: "'v \<Rightarrow> bool"
    and used :: "'r \<Rightarrow> nat"
    and cap :: nat
  assumes reg_new: "valid v \<Longrightarrow> find (key v) r = None \<Longrightarrow> used r < cap \<Longrightarrow>
             \<exists>r'. reg v r = (OK, r') \<and> used r' = Suc (used r) \<and> (\<forall>k. find k r' = (if k = key v then Some v else find k r))"
    and reg_err: "reg v r = (Err e, r') \<Longrightarrow> r' = r"
    and reg_keeps: "reg v r = (OK, r') \<Longrightarrow> find k r = Some u \<Longrightarrow> find k r' = Some u"
begin

lemma all_registered:
  "list_all valid vs \<Longrightarrow> distinct (map key vs) \<Longrightarrow> \<forall>v\<in>set vs. find (key v) r = None \<Longrightarrow>
     used r + length vs \<le> cap \<Longrightarrow>
     \<exists>r'. register_all reg vs r = (OK, r') \<and> (\<forall>v\<in>set vs. find (key v) r' = Some v)
          \<and> (\<forall>k. k \<notin> key ` set vs \<longrightarrow> find k r' = find k r) \<and> used r' = used r + length vs"
proof (induction vs arbitrary: r)
  case (Cons v vs)
  then obtain r1 where r1: "reg v r = (OK, r1)" "used r1 = Suc (used r)"
    "\<forall>k. find k r1 = (if k = key v then Some v else find k r)"
    using reg_new [of v r] by auto
  have "\<forall>u\<in>set vs. find (key u) r1 = None" using Cons.prems(2,3) r1(3) by auto (metis imageI)
  then obtain r' where r': "register_all reg vs r1 = (OK, r')" "\<forall>u\<in>set vs. find (key u) r' = Some u"
    "\<forall>k. k \<notin> key ` set vs \<longrightarrow> find k r' = find k r1" "used r' = used r1 + length vs"
    using Cons.IH [of r1] Cons.prems r1(2) by auto
  have "find (key v) r' = Some v" using r'(3) r1(3) Cons.prems(2) by simp
  then show ?case using r1 r' by auto
qed simp

lemma registered_kept: "find k r = Some u \<Longrightarrow> register_all reg vs r = (x, r') \<Longrightarrow> find k r' = Some u"
proof (induction vs arbitrary: r)
  case (Cons v vs)
  obtain y r1 where y: "reg v r = (y, r1)" by fastforce
  show ?case
  proof (cases y)
    case OK
    then show ?thesis using Cons.prems Cons.IH [of r1] reg_keeps [of v r r1 k u] y by simp
  next
    case (Err e)
    then show ?thesis using Cons.prems reg_err [of v r e r1] y by simp
  qed
qed simp

end

lemma find_append: "List.find P (xs @ ys) = (case List.find P xs of Some x \<Rightarrow> Some x | None \<Rightarrow> List.find P ys)"
  by (induction xs) auto

lemma find_SomeD: "List.find P xs = Some x \<Longrightarrow> x \<in> set xs \<and> P x"
  by (induction xs) (auto split: if_splits)

lemma cap_find_in: "fc_cap_find (Some k) r = Some c \<Longrightarrow> c \<in> set (g_caps r) \<and> cap_id c = Some k"
  by (auto simp: fc_cap_find_def dest: find_SomeD)

interpretation caps: write_once "\<lambda>k r. fc_cap_find (Some k) r" "\<lambda>c r. fc_cap_register (Some c) r"
    "\<lambda>c. the (cap_id c)" "\<lambda>c. cap_id c \<noteq> None \<and> cap_execute c \<noteq> None" "\<lambda>r. length (g_caps r)" FC_MAX_CAPS
  by unfold_locales
     (auto simp: fc_cap_register_def fc_cap_find_def find_append split: if_splits option.splits)

lemma register_builtin_eq: "fc_register_builtin_caps cs r = register_all (\<lambda>c. fc_cap_register (Some c)) cs r"
  by (induction cs arbitrary: r) (auto split: prod.splits ret.splits)

section \<open>Facts about the table\<close>

definition builtin_ids :: "string list" where
  "builtin_ids = [''time.now'', ''system.info'', ''system.status'', ''service.status'', ''service.control'',
     ''memory.append'', ''memory.read'', ''file.read'', ''file.write_limited'', ''web.home.read'', ''web.home.write'',
     ''script.list'', ''script.read'', ''script.write'', ''script.validate'', ''script.remove'', ''script.run'',
     ''script.schedule'', ''telegram.send_message'', ''scheduler.add'', ''scheduler.list'', ''scheduler.remove'',
     ''berry.run_script'', ''terminal.run'', ''rtttl.play'', ''neopixels.set'', ''neopixels.off'', ''neopixels.effect'',
     ''device.list'', ''device.read'', ''device.write'', ''http.request'', ''gpio.read'', ''gpio.write'']"

text \<open>The tools that do not ask for owner mode.\<close>

definition open_ids :: "string list" where
  "open_ids = [''time.now'', ''system.info'', ''system.status'', ''service.status'', ''memory.append'', ''memory.read'',
     ''file.read'', ''web.home.read'', ''script.list'', ''script.read'', ''telegram.send_message'', ''scheduler.list'',
     ''device.list'', ''gpio.read'']"

definition table_ids :: "bool \<Rightarrow> string list" where
  "table_ids shell = builtin_ids @ (if shell then [''shell.safe_command''] else [])"

lemma builtin_ids_eq:
  "map cap_id (builtin_caps shell h) = map Some (table_ids shell)"
  by (simp add: builtin_caps_defs builtin_ids_def table_ids_def)

lemma builtin_execute: "list_all (\<lambda>c. cap_execute c \<noteq> None) (builtin_caps shell h)"
  by (simp add: builtin_caps_defs)

lemma confirm_flags:
  "map requires_confirmation (builtin_caps shell h) =
     map (\<lambda>i. i \<notin> set open_ids) (table_ids shell)"
proof -
  let ?flags = "[False, False, False, False, True, False, False, False, True, False, True, False,
    False, True, True, True, True, True, False, True, False, True, True, True,
    True, True, True, True, False, True, True, True, False, True]"
  have "map requires_confirmation (builtin_caps False h) = ?flags" by (simp add: builtin_caps_defs)
  moreover have "map (\<lambda>i. i \<notin> set open_ids) builtin_ids = ?flags" by code_simp
  moreover have "''shell.safe_command'' \<notin> set open_ids" by code_simp
  moreover have "builtin_caps True h = builtin_caps False h @ shell_cap h" by (simp add: builtin_caps_def)
  ultimately show ?thesis by (cases shell) (simp_all add: shell_cap_def table_ids_def)
qed

lemma builtin_open: "\<forall>c\<in>set (builtin_caps shell h). \<not> requires_confirmation c \<longrightarrow> cap_id c \<in> Some ` set open_ids"
proof (intro ballI impI)
  fix c assume c: "c \<in> set (builtin_caps shell h)" "\<not> requires_confirmation c"
  let ?ids = "table_ids shell"
  obtain j where j: "j < length (builtin_caps shell h)" "builtin_caps shell h ! j = c"
    using c(1) by (auto simp: in_set_conv_nth)
  then have l: "j < length ?ids" using arg_cong [OF builtin_ids_eq [of shell h], of length] by simp
  have "cap_id c = Some (?ids ! j)" using arg_cong [OF builtin_ids_eq [of shell h], of "\<lambda>xs. xs ! j"] j l by simp
  moreover have "?ids ! j \<in> set open_ids"
    using arg_cong [OF confirm_flags [of shell h], of "\<lambda>xs. xs ! j"] j l c(2) by simp
  ultimately show "cap_id c \<in> Some ` set open_ids" by simp
qed

lemma all_ids_distinct: "distinct (map (map openai_char) (builtin_ids @ [''shell.safe_command'']))"
  by code_simp

lemma table_ids_length: "length (table_ids shell) = (if shell then 35 else 34)"
  by (cases shell) (simp_all add: table_ids_def builtin_ids_def)

lemma table_ids_short: "\<forall>x\<in>set (table_ids shell). length x < 64"
proof -
  have "list_all (\<lambda>x. length x < 64) (builtin_ids @ [''shell.safe_command''])" by code_simp
  then show ?thesis by (auto simp: table_ids_def list_all_iff)
qed

lemma builtin_distinct: "distinct (map (\<lambda>c. the (cap_id c)) (builtin_caps shell h))"
proof -
  have "map (\<lambda>c. the (cap_id c)) (builtin_caps shell h) = table_ids shell"
    using arg_cong [OF builtin_ids_eq [of shell h], of "map the"] by (simp add: comp_def)
  moreover have "distinct (builtin_ids @ [''shell.safe_command''])" using all_ids_distinct unfolding distinct_map by (rule conjunct1)
  ultimately show ?thesis by (simp add: table_ids_def)
qed

end
