(* ===== verification/FC_Cap_Props.thy ===== *)
theory FC_Cap_Props
  imports FC_Builtin_Caps
begin

text \<open>
  What the registry and its gate make of the built-in table: registration, owner mode and the names
  shown to the language model.
\<close>

section \<open>The registry after initialisation\<close>

lemma builtin_ids_some: "\<forall>c\<in>set (builtin_caps shell h). cap_id c \<noteq> None"
proof
  fix c assume "c \<in> set (builtin_caps shell h)"
  then have "cap_id c \<in> set (map cap_id (builtin_caps shell h))" by simp
  then show "cap_id c \<noteq> None" unfolding builtin_ids_eq by auto
qed

lemma builtin_init:
  "\<exists>r. fc_cap_init (builtin_caps shell h) zero_registry = (OK, r) \<and> g_caps_initialized r
     \<and> (\<forall>c\<in>set (builtin_caps shell h). fc_cap_find (cap_id c) r = Some c)
     \<and> (\<forall>k. Some k \<notin> cap_id ` set (builtin_caps shell h) \<longrightarrow> fc_cap_find (Some k) r = None)"
proof -
  let ?t = "builtin_caps shell h"
  have ids: "\<forall>c\<in>set ?t. cap_id c \<noteq> None" by (rule builtin_ids_some)
  have "length (map cap_id ?t) = length (map Some (table_ids shell))" by (simp only: builtin_ids_eq)
  then have len: "length ?t \<le> FC_MAX_CAPS" unfolding length_map table_ids_length FC_MAX_CAPS_def by (cases shell) simp_all
  have "list_all (\<lambda>c. cap_id c \<noteq> None \<and> cap_execute c \<noteq> None) ?t"
    using ids builtin_execute [of shell h] by (simp add: list_all_iff)
  moreover have "\<forall>c\<in>set ?t. fc_cap_find (Some (the (cap_id c))) (zero_registry\<lparr>g_caps := []\<rparr>) = None"
    by (simp add: fc_cap_find_def)
  moreover have "length (g_caps (zero_registry\<lparr>g_caps := []\<rparr>)) + length ?t \<le> FC_MAX_CAPS" using len by simp
  ultimately obtain r where r: "register_all (\<lambda>c. fc_cap_register (Some c)) ?t (zero_registry\<lparr>g_caps := []\<rparr>) = (OK, r)"
    "\<forall>c\<in>set ?t. fc_cap_find (Some (the (cap_id c))) r = Some c"
    "\<forall>k. k \<notin> (\<lambda>c. the (cap_id c)) ` set ?t \<longrightarrow> fc_cap_find (Some k) r = fc_cap_find (Some k) (zero_registry\<lparr>g_caps := []\<rparr>)"
    using caps.all_registered [OF _ builtin_distinct, of shell h "zero_registry\<lparr>g_caps := []\<rparr>"] by blast
  have some: "Some (the (cap_id c)) = cap_id c" if "c \<in> set ?t" for c using ids that by simp
  have "fc_cap_find k (r\<lparr>g_caps_initialized := True\<rparr>) = fc_cap_find k r" for k
    by (cases k) (simp_all add: fc_cap_find_def)
  moreover have "fc_cap_find (Some k) r = None" if "Some k \<notin> cap_id ` set ?t" for k
  proof -
    have "k \<notin> (\<lambda>c. the (cap_id c)) ` set ?t" using that by (auto dest: some)
    then show ?thesis using r(3) by (simp add: fc_cap_find_def)
  qed
  moreover have "fc_cap_init ?t zero_registry = (OK, r\<lparr>g_caps_initialized := True\<rparr>)"
    unfolding fc_cap_init_def register_builtin_eq r(1) by (simp add: zero_registry_def)
  ultimately show ?thesis using r(2) some by (intro exI [of _ "r\<lparr>g_caps_initialized := True\<rparr>"]) auto
qed

lemma builtin_registry_caps:
  assumes "fc_cap_init (builtin_caps shell h) zero_registry = (OK, r)"
  shows "g_caps r = builtin_caps shell h"
proof -
  have "fc_register_builtin_caps cs q = (OK, q') \<Longrightarrow> g_caps q' = g_caps q @ cs" for cs and q q' :: "'a registry"
    by (induction cs arbitrary: q)
       (auto simp: fc_cap_register_def split: prod.splits ret.splits if_splits)
  then show ?thesis using assms by (auto simp: fc_cap_init_def zero_registry_def split: prod.splits ret.splits)
qed

section \<open>Properties\<close>

text \<open>
  Initialising the registry registers the whole built-in table, with or without the shell tool: every
  tool is found under its identifier, nothing else is, and no later registration of whatever tools can
  replace a tool once registered.
\<close>

theorem builtin_caps_registered:
  "\<exists>r. fc_cap_init (builtin_caps shell h) zero_registry = (OK, r) \<and> g_caps_initialized r
     \<and> (\<forall>c. c \<in> set (builtin_caps shell h) \<longleftrightarrow> (\<exists>k. fc_cap_find (Some k) r = Some c))
     \<and> (\<forall>cs k c x r'. fc_cap_find k r = Some c \<and> fc_register_builtin_caps cs r = (x, r') \<longrightarrow> fc_cap_find k r' = Some c)"
proof -
  obtain r where r: "fc_cap_init (builtin_caps shell h) zero_registry = (OK, r)" "g_caps_initialized r"
    "\<forall>c\<in>set (builtin_caps shell h). fc_cap_find (cap_id c) r = Some c"
    using builtin_init by blast
  have "c \<in> set (builtin_caps shell h)" if "fc_cap_find (Some k) r = Some c" for k c
    using cap_find_in [OF that] builtin_registry_caps [OF r(1)] by simp
  moreover have "\<exists>k. fc_cap_find (Some k) r = Some c" if "c \<in> set (builtin_caps shell h)" for c
    using r(3) that by (metis fc_cap_find_def option.case_eq_if option.collapse option.distinct(1))
  moreover have "fc_cap_find k r' = Some c"
    if "fc_cap_find k r = Some c" "fc_register_builtin_caps cs r = (x, r')" for cs k c x r'
    using that caps.registered_kept [of _ r c cs x r'] by (cases k) (auto simp: register_builtin_eq fc_cap_find_def)
  ultimately show ?thesis using r(1,2) by blast
qed

text \<open>A small state for the tools: a counter each run increments.\<close>

definition demo_tools :: "string \<Rightarrow> nat cap_fn" where
  "demo_tools nm ctx args n s = ((OK, nm), Suc s)"

theorem builtin_caps_registered_witness:
  "\<exists>r. fc_cap_init (builtin_caps True demo_tools) zero_registry = (OK, r) \<and> g_caps_initialized r"
  using builtin_caps_registered [of True demo_tools] by blast

text \<open>A property of the tools' state that every tool open to everybody keeps.\<close>

definition open_tools_keep :: "('w \<Rightarrow> bool) \<Rightarrow> 'w registry \<Rightarrow> bool" where
  "open_tools_keep P r \<longleftrightarrow>
     (\<forall>c\<in>set (g_caps r). \<not> requires_confirmation c \<longrightarrow> (\<forall>ctx a n s. P s \<longrightarrow> P (snd (the (cap_execute c) ctx a n s))))"

lemma cap_execute_keeps:
  assumes "open_tools_keep P (cw_registry w)" "\<not> tc_owner_mode c" "P (cw_state w)"
  shows "P (cw_state (snd (fc_cap_execute_ctx clk (Some c) k args out w)))
     \<and> g_caps (cw_registry (snd (fc_cap_execute_ctx clk (Some c) k args out w))) = g_caps (cw_registry w)"
proof (cases "fc_cap_find k (cw_registry w)")
  case (Some d)
  then have d: "d \<in> set (g_caps (cw_registry w))"
    by (auto simp: fc_cap_find_def find_Some_iff split: option.splits if_splits)
  then show ?thesis using assms Some
    by (auto simp: fc_cap_execute_ctx_def Let_def open_tools_keep_def fc_cap_record_error_def
        split: prod.splits option.splits if_splits) (metis snd_conv)+
qed (use assms in \<open>auto simp: fc_cap_execute_ctx_def Let_def fc_cap_record_error_def split: prod.splits option.splits\<close>)

text \<open>
  C4. The owner gate: a request without owner mode, whether without a context or with one built from
  an event that lacks it, can reach the function of a built-in tool only for the fourteen tools that
  are open to everybody; for all others the tools' state and the progress clock stay untouched and
  the result is an error.
\<close>

theorem owner_gate:
  assumes "fc_cap_init (builtin_caps shell h) zero_registry = (OK, cw_registry w)"
    and "ctx = None \<or> (\<exists>ev. ctx = Some (fc_tool_context_from_event ev) \<and> (\<forall>e. ev = Some e \<longrightarrow> \<not> ev_owner_mode e))"
    and "k \<notin> set open_ids" and "fc_cap_execute_ctx clk ctx (Some k) args out w = ((ret, txt'), w')"
  shows "ret \<in> {Err EINVAL, Err ENOENT, Err EACCES} \<and> cw_state w' = cw_state w \<and> cw_progress w' = cw_progress w"
proof -
  have o: "(case ctx of None \<Rightarrow> True | Some x \<Rightarrow> \<not> tc_owner_mode x)"
    using assms(2) by (auto simp: fc_tool_context_from_event_def zero_context_def split: option.splits)
  show ?thesis
  proof (cases "fc_cap_find (Some k) (cw_registry w)")
    case (Some c)
    then have "c \<in> set (builtin_caps shell h)" "cap_id c = Some k"
      using builtin_registry_caps [OF assms(1)] cap_find_in [of k "cw_registry w" c] by auto
    then have "requires_confirmation c" using builtin_open [of shell h] assms(3) by force
    then show ?thesis using assms(4) Some o
      by (auto simp: fc_cap_execute_ctx_def Let_def split: prod.splits option.splits if_splits)
  qed (use assms(4) in \<open>auto simp: fc_cap_execute_ctx_def Let_def split: prod.splits option.splits if_splits\<close>)
qed

theorem owner_gate_witness:
  "\<exists>w ret t w'. fc_cap_execute_ctx (0, 0, 0) None (Some ''terminal.run'') None (Some 64) w = ((ret, t), w')
     \<and> ret \<noteq> OK \<and> cw_state w' = (3 :: nat)"
proof -
  obtain r where r: "fc_cap_init (builtin_caps False demo_tools) zero_registry = (OK, r)"
    using builtin_init [of False demo_tools] by blast
  let ?w = "\<lparr>cw_registry = r, cw_progress = zero_progress, cw_state = 3\<rparr>"
  obtain ret t w' where e: "fc_cap_execute_ctx (0, 0, 0) None (Some ''terminal.run'') None (Some 64) ?w = ((ret, t), w')"
    by (metis prod.collapse)
  have "ret \<in> {Err EINVAL, Err ENOENT, Err EACCES} \<and> cw_state w' = cw_state ?w \<and> cw_progress w' = cw_progress ?w"
    by (rule owner_gate [OF _ _ _ e]) (use r in \<open>auto simp: open_ids_def\<close>)
  then show ?thesis using e by (intro exI [of _ ?w] exI [of _ ret] exI [of _ t] exI [of _ w']) auto
qed

text \<open>
  The names given to the language model are unambiguous: every built-in tool's identifier maps to
  a name of letters, digits and underscores, and that name maps back to exactly this identifier.
\<close>

theorem openai_name_roundtrip:
  assumes "fc_cap_init (builtin_caps shell h) zero_registry = (OK, r)" and "fc_cap_find (Some k) r \<noteq> None"
  shows "\<exists>m. fc_tool_name_to_openai (Some k) (Some FC_TOOL_NAME_LEN) = (OK, Some m)
           \<and> list_all (\<lambda>c. isalnum c \<or> c = CHR ''_'') m
           \<and> fc_tool_name_from_openai (Some m) (Some FC_TOOL_NAME_LEN) r = (OK, Some k)"
proof -
  let ?ids = "table_ids shell"
  let ?ok = "\<lambda>c. fc_tool_name_to_openai (cap_id c) (Some FC_TOOL_NAME_LEN)"
  obtain c where c: "c \<in> set (g_caps r)" "cap_id c = Some k"
    using assms(2) cap_find_in [of k r] by blast
  have caps: "map cap_id (g_caps r) = map Some ?ids"
    using builtin_ids_eq builtin_registry_caps [OF assms(1)] by metis
  note all = table_ids_short [of shell]
  have ids: "\<forall>x\<in>set (g_caps r). \<exists>i\<in>set ?ids. cap_id x = Some i"
    using caps by (metis (no_types, lifting) image_iff image_set)
  have inj: "inj_on (map openai_char) (set ?ids)"
    by (rule inj_on_subset [OF conjunct2 [OF all_ids_distinct [unfolded distinct_map]]]) (auto simp: table_ids_def)
  have k: "k \<in> set ?ids" using ids c by force
  have "List.find (\<lambda>x. ?ok x = (OK, Some (map openai_char k))) (g_caps r) \<noteq> None"
    using c k all by (auto simp: find_None_iff fc_tool_name_to_openai_def FC_TOOL_NAME_LEN_def intro!: bexI [of _ c] exI [of _ c])
  then obtain x where x: "List.find (\<lambda>x. ?ok x = (OK, Some (map openai_char k))) (g_caps r) = Some x" by blast
  then have "x \<in> set (g_caps r)" "?ok x = (OK, Some (map openai_char k))" by (auto dest: find_SomeD)
  then have "cap_id x = Some k"
    using ids inj k by (fastforce simp: fc_tool_name_to_openai_def dest: inj_onD split: if_splits)
  then have "fc_tool_name_from_openai (Some (map openai_char k)) (Some FC_TOOL_NAME_LEN) r = (OK, Some k)"
    using x all k by (auto simp: fc_tool_name_from_openai_def FC_TOOL_NAME_LEN_def fc_strlcpy_def Let_def)
  then show ?thesis using all k
    by (auto simp: fc_tool_name_to_openai_def FC_TOOL_NAME_LEN_def list_all_iff openai_char_def)
qed

theorem openai_name_roundtrip_witness:
  "\<exists>r. fc_cap_init (builtin_caps False demo_tools) zero_registry = (OK, r)
     \<and> fc_tool_name_from_openai (Some ''file_write_limited'') (Some FC_TOOL_NAME_LEN) r = (OK, Some ''file.write_limited'')"
proof -
  obtain r where r: "fc_cap_init (builtin_caps False demo_tools) zero_registry = (OK, r)"
    "\<forall>c\<in>set (builtin_caps False demo_tools). fc_cap_find (cap_id c) r = Some c"
    using builtin_init [of False demo_tools] by blast
  have "''file.write_limited'' \<in> set (table_ids False)" by (simp add: table_ids_def builtin_ids_def)
  then have "Some ''file.write_limited'' \<in> set (map cap_id (builtin_caps False demo_tools))"
    unfolding builtin_ids_eq set_map by (rule imageI)
  then have "fc_cap_find (Some ''file.write_limited'') r \<noteq> None" using r(2) by force
  moreover have "fc_tool_name_to_openai (Some ''file.write_limited'') (Some FC_TOOL_NAME_LEN) = (OK, Some ''file_write_limited'')"
    by code_simp
  ultimately show ?thesis using openai_name_roundtrip [OF r(1)] r(1) by fastforce
qed

end
