(* ===== verification/FC_Memory.thy ===== *)
theory FC_Memory
  imports FC_Files
begin

text \<open>
  The memory and session logs of \<^verbatim>\<open>storage/fc_memory.c\<close>: appending JSON lines, reading the last
  lines of a log, and the file a session is kept in.  \<open>root\<close> is the value of \<^verbatim>\<open>fc_data_dir()\<close>.
\<close>

section \<open>The tail of a file\<close>

text \<open>
  \<^verbatim>\<open>lseek\<close> to the end gives the size; to an offset it only succeeds or fails.
\<close>

definition sys_lseek_end :: "string \<Rightarrow> posix_fs \<Rightarrow> nat res \<times> posix_fs" where
  "sys_lseek_end p fs =
     (case fs_call (\<lambda>fs. (None, fs)) fs of
        (Some e, fs1) \<Rightarrow> (Inl e, fs1)
      | (None, fs1) \<Rightarrow> (Inr (case fs_files fs1 p of Some c \<Rightarrow> length c | None \<Rightarrow> 0), fs1))"

definition sys_lseek_set :: "posix_fs \<Rightarrow> errno option \<times> posix_fs" where
  "sys_lseek_set = fs_call (\<lambda>fs. (None, fs))"

definition cstring :: "string \<Rightarrow> string" where
  "cstring d = takeWhile (\<lambda>c. c \<noteq> NUL) d"

lemma cstring_id: "NUL \<notin> set s \<Longrightarrow> cstring s = s"
  by (induction s) (auto simp: cstring_def)

text \<open>
  What follows the first newline of the bytes read, \<open>None\<close> when there is no newline in the C
  string or nothing follows it.
\<close>

definition after_newline :: "string \<Rightarrow> string option" where
  "after_newline d =
     (let s = cstring d; i = length (takeWhile (\<lambda>c. c \<noteq> LF) s)
      in if i < length s \<and> i + 1 < length d then Some (drop (i + 1) d) else None)"

text \<open>Doubling the window in 32-bit arithmetic, up to \<open>limit\<close>, which is \<^verbatim>\<open>out_len - 1\<close>.\<close>

definition next_window :: "nat \<Rightarrow> nat \<Rightarrow> nat" where
  "next_window limit window =
     (let nw = (window * 2) mod 2 ^ 32 in if nw \<le> window \<or> nw > limit then limit else nw)"

lemma next_window_grows: "window < limit \<Longrightarrow> window < next_window limit window \<and> next_window limit window \<le> limit"
  by (auto simp: next_window_def Let_def)

lemma next_window_less: "window < limit \<Longrightarrow> limit - next_window limit window < limit - window"
  using next_window_grows [of window limit] by arith

function tail_loop :: "string \<Rightarrow> nat \<Rightarrow> nat \<Rightarrow> nat \<Rightarrow> posix_fs \<Rightarrow> string res \<times> posix_fs" where
  "tail_loop p fend limit window fs =
     (let start = (if fend > window then fend - window else 0)
      in case sys_lseek_set fs of
           (Some e, fs1) \<Rightarrow> (Inl e, fs1)
         | (None, fs1) \<Rightarrow>
             (case sys_read p start (fend - start) fs1 of
                (Inl e, fs2) \<Rightarrow> (Inl e, fs2)
              | (Inr d, fs2) \<Rightarrow>
                  if start > 0 \<and> d \<noteq> []
                  then (case after_newline d of
                          Some r \<Rightarrow> (Inr r, fs2)
                        | None \<Rightarrow>
                            if window < limit then tail_loop p fend limit (next_window limit window) fs2
                            else (Inr [], fs2))
                  else (Inr d, fs2)))"
  by pat_completeness auto
termination
  by (relation "measure (\<lambda>(p, fend, limit, window, fs). limit - window)")
     (auto simp: next_window_less)

declare tail_loop.simps [simp del]

text \<open>The result is the C string in the buffer; it is not meaningful on an error.\<close>

definition fc_read_tail_file ::
    "string option \<Rightarrow> nat \<Rightarrow> nat option \<Rightarrow> posix_fs \<Rightarrow> (ret \<times> string option) \<times> posix_fs" where
  "fc_read_tail_file path max_bytes out fs =
     (case (path, out) of
        (Some p, Some n) \<Rightarrow>
          if n = 0 then ((Err EINVAL, None), fs)
          else (case sys_open_rd p fs of
                  (Some e, fs1) \<Rightarrow> ((Err e, Some []), fs1)
                | (None, fs1) \<Rightarrow>
                    (case sys_lseek_end p fs1 of
                       (Inl e, fs2) \<Rightarrow> ((Err e, Some []), fs2)
                     | (Inr fend, fs2) \<Rightarrow>
                         let window = min max_bytes (n - 1)
                         in if window = 0 then ((OK, Some []), fs2)
                            else (case tail_loop p fend (n - 1) window fs2 of
                                    (Inl e, fs3) \<Rightarrow> ((Err e, None), fs3)
                                  | (Inr d, fs3) \<Rightarrow> ((OK, Some (cstring d)), fs3))))
      | _ \<Rightarrow> ((Err EINVAL, None), fs))"

section \<open>The memory log\<close>

definition fc_jsonl_line_looks_like_memory :: "string \<Rightarrow> bool" where
  \<open>fc_jsonl_line_looks_like_memory line =
     (let s = fc_trim line
      in length s \<ge> 2 \<and> hd s = CHR ''{'' \<and> last s = CHR ''}''
         \<and> strstr s ''"ts_ms"'' \<noteq> None \<and> strstr s ''"source"'' \<noteq> None \<and> strstr s ''"text"'' \<noteq> None)\<close>

text \<open>
  The filter works in place: the write cursor never passes the read cursor while a newline follows,
  so the value is a function of the old text.  It can be one character longer than that text.
\<close>

function fc_filter_memory_jsonl_tail :: "string \<Rightarrow> string" where
  "fc_filter_memory_jsonl_tail buf =
     (if buf = [] then []
      else let line = takeWhile (\<lambda>c. c \<noteq> LF) buf;
               rest = dropWhile (\<lambda>c. c \<noteq> LF) buf;
               kept = (if fc_jsonl_line_looks_like_memory line then fc_trim line @ [LF] else [])
           in if rest = [] then kept else kept @ fc_filter_memory_jsonl_tail (tl rest))"
  by pat_completeness auto
termination
proof (relation "measure length", simp)
  fix buf x xa xb
  assume "buf \<noteq> ([] :: string)" "xa = dropWhile (\<lambda>c. c \<noteq> LF) buf" "xa \<noteq> []"
  then show "(tl xa, buf) \<in> measure length"
    using length_dropWhile_le [of "\<lambda>c. c \<noteq> LF" buf] by (cases buf) auto
qed

declare fc_filter_memory_jsonl_tail.simps [simp del]

text \<open>
  Escaping into an array with the given old contents, the return code ignored: the C string the
  array then holds, \<open>None\<close> when it has no terminator.
\<close>

definition esc_into :: "char list \<Rightarrow> string \<Rightarrow> string option" where
  "esc_into buf s = cstr_of (the (snd (fc_json_escape (Some s) (Some buf))))"

definition memory_line :: "int \<Rightarrow> string \<Rightarrow> string \<Rightarrow> string" where
  \<open>memory_line ts src txt = ''{"ts_ms":'' @ dec_int ts @ '',"source":"'' @ src @ ''","text":"'' @ txt @ ''"}'' @ [LF]\<close>

text \<open>
  \<open>b1\<close> and \<open>b2\<close> are what the arrays \<^verbatim>\<open>esc_source\<close> and \<^verbatim>\<open>esc_text\<close> held before.  The result is
  \<open>None\<close> where the code reads past the end of one of them.
\<close>

definition fc_memory_append ::
    "string \<Rightarrow> int \<Rightarrow> char list \<Rightarrow> char list \<Rightarrow> string option \<Rightarrow> string option \<Rightarrow> posix_fs \<Rightarrow> (ret \<times> posix_fs) option" where
  "fc_memory_append root now b1 b2 source text' fs =
     (case text' of
        None \<Rightarrow> Some (Err EINVAL, fs)
      | Some t \<Rightarrow>
          (case fc_data_path root (Some ''memory.jsonl'') (Some FC_PATH_LEN) of
             (OK, path) \<Rightarrow>
               (case (esc_into b1 (case source of Some s \<Rightarrow> s | None \<Rightarrow> ''agent''), esc_into b2 t) of
                  (Some es, Some et) \<Rightarrow>
                    Some (fc_append_text_file path
                            (Some (snprintf_buf (CONFIG_FRUITCLAW_MAX_EVENT_TEXT * 6 + 160) (memory_line now es et))) fs)
                | _ \<Rightarrow> None)
           | _ \<Rightarrow> Some (Err EINVAL, fs)))"

definition fc_memory_read_tail :: "string \<Rightarrow> nat \<Rightarrow> nat option \<Rightarrow> posix_fs \<Rightarrow> (ret \<times> string option) \<times> posix_fs" where
  "fc_memory_read_tail root max_bytes out fs =
     (case fc_data_path root (Some ''memory.jsonl'') (Some FC_PATH_LEN) of
        (OK, path) \<Rightarrow>
          (case fc_read_tail_file path max_bytes out fs of
             ((Err e, b), fs1) \<Rightarrow> if e = ENOENT then ((OK, Some []), fs1) else ((Err e, b), fs1)
           | ((OK, b), fs1) \<Rightarrow> ((OK, map_option fc_filter_memory_jsonl_tail b), fs1))
      | _ \<Rightarrow> ((Err EINVAL, None), fs))"

section \<open>The session logs\<close>

definition session_char :: "char \<Rightarrow> char option" where
  "session_char c =
     (if isalnum c \<or> c = CHR ''-'' \<or> c = CHR ''_'' then Some c
      else if c = CHR '':'' \<or> c = CHR ''/'' \<or> c = CHR ''.'' then Some (CHR ''_'') else None)"

fun safe_loop :: "nat \<Rightarrow> string \<Rightarrow> string \<Rightarrow> string res" where
  "safe_loop n [] acc = (if acc = [] then Inl EINVAL else Inr acc)"
| "safe_loop n (c # cs) acc =
     (if length acc + 1 \<ge> n then Inl ENOSPC
      else case session_char c of Some d \<Rightarrow> safe_loop n cs (acc @ [d]) | None \<Rightarrow> Inl EINVAL)"

definition fc_session_safe_filename :: "string option \<Rightarrow> nat option \<Rightarrow> string res" where
  "fc_session_safe_filename session_id out =
     (case (session_id, out) of
        (Some s, Some n) \<Rightarrow> if n = 0 \<or> fc_path_has_parent_ref session_id then Inl EINVAL else safe_loop n s []
      | _ \<Rightarrow> Inl EINVAL)"

definition fc_session_path :: "string \<Rightarrow> string option \<Rightarrow> nat option \<Rightarrow> ret \<times> string option" where
  "fc_session_path root session_id out =
     (case fc_session_safe_filename session_id (Some (FC_SESSION_ID_LEN + 8)) of
        Inl _ \<Rightarrow> (Err EINVAL, None)
      | Inr safe \<Rightarrow>
          let leaf = ''sessions/'' @ safe @ ''.jsonl''
          in if length leaf \<ge> FC_PATH_LEN then (Err ENAMETOOLONG, None)
             else fc_data_path root (Some leaf) out)"

definition session_line :: "int \<Rightarrow> string \<Rightarrow> string option \<Rightarrow> string \<Rightarrow> string" where
  \<open>session_line ts role name content =
     ''{"ts_ms":'' @ dec_int ts @ '',"role":"'' @ role
     @ (case name of Some nm \<Rightarrow> ''","name":"'' @ nm | None \<Rightarrow> []) @ ''","content":"'' @ content @ ''"}'' @ [LF]\<close>

text \<open>
  \<open>br\<close>, \<open>bn\<close> and \<open>bc\<close> are the old contents of \<^verbatim>\<open>esc_role\<close>, \<^verbatim>\<open>esc_name\<close> and of the first
  allocation; \<open>m1\<close> and \<open>m2\<close> tell whether the allocations succeed.  \<open>None\<close> as before.
\<close>

definition fc_session_append ::
    "string \<Rightarrow> int \<Rightarrow> bool \<times> bool \<Rightarrow> char list \<Rightarrow> char list \<Rightarrow> char list \<Rightarrow> string option \<Rightarrow> string option \<Rightarrow>
     string option \<Rightarrow> string option \<Rightarrow> posix_fs \<Rightarrow> (ret \<times> posix_fs) option" where
  "fc_session_append root now ms br bn bc session_id role name content fs =
     (case (session_id, role, content) of
        (Some _, Some r, Some c) \<Rightarrow>
          (case fc_session_path root session_id (Some FC_PATH_LEN) of
             (Err e, _) \<Rightarrow> Some (Err e, fs)
           | (OK, path) \<Rightarrow>
               if \<not> fst ms then Some (Err ENOMEM, fs)
               else (case fc_json_escape (Some c) (Some bc) of
                       (Err e, _) \<Rightarrow> Some (Err e, fs)
                     | (OK, ec) \<Rightarrow>
                         (case (cstr_of (the ec), esc_into br r,
                                esc_into bn (case name of Some nm \<Rightarrow> nm | None \<Rightarrow> [])) of
                            (Some ec', er, en) \<Rightarrow>
                              if \<not> snd ms then Some (Err ENOMEM, fs)
                              else let named = (case name of Some nm \<Rightarrow> nm \<noteq> [] | None \<Rightarrow> False)
                                   in if er = None \<or> named \<and> en = None then None
                                      else Some (fc_append_text_file path
                                             (Some (snprintf_buf (length ec' + 192)
                                                (session_line now (the er) (if named then en else None) ec'))) fs)
                          | _ \<Rightarrow> None)))
      | _ \<Rightarrow> Some (Err EINVAL, fs))"

definition fc_session_read_tail ::
    "string \<Rightarrow> string option \<Rightarrow> nat \<Rightarrow> nat option \<Rightarrow> posix_fs \<Rightarrow> (ret \<times> string option) \<times> posix_fs" where
  "fc_session_read_tail root session_id max_bytes out fs =
     (case fc_session_path root session_id (Some FC_PATH_LEN) of
        (Err e, _) \<Rightarrow> ((Err e, None), fs)
      | (OK, path) \<Rightarrow>
          (case fc_read_tail_file path max_bytes out fs of
             ((Err e, b), fs1) \<Rightarrow> if e = ENOENT then ((OK, Some []), fs1) else ((Err e, b), fs1)
           | ((OK, b), fs1) \<Rightarrow> ((OK, b), fs1)))"

section \<open>Reading without faults\<close>

text \<open>A file system on which every call does all of its work.\<close>

definition calm :: "posix_fs \<Rightarrow> bool" where
  "calm fs \<longleftrightarrow> \<not> fs_off fs \<and> set (fs_script fs) \<subseteq> {Fine}"

lemma fs_next_calm: "calm fs \<Longrightarrow> \<exists>fs'. fs_next fs = (Fine, fs') \<and> calm fs' \<and> fs_files fs' = fs_files fs \<and> fs_dirs fs' = fs_dirs fs"
proof (cases "fs_script fs")
  case (Cons x s)
  moreover assume "calm fs"
  ultimately show ?thesis by (simp add: fs_next_def calm_def)
qed (simp add: fs_next_def calm_def)

lemma sys_calm:
  assumes "calm fs"
  shows "\<exists>fs'. sys_lseek_set fs = (None, fs') \<and> calm fs' \<and> fs_files fs' = fs_files fs"
    and "\<exists>fs'. sys_read p off want fs = (Inr (take want (case fs_files fs p of None \<Rightarrow> [] | Some c \<Rightarrow> drop off c)), fs')
           \<and> calm fs' \<and> fs_files fs' = fs_files fs"
    and "\<exists>fs'. sys_lseek_end p fs = (Inr (case fs_files fs p of Some c \<Rightarrow> length c | None \<Rightarrow> 0), fs')
           \<and> calm fs' \<and> fs_files fs' = fs_files fs"
    and "\<exists>fs'. sys_open_rd p fs = (if fs_files fs p = None then Some ENOENT else None, fs')
           \<and> calm fs' \<and> fs_files fs' = fs_files fs"
  using fs_next_calm [OF assms]
  by (auto simp: sys_lseek_set_def sys_lseek_end_def sys_open_rd_def sys_read_def fs_call_def)

text \<open>The loop on the contents of the file alone.\<close>

function tail_text :: "nat \<Rightarrow> nat \<Rightarrow> string \<Rightarrow> string" where
  "tail_text limit window c =
     (if length c \<le> window then c
      else case after_newline (drop (length c - window) c) of
             Some r \<Rightarrow> r
           | None \<Rightarrow> if window < limit then tail_text limit (next_window limit window) c else [])"
  by pat_completeness auto
termination
  by (relation "measure (\<lambda>(limit, window, c). limit - window)")
     (auto simp: next_window_less)

declare tail_text.simps [simp del]

lemma tail_loop_calm:
  assumes "calm fs" "fs_files fs p = Some c" "0 < window"
  shows "\<exists>fs'. tail_loop p (length c) limit window fs = (Inr (tail_text limit window c), fs')
           \<and> calm fs' \<and> fs_files fs' = fs_files fs"
  using assms
proof (induction limit window c arbitrary: fs rule: tail_text.induct)
  case (1 limit window c)
  let ?start = "if length c > window then length c - window else 0"
  obtain fs1 where fs1: "sys_lseek_set fs = (None, fs1)" "calm fs1" "fs_files fs1 = fs_files fs"
    using sys_calm(1) [OF "1.prems"(1)] by blast
  obtain fs2 where fs2: "sys_read p ?start (length c - ?start) fs1 = (Inr (drop ?start c), fs2)" "calm fs2"
      "fs_files fs2 = fs_files fs"
    using sys_calm(2) [OF fs1(2), of p ?start "length c - ?start"] fs1(3) "1.prems"(2) by auto
  show ?case
  proof (cases "length c \<le> window \<or> after_newline (drop (length c - window) c) \<noteq> None \<or> \<not> window < limit")
    case True
    then show ?thesis using fs1 fs2 "1.prems"(3)
      by (subst tail_loop.simps, subst tail_text.simps) (auto simp: Let_def split: option.splits)
  next
    case False
    then have "\<exists>fs'. tail_loop p (length c) limit (next_window limit window) fs2
          = (Inr (tail_text limit (next_window limit window) c), fs') \<and> calm fs' \<and> fs_files fs' = fs_files fs2"
      using "1.IH" [OF _ _ _ fs2(2)] fs2(3) "1.prems"(2) next_window_grows [of window limit] by auto
    then show ?thesis using False fs1 fs2 "1.prems"(3)
      by (subst tail_loop.simps, subst tail_text.simps) (auto simp: Let_def split: option.splits)
  qed
qed

lemma read_tail_calm:
  assumes "calm fs" "fs_files fs p = Some c" "0 < max_bytes" "1 < n"
  shows "\<exists>fs'. fc_read_tail_file (Some p) max_bytes (Some n) fs
                 = ((OK, Some (cstring (tail_text (n - 1) (min max_bytes (n - 1)) c))), fs')
              \<and> calm fs' \<and> fs_files fs' = fs_files fs"
proof -
  obtain fs1 where fs1: "sys_open_rd p fs = (None, fs1)" "calm fs1" "fs_files fs1 = fs_files fs"
    using sys_calm(4) [OF assms(1), of p] assms(2) by auto
  obtain fs2 where fs2: "sys_lseek_end p fs1 = (Inr (length c), fs2)" "calm fs2" "fs_files fs2 = fs_files fs"
    using sys_calm(3) [OF fs1(2), of p] fs1(3) assms(2) by auto
  then show ?thesis
    using tail_loop_calm [OF fs2(2), of p c "min max_bytes (n - 1)" "n - 1"] fs1 assms
    by (auto simp: fc_read_tail_file_def Let_def)
qed

section \<open>The tail is made of whole lines\<close>

lemma drop_mid: "drop (length t + 1) (t @ x # y) = y"
  by simp

lemma takeWhile_mid: "x \<notin> set u \<Longrightarrow> takeWhile (\<lambda>c. c \<noteq> x) (u @ x # y) = u"
  by (induction u) auto

lemma after_newline_Some:
  assumes "after_newline d = Some r"
  shows "\<exists>u. d = u @ LF # r \<and> r \<noteq> [] \<and> LF \<notin> set u"
proof -
  let ?t = "takeWhile (\<lambda>c. c \<noteq> LF) (cstring d)"
  have i: "length ?t < length (cstring d)" "length ?t + 1 < length d" "r = drop (length ?t + 1) d"
    using assms by (auto simp: after_newline_def Let_def split: if_splits)
  have "takeWhile (\<lambda>c. c \<noteq> LF) s = s" if "LF \<notin> set s" for s using that by (induction s) auto
  then have "LF \<in> set (cstring d)" using i(1) by (metis less_irrefl_nat)
  then obtain u xs where u: "cstring d = u @ LF # xs" "LF \<notin> set u" by (metis split_list_first)
  obtain z where "d = cstring d @ z" unfolding cstring_def by (metis takeWhile_dropWhile_id)
  then have d: "d = u @ LF # (xs @ z)" using u(1) by simp
  have "?t = u" unfolding u(1) by (rule takeWhile_mid [OF u(2)])
  then have "r = xs @ z" using i(3) drop_mid [of u LF "xs @ z"] d by simp
  moreover have "r \<noteq> []" using i(2,3) by simp
  ultimately show ?thesis using d u(2) by blast
qed

lemma after_newline_found:
  assumes "NUL \<notin> set d" "d = u @ LF # l" "l \<noteq> []" "LF \<notin> set (butlast l)"
  shows "\<exists>r. after_newline d = Some r \<and> suffix l r"
proof -
  have s: "cstring d = d" using assms(1) by (rule cstring_id)
  let ?i = "length (takeWhile (\<lambda>c. c \<noteq> LF) d)"
  have "takeWhile (\<lambda>c. c \<noteq> LF) d = takeWhile (\<lambda>c. c \<noteq> LF) u"
    unfolding assms(2) by (induction u) auto
  then have i: "?i \<le> length u" by (simp add: length_takeWhile_le)
  then have "?i + 1 < length d" using assms(2,3) by (cases l) auto
  moreover have "drop (?i + 1) d = drop (?i + 1) (u @ [LF]) @ l"
    using i drop_append [of "?i + 1" "u @ [LF]" l] assms(2) by simp
  moreover have "suffix l (drop (?i + 1) (u @ [LF]) @ l)" by (rule suffixI) simp
  ultimately show ?thesis unfolding after_newline_def Let_def s by simp
qed

lemma tail_text_lines:
  "tail_text limit window c = c \<or> tail_text limit window c = []
     \<or> (\<exists>u. c = u @ LF # tail_text limit window c)"
proof (induction limit window c rule: tail_text.induct)
  case (1 limit window c)
  show ?case
  proof (cases "after_newline (drop (length c - window) c)")
    case None
    then show ?thesis using "1.IH" by (subst (1 2 3) tail_text.simps) (auto simp del: drop_drop)
  next
    case (Some r)
    then obtain u where "drop (length c - window) c = u @ LF # r" using after_newline_Some by blast
    then have "c = (take (length c - window) c @ u) @ LF # r" by (metis append.assoc append_take_drop_id)
    then have "\<exists>v. c = v @ LF # r" by blast
    then show ?thesis using Some by (subst (1 2 3) tail_text.simps) simp
  qed
qed

lemma tail_text_suffix: "\<exists>z. c = z @ tail_text limit window c"
proof -
  consider "tail_text limit window c = c" | "tail_text limit window c = []" | u where "c = u @ LF # tail_text limit window c"
    using tail_text_lines by blast
  then show ?thesis
  proof cases
    case 3
    then have "c = (u @ [LF]) @ tail_text limit window c" by simp
    then show ?thesis by blast
  qed simp_all
qed

lemma length_tail_text: "window \<le> limit \<Longrightarrow> length (tail_text limit window c) \<le> limit"
proof (induction limit window c rule: tail_text.induct)
  case (1 limit window c)
  show ?case
  proof (cases "after_newline (drop (length c - window) c)")
    case None
    then show ?thesis using "1.IH" "1.prems" next_window_grows [of window limit] by (subst tail_text.simps) auto
  next
    case (Some r)
    then obtain u where u: "drop (length c - window) c = u @ LF # r" using after_newline_Some by blast
    have "length (drop (length c - window) c) \<le> window" by simp
    then have "length r \<le> window" unfolding u by simp
    then show ?thesis using Some "1.prems" by (subst tail_text.simps) auto
  qed
qed

lemma tail_text_last_line:
  assumes "NUL \<notin> set c" "c = w @ l \<and> (w = [] \<or> last w = LF)" "l \<noteq> []" "LF \<notin> set (butlast l)" "length l < limit"
    "window \<le> limit"
  shows "suffix l (tail_text limit window c)"
  using assms
proof (induction limit window c rule: tail_text.induct)
  case (1 limit window c)
  let ?d = "drop (length c - window) c"
  show ?case
  proof (cases "length c \<le> window")
    case True
    then show ?thesis using "1.prems"(2) by (subst tail_text.simps) (auto simp: suffix_def)
  next
    case False
    show ?thesis
    proof (cases "length l < window")
      case True
      then have "w \<noteq> []" using False "1.prems"(2) by auto
      then obtain u where "w = u @ [LF]" using "1.prems"(2) by (metis append_butlast_last_id)
      then have "?d = drop (length c - window) u @ LF # l" using True False "1.prems"(2) by simp
      moreover have "NUL \<notin> set ?d" using "1.prems"(1) by (meson in_set_dropD)
      ultimately obtain r where "after_newline ?d = Some r" "suffix l r"
        using after_newline_found "1.prems"(3,4) by blast
      then show ?thesis using False by (subst tail_text.simps) auto
    next
      case small: False
      have "after_newline ?d = None"
      proof (rule ccontr)
        assume "after_newline ?d \<noteq> None"
        then obtain r v where v: "?d = v @ LF # r" "r \<noteq> []" using after_newline_Some by blast
        have "?d = drop (length l - window) l" using small "1.prems"(2) by (simp add: Suc_diff_le)
        then have "suffix ?d l" by (simp add: suffix_drop)
        then have "LF \<in> set (butlast l)" using v by (auto simp: suffix_def butlast_append)
        then show False using "1.prems"(4) by blast
      qed
      then have "tail_text limit window c = tail_text limit (next_window limit window) c"
        using False small "1.prems"(5) by (subst tail_text.simps) auto
      then show ?thesis using "1.IH" [OF False \<open>after_newline ?d = None\<close>] "1.prems" small
          next_window_grows [of window limit] by auto
    qed
  qed
qed

section \<open>Appending and reading back\<close>

definition contents :: "posix_fs \<Rightarrow> string \<Rightarrow> string" where
  "contents fs p = (case fs_files fs p of Some c \<Rightarrow> c | None \<Rightarrow> [])"

text \<open>A log can be appended to: it exists or its directory does, and it holds whole lines.\<close>

definition log_ready :: "posix_fs \<Rightarrow> string \<Rightarrow> bool" where
  "log_ready fs p \<longleftrightarrow> calm fs \<and> (fs_files fs p \<noteq> None \<or> dir_present fs (parent_dir p))
     \<and> NUL \<notin> set (contents fs p) \<and> (contents fs p = [] \<or> last (contents fs p) = LF)"

lemma append_calm:
  assumes "log_ready fs p"
  shows "\<exists>fs'. fc_append_text_file (Some p) (Some t) fs = (OK, fs') \<and> calm fs' \<and> fs_files fs' p = Some (contents fs p @ t)"
proof -
  have c: "calm fs" "fs_files fs p \<noteq> None \<or> dir_present fs (parent_dir p)" using assms by (simp_all add: log_ready_def)
  obtain fs1 where fs1: "fs_next fs = (Fine, fs1)" "calm fs1" "fs_files fs1 = fs_files fs" "fs_dirs fs1 = fs_dirs fs"
    using fs_next_calm [OF c(1)] by blast
  then obtain fs2 where fs2: "sys_open_append p fs = (None, fs2)" "calm fs2" "fs_files fs2 p = Some (contents fs p)"
    using c(2) by (cases "fs_files fs p") (auto simp: sys_open_append_def fs_call_def contents_def dir_present_def calm_def)
  obtain fs3 where "fs_next fs2 = (Fine, fs3)" "calm fs3" "fs_files fs3 = fs_files fs2"
    using fs_next_calm [OF fs2(2)] by blast
  then show ?thesis using fs2 by (auto simp: fc_append_text_file_def sys_write_def calm_def)
qed

lemma append_then_tail:
  assumes "log_ready fs p" "LF \<notin> set b" "NUL \<notin> set b" "0 < max_bytes" "length b + 2 < n"
  shows "\<exists>fs1 fs2 v. fc_append_text_file (Some p) (Some (b @ [LF])) fs = (OK, fs1)
           \<and> fc_read_tail_file (Some p) max_bytes (Some n) fs1 = ((OK, Some (v @ b @ [LF])), fs2)
           \<and> (v = [] \<or> last v = LF) \<and> length (v @ b @ [LF]) < n"
proof -
  let ?c0 = "contents fs p" and ?l = "b @ [LF]"
  let ?t = "tail_text (n - 1) (min max_bytes (n - 1)) (?c0 @ ?l)"
  obtain fs1 where fs1: "fc_append_text_file (Some p) (Some ?l) fs = (OK, fs1)" "calm fs1"
      "fs_files fs1 p = Some (?c0 @ ?l)"
    using append_calm [OF assms(1)] by blast
  have c0: "NUL \<notin> set ?c0" "?c0 = [] \<or> last ?c0 = LF" using assms(1) by (simp_all add: log_ready_def)
  have nn: "NUL \<notin> set (?c0 @ ?l)" using c0 assms(3) by auto
  have "suffix ?l ?t" by (rule tail_text_last_line [OF nn]) (use c0 assms(2,5) in auto)
  then obtain v where v: "?t = v @ ?l" unfolding suffix_def by blast
  have "\<exists>z. ?c0 @ ?l = z @ ?t" by (rule tail_text_suffix)
  then obtain w where w: "?c0 @ ?l = w @ v @ ?l" unfolding v by blast
  then have "?c0 = w @ v" by simp
  then have vl: "v = [] \<or> last v = LF" using c0(2) by (metis last_appendR append_is_Nil_conv)
  have "length ?t \<le> n - 1" by (rule length_tail_text) simp
  then have len: "length (v @ ?l) < n" unfolding v using assms(5) by linarith
  have "NUL \<notin> set (v @ ?l)" using nn unfolding w by simp
  then have "cstring ?t = v @ ?l" unfolding v by (rule cstring_id)
  moreover have "1 < n" using assms(5) by simp
  ultimately show ?thesis
    using fs1(1) read_tail_calm [OF fs1(2,3) assms(4), of n] vl len by (metis append.assoc)
qed

section \<open>The filter of the memory log\<close>

lemma filter_no_newline:
  "LF \<notin> set l \<Longrightarrow> fc_filter_memory_jsonl_tail l = (if fc_jsonl_line_looks_like_memory l then fc_trim l @ [LF] else [])"
proof (cases "l = []")
  case True
  then show ?thesis
    by (subst fc_filter_memory_jsonl_tail.simps)
       (simp add: fc_jsonl_line_looks_like_memory_def fc_trim_def trim_tail.simps rstrip_def ends_escaped_newline_def Let_def)
next
  case False
  assume "LF \<notin> set l"
  then have l: "takeWhile (\<lambda>c. c \<noteq> LF) l = l" "dropWhile (\<lambda>c. c \<noteq> LF) l = []" by (induction l) auto
  show ?thesis using False by (subst fc_filter_memory_jsonl_tail.simps) (simp only: Let_def l if_False if_True simp_thms)
qed

lemma filter_line:
  assumes "LF \<notin> set l"
  shows "fc_filter_memory_jsonl_tail (l @ LF # r) =
           (if fc_jsonl_line_looks_like_memory l then fc_trim l @ [LF] else []) @ fc_filter_memory_jsonl_tail r"
proof -
  have "takeWhile (\<lambda>c. c \<noteq> LF) (l @ LF # r) = l" "dropWhile (\<lambda>c. c \<noteq> LF) (l @ LF # r) = LF # r"
    using assms by (induction l) auto
  then show ?thesis by (subst fc_filter_memory_jsonl_tail.simps) (simp add: Let_def)
qed

lemma filter_append:
  "v = [] \<or> last v = LF \<Longrightarrow> fc_filter_memory_jsonl_tail (v @ w) = fc_filter_memory_jsonl_tail v @ fc_filter_memory_jsonl_tail w"
proof (induction v rule: fc_filter_memory_jsonl_tail.induct)
  case (1 v)
  show ?case
  proof (cases "v = []")
    case True
    then show ?thesis by (simp add: fc_filter_memory_jsonl_tail.simps [of "[]"])
  next
    case False
    then have "LF \<in> set v" using "1.prems" by (metis last_in_set)
    then obtain l r where v: "v = l @ LF # r" "LF \<notin> set l" by (metis split_list_first)
    have d: "dropWhile (\<lambda>c. c \<noteq> LF) v = LF # r" unfolding v(1) using v(2) by (induction l) auto
    have "r = [] \<or> last r = LF" using "1.prems" v(1) by (cases r) auto
    then have "fc_filter_memory_jsonl_tail (r @ w) = fc_filter_memory_jsonl_tail r @ fc_filter_memory_jsonl_tail w"
      using "1.IH" [OF False refl refl refl] d by simp
    then show ?thesis unfolding v(1) by (simp add: filter_line [OF v(2)])
  qed
qed

lemma length_fc_trim: "length (fc_trim s) \<le> length s"
  using prefix_length_le [OF trim_tail_prefix [of "dropWhile isspace s"]] length_dropWhile_le [of isspace s]
  by (simp add: fc_trim_def)

lemma length_filter: "length (fc_filter_memory_jsonl_tail s) \<le> (if s = [] \<or> last s = LF then length s else length s + 1)"
proof (induction s rule: fc_filter_memory_jsonl_tail.induct)
  case (1 s)
  show ?case
  proof (cases "LF \<in> set s")
    case True
    then obtain l r where s: "s = l @ LF # r" "LF \<notin> set l" by (metis split_list_first)
    have d: "dropWhile (\<lambda>c. c \<noteq> LF) s = LF # r" unfolding s(1) using s(2) by (induction l) auto
    have "s \<noteq> []" using s(1) by simp
    from "1.IH" [OF this refl refl refl, unfolded d list.sel]
    have "length (fc_filter_memory_jsonl_tail r) \<le> (if r = [] \<or> last r = LF then length r else length r + 1)" by blast
    then show ?thesis using length_fc_trim [of l] unfolding s(1) by (auto simp: filter_line [OF s(2)] split: if_splits)
  next
    case False
    then have "s = [] \<or> last s \<noteq> LF" by (metis last_in_set)
    then show ?thesis using filter_no_newline [OF False] length_fc_trim [of s]
      by (auto simp: fc_filter_memory_jsonl_tail.simps [of "[]"])
  qed
qed

section \<open>Lines\<close>

lemma esc_into_fits:
  assumes "NUL \<notin> set s" "length (json_escaped s) < length buf"
  shows "esc_into buf s = Some (json_escaped s)"
proof -
  have ne: "buf \<noteq> []" using assms(2) by auto
  have "json_escape_loop s 0 buf = (OK, buf_put 0 (json_escaped s @ [NUL]) buf)"
    using json_escape_loop_spec [of 0 buf s] assms(2) ne by simp
  then show ?thesis using cstr_of_buf_put [OF assms(2) json_escaped_no_NUL [OF assms(1)]] ne
    by (simp add: esc_into_def fc_json_escape_def)
qed

lemma json_esc_printable: "x \<in> set (case json_esc c of Some e \<Rightarrow> e | None \<Rightarrow> [c]) \<Longrightarrow> x \<noteq> LF"
proof -
  have "LF \<noteq> hex_char d" if "d < 16" for d
  proof
    assume "LF = hex_char d"
    then have "hex_val LF = Some d" using hex_val_hex_char [OF that] by simp
    then show False by (simp add: hex_val_def)
  qed
  then have h: "LF \<noteq> hex_char (of_char c mod 16)" "of_char c < (32 :: nat) \<Longrightarrow> LF \<noteq> hex_char (of_char c div 16)"
    by (simp_all add: less_mult_imp_div_less)
  show "x \<in> set (case json_esc c of Some e \<Rightarrow> e | None \<Rightarrow> [c]) \<Longrightarrow> x \<noteq> LF"
    using h by (auto simp: json_esc_def split: if_splits)
qed

lemma json_escaped_no_LF: "LF \<notin> set (json_escaped s)"
  using json_esc_printable by (fastforce simp: json_escaped_def)

lemma safe_loop_spec:
  "safe_loop n s acc = Inr t \<Longrightarrow> length acc < n \<Longrightarrow> \<exists>w. t = acc @ w \<and> length w = length s \<and> t \<noteq> [] \<and> length t < n
     \<and> (\<forall>c\<in>set w. isalnum c \<or> c = CHR ''-'' \<or> c = CHR ''_'')"
proof (induction n s acc rule: safe_loop.induct)
  case (2 n c cs acc)
  then obtain d where d: "session_char c = Some d" "safe_loop n cs (acc @ [d]) = Inr t" "length (acc @ [d]) < n"
    by (auto split: if_splits option.splits)
  moreover have "isalnum d \<or> d = CHR ''-'' \<or> d = CHR ''_''" using d(1) by (auto simp: session_char_def split: if_splits)
  ultimately show ?case using 2(1) [OF _ d(1)] 2(2) by (fastforce split: if_splits)
qed (auto split: if_splits)

lemma session_line_body:
  assumes "NUL \<notin> set r" "LF \<notin> set r" "NUL \<notin> set c" "LF \<notin> set c" "\<forall>x. nm = Some x \<longrightarrow> NUL \<notin> set x \<and> LF \<notin> set x"
  shows "\<exists>b. session_line ts r nm c = b @ [LF] \<and> LF \<notin> set b \<and> NUL \<notin> set b"
  using assms dec_int_plain [of ts]
  by (intro exI [of _ "butlast (session_line ts r nm c)"]) (auto simp: session_line_def butlast_append split: option.splits)

lemma length_session_line:
  "length (session_line ts r nm c) = 34 + length (dec_int ts) + length r + length c
     + (case nm of Some x \<Rightarrow> 10 + length x | None \<Rightarrow> 0)"
  by (simp add: session_line_def split: option.splits)

lemma braces_trimmed: "trimmed (CHR ''{'' # m @ ''}'')"
  by (simp add: trimmed_def isspace_def ends_escaped_newline_def nth_append)

lemma memory_line_body:
  assumes "NUL \<notin> set src" "LF \<notin> set src" "NUL \<notin> set tx" "LF \<notin> set tx"
  shows "\<exists>b. memory_line ts src tx = b @ [LF] \<and> LF \<notin> set b \<and> NUL \<notin> set b \<and> fc_jsonl_line_looks_like_memory b \<and> fc_trim b = b"
proof -
  define m where \<open>m = ''"ts_ms":'' @ dec_int ts @ '',"source":"'' @ src @ ''","text":"'' @ tx @ ''"''\<close>
  let ?b = "CHR ''{'' # m @ ''}''"
  have tr: "fc_trim ?b = ?b" by (rule fc_trim_id [OF braces_trimmed])
  have \<open>sublist ''"ts_ms"'' ?b\<close> \<open>sublist ''"source"'' ?b\<close> \<open>sublist ''"text"'' ?b\<close>
    using sublist_appendI [of \<open>''"ts_ms"''\<close> "''{''"]
      sublist_appendI [of \<open>''"source"''\<close> \<open>''{"ts_ms":'' @ dec_int ts @ '',''\<close>]
      sublist_appendI [of \<open>''"text"''\<close> \<open>''{"ts_ms":'' @ dec_int ts @ '',"source":"'' @ src @ ''",''\<close>]
    by (simp_all add: m_def)
  then have "fc_jsonl_line_looks_like_memory ?b"
    unfolding fc_jsonl_line_looks_like_memory_def tr Let_def strstr_None_iff by simp
  then show ?thesis using tr assms dec_int_plain [of ts]
    by (intro exI [of _ ?b]) (auto simp: memory_line_def m_def)
qed

section \<open>Properties\<close>

text \<open>
  Reading the end of a log always returns, and on a file system without faults it returns whole
  lines only: the whole file, or what follows one of its newlines, or nothing; it fits the buffer,
  it leaves the files alone, and it contains the last line whenever the buffer has room for that
  line, however small the requested window is.
\<close>

theorem read_tail_lines:
  assumes "calm fs" "fs_files fs p = Some c" "NUL \<notin> set c" "0 < max_bytes" "1 < n"
  shows "\<exists>t fs'. fc_read_tail_file (Some p) max_bytes (Some n) fs = ((OK, Some t), fs') \<and> fs_files fs' = fs_files fs
     \<and> (t = c \<or> t = [] \<or> (\<exists>u. c = u @ LF # t)) \<and> length t < n
     \<and> (\<forall>u l. c = u @ LF # l \<and> l \<noteq> [] \<and> LF \<notin> set (butlast l) \<and> length l < n - 1 \<longrightarrow> suffix l t)"
proof -
  let ?t = "tail_text (n - 1) (min max_bytes (n - 1)) c"
  obtain z where "c = z @ ?t" using tail_text_suffix by blast
  then have "NUL \<notin> set ?t" using assms(3) by (metis in_set_conv_decomp append.assoc)
  then have "cstring ?t = ?t" by (rule cstring_id)
  moreover have "length ?t \<le> n - 1" by (rule length_tail_text) simp
  moreover have "suffix l ?t" if "c = u @ LF # l" "l \<noteq> []" "LF \<notin> set (butlast l)" "length l < n - 1" for u l
    by (rule tail_text_last_line [OF assms(3), of "u @ [LF]"]) (use that in auto)
  ultimately show ?thesis
    using read_tail_calm [OF assms(1,2,4,5)] tail_text_lines [of "n - 1" "min max_bytes (n - 1)" c] assms(5)
    by (intro exI [of _ ?t]) auto
qed

definition demo_fs :: "(string \<times> string) list \<Rightarrow> posix_fs" where
  "demo_fs files = \<lparr>fs_files = map_of files, fs_dirs = [''/d'', ''/d/sessions''], fs_script = [], fs_off = False\<rparr>"

lemma demo_fs_simps [simp]:
  "calm (demo_fs files)" "fs_files (demo_fs files) = map_of files" "fs_dirs (demo_fs files) = [''/d'', ''/d/sessions'']"
  by (simp_all add: demo_fs_def calm_def)

theorem read_tail_lines_witness:
  "\<exists>t fs'. fc_read_tail_file (Some ''/d/f'') 1 (Some 6) (demo_fs [(''/d/f'', ''alpha'' @ [LF] @ ''beta'')]) = ((OK, Some t), fs')
     \<and> suffix ''beta'' t"
proof -
  let ?c = "''alpha'' @ [LF] @ ''beta''" and ?fs = "demo_fs [(''/d/f'', ''alpha'' @ [LF] @ ''beta'')]"
  have "NUL \<notin> set ?c" by simp
  then obtain t fs' where "fc_read_tail_file (Some ''/d/f'') 1 (Some 6) ?fs = ((OK, Some t), fs')"
    "\<forall>u l. ?c = u @ LF # l \<and> l \<noteq> [] \<and> LF \<notin> set (butlast l) \<and> length l < 6 - 1 \<longrightarrow> suffix l t"
    using read_tail_lines [of ?fs "''/d/f''" ?c 1 6] by auto
  then show ?thesis by (auto dest!: spec [of _ "''alpha''"] spec [of _ "''beta''"])
qed

text \<open>
  The log of a session is a file directly inside \<^verbatim>\<open>sessions/\<close> under the data directory, whatever
  the session identifier is: its name has as many characters as the identifier, all of them letters,
  digits, dashes or underscores, followed by the fixed extension.
\<close>

theorem session_path_confined:
  assumes "fc_session_path root (Some s) (Some n) = (OK, Some p)"
  shows "\<exists>w. p = root @ ''/sessions/'' @ w @ ''.jsonl'' \<and> w \<noteq> [] \<and> length w = length s \<and> length s < FC_SESSION_ID_LEN + 8
     \<and> list_all (\<lambda>c. isalnum c \<or> c = CHR ''-'' \<or> c = CHR ''_'') w"
proof -
  obtain w where w: "safe_loop (FC_SESSION_ID_LEN + 8) s [] = Inr w"
    "fc_data_path root (Some (''sessions/'' @ w @ ''.jsonl'')) (Some n) = (OK, Some p)"
    using assms by (auto simp: fc_session_path_def fc_session_safe_filename_def Let_def split: sum.splits if_splits)
  have "p = root @ ''/'' @ ''sessions/'' @ w @ ''.jsonl''"
    using w(2) by (auto simp: fc_data_path_def Let_def snprintf_buf_def split: if_splits)
  then show ?thesis using safe_loop_spec [OF w(1)] by (auto simp: list_all_iff FC_SESSION_ID_LEN_def)
qed

theorem session_path_confined_witness:
  "fc_session_path ''/d'' (Some ''telegram:-100/7'') (Some FC_PATH_LEN) = (OK, Some ''/d/sessions/telegram_-100_7.jsonl'')
   \<and> (\<exists>w. ''/d/sessions/telegram_-100_7.jsonl'' = ''/d'' @ ''/sessions/'' @ w @ ''.jsonl'')"
proof -
  have "fc_session_path ''/d'' (Some ''telegram:-100/7'') (Some FC_PATH_LEN) = (OK, Some ''/d/sessions/telegram_-100_7.jsonl'')"
    by code_simp
  then show ?thesis using session_path_confined by blast
qed

text \<open>
  C31. What is appended to a session comes back: with the escaped role and name fitting their arrays, the
  appended line is complete, holds the content in escaped form, which decodes to the content
  itself, and the next read of the session's tail ends with exactly this line whenever the buffer
  has room for it.
\<close>

theorem session_append_read:
  assumes "fc_session_path root (Some s) (Some FC_PATH_LEN) = (OK, Some p)" "log_ready fs p"
    and "NUL \<notin> set r" "length (json_escaped r) < 32" "length br = 32"
    and "NUL \<notin> set nm" "length (json_escaped nm) < 64" "length bn = 64"
    and "NUL \<notin> set c" "length bc = length c * 6 + 1" "\<bar>now\<bar> < 2 ^ 63"
    and "line = session_line now (json_escaped r) (if nm = [] then None else Some (json_escaped nm)) (json_escaped c)"
    and "0 < max_bytes" "length line + 1 < n"
  shows "\<exists>fs1 fs2 v. fc_session_append root now (True, True) br bn bc (Some s) (Some r) (Some nm) (Some c) fs = Some (OK, fs1)
     \<and> fc_session_read_tail root (Some s) max_bytes (Some n) fs1 = ((OK, Some (v @ line)), fs2)
     \<and> json_unescape (json_escaped c) = Some c"
proof -
  let ?ec = "json_escaped c"
  have esc: "esc_into br r = Some (json_escaped r)" "esc_into bn nm = Some (json_escaped nm)" "esc_into bc c = Some ?ec"
    using assms(3-10) length_json_escaped [of c] by (auto intro!: esc_into_fits)
  obtain x b' where loop: "json_escape_loop c 0 bc = (x, b')" by fastforce
  have "length ?ec < length bc" using length_json_escaped [of c] assms(10) by simp
  then have ok: "fc_json_escape (Some c) (Some bc) = (OK, Some b')" "cstr_of b' = Some ?ec"
    using json_escape_loop_spec [of 0 bc c] loop esc(3) by (cases bc; auto simp: fc_json_escape_def esc_into_def)+
  have "length line < length ?ec + 192"
    unfolding assms(12) length_session_line using assms(4,7) length_dec_int [OF assms(11)] by auto
  then have snp: "snprintf_buf (length ?ec + 192) line = line" by (simp add: snprintf_buf_def)
  have "\<exists>b. line = b @ [LF] \<and> LF \<notin> set b \<and> NUL \<notin> set b" unfolding assms(12)
    by (rule session_line_body) (use assms(3,6,9) in \<open>auto simp: json_escaped_no_NUL json_escaped_no_LF\<close>)
  then obtain b where b: "line = b @ [LF]" "LF \<notin> set b" "NUL \<notin> set b" by blast
  obtain fs1 fs2 v where t: "fc_append_text_file (Some p) (Some line) fs = (OK, fs1)"
    "fc_read_tail_file (Some p) max_bytes (Some n) fs1 = ((OK, Some (v @ line)), fs2)"
    using append_then_tail [OF assms(2) b(2,3) assms(13), of n] assms(14) b(1) by auto
  have "fc_session_append root now (True, True) br bn bc (Some s) (Some r) (Some nm) (Some c) fs = Some (OK, fs1)"
    using t(1) snp by (auto simp: fc_session_append_def assms(1) ok esc Let_def assms(12) split: if_splits)
  moreover have "fc_session_read_tail root (Some s) max_bytes (Some n) fs1 = ((OK, Some (v @ line)), fs2)"
    using t(2) assms(1) by (simp add: fc_session_read_tail_def)
  ultimately show ?thesis using json_unescape_escaped by blast
qed

theorem session_append_read_witness:
  "\<exists>fs1 fs2 v. fc_session_append ''/d'' 5 (True, True) (replicate 32 NUL) (replicate 64 NUL) (replicate 13 NUL)
       (Some ''cli'') (Some ''user'') (Some []) (Some ''hi'') (demo_fs []) = Some (OK, fs1)
     \<and> fc_session_read_tail ''/d'' (Some ''cli'') 1 (Some 100) fs1 = ((OK, Some (v @ session_line 5 ''user'' None ''hi'')), fs2)"
proof -
  have esc: "json_escaped ''user'' = ''user''" "json_escaped ''hi'' = ''hi''" "json_escaped [] = []" by code_simp+
  have "fc_session_path ''/d'' (Some ''cli'') (Some FC_PATH_LEN) = (OK, Some ''/d/sessions/cli.jsonl'')" by code_simp
  moreover have "log_ready (demo_fs []) ''/d/sessions/cli.jsonl''"
    by (simp add: log_ready_def contents_def dir_present_def parent_dir_def)
  moreover have "length (session_line 5 ''user'' None ''hi'') + 1 < 100" by code_simp
  ultimately show ?thesis
    using session_append_read [of "''/d''" "''cli''" "''/d/sessions/cli.jsonl''" "demo_fs []" "''user''" "replicate 32 NUL" "[]"
        "replicate 64 NUL" "''hi''" "replicate 13 NUL" 5 "session_line 5 ''user'' None ''hi''" 1 100] esc by simp blast
qed

text \<open>
  C32. What is appended to the memory log comes back through the filter: the next read of the log ends
  with exactly the appended line, whatever whole lines the log held before, and the text in it
  decodes to the text that was given.
\<close>

theorem memory_append_read:
  assumes "fc_data_path root (Some ''memory.jsonl'') (Some FC_PATH_LEN) = (OK, Some p)" "log_ready fs p"
    and "NUL \<notin> set src" "length (json_escaped src) < 64" "length b1 = 64"
    and "NUL \<notin> set tx" "length (json_escaped tx) < CONFIG_FRUITCLAW_MAX_EVENT_TEXT * 6" "length b2 = CONFIG_FRUITCLAW_MAX_EVENT_TEXT * 6"
    and "\<bar>now\<bar> < 2 ^ 63" "line = memory_line now (json_escaped src) (json_escaped tx)"
    and "0 < max_bytes" "length line + 1 < n"
  shows "\<exists>fs1 fs2 v. fc_memory_append root now b1 b2 (Some src) (Some tx) fs = Some (OK, fs1)
     \<and> fc_memory_read_tail root max_bytes (Some n) fs1 = ((OK, Some (v @ line)), fs2) \<and> length (v @ line) < n
     \<and> json_unescape (json_escaped tx) = Some tx"
proof -
  have esc: "esc_into b1 src = Some (json_escaped src)" "esc_into b2 tx = Some (json_escaped tx)"
    using assms(3-8) by (auto intro!: esc_into_fits)
  have "length line < CONFIG_FRUITCLAW_MAX_EVENT_TEXT * 6 + 160"
    using assms(4,7) length_dec_int [OF assms(9)] by (simp add: assms(10) memory_line_def)
  then have snp: "snprintf_buf (CONFIG_FRUITCLAW_MAX_EVENT_TEXT * 6 + 160) line = line" by (simp add: snprintf_buf_def)
  have "\<exists>b. line = b @ [LF] \<and> LF \<notin> set b \<and> NUL \<notin> set b \<and> fc_jsonl_line_looks_like_memory b \<and> fc_trim b = b" unfolding assms(10)
    by (rule memory_line_body) (use assms(3,6) in \<open>auto simp: json_escaped_no_NUL json_escaped_no_LF\<close>)
  then obtain b where b: "line = b @ [LF]" "LF \<notin> set b" "NUL \<notin> set b" "fc_jsonl_line_looks_like_memory b" "fc_trim b = b"
    by blast
  obtain fs1 fs2 v where t: "fc_append_text_file (Some p) (Some line) fs = (OK, fs1)"
    "fc_read_tail_file (Some p) max_bytes (Some n) fs1 = ((OK, Some (v @ line)), fs2)" "v = [] \<or> last v = LF" "length (v @ line) < n"
    using append_then_tail [OF assms(2) b(2,3) assms(11), of n] assms(12) b(1) by auto
  have "fc_filter_memory_jsonl_tail line = line"
    using filter_line [OF b(2), of "[]"] b by (simp add: fc_filter_memory_jsonl_tail.simps [of "[]"])
  then have f: "fc_filter_memory_jsonl_tail (v @ line) = fc_filter_memory_jsonl_tail v @ line" using filter_append [OF t(3)] by simp
  have "length (fc_filter_memory_jsonl_tail v) \<le> length v" using length_filter [of v] t(3) by auto
  then have "length (fc_filter_memory_jsonl_tail v @ line) < n" using t(4) by simp
  moreover have "fc_memory_append root now b1 b2 (Some src) (Some tx) fs = Some (OK, fs1)"
    using t(1) snp by (simp add: fc_memory_append_def assms(1) esc assms(10))
  moreover have "fc_memory_read_tail root max_bytes (Some n) fs1 = ((OK, Some (fc_filter_memory_jsonl_tail v @ line)), fs2)"
    using t(2) f by (simp add: fc_memory_read_tail_def assms(1))
  ultimately show ?thesis using json_unescape_escaped by blast
qed

theorem memory_append_read_witness:
  "\<exists>b1 b2 fs1 fs2 v. fc_memory_append ''/d'' 5 b1 b2 (Some ''cli'') (Some ''tea'') (demo_fs []) = Some (OK, fs1)
     \<and> fc_memory_read_tail ''/d'' 1 (Some 100) fs1 = ((OK, Some (v @ memory_line 5 ''cli'' ''tea'')), fs2)"
proof -
  have esc: "json_escaped ''cli'' = ''cli''" "json_escaped ''tea'' = ''tea''" by code_simp+
  have "fc_data_path ''/d'' (Some ''memory.jsonl'') (Some FC_PATH_LEN) = (OK, Some ''/d/memory.jsonl'')" by code_simp
  moreover have "log_ready (demo_fs []) ''/d/memory.jsonl''"
    by (simp add: log_ready_def contents_def dir_present_def parent_dir_def)
  moreover have "length (memory_line 5 ''cli'' ''tea'') + 1 < 100" by code_simp
  moreover obtain b1 b2 :: string where "length b1 = 64" "length b2 = CONFIG_FRUITCLAW_MAX_EVENT_TEXT * 6"
    using Ex_list_of_length by metis
  ultimately have "\<exists>fs1 fs2 v. fc_memory_append ''/d'' 5 b1 b2 (Some ''cli'') (Some ''tea'') (demo_fs []) = Some (OK, fs1)
     \<and> fc_memory_read_tail ''/d'' 1 (Some 100) fs1 = ((OK, Some (v @ memory_line 5 ''cli'' ''tea'')), fs2)
     \<and> length (v @ memory_line 5 ''cli'' ''tea'') < 100 \<and> json_unescape (json_escaped ''tea'') = Some ''tea''"
    using esc by (intro memory_append_read) (simp_all add: CONFIG_FRUITCLAW_MAX_EVENT_TEXT_def)
  then show ?thesis by blast
qed

text \<open>
  C39. The filter of the memory log can write past the buffer: when the log is one line without a final
  newline, looks like a memory entry and fills the buffer up to the terminator, the filtered text
  has as many characters as the buffer has bytes, so its terminator lands behind the buffer.
\<close>

theorem memory_filter_overrun:
  assumes "fc_data_path root (Some ''memory.jsonl'') (Some FC_PATH_LEN) = (OK, Some p)" "calm fs" "fs_files fs p = Some c"
    and "NUL \<notin> set c" "LF \<notin> set c" "trimmed c" "fc_jsonl_line_looks_like_memory c" "length c = n - 1" "n - 1 \<le> max_bytes"
  shows "\<exists>fs' t. fc_memory_read_tail root max_bytes (Some n) fs = ((OK, Some t), fs') \<and> length t = n"
proof -
  have l: "2 \<le> length c" using assms(6,7) by (simp add: fc_jsonl_line_looks_like_memory_def fc_trim_id Let_def)
  then have n: "1 < n" "0 < max_bytes" using assms(8,9) by linarith+
  have "tail_text (n - 1) (min max_bytes (n - 1)) c = c" using assms(8,9) by (subst tail_text.simps) simp
  then obtain fs' where "fc_read_tail_file (Some p) max_bytes (Some n) fs = ((OK, Some c), fs')"
    using read_tail_calm [OF assms(2,3), of max_bytes n] n assms(9) cstring_id [OF assms(4)] by auto
  moreover have "fc_filter_memory_jsonl_tail c = c @ [LF]"
    using filter_no_newline [OF assms(5)] assms(7) fc_trim_id [OF assms(6)] by simp
  ultimately show ?thesis using assms(1,8) l by (simp add: fc_memory_read_tail_def)
qed

theorem memory_filter_overrun_witness:
  \<open>\<exists>fs' t. fc_memory_read_tail ''/d'' 64 (Some 34) (demo_fs [(''/d/memory.jsonl'', ''{"ts_ms":1,"source":"","text":""}'')])
     = ((OK, Some t), fs') \<and> length t = 34\<close>
proof -
  let ?c = \<open>''{"ts_ms":1,"source":"","text":""}''\<close>
  have "fc_data_path ''/d'' (Some ''memory.jsonl'') (Some FC_PATH_LEN) = (OK, Some ''/d/memory.jsonl'')" by code_simp
  moreover have "trimmed ?c" "fc_jsonl_line_looks_like_memory ?c" by code_simp+
  ultimately show ?thesis
    using memory_filter_overrun [of "''/d''" "''/d/memory.jsonl''" "demo_fs [(''/d/memory.jsonl'', ?c)]" ?c 34 64] by simp
qed

end
