(* ===== verification/FC_Http.thy ===== *)
theory FC_Http
  imports FC_Guard
begin

text \<open>
  The HTTP lane of \<^verbatim>\<open>net/fc_http.c\<close>: the timed lock around it, the TLS callbacks, the sink that
  collects a response, and the request itself.  The TLS library, the web client's transfers, the
  clocks and the other threads are inputs.
\<close>

section \<open>The lock of the lane\<close>

definition fc_http_add_ms :: "timespec \<Rightarrow> int \<Rightarrow> timespec" where
  "fc_http_add_ms ts ms =
     (let ts' = ts\<lparr>tv_sec := tv_sec ts + ms div 1000, tv_nsec := tv_nsec ts + (ms mod 1000) * 1000000\<rparr>
      in if tv_nsec ts' \<ge> 1000000000
         then ts'\<lparr>tv_sec := tv_sec ts' + 1, tv_nsec := tv_nsec ts' - 1000000000\<rparr> else ts')"

text \<open>How long a request waits for the lane; the comparison truncates the time to 32 bits.\<close>

definition http_wait_ms :: "u32 \<Rightarrow> u32 \<Rightarrow> int" where
  "http_wait_ms request_timeout_sec guard_timeout_ms =
     (let w = (if request_timeout_sec > 0 then (uint request_timeout_sec + 5) * 1000 else 35000);
          w1 = (if guard_timeout_ms > 0 \<and> guard_timeout_ms < word_of_int w then uint guard_timeout_ms else w)
      in if w1 < 5000 then 5000 else if w1 > 60000 then 60000 else w1)"

text \<open>
  What the lock meets: the clock, and the result of locking with a deadline or, when the clock
  fails, without one.
\<close>

type_synonym http_lock = "timespec option \<times> (timespec option \<Rightarrow> errno option)"

definition fc_http_lock_timed :: "http_lock \<Rightarrow> u32 \<Rightarrow> u32 \<Rightarrow> ret" where
  "fc_http_lock_timed lk request_timeout_sec guard_timeout_ms =
     (case lk of (clock, lock) \<Rightarrow>
        (case lock (map_option (\<lambda>ts. fc_http_add_ms ts (http_wait_ms request_timeout_sec guard_timeout_ms)) clock) of
           None \<Rightarrow> OK | Some e \<Rightarrow> Err e))"

section \<open>TLS\<close>

text \<open>The results of the TLS library the code tells apart; \<open>TimedOut\<close> is \<^verbatim>\<open>-ETIMEDOUT\<close>.\<close>

datatype tls_ret = Done nat | WantRead | WantWrite | PeerClose | SslTimeout | TimedOut | TlsError

definition fc_tls_timeout_ms :: "u32 \<Rightarrow> u32" where
  "fc_tls_timeout_ms timeout_second =
     (if timeout_second > 0 \<and> timeout_second < 3600 then timeout_second * 1000 else 30000)"

definition fc_tls_deadline_expired :: "int \<Rightarrow> int \<Rightarrow> bool" where
  "fc_tls_deadline_expired now deadline_ms \<longleftrightarrow> deadline_ms - now \<le> 0"

definition fc_tls_remaining_ms :: "int \<Rightarrow> int \<Rightarrow> u32" where
  "fc_tls_remaining_ms now deadline_ms =
     (let remaining = deadline_ms - now
      in if remaining \<le> 0 then 0 else if remaining > 2147483647 then 2147483647 else word_of_int remaining)"

text \<open>
  A round of waiting for the socket: the clock before, at the computation of the rest and after, and
  what polling returns for the time given: an error, nothing, or an event.
\<close>

record tls_round =
  tr_io :: tls_ret
  tr_before :: int
  tr_rest :: int
  tr_poll :: "u32 \<Rightarrow> tls_ret"
  tr_after :: int

definition poll_ms :: "tls_round \<Rightarrow> int \<Rightarrow> u32" where
  "poll_ms r deadline_ms =
     (let t = fc_tls_remaining_ms (tr_rest r) deadline_ms in if t > 1000 then 1000 else t)"

text \<open>\<open>Done 0\<close> asks the caller to try again; any other value ends its loop.\<close>

definition fc_tls_wait :: "tls_round \<Rightarrow> tls_ret \<Rightarrow> int \<Rightarrow> tls_ret" where
  "fc_tls_wait r ret deadline_ms =
     (if ret \<noteq> WantRead \<and> ret \<noteq> WantWrite then ret
      else if fc_tls_deadline_expired (tr_before r) deadline_ms then TimedOut
      else case tr_poll r (poll_ms r deadline_ms) of
             Done 0 \<Rightarrow> (if fc_tls_deadline_expired (tr_after r) deadline_ms then TimedOut else Done 0)
           | Done (Suc _) \<Rightarrow> Done 0
           | e \<Rightarrow> e)"

text \<open>
  The loop of handshake, send and receive; \<open>None\<close> when it is still trying after the rounds given.
\<close>

fun tls_loop :: "int \<Rightarrow> tls_round list \<Rightarrow> tls_ret option" where
  "tls_loop deadline_ms [] = None"
| "tls_loop deadline_ms (r # rs) =
     (if tr_io r \<noteq> WantRead \<and> tr_io r \<noteq> WantWrite then Some (tr_io r)
      else case fc_tls_wait r (tr_io r) deadline_ms of
             Done 0 \<Rightarrow> tls_loop deadline_ms rs
           | e \<Rightarrow> Some e)"

definition fc_tls_io_ret :: "tls_ret \<Rightarrow> nat res" where
  "fc_tls_io_ret ret =
     (case ret of
        TimedOut \<Rightarrow> Inl ETIMEDOUT
      | SslTimeout \<Rightarrow> Inl ETIMEDOUT
      | Done n \<Rightarrow> Inr n
      | _ \<Rightarrow> Inl EIO)"

text \<open>
  The results of the setup calls, where \<open>None\<close> is success, and the error a result of the TLS
  library stands for.
\<close>

record tls_setup =
  ts_calloc :: bool
  ts_seed :: "errno option"
  ts_defaults :: "errno option"
  ts_ca_parse :: "errno option"
  ts_connect :: "errno option"
  ts_ssl_setup :: "errno option"
  ts_hostname :: "errno option"
  ts_handshake :: "tls_round list"
  ts_verify_ok :: bool
  ts_now :: int
  ts_code :: "tls_ret \<Rightarrow> errno"

text \<open>A connection: its timeout and whether the peer's certificate is required to verify.\<close>

record fc_tls_connection =
  conn_timeout_ms :: u32
  conn_verify_required :: bool
  conn_ca_loaded :: bool

text \<open>
  \<^verbatim>\<open>fc_tls_connect\<close>: \<open>allow_unverified\<close> is the build option \<^verbatim>\<open>CONFIG_FRUITCLAW_TLS_ALLOW_UNVERIFIED\<close>; \<open>None\<close>
  while the handshake is still going on.  Every failure frees what was set up.
\<close>

definition handshake_result :: "(tls_ret \<Rightarrow> errno) \<Rightarrow> tls_ret \<Rightarrow> errno option" where
  "handshake_result code r =
     (case r of Done 0 \<Rightarrow> None | Done (Suc _) \<Rightarrow> Some EIO | TimedOut \<Rightarrow> Some ETIMEDOUT | _ \<Rightarrow> Some (code r))"

definition fc_tls_connect ::
    "bool \<Rightarrow> string \<Rightarrow> tls_setup \<Rightarrow> string option \<Rightarrow> string option \<Rightarrow> u32 \<Rightarrow> fc_tls_connection res option" where
  "fc_tls_connect allow_unverified root ts hostname port timeout_second =
     (if hostname = None \<or> port = None then Some (Inl EINVAL)
      else if \<not> ts_calloc ts then Some (Inl ENOMEM)
      else case ts_seed ts of Some e \<Rightarrow> Some (Inl e) | None \<Rightarrow>
           (case ts_defaults ts of Some e \<Rightarrow> Some (Inl e) | None \<Rightarrow>
           (case (if allow_unverified then None
                  else case fc_tls_ca_cert_path root (Some FC_PATH_LEN) of
                         (Err e, _) \<Rightarrow> Some e
                       | (OK, _) \<Rightarrow> if ts_ca_parse ts = None then None else Some ENOENT) of
              Some e \<Rightarrow> Some (Inl e)
            | None \<Rightarrow>
                let conn = \<lparr>conn_timeout_ms = fc_tls_timeout_ms timeout_second,
                            conn_verify_required = \<not> allow_unverified, conn_ca_loaded = \<not> allow_unverified\<rparr>
                in case ts_connect ts of Some e \<Rightarrow> Some (Inl e) | None \<Rightarrow>
                   (case ts_ssl_setup ts of Some e \<Rightarrow> Some (Inl e) | None \<Rightarrow>
                   (case ts_hostname ts of Some e \<Rightarrow> Some (Inl e) | None \<Rightarrow>
                     map_option (\<lambda>r.
                       case handshake_result (ts_code ts) r of
                         Some e \<Rightarrow> Inl e
                       | None \<Rightarrow> if \<not> allow_unverified \<and> \<not> ts_verify_ok ts then Inl EACCES else Inr conn)
                       (tls_loop (ts_now ts + uint (conn_timeout_ms conn)) (ts_handshake ts)))))))"

definition fc_tls_send :: "int \<Rightarrow> tls_round list \<Rightarrow> fc_tls_connection option \<Rightarrow> nat res option" where
  "fc_tls_send now rs c =
     (case c of
        None \<Rightarrow> Some (Inl EINVAL)
      | Some conn \<Rightarrow> map_option fc_tls_io_ret (tls_loop (now + uint (conn_timeout_ms conn)) rs))"

definition fc_tls_recv :: "int \<Rightarrow> tls_round list \<Rightarrow> fc_tls_connection option \<Rightarrow> nat res option" where
  "fc_tls_recv now rs c =
     (case c of
        None \<Rightarrow> Some (Inl EINVAL)
      | Some conn \<Rightarrow>
          map_option (\<lambda>r. if r = PeerClose then Inr 0 else fc_tls_io_ret r)
            (tls_loop (now + uint (conn_timeout_ms conn)) rs))"

section \<open>Collecting the response\<close>

record fc_http_accum =
  acc_text :: string
  acc_cap :: nat

definition fc_http_sink :: "string \<Rightarrow> fc_http_accum \<Rightarrow> ret \<times> fc_http_accum" where
  "fc_http_sink chunk acc =
     (let used = length (acc_text acc); len = length chunk
      in if len = 0 then (OK, acc)
         else if used + len \<ge> acc_cap acc
         then let avail = (if acc_cap acc > used then acc_cap acc - used - 1 else 0)
              in (Err ENOSPC, if avail > 0 then acc\<lparr>acc_text := acc_text acc @ take avail chunk\<rparr> else acc)
         else (OK, acc\<lparr>acc_text := acc_text acc @ chunk\<rparr>))"

text \<open>
  A transfer of the web client: the pieces of the body it hands to the sink in order until the sink
  refuses one, which ends the transfer with the sink's error, then the result of the rest.
\<close>

record web_run =
  wr_chunks :: "string list"
  wr_status :: int
  wr_ret :: ret

fun web_feed :: "string list \<Rightarrow> fc_http_accum \<Rightarrow> ret \<times> fc_http_accum" where
  "web_feed [] acc = (OK, acc)"
| "web_feed (c # cs) acc =
     (case fc_http_sink c acc of
        (OK, acc') \<Rightarrow> web_feed cs acc'
      | (Err e, acc') \<Rightarrow> (Err e, acc'))"

definition webclient_transfer :: "web_run \<Rightarrow> fc_http_accum \<Rightarrow> ret \<times> fc_http_accum" where
  "webclient_transfer wr acc =
     (case web_feed (wr_chunks wr) acc of
        (OK, acc') \<Rightarrow> (wr_ret wr, acc')
      | (Err e, acc') \<Rightarrow> (Err e, acc'))"

section \<open>The heartbeat during a request\<close>

record fc_http_watchdog =
  wd_stop :: bool
  wd_started :: bool
  wd_deadline_ms :: int

definition fc_http_watchdog_start :: "int \<Rightarrow> errno option \<Rightarrow> u32 \<Rightarrow> fc_http_watchdog" where
  "fc_http_watchdog_start now created timeout_ms =
     (let runtime = (if timeout_ms > 0 then uint timeout_ms + 5000 else 45000)
      in \<lparr>wd_stop = False, wd_started = (created = None), wd_deadline_ms = now + runtime\<rparr>)"

definition fc_http_watchdog_main :: "int \<Rightarrow> int \<Rightarrow> fc_http_watchdog \<Rightarrow> guard \<Rightarrow> turn \<times> guard" where
  "fc_http_watchdog_main now hb wd g =
     (if \<not> wd_stop wd \<and> now < wd_deadline_ms wd
      then (Continues, fc_guard_session_heartbeat hb (Some ''http'') g) else (Returns, g))"

definition fc_http_watchdog_stop :: "fc_http_watchdog \<Rightarrow> fc_http_watchdog" where
  "fc_http_watchdog_stop wd = (if wd_started wd then wd\<lparr>wd_stop := True, wd_started := False\<rparr> else wd)"

fun watchdog_turns :: "(int \<times> int) list \<Rightarrow> fc_http_watchdog \<Rightarrow> guard \<Rightarrow> guard" where
  "watchdog_turns [] wd g = g"
| "watchdog_turns ((now, hb) # ts) wd g =
     (if \<not> wd_started wd then g
      else case fc_http_watchdog_main now hb wd g of
             (Continues, g') \<Rightarrow> watchdog_turns ts wd g'
           | (_, g') \<Rightarrow> g')"

section \<open>Requests\<close>

definition FC_HTTP_HEADER_MAX :: nat where "FC_HTTP_HEADER_MAX = 8"

type_synonym fc_http_headers = "(string \<times> string) list"

definition header_lines :: "fc_http_headers option \<Rightarrow> string list" where
  "header_lines headers =
     (case headers of
        None \<Rightarrow> []
      | Some hs \<Rightarrow> map (\<lambda>(n, v). snprintf_buf 160 (n @ '': '' @ v)) (take FC_HTTP_HEADER_MAX hs))"

text \<open>What is handed to the web client.\<close>

record http_request =
  rq_method :: string
  rq_url :: string
  rq_headers :: "string list"
  rq_body :: "string option"
  rq_timeout_sec :: u32
  rq_tls :: bool

text \<open>
  The lane, the guard and the requests made so far.  The environment of a request: the allow list,
  whether TLS is built in, the lock, what starting the long guard and the heartbeat meets, the
  transfer, what the feeder leaves in the guard's record, and what the feeder and the other threads do
  to the guard while the transfer runs.
\<close>

record http_world =
  hx_locked :: bool
  hx_guard :: guard
  hx_sent :: "http_request list"

record http_env =
  he_root :: string
  he_files :: "string \<Rightarrow> string option"
  he_tls :: bool
  he_lock :: http_lock
  he_cfg :: guard_cfg
  he_self :: nat
  he_guard_t0 :: int
  he_guard_now :: int
  he_guard_rounds :: "begin_round list"
  he_guard_opened :: "errno + int"
  he_guard_created :: "errno option"
  he_wd_now :: int
  he_wd_created :: "errno option"
  he_wd_turns :: "(int \<times> int) list"
  he_web :: "http_request \<Rightarrow> web_run"
  he_feeder :: "fc_guard_long \<Rightarrow> fc_guard_long"
  he_during :: "guard \<Rightarrow> guard"

text \<open>
  The request from the point where lane and guard are held.  The result is \<open>None\<close> when the long
  guard has expired and the caller waits for the reset.
\<close>

definition http_exchange ::
    "http_env \<Rightarrow> http_request \<Rightarrow> nat \<Rightarrow> u32 \<Rightarrow> fc_guard_long option \<Rightarrow> guard
       \<Rightarrow> ((ret \<times> string \<times> int) \<times> guard) option" where
  "http_exchange e rq n guard_timeout_ms l g =
     (let wd = fc_http_watchdog_start (he_wd_now e) (he_wd_created e) guard_timeout_ms;
          wr = he_web e rq
      in case webclient_transfer wr \<lparr>acc_text = [], acc_cap = n\<rparr> of (ret, acc) \<Rightarrow>
         let g1 = he_during e (watchdog_turns (he_wd_turns e) wd g)
         in (case l of
              None \<Rightarrow> Some ((ret, acc_text acc, wr_status wr), g1)
            | Some lg \<Rightarrow>
                map_option (\<lambda>(guard_ret, _, g2).
                    ((if ret_neg guard_ret \<and> ret = OK then guard_ret else ret, acc_text acc, wr_status wr), g2))
                  (fc_guard_long_stop (he_cfg e) (he_self e) (he_feeder e lg) g1)))"

definition fc_http_perform ::
    "http_env \<Rightarrow> string \<Rightarrow> string option \<Rightarrow> fc_http_headers option \<Rightarrow> string option \<Rightarrow> nat option \<Rightarrow> u32 \<Rightarrow> u32 \<Rightarrow> u32
       \<Rightarrow> bool \<Rightarrow> http_world \<Rightarrow> ((ret \<times> (string \<times> int) option) \<times> http_world) option" where
  "fc_http_perform e method url headers body response request_timeout_sec guard_stage guard_timeout_ms lock_http w =
     (case (url, response) of
        (Some u, Some n) \<Rightarrow>
          if n = 0 then Some ((Err EINVAL, None), w)
          else if \<not> fc_url_host_allowed (he_root e) (he_files e) url then Some ((Err EACCES, None), w)
          else if prefix ''https://'' u \<and> \<not> he_tls e then Some ((Err ENOTSUP, None), w)
          else case (if lock_http then fc_http_lock_timed (he_lock e) request_timeout_sec guard_timeout_ms else OK) of
                 Err x \<Rightarrow> Some ((Err x, None), w)
               | OK \<Rightarrow>
                   (let rq = \<lparr>rq_method = method, rq_url = u, rq_headers = header_lines headers, rq_body = body,
                              rq_timeout_sec = (if request_timeout_sec > 0 then request_timeout_sec else 30),
                              rq_tls = prefix ''https://'' u\<rparr>;
                        w1 = w\<lparr>hx_locked := (if lock_http then True else hx_locked w)\<rparr>;
                        go = (\<lambda>l g. map_option (\<lambda>((ret, text', status), g').
                                ((ret, Some (text', status)),
                                 w1\<lparr>hx_guard := g', hx_sent := hx_sent w1 @ [rq], hx_locked := hx_locked w\<rparr>))
                              (http_exchange e rq n guard_timeout_ms l g))
                    in if guard_timeout_ms > 0
                       then (case fc_guard_long_start (he_cfg e) (he_self e) guard_stage guard_timeout_ms (he_guard_t0 e)
                                    (he_guard_now e) (he_guard_rounds e) (he_guard_opened e) (he_guard_created e) (hx_guard w1) of
                               None \<Rightarrow> None
                             | Some (Err x, _, g) \<Rightarrow> Some ((Err x, None), w1\<lparr>hx_guard := g, hx_locked := hx_locked w\<rparr>)
                             | Some (OK, l, g) \<Rightarrow> go (Some l) g)
                       else go None (hx_guard w1))
      | _ \<Rightarrow> Some ((Err EINVAL, None), w))"

section \<open>The entry points\<close>

definition merge_json_headers :: "fc_http_headers option \<Rightarrow> fc_http_headers" where
  "merge_json_headers headers =
     (''Content-Type'', ''application/json'') #
     (case headers of None \<Rightarrow> [] | Some hs \<Rightarrow> take (FC_HTTP_HEADER_MAX - 1) hs)"

definition json_body_or_empty :: "string option \<Rightarrow> string option" where
  "json_body_or_empty body = Some (case body of Some b \<Rightarrow> b | None \<Rightarrow> ''{}'')"

definition fc_http_get ::
    "http_env \<Rightarrow> string option \<Rightarrow> fc_http_headers option \<Rightarrow> nat option \<Rightarrow> http_world
       \<Rightarrow> ((ret \<times> (string \<times> int) option) \<times> http_world) option" where
  "fc_http_get e url headers response w = fc_http_perform e ''GET'' url headers None response 30 0 0 True w"

definition fc_http_get_unlocked ::
    "http_env \<Rightarrow> string option \<Rightarrow> fc_http_headers option \<Rightarrow> nat option \<Rightarrow> http_world
       \<Rightarrow> ((ret \<times> (string \<times> int) option) \<times> http_world) option" where
  "fc_http_get_unlocked e url headers response w = fc_http_perform e ''GET'' url headers None response 30 0 0 False w"

definition fc_http_get_unlocked_timeout ::
    "http_env \<Rightarrow> u32 \<Rightarrow> string option \<Rightarrow> fc_http_headers option \<Rightarrow> nat option \<Rightarrow> http_world
       \<Rightarrow> ((ret \<times> (string \<times> int) option) \<times> http_world) option" where
  "fc_http_get_unlocked_timeout e request_timeout_sec url headers response w =
     fc_http_perform e ''GET'' url headers None response request_timeout_sec 0 0 False w"

definition fc_http_post_json ::
    "http_env \<Rightarrow> string option \<Rightarrow> fc_http_headers option \<Rightarrow> string option \<Rightarrow> nat option \<Rightarrow> http_world
       \<Rightarrow> ((ret \<times> (string \<times> int) option) \<times> http_world) option" where
  "fc_http_post_json e url headers body response w =
     fc_http_perform e ''POST'' url (Some (merge_json_headers headers)) (json_body_or_empty body) response 30 0 0 True w"

definition fc_http_post_json_unlocked_timeout ::
    "http_env \<Rightarrow> u32 \<Rightarrow> string option \<Rightarrow> fc_http_headers option \<Rightarrow> string option \<Rightarrow> nat option \<Rightarrow> http_world
       \<Rightarrow> ((ret \<times> (string \<times> int) option) \<times> http_world) option" where
  "fc_http_post_json_unlocked_timeout e request_timeout_sec url headers body response w =
     fc_http_perform e ''POST'' url (Some (merge_json_headers headers)) (json_body_or_empty body) response
       request_timeout_sec 0 0 False w"

definition fc_http_get_guarded ::
    "http_env \<Rightarrow> u32 \<Rightarrow> u32 \<Rightarrow> string option \<Rightarrow> fc_http_headers option \<Rightarrow> nat option \<Rightarrow> http_world
       \<Rightarrow> ((ret \<times> (string \<times> int) option) \<times> http_world) option" where
  "fc_http_get_guarded e stage timeout_ms url headers response w =
     fc_http_perform e ''GET'' url headers None response 30 stage timeout_ms True w"

definition fc_http_get_guarded_timeout ::
    "http_env \<Rightarrow> u32 \<Rightarrow> u32 \<Rightarrow> u32 \<Rightarrow> string option \<Rightarrow> fc_http_headers option \<Rightarrow> nat option \<Rightarrow> http_world
       \<Rightarrow> ((ret \<times> (string \<times> int) option) \<times> http_world) option" where
  "fc_http_get_guarded_timeout e stage guard_timeout_ms request_timeout_sec url headers response w =
     fc_http_perform e ''GET'' url headers None response request_timeout_sec stage guard_timeout_ms True w"

definition fc_http_post_json_guarded ::
    "http_env \<Rightarrow> u32 \<Rightarrow> u32 \<Rightarrow> string option \<Rightarrow> fc_http_headers option \<Rightarrow> string option \<Rightarrow> nat option \<Rightarrow> http_world
       \<Rightarrow> ((ret \<times> (string \<times> int) option) \<times> http_world) option" where
  "fc_http_post_json_guarded e stage timeout_ms url headers body response w =
     fc_http_perform e ''POST'' url (Some (merge_json_headers headers)) (json_body_or_empty body) response
       30 stage timeout_ms True w"

definition fc_http_post_json_guarded_timeout ::
    "http_env \<Rightarrow> u32 \<Rightarrow> u32 \<Rightarrow> u32 \<Rightarrow> string option \<Rightarrow> fc_http_headers option \<Rightarrow> string option \<Rightarrow> nat option \<Rightarrow> http_world
       \<Rightarrow> ((ret \<times> (string \<times> int) option) \<times> http_world) option" where
  "fc_http_post_json_guarded_timeout e stage guard_timeout_ms request_timeout_sec url headers body response w =
     fc_http_perform e ''POST'' url (Some (merge_json_headers headers)) (json_body_or_empty body) response
       request_timeout_sec stage guard_timeout_ms True w"

section \<open>Lemmas\<close>

lemma fc_http_sink_eq:
  assumes "length (acc_text acc) < acc_cap acc"
  shows "fc_http_sink c acc =
           (if c \<noteq> [] \<and> acc_cap acc \<le> length (acc_text acc @ c) then Err ENOSPC else OK,
            acc\<lparr>acc_text := take (acc_cap acc - 1) (acc_text acc @ c)\<rparr>)"
  using assms by (cases c) (auto simp: fc_http_sink_def Let_def)

lemma web_feed_eq:
  "length (acc_text acc) < acc_cap acc \<Longrightarrow>
     web_feed cs acc = (if acc_cap acc \<le> length (acc_text acc @ concat cs) then Err ENOSPC else OK,
                        acc\<lparr>acc_text := take (acc_cap acc - 1) (acc_text acc @ concat cs)\<rparr>)"
proof (induction cs arbitrary: acc)
  case (Cons c cs)
  show ?case
  proof (cases "acc_cap acc \<le> length (acc_text acc @ c)")
    case True
    then have "c \<noteq> []" using Cons.prems by auto
    then show ?thesis using True Cons.prems by (simp add: fc_http_sink_eq [OF Cons.prems])
  next
    case False
    let ?a = "acc\<lparr>acc_text := acc_text acc @ c\<rparr>"
    have "fc_http_sink c acc = (OK, ?a)" using False by (simp add: fc_http_sink_eq [OF Cons.prems])
    moreover have "length (acc_text ?a) < acc_cap ?a" using False by simp
    ultimately show ?thesis using Cons.IH [of ?a] by simp
  qed
qed auto

lemma webclient_transfer_eq:
  assumes "0 < n" "body = concat (wr_chunks wr)"
  shows "webclient_transfer wr \<lparr>acc_text = [], acc_cap = n\<rparr> =
           (if n \<le> length body then Err ENOSPC else wr_ret wr, \<lparr>acc_text = take (n - 1) body, acc_cap = n\<rparr>)"
  using assms web_feed_eq [of "\<lparr>acc_text = [], acc_cap = n\<rparr>" "wr_chunks wr"] by (simp add: webclient_transfer_def)

lemma http_exchange_text:
  assumes "http_exchange e rq n gt l g = Some ((ret, t, status), g')" "0 < n" "body = concat (wr_chunks (he_web e rq))"
  shows "t = take (n - 1) body \<and> status = wr_status (he_web e rq) \<and> (ret = OK \<longrightarrow> length body < n \<and> wr_ret (he_web e rq) = OK)
     \<and> (n \<le> length body \<longrightarrow> ret = Err ENOSPC)"
  using assms(1) webclient_transfer_eq [OF assms(2,3)]
  by (auto simp: http_exchange_def Let_def split: option.splits if_splits prod.splits)

lemma http_perform_cases:
  assumes "fc_http_perform e m url hs body resp rt st gt lk w = Some ((ret, out), w')"
  shows "hx_locked w' = hx_locked w
     \<and> (hx_sent w' = hx_sent w \<and> out = None \<and> ret \<noteq> OK
        \<or> (\<exists>u n rq l g g' t status. url = Some u \<and> resp = Some n \<and> 0 < n \<and> fc_url_host_allowed (he_root e) (he_files e) url
             \<and> (prefix ''https://'' u \<longrightarrow> he_tls e)
             \<and> rq = \<lparr>rq_method = m, rq_url = u, rq_headers = header_lines hs, rq_body = body,
                      rq_timeout_sec = (if rt > 0 then rt else 30), rq_tls = prefix ''https://'' u\<rparr>
             \<and> hx_sent w' = hx_sent w @ [rq] \<and> out = Some (t, status)
             \<and> http_exchange e rq n gt l g = Some ((ret, t, status), g')))"
  using assms
  by (auto simp: fc_http_perform_def Let_def split: option.splits if_splits prod.splits ret.splits)

lemma tls_loop_returns:
  "\<exists>r\<in>set rs. deadline \<le> tr_before r \<Longrightarrow> tls_loop deadline rs \<noteq> None"
  by (induction rs)
     (auto simp: fc_tls_wait_def fc_tls_deadline_expired_def split: tls_ret.splits nat.splits)

section \<open>Properties\<close>


definition demo_guard_cfg :: guard_cfg where
  "demo_guard_cfg = \<lparr>load_mask = 0xffffff, ctrl_enable = 0x40000000, ctrl_pause = 0x7000000, ctrl_trigger = 0x80000000,
     tick_cycles = 12, tick_enable = 1, wdsel = 1, bootsel_recovery = True, max_uptime_ms = 0\<rparr>"

definition demo_http_env :: "string list \<Rightarrow> http_env" where
  "demo_http_env chunks = \<lparr>he_root = ''/d'',
     he_files = (\<lambda>p. if p = ''/d/http_allowlist.txt'' then Some (''example.org'' @ [LF]) else None), he_tls = False,
     he_lock = (None, \<lambda>_. None), he_cfg = demo_guard_cfg, he_self = 1, he_guard_t0 = 0, he_guard_now = 0,
     he_guard_rounds = [], he_guard_opened = Inr 3, he_guard_created = None, he_wd_now = 0, he_wd_created = None,
     he_wd_turns = [(1, 1)], he_web = (\<lambda>_. \<lparr>wr_chunks = chunks, wr_status = 200, wr_ret = OK\<rparr>), he_feeder = (\<lambda>l. l),
     he_during = (\<lambda>g. g)\<rparr>"

definition demo_http_world :: http_world where
  "demo_http_world = \<lparr>hx_locked = False, hx_guard = zero_guard \<lparr>powman_scratch = (0, 0, 0), wd_scratch = (0, 0, 0), wd_load = 0,
     wd_ctrl = 0, ticks_cycles = 0, ticks_ctrl = 0, psm_wdsel = 0\<rparr>, hx_sent = []\<rparr>"

lemma demo_allowed: "fc_url_host_allowed ''/d'' (he_files (demo_http_env cs)) (Some ''http://example.org/x'')"
proof -
  have "fc_parse_url_host (Some ''http://example.org/x'') (Some 96) = Some ''example.org''" by code_simp
  moreover have "fc_data_path ''/d'' (Some ''http_allowlist.txt'') (Some FC_PATH_LEN) = (OK, Some ''/d/http_allowlist.txt'')" by code_simp
  moreover have "list_ex (allow_line_matches ''example.org'') (fgets_lines 128 (''example.org'' @ [LF]))" by code_simp
  ultimately show ?thesis by (simp add: fc_url_host_allowed_def demo_http_env_def)
qed


text \<open>
  The response buffer holds what the server sent: its text is the body, in the order of the pieces, cut off at
  the buffer's size; success means that the whole body is there, and a body that does not fit is always
  reported.
\<close>

theorem http_response_exact:
  assumes "fc_http_perform e m url hs body resp rt st gt lk w = Some ((ret, Some (t, status)), w')" "resp = Some n"
    and "answer = he_web e (last (hx_sent w'))" "content = concat (wr_chunks answer)"
  shows "t = take (n - 1) content \<and> length t < n \<and> status = wr_status answer
     \<and> (ret = OK \<longrightarrow> t = content \<and> wr_ret answer = OK) \<and> (n \<le> length content \<longrightarrow> ret = Err ENOSPC)"
proof -
  obtain rq l g g' where x: "http_exchange e rq n gt l g = Some ((ret, t, status), g')" "0 < n" "last (hx_sent w') = rq"
    using http_perform_cases [OF assms(1)] assms(2) by auto
  show ?thesis using http_exchange_text [OF x(1,2) refl] x(2,3) assms(3,4) by auto
qed

theorem http_response_exact_witness:
  "\<exists>t status w'. fc_http_perform (demo_http_env [''hel'', ''lo'']) ''GET'' (Some ''http://example.org/x'') None None (Some 4) 30 0 0 True
       demo_http_world = Some ((Err ENOSPC, Some (t, status)), w') \<and> t = ''hel''"
proof -
  let ?run = "fc_http_perform (demo_http_env [''hel'', ''lo'']) ''GET'' (Some ''http://example.org/x'') None None (Some 4) 30 0 0 True demo_http_world"
  have "\<exists>ret t status w'. ?run = Some ((ret, Some (t, status)), w')"
    using demo_allowed by (simp add: fc_http_perform_def http_exchange_def webclient_transfer_def fc_http_sink_def fc_http_lock_timed_def
        demo_http_env_def Let_def)
  then obtain ret t status w' where r: "?run = Some ((ret, Some (t, status)), w')" by blast
  from http_response_exact [OF r refl refl refl] r show ?thesis by (auto simp: demo_http_env_def)
qed


definition demo_round :: "tls_ret \<Rightarrow> int \<Rightarrow> tls_round" where
  "demo_round r t = \<lparr>tr_io = r, tr_before = t, tr_rest = t, tr_poll = (\<lambda>_. Done 1), tr_after = t\<rparr>"


lemma unat_numeral_1000: "unat (1000 :: u32) = 1000"
  by simp

text \<open>
  C33. Sending and receiving over TLS do not hang: the loop has returned by the first round that begins at or after
  the deadline, whatever the library answers, and no single wait for the socket is longer than a second.
\<close>

theorem tls_io_returns:
  assumes "\<exists>r\<in>set rs. now + uint (conn_timeout_ms conn) \<le> tr_before r"
  shows "fc_tls_send now rs (Some conn) \<noteq> None \<and> fc_tls_recv now rs (Some conn) \<noteq> None
     \<and> (\<forall>r d. unat (poll_ms r d) \<le> 1000)"
proof -
  have "poll_ms r d \<le> 1000" for r d by (simp add: poll_ms_def Let_def not_less)
  then have "unat (poll_ms r d) \<le> 1000" for r d by (metis word_le_nat_alt unat_numeral_1000)
  then show ?thesis using tls_loop_returns [OF assms] by (auto simp: fc_tls_send_def fc_tls_recv_def)
qed

theorem tls_io_returns_witness:
  "let conn = \<lparr>conn_timeout_ms = 8000, conn_verify_required = True, conn_ca_loaded = True\<rparr>
   in fc_tls_recv 100 [demo_round WantRead 200, demo_round WantWrite 8100] (Some conn) \<noteq> None"
  using tls_io_returns [where now = 100 and rs = "[demo_round WantRead 200, demo_round WantWrite 8100]"
      and conn = "\<lparr>conn_timeout_ms = 8000, conn_verify_required = True, conn_ca_loaded = True\<rparr>"]
  by (simp add: demo_round_def)

end
