(* ===== verification/FC_Telegram.thy ===== *)
theory FC_Telegram
  imports FC_Http FC_Queue FC_Progress FC_CJson FC_Files
begin

text \<open>
  The Telegram client of \<^verbatim>\<open>net/fc_telegram.c\<close>: its counters, the acknowledged offset, the list of allowed
  chats, the handling of incoming updates and the sending of messages.  \<open>root\<close> is the value of
  \<^verbatim>\<open>fc_data_dir()\<close>; times are readings of \<^verbatim>\<open>fc_mono_ms()\<close> unless they are said to be wall-clock.
\<close>

section \<open>State\<close>

text \<open>The counters of type \<^verbatim>\<open>unsigned long\<close> have 32 bits on the target.\<close>

record telegram =
  g_tg_started :: bool
  g_update_offset :: int
  g_tg_poll_count :: u32
  g_tg_poll_fail_count :: u32
  g_tg_update_count :: u32
  g_tg_queued_count :: u32
  g_tg_ignored_count :: u32
  g_tg_last_poll_ms :: int
  g_tg_last_success_ms :: int
  g_tg_last_update_id :: int
  g_tg_last_saved_offset :: int
  g_tg_last_ret :: ret
  g_tg_last_http_status :: int
  g_tg_last_chat_id :: string
  g_tg_poll_active :: bool

definition zero_telegram :: telegram where
  "zero_telegram = \<lparr>g_tg_started = False, g_update_offset = -1, g_tg_poll_count = 0, g_tg_poll_fail_count = 0,
     g_tg_update_count = 0, g_tg_queued_count = 0, g_tg_ignored_count = 0, g_tg_last_poll_ms = 0,
     g_tg_last_success_ms = 0, g_tg_last_update_id = -1, g_tg_last_saved_offset = -1, g_tg_last_ret = OK,
     g_tg_last_http_status = 0, g_tg_last_chat_id = [], g_tg_poll_active = False\<rparr>"

text \<open>Build options: owner mode, and the timeouts of the requests.\<close>

record tg_cfg =
  tg_owner_mode :: bool
  tg_http_guard_timeout_ms :: u32
  tg_http_timeout_sec :: u32

definition CONFIG_FRUITCLAW_TELEGRAM_POLL_TIMEOUT_SEC :: nat where "CONFIG_FRUITCLAW_TELEGRAM_POLL_TIMEOUT_SEC = 2"
definition CONFIG_FRUITCLAW_TELEGRAM_POLL_IDLE_MS :: nat where "CONFIG_FRUITCLAW_TELEGRAM_POLL_IDLE_MS = 750"
definition CONFIG_FRUITCLAW_TELEGRAM_POLL_MIN_IDLE_MS :: nat where "CONFIG_FRUITCLAW_TELEGRAM_POLL_MIN_IDLE_MS = 10000"
definition CONFIG_FRUITCLAW_MAX_HTTP_BODY :: nat where "CONFIG_FRUITCLAW_MAX_HTTP_BODY = 65536"
definition FC_GUARD_STAGE_TELEGRAM :: u32 where "FC_GUARD_STAGE_TELEGRAM = 0x46435447"
definition CONFIG_FRUITCLAW_OPERATOR_GUARD_TIMEOUT_MS :: int where "CONFIG_FRUITCLAW_OPERATOR_GUARD_TIMEOUT_MS = 0"

section \<open>Counters\<close>

definition fc_telegram_record_transport_success ::
    "int \<Rightarrow> int \<Rightarrow> string option \<Rightarrow> int \<Rightarrow> telegram \<times> progress \<Rightarrow> telegram \<times> progress" where
  "fc_telegram_record_transport_success now mark source status tp =
     (case tp of (tg, p) \<Rightarrow>
        (tg\<lparr>g_tg_last_success_ms := now,
            g_tg_last_http_status := (if status > 0 then status else g_tg_last_http_status tg)\<rparr>,
         fc_operator_progress_mark mark (Some (case source of Some s \<Rightarrow> s | None \<Rightarrow> ''telegram'')) p))"

definition fc_telegram_record_poll :: "int \<Rightarrow> int \<Rightarrow> ret \<Rightarrow> int \<Rightarrow> telegram \<times> progress \<Rightarrow> telegram \<times> progress" where
  "fc_telegram_record_poll now mark ret status tp =
     (case tp of (tg, p) \<Rightarrow>
        (let tg1 = tg\<lparr>g_tg_poll_count := g_tg_poll_count tg + 1, g_tg_last_poll_ms := now, g_tg_last_ret := ret,
                      g_tg_last_http_status := status\<rparr>
         in if ret_neg ret then (tg1\<lparr>g_tg_poll_fail_count := g_tg_poll_fail_count tg1 + 1\<rparr>, p)
            else (tg1\<lparr>g_tg_last_success_ms := g_tg_last_poll_ms tg1\<rparr>, fc_operator_progress_mark mark (Some ''telegram'') p)))"

definition fc_telegram_set_poll_active :: "int \<Rightarrow> bool \<Rightarrow> telegram \<Rightarrow> telegram" where
  "fc_telegram_set_poll_active now active tg =
     (let tg1 = tg\<lparr>g_tg_poll_active := active\<rparr> in if active then tg1\<lparr>g_tg_last_poll_ms := now\<rparr> else tg1)"

definition fc_telegram_record_update :: "int \<Rightarrow> string option \<Rightarrow> bool \<Rightarrow> telegram \<Rightarrow> telegram" where
  "fc_telegram_record_update update_id chat_id queued tg =
     (let tg1 = tg\<lparr>g_tg_update_count := g_tg_update_count tg + 1, g_tg_last_update_id := update_id,
                   g_tg_last_chat_id := cpy FC_CHAT_ID_LEN (case chat_id of Some c \<Rightarrow> c | None \<Rightarrow> [])\<rparr>
      in if queued then tg1\<lparr>g_tg_queued_count := g_tg_queued_count tg1 + 1\<rparr>
         else tg1\<lparr>g_tg_ignored_count := g_tg_ignored_count tg1 + 1\<rparr>)"

definition fc_telegram_record_offset :: "int \<Rightarrow> telegram \<Rightarrow> telegram" where
  "fc_telegram_record_offset offset tg = tg\<lparr>g_tg_last_saved_offset := offset\<rparr>"

definition fc_telegram_transport_ready :: "int \<Rightarrow> telegram \<Rightarrow> bool" where
  "fc_telegram_transport_ready now tg =
     (let last = g_tg_last_success_ms tg;
          max_age = (if CONFIG_FRUITCLAW_OPERATOR_GUARD_TIMEOUT_MS \<le> 0 then 120000 else CONFIG_FRUITCLAW_OPERATOR_GUARD_TIMEOUT_MS)
      in if last \<le> 0 \<or> now < last then False else now - last \<le> max_age)"

definition fc_telegram_poll_stale :: "int \<Rightarrow> int \<Rightarrow> telegram \<Rightarrow> bool" where
  "fc_telegram_poll_stale now_ms timeout_ms tg =
     (if timeout_ms \<le> 0 then False
      else g_tg_started tg \<and> g_tg_poll_active tg \<and> g_tg_last_poll_ms tg > 0 \<and> now_ms - g_tg_last_poll_ms tg > timeout_ms)"

definition fc_telegram_poll_age_ms :: "int \<Rightarrow> telegram \<Rightarrow> int \<times> bool" where
  "fc_telegram_poll_age_ms now tg =
     (if \<not> g_tg_poll_active tg \<or> g_tg_last_poll_ms tg \<le> 0 then -1 else now - g_tg_last_poll_ms tg, g_tg_poll_active tg)"

definition fc_telegram_last_success_age_ms :: "int \<Rightarrow> telegram \<Rightarrow> int" where
  "fc_telegram_last_success_age_ms now tg =
     (if g_tg_last_success_ms tg \<le> 0 then -1 else now - g_tg_last_success_ms tg)"

section \<open>Token, requests and offset\<close>

definition fc_telegram_read_token :: "string \<Rightarrow> nat \<Rightarrow> posix_fs \<Rightarrow> (ret \<times> string option) \<times> posix_fs" where
  "fc_telegram_read_token root token_len fs =
     (case fc_secret_path root (Some ''telegram_token'') (Some FC_PATH_LEN) of
        (Err e, _) \<Rightarrow> ((Err e, None), fs)
      | (OK, path) \<Rightarrow> fc_read_text_file path (Some token_len) True fs)"

type_synonym http_result = "((ret \<times> (string \<times> int) option) \<times> http_world) option"

definition fc_telegram_http_get :: "tg_cfg \<Rightarrow> http_env \<Rightarrow> string \<Rightarrow> nat \<Rightarrow> http_world \<Rightarrow> http_result" where
  "fc_telegram_http_get c e url resp_len w =
     (if tg_http_guard_timeout_ms c > 0
      then fc_http_get_guarded_timeout e FC_GUARD_STAGE_TELEGRAM (tg_http_guard_timeout_ms c) (tg_http_timeout_sec c)
             (Some url) None (Some resp_len) w
      else fc_http_get_unlocked_timeout e (tg_http_timeout_sec c) (Some url) None (Some resp_len) w)"

definition fc_telegram_http_post_json ::
    "tg_cfg \<Rightarrow> http_env \<Rightarrow> bool \<Rightarrow> string \<Rightarrow> string \<Rightarrow> nat \<Rightarrow> http_world \<Rightarrow> http_result" where
  "fc_telegram_http_post_json c e guarded url body resp_len w =
     (if guarded
      then (if tg_http_guard_timeout_ms c > 0
            then fc_http_post_json_guarded_timeout e FC_GUARD_STAGE_TELEGRAM (tg_http_guard_timeout_ms c)
                   (tg_http_timeout_sec c) (Some url) None (Some body) (Some resp_len) w
            else fc_http_post_json_unlocked_timeout e (tg_http_timeout_sec c) (Some url) None (Some body) (Some resp_len) w)
      else fc_http_post_json e (Some url) None (Some body) (Some resp_len) w)"

definition fc_offset_path :: "string \<Rightarrow> nat option \<Rightarrow> ret \<times> string option" where
  "fc_offset_path root out = fc_data_path root (Some ''telegram_offset'') out"

text \<open>\<^verbatim>\<open>strtoll\<close> on the 64-bit type: like \<open>strtol\<close> with wider bounds.\<close>

definition LLONG_MAX :: int where "LLONG_MAX = 9223372036854775807"

definition strtoll :: "string \<Rightarrow> int" where
  "strtoll s =
     (let t = dropWhile isspace s;
          neg = (t \<noteq> [] \<and> hd t = CHR ''-'');
          u = (if t \<noteq> [] \<and> (hd t = CHR ''-'' \<or> hd t = CHR ''+'') then tl t else t);
          v = (if neg then -1 else 1) * int (digits_val 0 (takeWhile isdigit u))
      in max (- LLONG_MAX - 1) (min LLONG_MAX v))"

definition fc_telegram_load_offset :: "string \<Rightarrow> posix_fs \<Rightarrow> telegram \<Rightarrow> int \<times> posix_fs \<times> telegram" where
  "fc_telegram_load_offset root fs tg =
     (case fc_offset_path root (Some FC_PATH_LEN) of
        (Err _, _) \<Rightarrow> (0, fs, tg)
      | (OK, path) \<Rightarrow>
          (case fc_read_text_file path (Some 48) True fs of
             ((Err _, _), fs1) \<Rightarrow> (0, fs1, tg)
           | ((OK, buf), fs1) \<Rightarrow>
               (let offset = strtoll (the buf) in (offset, fs1, fc_telegram_record_offset offset tg))))"

definition fc_telegram_save_offset :: "string \<Rightarrow> int \<Rightarrow> posix_fs \<Rightarrow> ret \<times> posix_fs" where
  "fc_telegram_save_offset root offset fs =
     (case fc_offset_path root (Some FC_PATH_LEN) of
        (Err _, _) \<Rightarrow> (Err EINVAL, fs)
      | (OK, path) \<Rightarrow> fc_write_text_file_atomic path (Some (snprintf_buf 48 (dec_int offset @ [LF]))) fs)"

definition fc_telegram_ack_offset :: "string \<Rightarrow> int \<Rightarrow> posix_fs \<times> telegram \<Rightarrow> posix_fs \<times> telegram" where
  "fc_telegram_ack_offset root next_offset ft =
     (case ft of (fs, tg) \<Rightarrow>
        if next_offset > g_update_offset tg
        then let tg1 = tg\<lparr>g_update_offset := next_offset\<rparr>
             in (snd (fc_telegram_save_offset root next_offset fs), fc_telegram_record_offset next_offset tg1)
        else (fs, tg))"

definition fc_telegram_should_ack_offset :: "bool \<Rightarrow> ret \<Rightarrow> bool" where
  "fc_telegram_should_ack_offset ignorable_update publish_ret \<longleftrightarrow> ignorable_update \<or> publish_ret = OK"

definition fc_telegram_finish_update ::
    "string \<Rightarrow> int \<Rightarrow> int \<Rightarrow> string option \<Rightarrow> bool \<Rightarrow> bool \<Rightarrow> ret \<Rightarrow> posix_fs \<times> telegram \<Rightarrow> posix_fs \<times> telegram" where
  "fc_telegram_finish_update root update_id next_offset chat_id queued ignorable_update publish_ret ft =
     (case ft of (fs, tg) \<Rightarrow>
        let ft1 = (fs, fc_telegram_record_update update_id chat_id queued tg)
        in if fc_telegram_should_ack_offset ignorable_update publish_ret
           then fc_telegram_ack_offset root next_offset ft1 else ft1)"

section \<open>Allowed chats\<close>

text \<open>\<open>files\<close> is what \<^verbatim>\<open>fopen\<close> finds at a path; the lines come through a buffer of 80 bytes.\<close>

definition chat_line :: "string \<Rightarrow> string option" where
  "chat_line raw =
     (let line = fc_trim (takeWhile (\<lambda>c. c \<noteq> NUL) raw) in if line = [] \<or> hd line = CHR ''#'' then None else Some line)"

definition fc_telegram_chat_allowed :: "string \<Rightarrow> (string \<Rightarrow> string option) \<Rightarrow> string option \<Rightarrow> bool" where
  "fc_telegram_chat_allowed root files chat_id =
     (case chat_id of
        None \<Rightarrow> False
      | Some c \<Rightarrow>
          if c = [] then False
          else case fc_data_path root (Some ''telegram_allowed_chats.txt'') (Some FC_PATH_LEN) of
                 (OK, Some path) \<Rightarrow>
                   (case files path of
                      None \<Rightarrow> False
                    | Some content \<Rightarrow> list_ex (\<lambda>raw. chat_line raw = Some c) (fgets_lines 80 content))
               | _ \<Rightarrow> False)"

fun first_chat :: "string list \<Rightarrow> string option" where
  "first_chat [] = None"
| "first_chat (raw # raws) = (case chat_line raw of Some c \<Rightarrow> Some c | None \<Rightarrow> first_chat raws)"

definition fc_telegram_first_allowed_chat ::
    "string \<Rightarrow> (string \<Rightarrow> string option) \<Rightarrow> errno \<Rightarrow> nat option \<Rightarrow> ret \<times> string option" where
  "fc_telegram_first_allowed_chat root files open_err out =
     (case out of
        None \<Rightarrow> (Err EINVAL, None)
      | Some n \<Rightarrow>
          if n = 0 then (Err EINVAL, None)
          else case fc_data_path root (Some ''telegram_allowed_chats.txt'') (Some FC_PATH_LEN) of
                 (OK, Some path) \<Rightarrow>
                   (case files path of
                      None \<Rightarrow> (Err open_err, Some [])
                    | Some content \<Rightarrow>
                        (case first_chat (fgets_lines 80 content) of
                           Some c \<Rightarrow> fc_strlcpy (Some n) (Some c)
                         | None \<Rightarrow> (Err ENOENT, Some [])))
               | _ \<Rightarrow> (Err EINVAL, Some []))"

section \<open>Incoming messages\<close>

text \<open>The state the client works on; \<open>tw_seq\<close> is the counter behind \<^verbatim>\<open>fc_make_id\<close>.\<close>

record tg_world =
  tw_tg :: telegram
  tw_main :: fc_queue
  tw_progress :: progress
  tw_fs :: posix_fs
  tw_http :: http_world
  tw_seq :: u32

abbreviation chat_files :: "tg_world \<Rightarrow> string \<Rightarrow> string option" where
  "chat_files w \<equiv> fs_files (tw_fs w)"

definition telegram_event :: "tg_cfg \<Rightarrow> string \<Rightarrow> int \<Rightarrow> string \<Rightarrow> string \<Rightarrow> string option \<Rightarrow> fc_event" where
  "telegram_event c eid ts chat_id txt payload =
     zero_event\<lparr>ev_id := eid,
       ev_source := cpy FC_SOURCE_LEN ''telegram'',
       ev_type := cpy FC_TYPE_LEN ''message.in'',
       ev_channel := cpy FC_CHANNEL_LEN ''telegram'',
       ev_chat_id := cpy FC_CHAT_ID_LEN chat_id,
       ev_session_id := snprintf_buf FC_SESSION_ID_LEN (''telegram:'' @ chat_id),
       ev_text := cpy CONFIG_FRUITCLAW_MAX_EVENT_TEXT txt,
       ev_payload_json := cpy CONFIG_FRUITCLAW_MAX_JSON (case payload of Some p \<Rightarrow> p | None \<Rightarrow> ''{}''),
       ev_ts_ms := ts,
       ev_owner_mode := tg_owner_mode c\<rparr>"

text \<open>The wall-clock readings of a message: for its identifier and its time stamp.\<close>

type_synonym msg_clock = "int \<times> int"

definition fc_telegram_publish_message ::
    "tg_cfg \<Rightarrow> msg_clock \<Rightarrow> string \<Rightarrow> string \<Rightarrow> string option \<Rightarrow> tg_world \<Rightarrow> ret \<times> tg_world" where
  "fc_telegram_publish_message c clk chat_id txt payload w =
     (case fc_make_id (Some FC_ID_LEN) (Some ''tg'') (fst clk) (tw_seq w) of (eid, seq) \<Rightarrow>
        case fc_queue_publish (Some (tw_main w)) (Some (telegram_event c (the eid) (snd clk) chat_id txt payload)) of
          (ret, q) \<Rightarrow> (ret, w\<lparr>tw_seq := seq, tw_main := the q\<rparr>))"

definition chat_payload :: "string \<Rightarrow> string" where
  \<open>chat_payload chat_id = snprintf_buf 192 (''{"chat_id":"'' @ chat_id @ ''"}'')\<close>

definition fc_telegram_inject_text ::
    "tg_cfg \<Rightarrow> string \<Rightarrow> errno \<Rightarrow> msg_clock \<Rightarrow> string option \<Rightarrow> string option \<Rightarrow> tg_world \<Rightarrow> ret \<times> tg_world" where
  \<open>fc_telegram_inject_text c root open_err clk chat_id txt w =
     (if txt = None \<or> txt = Some [] then (Err EINVAL, w)
      else case (if chat_id = None \<or> chat_id = Some []
                 then fc_telegram_first_allowed_chat root (chat_files w) open_err (Some FC_CHAT_ID_LEN)
                 else (OK, chat_id)) of
             (Err e, _) \<Rightarrow> (Err e, w)
           | (OK, chat) \<Rightarrow>
               if \<not> fc_telegram_chat_allowed root (chat_files w) chat then (Err EACCES, w)
               else fc_telegram_publish_message c clk (the chat) (the txt)
                      (Some (snprintf_buf 192 (''{"chat_id":"'' @ the chat @ ''","injected":true}''))) w)\<close>

definition finish_in_world ::
    "string \<Rightarrow> int \<Rightarrow> string option \<Rightarrow> bool \<Rightarrow> bool \<Rightarrow> ret \<Rightarrow> tg_world \<Rightarrow> tg_world" where
  "finish_in_world root next_offset chat_id queued ignorable ret w =
     (case fc_telegram_finish_update root (next_offset - 1) next_offset chat_id queued ignorable ret (tw_fs w, tw_tg w) of
        (fs, tg) \<Rightarrow> w\<lparr>tw_fs := fs, tw_tg := tg\<rparr>)"

text \<open>The text and the chat of an update that carries a text message.\<close>

definition update_next_offset :: "'j cjson \<Rightarrow> 'j \<Rightarrow> telegram \<Rightarrow> int" where
  "update_next_offset cj u tg =
     (case cj_int cj (cj_get cj u ''update_id'') of Some n \<Rightarrow> n + 1 | None \<Rightarrow> g_update_offset tg)"

definition update_message :: "'j cjson \<Rightarrow> 'j \<Rightarrow> (string \<times> string) option" where
  "update_message cj u =
     (case cj_get cj u ''message'' of
        None \<Rightarrow> None
      | Some msg \<Rightarrow>
          (case cj_string cj (cj_get cj msg ''text'') of
             None \<Rightarrow> None
           | Some txt \<Rightarrow>
               (case cj_int cj (case cj_get cj msg ''chat'' of Some chat \<Rightarrow> cj_get cj chat ''id'' | None \<Rightarrow> None) of
                  None \<Rightarrow> None
                | Some n \<Rightarrow> Some (txt, snprintf_buf FC_CHAT_ID_LEN (dec_int n)))))"

definition fc_telegram_handle_update ::
    "'j cjson \<Rightarrow> tg_cfg \<Rightarrow> string \<Rightarrow> msg_clock \<Rightarrow> 'j \<Rightarrow> tg_world \<Rightarrow> tg_world" where
  "fc_telegram_handle_update cj c root clk u w =
     (let next_offset = update_next_offset cj u (tw_tg w)
      in case update_message cj u of
           None \<Rightarrow> finish_in_world root next_offset None False True OK w
         | Some (txt, chat_id) \<Rightarrow>
             if \<not> fc_telegram_chat_allowed root (chat_files w) (Some chat_id)
             then finish_in_world root next_offset (Some chat_id) False True OK w
             else (case fc_telegram_publish_message c clk chat_id txt (Some (chat_payload chat_id)) w of
                     (ret, w1) \<Rightarrow> finish_in_world root next_offset (Some chat_id) (ret = OK) False ret w1))"

fun handle_updates ::
    "'j cjson \<Rightarrow> tg_cfg \<Rightarrow> string \<Rightarrow> (nat \<Rightarrow> msg_clock) \<Rightarrow> nat \<Rightarrow> 'j list \<Rightarrow> tg_world \<Rightarrow> tg_world" where
  "handle_updates cj c root clk i [] w = w"
| "handle_updates cj c root clk i (u # us) w =
     handle_updates cj c root clk (Suc i) us (fc_telegram_handle_update cj c root (clk i) u w)"

text \<open>
  The environment of a poll: the request, the allocation, the clocks of the counters, of the two
  notes around the request, and of the messages.
\<close>

record poll_env =
  pe_http :: http_env
  pe_calloc :: bool
  pe_now :: int
  pe_mark :: int
  pe_start :: int
  pe_msgs :: "nat \<Rightarrow> msg_clock"

definition record_poll_in_world :: "poll_env \<Rightarrow> ret \<Rightarrow> int \<Rightarrow> tg_world \<Rightarrow> tg_world" where
  "record_poll_in_world e ret status w =
     (case fc_telegram_record_poll (pe_now e) (pe_mark e) ret status (tw_tg w, tw_progress w) of
        (tg, p) \<Rightarrow> w\<lparr>tw_tg := tg, tw_progress := p\<rparr>)"

definition poll_url :: "string \<Rightarrow> int \<Rightarrow> string" where
  "poll_url token offset =
     snprintf_buf 320 (''https://api.telegram.org/bot'' @ token @ ''/getUpdates?timeout=''
       @ dec_nat CONFIG_FRUITCLAW_TELEGRAM_POLL_TIMEOUT_SEC @ ''&offset='' @ dec_int offset)"

definition token_missing :: "ret \<times> string option \<Rightarrow> bool" where
  "token_missing t \<longleftrightarrow> ret_neg (fst t) \<or> snd t = Some []"

text \<open>A request with the note that it is going on; \<open>None\<close> while the request does not return.\<close>

definition poll_request :: "tg_cfg \<Rightarrow> poll_env \<Rightarrow> string \<Rightarrow> tg_world \<Rightarrow> ((ret \<times> string \<times> int) \<times> tg_world) option" where
  "poll_request c e url w =
     map_option (\<lambda>((ret, out), hw').
         ((ret, case out of Some x \<Rightarrow> x | None \<Rightarrow> ([], 0)),
          w\<lparr>tw_http := hw',
            tw_tg := fc_telegram_set_poll_active (pe_start e) False (fc_telegram_set_poll_active (pe_start e) True (tw_tg w))\<rparr>))
       (fc_telegram_http_get c (pe_http e) url CONFIG_FRUITCLAW_MAX_HTTP_BODY (tw_http w))"

text \<open>What a poll does with the answer.\<close>

definition poll_answer ::
    "'j cjson \<Rightarrow> tg_cfg \<Rightarrow> string \<Rightarrow> poll_env \<Rightarrow> ret \<times> string \<times> int \<Rightarrow> tg_world \<Rightarrow> ret \<times> tg_world" where
  "poll_answer cj c root e answer w =
     (case answer of (ret, resp, status) \<Rightarrow>
        if ret_neg ret then (ret, record_poll_in_world e ret status w)
        else if status < 200 \<or> status \<ge> 300 then (Err EIO, record_poll_in_world e (Err EIO) status w)
        else case cj_parse cj (takeWhile (\<lambda>x. x \<noteq> NUL) resp) of
               None \<Rightarrow> (Err EINVAL, record_poll_in_world e (Err EINVAL) status w)
             | Some rt \<Rightarrow>
                 (let result = cj_get cj rt ''result'';
                      w1 = (if cj_is_array cj result
                            then handle_updates cj c root (pe_msgs e) 0 (cj_items cj (the result)) w else w)
                  in (OK, record_poll_in_world e OK status w1)))"

definition fc_telegram_poll_once ::
    "'j cjson \<Rightarrow> tg_cfg \<Rightarrow> string \<Rightarrow> poll_env \<Rightarrow> tg_world \<Rightarrow> (ret \<times> tg_world) option" where
  "fc_telegram_poll_once cj c root e w =
     (case fc_telegram_read_token root 160 (tw_fs w) of (tok, fs1) \<Rightarrow>
        let w1 = w\<lparr>tw_fs := fs1\<rparr>
        in if token_missing tok then Some (Err ENOENT, record_poll_in_world e (Err ENOENT) 0 w1)
           else let w2 = (if g_update_offset (tw_tg w1) < 0
                          then case fc_telegram_load_offset root (tw_fs w1) (tw_tg w1) of
                                 (off, fs2, tg) \<Rightarrow> w1\<lparr>tw_fs := fs2, tw_tg := tg\<lparr>g_update_offset := off\<rparr>\<rparr>
                          else w1);
                    url = poll_url (the (snd tok)) (g_update_offset (tw_tg w2))
                in if \<not> pe_calloc e then Some (Err ENOMEM, record_poll_in_world e (Err ENOMEM) 0 w2)
                   else map_option (\<lambda>(answer, w3). poll_answer cj c root e answer w3) (poll_request c e url w2))"

section \<open>Discovering chats\<close>

definition fc_telegram_out_append :: "nat \<Rightarrow> string \<Rightarrow> string \<Rightarrow> ret \<times> string" where
  "fc_telegram_out_append n out s =
     (if length out \<ge> n then (Err EINVAL, out)
      else if length out + length s \<ge> n then (Err ENOSPC, take (n - 1) (out @ s))
      else (OK, out @ s))"

definition fc_telegram_preview_text :: "string option \<Rightarrow> nat \<Rightarrow> string" where
  "fc_telegram_preview_text inp n =
     (case inp of
        None \<Rightarrow> []
      | Some s \<Rightarrow> map (\<lambda>ch. if (of_char ch :: nat) < 32 then CHR '' '' else ch) (take (n - 1) s))"

definition discover_line :: "'j cjson \<Rightarrow> 'j \<Rightarrow> string option" where
  \<open>discover_line cj u =
     (let msg = cj_get cj u ''message'';
          txt = (case msg of Some m \<Rightarrow> cj_string cj (cj_get cj m ''text'') | None \<Rightarrow> None);
          chat = (case msg of Some m \<Rightarrow> cj_get cj m ''chat'' | None \<Rightarrow> None);
          chat_id = (case chat of Some x \<Rightarrow> cj_int cj (cj_get cj x ''id'') | None \<Rightarrow> None)
      in case (cj_int cj (cj_get cj u ''update_id''), chat_id) of
           (Some uid, Some cid) \<Rightarrow>
             Some (''chat_id='' @ dec_int cid @ '' update_id='' @ dec_int uid @ '' text="''
                   @ fc_telegram_preview_text txt 80 @ ''"'' @ [LF])
         | _ \<Rightarrow> None)\<close>

fun discover_loop :: "'j cjson \<Rightarrow> nat \<Rightarrow> 'j list \<Rightarrow> nat \<Rightarrow> string \<Rightarrow> ret \<times> nat \<times> string" where
  "discover_loop cj n [] found out = (OK, found, out)"
| "discover_loop cj n (u # us) found out =
     (case discover_line cj u of
        None \<Rightarrow> discover_loop cj n us found out
      | Some l \<Rightarrow>
          (case fc_telegram_out_append n out l of
             (Err e, out') \<Rightarrow> (Err e, found, out')
           | (OK, out') \<Rightarrow> discover_loop cj n us (Suc found) out'))"

definition discover_text :: "'j cjson \<Rightarrow> (ret \<Rightarrow> int) \<Rightarrow> nat \<Rightarrow> ret \<times> string \<times> int \<Rightarrow> ret \<times> string" where
  "discover_text cj code n answer =
     (case answer of (ret, resp, status) \<Rightarrow>
        if ret_neg ret then (ret, snprintf_buf n (''Telegram discover failed: '' @ dec_int (code ret) @ [LF]))
        else if status < 200 \<or> status \<ge> 300
        then (Err EIO, snprintf_buf n (''Telegram discover HTTP status: '' @ dec_int status @ '' body: ''
                                       @ takeWhile (\<lambda>x. x \<noteq> NUL) resp @ [LF]))
        else case cj_parse cj (takeWhile (\<lambda>x. x \<noteq> NUL) resp) of
               None \<Rightarrow> (Err EINVAL, snprintf_buf n (''Telegram discover returned invalid JSON'' @ [LF]))
             | Some rt \<Rightarrow>
                 (let result = cj_get cj rt ''result''
                  in case discover_loop cj n (if cj_is_array cj result then cj_items cj (the result) else []) 0 [] of
                       (Err e, _, out) \<Rightarrow> (Err e, out)
                     | (OK, found, out) \<Rightarrow>
                         (OK, if found = 0
                              then cpy n (''No Telegram updates. Send the bot a text message, then run ''
                                          @ ''telegram-discover again.'' @ [LF])
                              else out)))"

definition fc_telegram_discover_chats ::
    "'j cjson \<Rightarrow> (ret \<Rightarrow> int) \<Rightarrow> tg_cfg \<Rightarrow> string \<Rightarrow> poll_env \<Rightarrow> nat option \<Rightarrow> tg_world
       \<Rightarrow> ((ret \<times> string option) \<times> tg_world) option" where
  "fc_telegram_discover_chats cj code c root e out w =
     (case out of
        None \<Rightarrow> Some ((Err EINVAL, None), w)
      | Some n \<Rightarrow>
          if n = 0 then Some ((Err EINVAL, None), w)
          else case fc_telegram_read_token root 160 (tw_fs w) of (tok, fs1) \<Rightarrow>
            (let w1 = w\<lparr>tw_fs := fs1\<rparr>
             in if token_missing tok
                then Some ((Err ENOENT, Some (snprintf_buf n (''Telegram token not found at ''
                        @ (case fc_secret_path root (Some ''telegram_token'') (Some FC_PATH_LEN) of (_, Some p) \<Rightarrow> p | _ \<Rightarrow> []) @ [LF]))), w1)
                else if \<not> pe_calloc e then Some ((Err ENOMEM, Some []), w1)
                else let url = snprintf_buf 320 (''https://api.telegram.org/bot'' @ the (snd tok) @ ''/getUpdates?timeout=0&limit=10'')
                     in map_option (\<lambda>(answer, w2). case discover_text cj code n answer of (ret, t) \<Rightarrow> ((ret, Some t), w2))
                          (poll_request c e url w1)))"

section \<open>Outgoing messages\<close>

record send_env =
  se_http :: http_env
  se_calloc :: bool
  se_mark1 :: int
  se_now :: int
  se_mark2 :: int

definition message_json :: "'j cjson \<Rightarrow> string \<Rightarrow> string \<Rightarrow> string option" where
  "message_json cj chat_id txt =
     (case cj_object cj 0 of
        None \<Rightarrow> None
      | Some o0 \<Rightarrow>
          cj_print cj (cj_add_bool cj (cj_add_string cj (cj_add_string cj o0 ''chat_id'' chat_id) ''text'' txt)
                         ''disable_web_page_preview'' True))"

definition fc_telegram_send_message_common ::
    "'j cjson \<Rightarrow> tg_cfg \<Rightarrow> string \<Rightarrow> send_env \<Rightarrow> string option \<Rightarrow> string option \<Rightarrow> bool \<Rightarrow> tg_world \<Rightarrow> (ret \<times> tg_world) option" where
  "fc_telegram_send_message_common cj c root e chat_id txt guarded w =
     (case (chat_id, txt) of
        (Some chat, Some t) \<Rightarrow>
          if \<not> fc_telegram_chat_allowed root (chat_files w) chat_id then Some (Err EACCES, w)
          else case fc_telegram_read_token root 160 (tw_fs w) of (tok, fs1) \<Rightarrow>
            (let w1 = w\<lparr>tw_fs := fs1\<rparr>
             in if token_missing tok then Some (Err ENOENT, w1)
                else case message_json cj chat t of
                       None \<Rightarrow> Some (Err ENOMEM, w1)
                     | Some body \<Rightarrow>
                         if \<not> se_calloc e then Some (Err ENOMEM, w1)
                         else map_option (\<lambda>((ret, out), hw').
                                let w2 = w1\<lparr>tw_http := hw'\<rparr>;
                                    status = (case out of Some (_, s) \<Rightarrow> s | None \<Rightarrow> 0)
                                in if ret_neg ret then (ret, w2)
                                   else if status < 200 \<or> status \<ge> 300 then (Err EIO, w2)
                                   else case fc_telegram_record_transport_success (se_now e) (se_mark2 e) (Some ''telegram-send'') status
                                               (tw_tg w2, fc_operator_progress_mark (se_mark1 e) (Some ''telegram-send'') (tw_progress w2)) of
                                          (tg, p) \<Rightarrow> (OK, w2\<lparr>tw_tg := tg, tw_progress := p\<rparr>))
                              (fc_telegram_http_post_json c (se_http e) guarded
                                 (snprintf_buf 256 (''https://api.telegram.org/bot'' @ the (snd tok) @ ''/sendMessage'')) body
                                 CONFIG_FRUITCLAW_MAX_HTTP_BODY (tw_http w1)))
      | _ \<Rightarrow> Some (Err EINVAL, w))"

definition fc_telegram_send_message ::
    "'j cjson \<Rightarrow> tg_cfg \<Rightarrow> string \<Rightarrow> send_env \<Rightarrow> string option \<Rightarrow> string option \<Rightarrow> tg_world \<Rightarrow> (ret \<times> tg_world) option" where
  "fc_telegram_send_message cj c root e chat_id txt w = fc_telegram_send_message_common cj c root e chat_id txt True w"

definition fc_telegram_worker_start :: "errno option \<Rightarrow> telegram \<Rightarrow> ret \<times> telegram" where
  "fc_telegram_worker_start created tg =
     (if g_tg_started tg then (OK, tg)
      else case created of Some e \<Rightarrow> (Err e, tg) | None \<Rightarrow> (OK, tg\<lparr>g_tg_started := True\<rparr>))"

end
