(* ===== verification/FC_Tg_Props.thy ===== *)
theory FC_Tg_Props
  imports FC_Telegram
begin

text \<open>
  What the Telegram client of \<^verbatim>\<open>net/fc_telegram.c\<close> guarantees: which messages reach the main queue, in which
  order, and what is acknowledged to the server.
\<close>

section \<open>The reference\<close>

text \<open>The message of an update that the client lets in: a text from an allowed chat.\<close>

definition accepted :: "'j cjson \<Rightarrow> string \<Rightarrow> (string \<Rightarrow> string option) \<Rightarrow> 'j \<Rightarrow> (string \<times> string) option" where
  "accepted cj root files u =
     (case update_message cj u of
        None \<Rightarrow> None
      | Some (txt, chat) \<Rightarrow> if fc_telegram_chat_allowed root files (Some chat) then Some (txt, chat) else None)"

text \<open>Events up to the identifier and the time stamp, which come from the clock.\<close>

definition undated :: "fc_event \<Rightarrow> fc_event" where
  "undated e = e\<lparr>ev_id := [], ev_ts_ms := 0\<rparr>"

definition incoming :: "tg_cfg \<Rightarrow> string \<times> string \<Rightarrow> fc_event" where
  "incoming c m = telegram_event c [] 0 (snd m) (fst m) (Some (chat_payload (snd m)))"

definition next_offsets :: "'j cjson \<Rightarrow> 'j list \<Rightarrow> int list" where
  "next_offsets cj us = map (\<lambda>n. n + 1) (List.map_filter (\<lambda>u. cj_int cj (cj_get cj u ''update_id'')) us)"

section \<open>The allowed chats stay as they are\<close>

abbreviation chats_path :: "string \<Rightarrow> string" where
  "chats_path root \<equiv> root @ ''/telegram_allowed_chats.txt''"

lemma chat_allowed_path:
  assumes "files (chats_path root) = files' (chats_path root)"
  shows "fc_telegram_chat_allowed root files = fc_telegram_chat_allowed root files'"
  using assms
  by (intro ext) (auto simp: fc_telegram_chat_allowed_def fc_data_path_def snprintf_buf_def Let_def
      split: option.splits if_splits)

lemma save_offset_chats: "fs_files (snd (fc_telegram_save_offset root off fs)) (chats_path root) = fs_files fs (chats_path root)"
proof (cases "fc_offset_path root (Some FC_PATH_LEN)")
  case (Pair r p)
  obtain r' fs' where w: "fc_write_text_file_atomic p (Some (snprintf_buf 48 (dec_int off @ [LF]))) fs = (r', fs')" by fastforce
  show ?thesis
  proof (cases "r = OK")
    case True
    then have p: "p = Some (root @ ''/telegram_offset'')"
      using Pair by (auto simp: fc_offset_path_def fc_data_path_def snprintf_buf_def Let_def split: if_splits)
    show ?thesis
      using write_atomic_other [OF w [unfolded p], of "chats_path root"] w True Pair
      by (simp add: fc_telegram_save_offset_def)
  qed (use Pair in \<open>cases r; simp add: fc_telegram_save_offset_def\<close>)
qed

lemma finish_in_world:
  shows "tw_main (finish_in_world root n chat queued ign ret w) = tw_main w"
    and "fc_telegram_chat_allowed root (chat_files (finish_in_world root n chat queued ign ret w))
           = fc_telegram_chat_allowed root (chat_files w)"
    and "g_update_offset (tw_tg (finish_in_world root n chat queued ign ret w))
           = (if ign \<or> ret = OK then max (g_update_offset (tw_tg w)) n else g_update_offset (tw_tg w))"
  by (auto simp: finish_in_world_def fc_telegram_finish_update_def fc_telegram_ack_offset_def Let_def save_offset_chats
      fc_telegram_should_ack_offset_def fc_telegram_record_update_def fc_telegram_record_offset_def
      split: prod.splits if_splits intro!: chat_allowed_path)

section \<open>One update\<close>

lemma publish_message_put:
  "\<exists>eid seq. fc_telegram_publish_message c clk chat txt payload w =
     (case queue_put (telegram_event c eid (snd clk) chat txt payload) (tw_main w) of
        (ret, q) \<Rightarrow> (ret, w\<lparr>tw_seq := seq, tw_main := q\<rparr>))"
  by (intro exI [of _ "the (fst (fc_make_id (Some FC_ID_LEN) (Some ''tg'') (fst clk) (tw_seq w)))"]
        exI [of _ "snd (fc_make_id (Some FC_ID_LEN) (Some ''tg'') (fst clk) (tw_seq w))"])
     (simp add: fc_telegram_publish_message_def queue_put_def case_prod_beta)

lemma undated_event: "undated (telegram_event c eid ts chat txt p) = telegram_event c [] 0 chat txt p"
  by (simp add: undated_def telegram_event_def)

lemma max_next_offset:
  "max (g_update_offset tg) (update_next_offset cj u tg)
     = foldl max (g_update_offset tg) (next_offsets cj [u])"
  by (simp add: update_next_offset_def next_offsets_def List.map_filter_def split: option.splits)

text \<open>What an update does to the queue and to the offset, on each of its ways.\<close>

lemma handle_update_ignored:
  assumes "w' = fc_telegram_handle_update cj c root clk u w" "accepted cj root (chat_files w) u = None"
  shows "tw_main w' = tw_main w"
    and "fc_telegram_chat_allowed root (chat_files w') = fc_telegram_chat_allowed root (chat_files w)"
    and "g_update_offset (tw_tg w') = foldl max (g_update_offset (tw_tg w)) (next_offsets cj [u])"
  using assms
  by (auto simp: fc_telegram_handle_update_def accepted_def finish_in_world max_next_offset [symmetric]
      split: option.splits if_splits)

lemma handle_update_accepted:
  assumes def_w: "w' = fc_telegram_handle_update cj c root clk u w"
    and acc: "accepted cj root (chat_files w) u = Some m" and wf: "queue_wf (tw_main w)"
  shows "\<exists>e. undated e = incoming c m \<and> tw_main w' = snd (queue_put e (tw_main w))
           \<and> fc_telegram_chat_allowed root (chat_files w') = fc_telegram_chat_allowed root (chat_files w)
           \<and> g_update_offset (tw_tg w')
               = (if fst (queue_put e (tw_main w)) = OK then foldl max (g_update_offset (tw_tg w)) (next_offsets cj [u])
                  else g_update_offset (tw_tg w))"
proof -
  obtain t chat where m: "update_message cj u = Some (t, chat)" "m = (t, chat)"
      "fc_telegram_chat_allowed root (chat_files w) (Some chat)"
    using acc by (auto simp: accepted_def split: option.splits if_splits)
  obtain eid seq where pub: "fc_telegram_publish_message c clk chat t (Some (chat_payload chat)) w =
     (case queue_put (telegram_event c eid (snd clk) chat t (Some (chat_payload chat))) (tw_main w) of
        (ret, q) \<Rightarrow> (ret, w\<lparr>tw_seq := seq, tw_main := q\<rparr>))"
    using publish_message_put by blast
  let ?e = "telegram_event c eid (snd clk) chat t (Some (chat_payload chat))"
  obtain ret q where put: "queue_put ?e (tw_main w) = (ret, q)" by fastforce
  have "undated ?e = incoming c m" by (simp add: undated_event incoming_def m)
  then show ?thesis
    using def_w m put pub
    by (intro exI [of _ ?e]) (simp add: fc_telegram_handle_update_def Let_def finish_in_world max_next_offset [symmetric])
qed

section \<open>A batch of updates\<close>

lemma next_offsets_append: "next_offsets cj (us @ vs) = next_offsets cj us @ next_offsets cj vs"
  by (simp add: next_offsets_def List.map_filter_def)

lemma next_offsets_Cons: "foldl max n (next_offsets cj (u # us)) = foldl max (foldl max n (next_offsets cj [u])) (next_offsets cj us)"
  using next_offsets_append [of cj "[u]" us] by simp

lemma accepted_cong:
  "fc_telegram_chat_allowed root files' = fc_telegram_chat_allowed root files \<Longrightarrow> accepted cj root files' = accepted cj root files"
  by (intro ext) (simp add: accepted_def split: option.splits)

abbreviation accepted_of :: "'j cjson \<Rightarrow> string \<Rightarrow> tg_world \<Rightarrow> 'j list \<Rightarrow> (string \<times> string) list" where
  "accepted_of cj root w us \<equiv> List.map_filter (accepted cj root (chat_files w)) us"

lemma handle_updates_room:
  assumes "queue_wf (tw_main w)"
    and "length (queue_elems (tw_main w)) + length (accepted_of cj root w us) \<le> unat (q_capacity (tw_main w))"
    and "w' = handle_updates cj c root clk i us w"
  shows "map undated (queue_elems (tw_main w')) = map undated (queue_elems (tw_main w)) @ map (incoming c) (accepted_of cj root w us)
         \<and> g_update_offset (tw_tg w') = foldl max (g_update_offset (tw_tg w)) (next_offsets cj us)"
  using assms
proof (induction us arbitrary: w i)
  case Nil
  then show ?case by (simp add: List.map_filter_def next_offsets_def)
next
  case (Cons u us)
  let ?w = "fc_telegram_handle_update cj c root (clk i) u w"
  show ?case
  proof (cases "accepted cj root (chat_files w) u")
    case None
    note h = handle_update_ignored [OF refl None, of c "clk i"]
    show ?thesis
      using Cons.IH [of ?w "Suc i"] Cons.prems h accepted_cong [OF h(2), of cj] None
      by (simp add: List.map_filter_simps next_offsets_Cons [of _ cj u us])
  next
    case (Some m)
    obtain e where e: "undated e = incoming c m" "tw_main ?w = snd (queue_put e (tw_main w))"
        "fc_telegram_chat_allowed root (chat_files ?w) = fc_telegram_chat_allowed root (chat_files w)"
        "g_update_offset (tw_tg ?w) = (if fst (queue_put e (tw_main w)) = OK
           then foldl max (g_update_offset (tw_tg w)) (next_offsets cj [u]) else g_update_offset (tw_tg w))"
      using handle_update_accepted [OF refl Some Cons.prems(1)] by blast
    have room: "length (queue_elems (tw_main w)) < unat (q_capacity (tw_main w))"
      using Cons.prems(2) Some by (simp add: List.map_filter_simps del: length_queue_elems)
    note put = fcq.put_room [OF Cons.prems(1) room, of e] fcq.put_inv [OF Cons.prems(1), of e] fcq.put_cap [OF Cons.prems(1), of e]
    show ?thesis
      using Cons.IH [of ?w "Suc i"] Cons.prems e accepted_cong [OF e(3), of cj] Some put
      by (simp add: List.map_filter_simps next_offsets_Cons [of _ cj u us] del: length_queue_elems)
  qed
qed

text \<open>Whatever the room: what enters the queue is, in order, from the accepted messages.\<close>

lemma handle_updates_subseq:
  assumes "queue_wf (tw_main w)" "w' = handle_updates cj c root clk i us w"
  shows "\<exists>evs. queue_elems (tw_main w') = queue_elems (tw_main w) @ evs
         \<and> subseq (map undated evs) (map (incoming c) (accepted_of cj root w us))"
  using assms
proof (induction us arbitrary: w i)
  case Nil
  then show ?case by (simp add: List.map_filter_def)
next
  case (Cons u us)
  let ?w = "fc_telegram_handle_update cj c root (clk i) u w"
  show ?case
  proof (cases "accepted cj root (chat_files w) u")
    case None
    note h = handle_update_ignored [OF refl None, of c "clk i"]
    show ?thesis
      using Cons.IH [of ?w "Suc i"] Cons.prems h accepted_cong [OF h(2), of cj] None
      by (simp add: List.map_filter_simps)
  next
    case (Some m)
    obtain e where e: "undated e = incoming c m" "tw_main ?w = snd (queue_put e (tw_main w))"
        "fc_telegram_chat_allowed root (chat_files ?w) = fc_telegram_chat_allowed root (chat_files w)"
      using handle_update_accepted [OF refl Some Cons.prems(1)] by blast
    obtain evs where evs: "queue_elems (tw_main w') = queue_elems (tw_main ?w) @ evs"
        "subseq (map undated evs) (map (incoming c) (accepted_of cj root ?w us))"
      using Cons.IH [of ?w "Suc i"] Cons.prems e(2) fcq.put_inv [OF Cons.prems(1), of e] by auto
    show ?thesis
    proof (cases "length (queue_elems (tw_main w)) < unat (q_capacity (tw_main w))")
      case True
      then show ?thesis
        using fcq.put_room [OF Cons.prems(1) True, of e] evs e Some accepted_cong [OF e(3), of cj]
        by (intro exI [of _ "e # evs"]) (simp add: List.map_filter_simps)
    next
      case False
      then show ?thesis
        using fcq.put_full [OF Cons.prems(1), of e] evs e Some accepted_cong [OF e(3), of cj]
        by (intro exI [of _ evs]) (simp add: List.map_filter_simps not_less list_emb_Cons)
    qed
  qed
qed

section \<open>Polls and messages\<close>

lemma read_text_frame: "fs_files (snd (fc_read_text_file p n tr fs)) = fs_files fs"
  using read_text_files [of p n tr fs] by (metis prod.collapse)

lemma read_token_files: "fs_files (snd (fc_telegram_read_token root n fs)) = fs_files fs"
  by (auto simp: fc_telegram_read_token_def read_text_frame split: prod.splits ret.splits)

lemma load_offset_files: "fc_telegram_load_offset root fs tg = (off, fs', tg') \<Longrightarrow> fs_files fs' = fs_files fs"
  by (auto simp: fc_telegram_load_offset_def Let_def split: prod.splits ret.splits dest: read_text_files)

lemma record_poll_in_world [simp]:
  "tw_main (record_poll_in_world e r s w) = tw_main w" "tw_fs (record_poll_in_world e r s w) = tw_fs w"
  by (simp_all add: record_poll_in_world_def split: prod.splits)

lemma poll_answer_cases:
  assumes "poll_answer cj c root e answer w = (ret, w')" "queue_wf (tw_main w)"
  shows "\<exists>us evs. queue_elems (tw_main w') = queue_elems (tw_main w) @ evs
     \<and> subseq (map undated evs) (map (incoming c) (accepted_of cj root w us)) \<and> (ret \<noteq> OK \<longrightarrow> evs = [])"
proof (cases "ret = OK \<and> (\<exists>rt. cj_parse cj (takeWhile (\<lambda>x. x \<noteq> NUL) (fst (snd answer))) = Some rt \<and> cj_is_array cj (cj_get cj rt ''result''))")
  case True
  then obtain rt where rt: "cj_parse cj (takeWhile (\<lambda>x. x \<noteq> NUL) (fst (snd answer))) = Some rt"
      "cj_is_array cj (cj_get cj rt ''result'')" "ret = OK" by blast
  let ?us = "cj_items cj (the (cj_get cj rt ''result''))"
  have "tw_main w' = tw_main (handle_updates cj c root (pe_msgs e) 0 ?us w)"
    using assms(1) rt by (auto simp: poll_answer_def Let_def split: prod.splits if_splits)
  then show ?thesis using handle_updates_subseq [OF assms(2) refl, of cj c root "pe_msgs e" 0 ?us] rt(3) by auto
next
  case False
  then have "tw_main w' = tw_main w"
    using assms(1) by (auto simp: poll_answer_def Let_def split: prod.splits if_splits option.splits)
  then show ?thesis by (intro exI [of _ "[]"]) simp
qed

lemma poll_request_frame:
  "poll_request c e url w = Some (answer, w') \<Longrightarrow> tw_main w' = tw_main w \<and> tw_fs w' = tw_fs w"
  by (auto simp: poll_request_def)

lemma poll_once_cases:
  assumes "fc_telegram_poll_once cj c root e w = Some (ret, w')"
  shows "ret \<noteq> OK \<and> tw_main w' = tw_main w
     \<or> (\<exists>answer w1. poll_answer cj c root e answer w1 = (ret, w') \<and> tw_main w1 = tw_main w \<and> chat_files w1 = chat_files w)"
proof -
  obtain tok fs1 where t: "fc_telegram_read_token root 160 (tw_fs w) = (tok, fs1)" by fastforce
  let ?w1 = "w\<lparr>tw_fs := fs1\<rparr>"
  define w2 where "w2 = (if g_update_offset (tw_tg ?w1) < 0
      then case fc_telegram_load_offset root (tw_fs ?w1) (tw_tg ?w1) of
             (off, fs2, tg) \<Rightarrow> ?w1\<lparr>tw_fs := fs2, tw_tg := tg\<lparr>g_update_offset := off\<rparr>\<rparr>
      else ?w1)"
  have w2: "tw_main w2 = tw_main w" "chat_files w2 = chat_files w"
    using read_token_files [of root 160 "tw_fs w"] t
    by (auto simp: w2_def split: prod.splits dest!: load_offset_files)
  let ?url = "poll_url (the (snd tok)) (g_update_offset (tw_tg w2))"
  have eq: "fc_telegram_poll_once cj c root e w =
      (if token_missing tok then Some (Err ENOENT, record_poll_in_world e (Err ENOENT) 0 ?w1)
       else if \<not> pe_calloc e then Some (Err ENOMEM, record_poll_in_world e (Err ENOMEM) 0 w2)
       else map_option (\<lambda>(answer, w3). poll_answer cj c root e answer w3) (poll_request c e ?url w2))"
    by (simp add: fc_telegram_poll_once_def t w2_def Let_def)
  show ?thesis
    using assms [unfolded eq] w2 by (fastforce split: if_splits dest: poll_request_frame)
qed

lemma subseq_mem: "subseq xs ys \<Longrightarrow> x \<in> set xs \<Longrightarrow> x \<in> set ys"
  by (erule list_emb_set) auto

lemma map_filter_mem: "y \<in> set (List.map_filter f xs) \<Longrightarrow> \<exists>x. f x = Some y"
  by (induction xs) (auto simp: List.map_filter_simps split: option.splits)

lemma accepted_chat:
  assumes "accepted cj root files u = Some m"
  shows "fc_telegram_chat_allowed root files (Some (snd m)) \<and> cpy FC_CHAT_ID_LEN (snd m) = snd m"
  using assms
  by (auto simp: accepted_def update_message_def snprintf_buf_def cpy_eq FC_CHAT_ID_LEN_def split: option.splits if_splits)

lemma incoming_event:
  assumes "undated ev = incoming c m" "cpy FC_CHAT_ID_LEN (snd m) = snd m"
  shows "ev_source ev = ''telegram''" "ev_type ev = ''message.in''" "ev_chat_id ev = snd m" "ev_owner_mode ev = tg_owner_mode c"
    "ev_text ev = cpy CONFIG_FRUITCLAW_MAX_EVENT_TEXT (fst m)"
  using assms
  by (auto simp: undated_def incoming_def telegram_event_def zero_event_def cpy_eq FC_SOURCE_LEN_def FC_TYPE_LEN_def
      dest!: arg_cong [of _ _ "\<lambda>e. (ev_source e, ev_type e, ev_chat_id e, ev_owner_mode e, ev_text e)"])

lemma http_post_json_perform:
  "\<exists>rt st gt lk. fc_telegram_http_post_json c e guarded url body n w =
     fc_http_perform e ''POST'' (Some url) (Some (merge_json_headers None)) (Some body) (Some n) rt st gt lk w"
  by (auto simp: fc_telegram_http_post_json_def fc_http_post_json_guarded_timeout_def fc_http_post_json_unlocked_timeout_def
      fc_http_post_json_def json_body_or_empty_def)

lemma http_post_json_cases:
  assumes "fc_telegram_http_post_json c e guarded url body n w = Some ((ret, out), w')"
  shows "ret \<noteq> OK \<and> hx_sent w' = hx_sent w
     \<or> (\<exists>rq t. hx_sent w' = hx_sent w @ [rq] \<and> rq_method rq = ''POST'' \<and> rq_url rq = url \<and> rq_body rq = Some body
          \<and> out = Some (t, wr_status (he_web e rq)))"
proof -
  obtain rt st gt lk where eq: "fc_telegram_http_post_json c e guarded url body n w =
      fc_http_perform e ''POST'' (Some url) (Some (merge_json_headers None)) (Some body) (Some n) rt st gt lk w"
    using http_post_json_perform by blast
  from http_perform_cases [OF assms [unfolded eq]] show ?thesis
    by (auto dest!: http_exchange_text [OF _ _ refl])
qed

lemma read_token_Some: "fst (fc_telegram_read_token root n fs) = (OK, tok) \<Longrightarrow> \<exists>t. tok = Some t"
  by (auto simp: fc_telegram_read_token_def fc_read_text_file_def Let_def
      split: prod.splits ret.splits option.splits sum.splits if_splits)

text \<open>The steps of a message that reaches the request.\<close>

lemma send_message_cases:
  assumes "fc_telegram_send_message_common cj c root e chat_id txt guarded w = Some (ret, w')"
  obtains (refused) "ret \<noteq> OK" "tw_http w' = tw_http w"
  | (sent) chat t tok body r out hw where "chat_id = Some chat" "txt = Some t" "fc_telegram_chat_allowed root (chat_files w) chat_id"
      "fst (fc_telegram_read_token root 160 (tw_fs w)) = (OK, Some tok)" "tok \<noteq> []" "message_json cj chat t = Some body"
      "fc_telegram_http_post_json c (se_http e) guarded
         (snprintf_buf 256 (''https://api.telegram.org/bot'' @ tok @ ''/sendMessage'')) body
         CONFIG_FRUITCLAW_MAX_HTTP_BODY (tw_http w) = Some ((r, out), hw)"
      "tw_http w' = hw" "r \<noteq> OK \<Longrightarrow> ret \<noteq> OK" "ret = OK \<Longrightarrow> \<exists>b s. out = Some (b, s) \<and> 200 \<le> s \<and> s < 300"
proof (cases "\<exists>chat t tok body. chat_id = Some chat \<and> txt = Some t \<and> fc_telegram_chat_allowed root (chat_files w) chat_id
          \<and> fst (fc_telegram_read_token root 160 (tw_fs w)) = (OK, Some tok) \<and> tok \<noteq> [] \<and> message_json cj chat t = Some body \<and> se_calloc e")
  case True
  then obtain chat t tok body where g: "chat_id = Some chat" "txt = Some t" "fc_telegram_chat_allowed root (chat_files w) chat_id"
      "fst (fc_telegram_read_token root 160 (tw_fs w)) = (OK, Some tok)" "tok \<noteq> []" "message_json cj chat t = Some body" "se_calloc e"
    by blast
  obtain fs1 where tk: "fc_telegram_read_token root 160 (tw_fs w) = ((OK, Some tok), fs1)" using g(4) by (metis prod.collapse)
  let ?run = "fc_telegram_http_post_json c (se_http e) guarded
               (snprintf_buf 256 (''https://api.telegram.org/bot'' @ tok @ ''/sendMessage'')) body
               CONFIG_FRUITCLAW_MAX_HTTP_BODY (tw_http w)"
  obtain r out hw where run: "?run = Some ((r, out), hw)"
    using assms g tk by (cases ?run) (auto simp: fc_telegram_send_message_common_def token_missing_def)
  have res: "tw_http w' = hw \<and> (r \<noteq> OK \<longrightarrow> ret \<noteq> OK) \<and> (ret = OK \<longrightarrow> (\<exists>b s. out = Some (b, s) \<and> 200 \<le> s \<and> s < 300))"
    using assms g(1-3,5-7) tk run
    by (cases out) (auto simp: fc_telegram_send_message_common_def token_missing_def Let_def split: if_splits prod.splits)
  show thesis by (rule sent [OF g(1-6) run]) (use res in simp_all)
next
  case False
  then have "ret \<noteq> OK \<and> tw_http w' = tw_http w"
    using assms read_token_Some [of root 160 "tw_fs w"]
    by (fastforce simp: fc_telegram_send_message_common_def token_missing_def Let_def split: option.splits if_splits prod.splits)
  then show thesis using refused by blast
qed

section \<open>The stored offset\<close>

lemma strtoll_dec_int:
  assumes "- (2 ^ 63) \<le> i" "i < 2 ^ 63"
  shows "strtoll (dec_int i) = i"
proof -
  have tw: "takeWhile isdigit (dec_nat n) = dec_nat n" for n
    using dec_nat_digits by (simp add: takeWhile_eq_all_conv)
  obtain d ds where d: "dec_nat (nat i) = d # ds" "isdigit d"
    using dec_nat_digits [of "nat i"] dec_nat_nonempty [of "nat i"] by (cases "dec_nat (nat i)") auto
  have nd: "d \<noteq> CHR ''-''" "d \<noteq> CHR ''+''" "\<not> isspace d" using d(2) isdigit_neq isspace_not_digit by metis+
  have tws: "takeWhile isdigit ds = ds" using tw [of "nat i"] d by simp
  have minus: "\<not> isspace (CHR ''-'')" by (simp add: isspace_def)
  show ?thesis
  proof (cases "i < 0")
    case True
    then show ?thesis
      using assms minus by (simp add: strtoll_def dec_int_def Let_def tw LLONG_MAX_def)
  next
    case False
    then show ?thesis
      using assms d nd digits_val_dec_nat [of "nat i"]
      by (simp add: tws strtoll_def dec_int_def Let_def LLONG_MAX_def)
  qed
qed

lemma dec_nat_ends: "isdigit (hd (dec_nat n))" "isdigit (last (dec_nat n))"
  using dec_nat_digits [of n] by simp_all

lemma last_dec_int: "isdigit (last (dec_int i))"
  by (simp add: dec_int_def dec_nat_ends)

lemma dec_int_line:
  assumes "\<bar>i\<bar> < 2 ^ 63"
  shows "plain_line (dec_int i)"
proof -
  let ?s = "dec_int i"
  have ne: "?s \<noteq> []" by (simp add: dec_int_def)
  have hd: "isdigit (hd ?s) \<or> hd ?s = CHR ''-''"
    by (simp add: dec_int_def dec_nat_ends)
  have minus: "\<not> isspace (CHR ''-'')" "\<not> isdigit (CHR ''#'')" "\<not> isdigit (CHR ''n'')" "\<not> isdigit (CHR ''r'')"
    by (simp_all add: isspace_def isdigit_def)
  have "\<not> isspace (hd ?s)" "\<not> isspace (last ?s)"
    using hd minus last_dec_int isspace_not_digit by metis+
  moreover have "\<not> ends_escaped_newline ?s"
    using last_dec_int [of i] minus ne by (auto simp: ends_escaped_newline_def last_conv_nth)
  moreover have "hd ?s \<noteq> CHR ''#''" using hd minus by auto
  ultimately show ?thesis
    using dec_int_plain [of i] length_dec_int [OF assms] ne by (auto simp: plain_line_def trimmed_def)
qed

section \<open>Properties\<close>

text \<open>A small device: one allowed chat, a token, and a server that gives a fixed answer.\<close>

definition demo_tg_fs :: posix_fs where
  "demo_tg_fs = \<lparr>fs_files = (\<lambda>p. if p = ''/d/telegram_allowed_chats.txt'' then Some (''42'' @ [LF])
                                else if p = ''/d/secrets/telegram_token'' then Some ''T'' else None),
     fs_dirs = [''/d''], fs_script = [], fs_off = False\<rparr>"

definition demo_queue_of :: "u32 \<Rightarrow> fc_queue" where
  "demo_queue_of n = \<lparr>q_items = Some [zero_event, zero_event], q_capacity = 2, q_head = 0, q_tail = n mod 2, q_count = n,
     q_initialized = True\<rparr>"

definition demo_tg_world :: "u32 \<Rightarrow> tg_world" where
  "demo_tg_world n = \<lparr>tw_tg = zero_telegram, tw_main = demo_queue_of n, tw_progress = zero_progress, tw_fs = demo_tg_fs,
     tw_http = demo_http_world, tw_seq = 0\<rparr>"

definition demo_tg_cfg :: tg_cfg where
  "demo_tg_cfg = \<lparr>tg_owner_mode = True, tg_http_guard_timeout_ms = 0, tg_http_timeout_sec = 20\<rparr>"

definition demo_update :: "int \<Rightarrow> int \<Rightarrow> string \<Rightarrow> demo_json" where
  "demo_update n chat t = DObject [(''update_id'', DNumber n),
     (''message'', DObject [(''text'', DString t), (''chat'', DObject [(''id'', DNumber chat)])])]"

definition demo_tg_json :: "demo_json cjson" where
  "demo_tg_json = demo_cjson ''{answer}'' (DObject [(''result'', DArray [demo_update 7 42 ''hi'', demo_update 8 13 ''spam''])])"

definition demo_tg_http :: http_env where
  "demo_tg_http = (demo_http_env [''{answer}''])\<lparr>he_files := (\<lambda>p. if p = ''/d/http_allowlist.txt''
     then Some (''api.telegram.org'' @ [LF]) else None), he_tls := True\<rparr>"

definition demo_poll_env :: poll_env where
  "demo_poll_env = \<lparr>pe_http = demo_tg_http, pe_calloc = True, pe_now = 5, pe_mark = 5, pe_start = 4, pe_msgs = (\<lambda>_. (0, 0))\<rparr>"

lemma demo_queue_wf: "queue_wf (demo_queue_of 0)" "queue_wf (demo_queue_of 2)"
  by (simp_all add: queue_wf_def demo_queue_of_def)

lemma demo_accepted:
  "accepted demo_tg_json ''/d'' (fs_files demo_tg_fs) (demo_update 7 42 ''hi'') = Some (''hi'', ''42'')"
  "accepted demo_tg_json ''/d'' (fs_files demo_tg_fs) (demo_update 8 13 ''spam'') = None"
  by code_simp+

lemma demo_update_id: "cj_int demo_tg_json (cj_get demo_tg_json (demo_update n chat t) ''update_id'') = Some n"
  by (simp add: demo_tg_json_def demo_cjson_def demo_update_def)

lemma demo_token: "fc_telegram_read_token ''/d'' 160 demo_tg_fs = ((OK, Some ''T''), demo_tg_fs)"
proof -
  have p: "fc_secret_path ''/d'' (Some ''telegram_token'') (Some FC_PATH_LEN) = (OK, Some ''/d/secrets/telegram_token'')" by code_simp
  have trim: "fc_trim ''T'' = ''T''" by code_simp
  show ?thesis
    by (simp add: fc_telegram_read_token_def p fc_read_text_file_def sys_open_rd_def fs_call_def fs_next_def demo_tg_fs_def
        read_loop.simps sys_read_def trim)
qed

lemma demo_offset: "fc_telegram_load_offset ''/d'' demo_tg_fs zero_telegram = (0, demo_tg_fs, zero_telegram)"
proof -
  have p: "fc_offset_path ''/d'' (Some FC_PATH_LEN) = (OK, Some ''/d/telegram_offset'')" by code_simp
  show ?thesis
    by (simp add: fc_telegram_load_offset_def p fc_read_text_file_def sys_open_rd_def fs_call_def fs_next_def demo_tg_fs_def)
qed

lemma demo_tg_allowed: "fc_url_host_allowed (he_root demo_tg_http) (he_files demo_tg_http) (Some (''https://api.telegram.org/'' @ r))"
proof -
  have "fc_parse_url_host (Some (''https://api.telegram.org/'' @ r)) (Some 96) = Some ''api.telegram.org''"
    by (simp add: fc_parse_url_host_def url_host_end_def)
  moreover have "fc_data_path ''/d'' (Some ''http_allowlist.txt'') (Some FC_PATH_LEN) = (OK, Some ''/d/http_allowlist.txt'')" by code_simp
  moreover have "list_ex (allow_line_matches ''api.telegram.org'') (fgets_lines 128 (''api.telegram.org'' @ [LF]))" by code_simp
  ultimately show ?thesis by (simp add: fc_url_host_allowed_def demo_tg_http_def demo_http_env_def)
qed

lemma demo_request:
  "\<exists>hw. fc_http_perform demo_tg_http m (Some (''https://api.telegram.org/'' @ r)) hs body (Some CONFIG_FRUITCLAW_MAX_HTTP_BODY)
           20 0 0 False hw0 = Some ((OK, Some (''{answer}'', 200)), hw)"
proof -
  have "he_tls demo_tg_http" "he_web demo_tg_http rq = \<lparr>wr_chunks = [''{answer}''], wr_status = 200, wr_ret = OK\<rparr>" for rq
    by (simp_all add: demo_tg_http_def demo_http_env_def)
  then show ?thesis
    by (simp add: fc_http_perform_def demo_tg_allowed http_exchange_def webclient_transfer_eq [OF _ refl]
        CONFIG_FRUITCLAW_MAX_HTTP_BODY_def Let_def del: append_Cons)
qed

lemma demo_poll_request:
  "\<exists>w3. poll_request demo_tg_cfg demo_poll_env (poll_url ''T'' 0) ((demo_tg_world 0)\<lparr>tw_tg := tg\<rparr>) = Some ((OK, ''{answer}'', 200), w3)
      \<and> tw_main w3 = demo_queue_of 0 \<and> tw_fs w3 = demo_tg_fs"
proof -
  have "poll_url ''T'' 0 = ''https://api.telegram.org/'' @ ''botT/getUpdates?timeout=2&offset=0''" by code_simp
  then obtain hw where "fc_telegram_http_get demo_tg_cfg demo_tg_http (poll_url ''T'' 0) CONFIG_FRUITCLAW_MAX_HTTP_BODY demo_http_world
      = Some ((OK, Some (''{answer}'', 200)), hw)"
    using demo_request [of "''GET''" "''botT/getUpdates?timeout=2&offset=0''" None None]
    by (auto simp: fc_telegram_http_get_def fc_http_get_unlocked_timeout_def demo_tg_cfg_def simp del: append_Cons)
  then show ?thesis by (simp add: poll_request_def demo_poll_env_def demo_tg_world_def)
qed

lemma demo_poll_answer:
  assumes "tw_main w3 = demo_queue_of 0" "tw_fs w3 = demo_tg_fs"
  shows "\<exists>w'. poll_answer demo_tg_json demo_tg_cfg ''/d'' demo_poll_env (OK, ''{answer}'', 200) w3 = (OK, w')
           \<and> map ev_chat_id (queue_elems (tw_main w')) = [''42'']"
proof -
  let ?us = "[demo_update 7 42 ''hi'', demo_update 8 13 ''spam'']"
  let ?w = "handle_updates demo_tg_json demo_tg_cfg ''/d'' (\<lambda>_. (0, 0)) 0 ?us w3"
  have acc: "accepted_of demo_tg_json ''/d'' w3 ?us = [(''hi'', ''42'')]"
    using assms(2) by (simp add: List.map_filter_simps demo_accepted)
  have q: "queue_elems (demo_queue_of 0) = []" "q_capacity (demo_queue_of 0) = 2" "q_count (demo_queue_of 0) = 0"
    by (simp_all add: demo_queue_of_def queue_elems_def)
  have "map undated (queue_elems (tw_main ?w)) = [incoming demo_tg_cfg (''hi'', ''42'')]"
    using handle_updates_room [of w3 demo_tg_json "''/d''" ?us, OF _ _ refl, of demo_tg_cfg "\<lambda>_. (0, 0)" 0] acc assms(1) q demo_queue_wf(1)
    by simp
  then obtain ev where ev: "queue_elems (tw_main ?w) = [ev]" "undated ev = incoming demo_tg_cfg (''hi'', ''42'')" by auto
  have "ev_chat_id ev = ''42''" using incoming_event(3) [OF ev(2)] by (simp add: cpy_eq FC_CHAT_ID_LEN_def)
  then show ?thesis
    using ev(1) by (simp add: poll_answer_def demo_tg_json_def demo_cjson_def demo_poll_env_def Let_def)
qed

lemma demo_poll:
  "\<exists>w'. fc_telegram_poll_once demo_tg_json demo_tg_cfg ''/d'' demo_poll_env (demo_tg_world 0) = Some (OK, w')
      \<and> map ev_chat_id (queue_elems (tw_main w')) = [''42'']"
proof -
  let ?tg = "zero_telegram\<lparr>g_update_offset := 0\<rparr>"
  obtain w3 where w3: "poll_request demo_tg_cfg demo_poll_env (poll_url ''T'' 0) ((demo_tg_world 0)\<lparr>tw_tg := ?tg\<rparr>)
      = Some ((OK, ''{answer}'', 200), w3)" "tw_main w3 = demo_queue_of 0" "tw_fs w3 = demo_tg_fs"
    using demo_poll_request by blast
  have fields: "tw_fs (demo_tg_world 0) = demo_tg_fs" "tw_tg (demo_tg_world 0) = zero_telegram" "g_update_offset zero_telegram = -1"
      "pe_calloc demo_poll_env"
    by (simp_all add: demo_tg_world_def zero_telegram_def demo_poll_env_def)
  have same: "(demo_tg_world 0)\<lparr>tw_fs := demo_tg_fs, tw_tg := tg\<rparr> = (demo_tg_world 0)\<lparr>tw_tg := tg\<rparr>" for tg
    by (simp add: demo_tg_world_def)
  have "fc_telegram_poll_once demo_tg_json demo_tg_cfg ''/d'' demo_poll_env (demo_tg_world 0)
      = Some (poll_answer demo_tg_json demo_tg_cfg ''/d'' demo_poll_env (OK, ''{answer}'', 200) w3)"
    using w3(1) by (simp add: fc_telegram_poll_once_def fields same demo_token demo_offset token_missing_def Let_def)
  then show ?thesis using demo_poll_answer [OF w3(2,3)] by auto
qed

text \<open>
  C5. While the main queue has room, a batch of updates is delivered completely and in order: the queue
  gains exactly the text messages from allowed chats, one event for each, and the offset moves past every
  update of the batch, so that the server does not send any of them again.
\<close>

theorem telegram_delivery:
  assumes "queue_wf (tw_main w)"
    and "length (queue_elems (tw_main w)) + length (List.map_filter (accepted cj root (fs_files (tw_fs w))) us)
           \<le> unat (q_capacity (tw_main w))"
    and "w' = handle_updates cj c root clk i us w"
  shows "map undated (queue_elems (tw_main w'))
           = map undated (queue_elems (tw_main w)) @ map (incoming c) (List.map_filter (accepted cj root (fs_files (tw_fs w))) us)
       \<and> g_update_offset (tw_tg w') = foldl max (g_update_offset (tw_tg w)) (next_offsets cj us)"
  using handle_updates_room [OF assms] by blast

theorem telegram_delivery_witness:
  "map undated (queue_elems (tw_main (handle_updates demo_tg_json demo_tg_cfg ''/d'' (\<lambda>_. (0, 0)) 0
       [demo_update 7 42 ''hi'', demo_update 8 13 ''spam''] (demo_tg_world 0)))) = [incoming demo_tg_cfg (''hi'', ''42'')]
   \<and> g_update_offset (tw_tg (handle_updates demo_tg_json demo_tg_cfg ''/d'' (\<lambda>_. (0, 0)) 0
       [demo_update 7 42 ''hi'', demo_update 8 13 ''spam''] (demo_tg_world 0))) = 9"
proof -
  have acc: "List.map_filter (accepted demo_tg_json ''/d'' (fs_files (tw_fs (demo_tg_world 0))))
      [demo_update 7 42 ''hi'', demo_update 8 13 ''spam''] = [(''hi'', ''42'')]"
    by (simp add: List.map_filter_simps demo_tg_world_def demo_accepted)
  have q: "queue_wf (tw_main (demo_tg_world 0))" "queue_elems (tw_main (demo_tg_world 0)) = []"
      "q_capacity (tw_main (demo_tg_world 0)) = 2" "q_count (tw_main (demo_tg_world 0)) = 0"
    by (simp_all add: demo_tg_world_def demo_queue_wf) (simp_all add: demo_queue_of_def queue_elems_def)
  show ?thesis
    using telegram_delivery [OF q(1) _ refl, of demo_tg_json "''/d''" "[demo_update 7 42 ''hi'', demo_update 8 13 ''spam'']"
        demo_tg_cfg "\<lambda>_. (0, 0)" 0] acc q
    by (simp add: next_offsets_def List.map_filter_simps demo_update_id demo_tg_world_def zero_telegram_def)
qed

text \<open>
  C19. Nothing enters from a chat that is not on the list: whatever the server answers to a poll, the events
  the poll adds to the main queue are Telegram messages from chats the list of allowed chats names, and a
  poll that reports an error adds nothing.
\<close>

theorem telegram_inbound_gate:
  assumes "fc_telegram_poll_once cj c root e w = Some (ret, w')" and "queue_wf (tw_main w)"
  shows "\<exists>evs. queue_elems (tw_main w') = queue_elems (tw_main w) @ evs \<and> (ret \<noteq> OK \<longrightarrow> evs = [])
     \<and> (\<forall>ev\<in>set evs. ev_source ev = ''telegram'' \<and> ev_type ev = ''message.in'' \<and> ev_owner_mode ev = tg_owner_mode c
          \<and> fc_telegram_chat_allowed root (fs_files (tw_fs w)) (Some (ev_chat_id ev)))"
proof (cases "ret \<noteq> OK \<and> tw_main w' = tw_main w")
  case False
  then obtain answer w1 where a: "poll_answer cj c root e answer w1 = (ret, w')" "tw_main w1 = tw_main w" "chat_files w1 = chat_files w"
    using poll_once_cases [OF assms(1)] by blast
  obtain us evs where evs: "queue_elems (tw_main w') = queue_elems (tw_main w) @ evs" "ret \<noteq> OK \<longrightarrow> evs = []"
      "subseq (map undated evs) (map (incoming c) (accepted_of cj root w us))"
    using poll_answer_cases [OF a(1)] assms(2) a(2,3) by metis
  have "ev_source ev = ''telegram'' \<and> ev_type ev = ''message.in'' \<and> ev_owner_mode ev = tg_owner_mode c
      \<and> fc_telegram_chat_allowed root (chat_files w) (Some (ev_chat_id ev))" if "ev \<in> set evs" for ev
  proof -
    have "undated ev \<in> set (map (incoming c) (accepted_of cj root w us))"
      using that by (intro subseq_mem [OF evs(3)]) simp
    then obtain m u where "undated ev = incoming c m" "accepted cj root (chat_files w) u = Some m"
      by (auto dest: map_filter_mem)
    then show ?thesis
      using accepted_chat [of cj root "chat_files w" u m] incoming_event [of ev c m] by simp
  qed
  then show ?thesis using evs(1,2) by blast
qed simp

theorem telegram_inbound_gate_witness:
  "\<exists>w' ev. fc_telegram_poll_once demo_tg_json demo_tg_cfg ''/d'' demo_poll_env (demo_tg_world 0) = Some (OK, w')
     \<and> queue_elems (tw_main w') = [ev] \<and> ev_source ev = ''telegram'' \<and> ev_chat_id ev = ''42''
     \<and> fc_telegram_chat_allowed ''/d'' (fs_files demo_tg_fs) (Some ''42'')"
proof -
  obtain w' where w': "fc_telegram_poll_once demo_tg_json demo_tg_cfg ''/d'' demo_poll_env (demo_tg_world 0) = Some (OK, w')"
      "map ev_chat_id (queue_elems (tw_main w')) = [''42'']" using demo_poll by (elim exE conjE) (rule that)
  have w: "tw_main (demo_tg_world 0) = demo_queue_of 0" "tw_fs (demo_tg_world 0) = demo_tg_fs" "queue_elems (demo_queue_of 0) = []"
    by (simp_all add: demo_tg_world_def) (simp add: demo_queue_of_def queue_elems_def)
  obtain ev where ev: "queue_elems (tw_main w') = [ev]" "ev_chat_id ev = ''42''" using w'(2) by auto
  have "queue_wf (tw_main (demo_tg_world 0))" using w(1) demo_queue_wf(1) by simp
  from telegram_inbound_gate [OF w'(1) this]
  have "ev_source ev = ''telegram'' \<and> fc_telegram_chat_allowed ''/d'' (fs_files demo_tg_fs) (Some ''42'')"
    unfolding w ev(1) append_Nil using ev(2) by simp
  then show ?thesis using w'(1) ev by blast
qed


definition demo_msg_json :: "demo_json cjson" where
  "demo_msg_json = demo_cjson ''{msg}'' (DObject [(''chat_id'', DString ''42''), (''text'', DString ''hi''),
     (''disable_web_page_preview'', DBool True)])"

definition demo_send_env :: send_env where
  "demo_send_env = \<lparr>se_http = demo_tg_http, se_calloc = True, se_mark1 = 6, se_now = 7, se_mark2 = 8\<rparr>"

lemma demo_send:
  assumes "tw_fs w = demo_tg_fs"
  shows "\<exists>w'. fc_telegram_send_message demo_msg_json demo_tg_cfg ''/d'' demo_send_env (Some ''42'') (Some ''hi'') w = Some (OK, w')"
proof -
  have allowed: "fc_telegram_chat_allowed ''/d'' (fs_files demo_tg_fs) (Some ''42'')" by code_simp
  have msg: "message_json demo_msg_json ''42'' ''hi'' = Some ''{msg}''"
    by (simp add: message_json_def demo_msg_json_def demo_cjson_def)
  have url: "snprintf_buf 256 (''https://api.telegram.org/bot'' @ ''T'' @ ''/sendMessage'') = ''https://api.telegram.org/'' @ ''botT/sendMessage''"
    by code_simp
  obtain hw where "fc_telegram_http_post_json demo_tg_cfg demo_tg_http True (''https://api.telegram.org/'' @ ''botT/sendMessage'') ''{msg}''
      CONFIG_FRUITCLAW_MAX_HTTP_BODY (tw_http w) = Some ((OK, Some (''{answer}'', 200)), hw)"
    using demo_request [of "''POST''" "''botT/sendMessage''" "Some (merge_json_headers None)" "Some ''{msg}''"]
    by (auto simp: fc_telegram_http_post_json_def fc_http_post_json_unlocked_timeout_def demo_tg_cfg_def json_body_or_empty_def
        simp del: append_Cons)
  then show ?thesis
    using allowed assms
    by (auto simp: fc_telegram_send_message_def fc_telegram_send_message_common_def demo_token token_missing_def msg url
        demo_send_env_def Let_def simp del: append_Cons split: prod.splits)
qed


text \<open>
  The offset survives a restart: what was stored is what the next start of the client reads, for every offset
  of the 64-bit type above its least value.
\<close>

theorem telegram_offset_roundtrip:
  assumes "fc_telegram_save_offset root offset fs = (OK, fs1)" "no_faults fs1" "\<bar>offset\<bar> < 2 ^ 63"
  shows "fst (fc_telegram_load_offset root fs1 tg) = offset"
proof -
  obtain p where p: "fc_offset_path root (Some FC_PATH_LEN) = (OK, Some p)"
      "fc_write_text_file_atomic (Some p) (Some (dec_int offset @ [LF])) fs = (OK, fs1)"
    using assms(1) length_dec_int [OF assms(3)]
    by (auto simp: fc_telegram_save_offset_def snprintf_buf_def fc_write_text_file_atomic_def split: prod.splits ret.splits option.splits)
  have "fst (fc_read_text_file (Some p) (Some 48) False fs1) = (OK, Some (dec_int offset @ [LF]))"
    using write_then_read [OF p(2) assms(2), of 48] dec_int_plain [of offset] length_dec_int [OF assms(3)] by simp
  then have "fst (fc_read_text_file (Some p) (Some 48) True fs1) = (OK, Some (dec_int offset))"
    using fc_trim_line [OF dec_int_line [OF assms(3)]] by (simp add: read_text_trim)
  then show ?thesis
    using assms(3) strtoll_dec_int [of offset] p(1)
    by (auto simp: fc_telegram_load_offset_def Let_def split: prod.splits)
qed

theorem telegram_offset_roundtrip_witness:
  "\<exists>fs1. fc_telegram_save_offset ''/d'' 9 demo_tg_fs = (OK, fs1)
       \<and> fst (fc_telegram_load_offset ''/d'' fs1 zero_telegram) = 9"
proof -
  have p: "fc_offset_path ''/d'' (Some FC_PATH_LEN) = (OK, Some ''/d/telegram_offset'')"
    "snprintf_buf 48 (dec_int 9 @ [LF]) = ''9'' @ [LF]" by code_simp+
  let ?fs = "demo_tg_fs\<lparr>fs_files := (fs_files demo_tg_fs)(''/d/telegram_offset'' \<mapsto> ''9'' @ [LF])\<rparr>"
  have "fc_write_text_file_atomic (Some ''/d/telegram_offset'') (Some (''9'' @ [LF])) demo_tg_fs = (OK, ?fs)"
    by (simp add: fc_write_text_file_atomic_def FC_PATH_LEN_def sys_open_trunc_def fs_call_def
        fs_next_def dir_present_def parent_dir_def sys_write_def sys_rename_def demo_tg_fs_def fun_eq_iff)
  then have w: "fc_telegram_save_offset ''/d'' 9 demo_tg_fs = (OK, ?fs)" by (simp add: fc_telegram_save_offset_def p del: append_Cons)
  have "no_faults ?fs" by (simp add: no_faults_def demo_tg_fs_def)
  then show ?thesis using w telegram_offset_roundtrip [OF w, of zero_telegram] by simp
qed

text \<open>
  C40. An update the queue refuses can be lost: the client keeps the offset at the refused update, so that the
  server would send it again, but the next update of the same batch that can be ignored moves the offset past
  both.
\<close>

theorem telegram_lost_update:
  assumes "queue_wf (tw_main w)" and "q_count (tw_main w) = q_capacity (tw_main w)"
    and "accepted cj root (fs_files (tw_fs w)) u = Some m" and "accepted cj root (fs_files (tw_fs w)) v = None"
    and "cj_int cj (cj_get cj v ''update_id'') = Some k" and "g_update_offset (tw_tg w) \<le> k"
    and "w' = handle_updates cj c root clk i [u, v] w"
  shows "queue_elems (tw_main w') = queue_elems (tw_main w) \<and> g_update_offset (tw_tg w') = k + 1"
proof -
  let ?w = "fc_telegram_handle_update cj c root (clk i) u w"
  obtain e where e: "tw_main ?w = snd (queue_put e (tw_main w))"
      "fc_telegram_chat_allowed root (chat_files ?w) = fc_telegram_chat_allowed root (chat_files w)"
      "g_update_offset (tw_tg ?w) = (if fst (queue_put e (tw_main w)) = OK
           then foldl max (g_update_offset (tw_tg w)) (next_offsets cj [u]) else g_update_offset (tw_tg w))"
    using handle_update_accepted [OF refl assms(3,1)] by blast
  have put: "queue_put e (tw_main w) = (Err ENOSPC, tw_main w)" using fcq.put_full [OF assms(1)] assms(2) by simp
  have v: "accepted cj root (chat_files ?w) v = None" using accepted_cong [OF e(2), of cj] assms(4) by simp
  show ?thesis
    using handle_update_ignored [OF refl v, of c "clk (Suc i)"] e put assms(5-7)
    by (simp add: next_offsets_def List.map_filter_simps)
qed

theorem telegram_lost_update_witness:
  "queue_elems (tw_main (handle_updates demo_tg_json demo_tg_cfg ''/d'' (\<lambda>_. (0, 0)) 0
       [demo_update 7 42 ''hi'', demo_update 8 13 ''spam''] (demo_tg_world 2))) = queue_elems (demo_queue_of 2)
   \<and> g_update_offset (tw_tg (handle_updates demo_tg_json demo_tg_cfg ''/d'' (\<lambda>_. (0, 0)) 0
       [demo_update 7 42 ''hi'', demo_update 8 13 ''spam''] (demo_tg_world 2))) = 9"
proof -
  have w: "tw_main (demo_tg_world 2) = demo_queue_of 2" "tw_fs (demo_tg_world 2) = demo_tg_fs"
      "g_update_offset (tw_tg (demo_tg_world 2)) \<le> 8" "q_count (demo_queue_of 2) = q_capacity (demo_queue_of 2)"
    by (simp_all add: demo_tg_world_def zero_telegram_def demo_queue_of_def)
  show ?thesis
    using telegram_lost_update [of "demo_tg_world 2" demo_tg_json "''/d''" "demo_update 7 42 ''hi''" "(''hi'', ''42'')"
        "demo_update 8 13 ''spam''" 8, OF _ _ _ _ _ _ refl, of demo_tg_cfg "\<lambda>_. (0, 0)" 0]
      w demo_queue_wf(2) demo_accepted demo_update_id [of 8 13 "''spam''"] by simp
qed

end
