(* ===== verification/FC_Tg_Notify.thy ===== *)
theory FC_Tg_Notify
  imports FC_Telegram
begin

text \<open>
  The two threads of \<^verbatim>\<open>net/fc_telegram.c\<close>: the notification queue with the thread that empties it, and the
  loop of the poller with its yielding and backing off.  Code under \<^verbatim>\<open>g_tg_notify_lock\<close> is one step; what other
  threads do while a thread sleeps is an argument.
\<close>

section \<open>The notification queue\<close>

definition FC_TG_NOTIFY_QUEUE_LEN :: nat where "FC_TG_NOTIFY_QUEUE_LEN = 32"
definition FC_TG_NOTIFY_TEXT_LEN :: nat where "FC_TG_NOTIFY_TEXT_LEN = 192"
definition FC_TG_NOTIFY_SEND_LEN :: nat where "FC_TG_NOTIFY_SEND_LEN = 2048"
definition CONFIG_FRUITCLAW_TELEGRAM_NOTIFY_BATCH_MAX :: nat where "CONFIG_FRUITCLAW_TELEGRAM_NOTIFY_BATCH_MAX = 6"
definition CONFIG_FRUITCLAW_TELEGRAM_NOTIFY_COALESCE_MS :: nat where "CONFIG_FRUITCLAW_TELEGRAM_NOTIFY_COALESCE_MS = 1500"
definition CONFIG_FRUITCLAW_TELEGRAM_MCP_YIELD_MS :: int where "CONFIG_FRUITCLAW_TELEGRAM_MCP_YIELD_MS = 15000"
definition CONFIG_FRUITCLAW_TELEGRAM_MCP_MAX_YIELD_MS :: nat where "CONFIG_FRUITCLAW_TELEGRAM_MCP_MAX_YIELD_MS = 5000"
definition CONFIG_FRUITCLAW_TELEGRAM_START_DELAY_MS :: nat where "CONFIG_FRUITCLAW_TELEGRAM_START_DELAY_MS = 3000"
definition CONFIG_FRUITCLAW_TELEGRAM_BOOT_QUIET_MS :: nat where "CONFIG_FRUITCLAW_TELEGRAM_BOOT_QUIET_MS = 15000"
definition CONFIG_FRUITCLAW_TELEGRAM_FAIL_BACKOFF_MIN_MS :: nat where "CONFIG_FRUITCLAW_TELEGRAM_FAIL_BACKOFF_MIN_MS = 10000"
definition CONFIG_FRUITCLAW_TELEGRAM_FAIL_BACKOFF_MAX_MS :: nat where "CONFIG_FRUITCLAW_TELEGRAM_FAIL_BACKOFF_MAX_MS = 60000"

text \<open>The indices stay below the length of the queue and are natural numbers; the counters have 32 bits.\<close>

record tg_notify =
  g_tg_notify_started :: bool
  g_tg_notify_queue :: "string list"
  g_tg_notify_head :: nat
  g_tg_notify_count :: nat
  g_tg_notify_inflight :: nat
  g_tg_notify_enqueued :: u32
  g_tg_notify_dropped :: u32
  g_tg_notify_sent :: u32
  g_tg_notify_failed :: u32

definition zero_notify :: tg_notify where
  "zero_notify = \<lparr>g_tg_notify_started = False, g_tg_notify_queue = replicate FC_TG_NOTIFY_QUEUE_LEN [], g_tg_notify_head = 0,
     g_tg_notify_count = 0, g_tg_notify_inflight = 0, g_tg_notify_enqueued = 0, g_tg_notify_dropped = 0, g_tg_notify_sent = 0,
     g_tg_notify_failed = 0\<rparr>"

definition fc_telegram_notify_start_locked :: "errno option \<Rightarrow> tg_notify \<Rightarrow> ret \<times> tg_notify" where
  "fc_telegram_notify_start_locked created n =
     (if g_tg_notify_started n then (OK, n)
      else case created of Some e \<Rightarrow> (Err e, n) | None \<Rightarrow> (OK, n\<lparr>g_tg_notify_started := True\<rparr>))"

definition notify_put :: "string \<Rightarrow> tg_notify \<Rightarrow> ret \<times> tg_notify" where
  "notify_put line n =
     (if g_tg_notify_count n \<ge> FC_TG_NOTIFY_QUEUE_LEN then (Err ENOSPC, n)
      else let tail = (g_tg_notify_head n + g_tg_notify_count n) mod FC_TG_NOTIFY_QUEUE_LEN
           in (OK, n\<lparr>g_tg_notify_queue := (g_tg_notify_queue n)[tail := line], g_tg_notify_count := g_tg_notify_count n + 1\<rparr>))"

definition fc_telegram_notify_owner_async :: "errno option \<Rightarrow> string option \<Rightarrow> tg_notify \<Rightarrow> ret \<times> tg_notify" where
  "fc_telegram_notify_owner_async created txt n =
     (case txt of
        None \<Rightarrow> (Err EINVAL, n)
      | Some t \<Rightarrow>
          if t = [] then (Err EINVAL, n)
          else case fc_telegram_notify_start_locked created n of
                 (Err e, n1) \<Rightarrow> (Err e, n1)
               | (OK, n1) \<Rightarrow>
                   (case notify_put (cpy FC_TG_NOTIFY_TEXT_LEN t) n1 of
                      (OK, n2) \<Rightarrow> (OK, n2\<lparr>g_tg_notify_enqueued := g_tg_notify_enqueued n2 + 1\<rparr>)
                    | (Err e, n2) \<Rightarrow> (Err e, n2\<lparr>g_tg_notify_dropped := g_tg_notify_dropped n2 + 1\<rparr>)))"

text \<open>The loop that collects a batch, with the number of lines it may still take; the length of the text is \<^verbatim>\<open>off\<close>.\<close>

definition notify_pop :: "tg_notify \<Rightarrow> tg_notify" where
  "notify_pop n = n\<lparr>g_tg_notify_head := (g_tg_notify_head n + 1) mod FC_TG_NOTIFY_QUEUE_LEN,
     g_tg_notify_count := g_tg_notify_count n - 1, g_tg_notify_inflight := g_tg_notify_inflight n + 1\<rparr>"

fun notify_batch :: "nat \<Rightarrow> string \<Rightarrow> tg_notify \<Rightarrow> string \<times> nat \<times> tg_notify" where
  "notify_batch 0 t n = (t, 0, n)"
| "notify_batch (Suc k) t n =
     (if g_tg_notify_count n = 0 then (t, 0, n)
      else let line = g_tg_notify_queue n ! g_tg_notify_head n
           in if length t + length line + (if t \<noteq> [] then 1 else 0) + 1 > FC_TG_NOTIFY_SEND_LEN then (t, 0, n)
              else case notify_batch k ((if t \<noteq> [] then t @ [LF] else t) @ line) (notify_pop n) of
                     (t', b, n') \<Rightarrow> (t', Suc b, n'))"

definition fc_telegram_record_notify_result :: "ret \<Rightarrow> nat \<Rightarrow> tg_notify \<Rightarrow> tg_notify" where
  "fc_telegram_record_notify_result ret cnt n =
     (let n1 = (if ret_neg ret then n\<lparr>g_tg_notify_failed := g_tg_notify_failed n + of_nat cnt\<rparr>
                else n\<lparr>g_tg_notify_sent := g_tg_notify_sent n + of_nat cnt\<rparr>)
      in n1\<lparr>g_tg_notify_inflight := (if g_tg_notify_inflight n1 \<ge> cnt then g_tg_notify_inflight n1 - cnt else 0)\<rparr>)"

definition fc_telegram_notify_pending :: "tg_notify \<Rightarrow> bool" where
  "fc_telegram_notify_pending n \<longleftrightarrow> g_tg_notify_count n > 0 \<or> g_tg_notify_inflight n > 0"

section \<open>Sleeping and yielding\<close>

record nworld =
  nw_tg :: tg_world
  nw_notify :: tg_notify
  nw_mcp_ms :: int

definition heartbeat :: "int \<Rightarrow> string \<Rightarrow> nworld \<Rightarrow> nworld" where
  "heartbeat now label w =
     (let hx = tw_http (nw_tg w)
      in w\<lparr>nw_tg := (nw_tg w)\<lparr>tw_http := hx\<lparr>hx_guard := fc_guard_session_heartbeat now (Some label) (hx_guard hx)\<rparr>\<rparr>\<rparr>)"

text \<open>A nap: the clock of the heartbeat before it, and what the other threads do meanwhile.\<close>

type_synonym nap = "int \<times> (nworld \<Rightarrow> nworld)"

definition take_nap :: "nap \<Rightarrow> string \<Rightarrow> nworld \<Rightarrow> nworld" where
  "take_nap p label w = snd p (heartbeat (fst p) label w)"

fun fc_telegram_sleep_ms :: "string \<Rightarrow> nat \<Rightarrow> (nat \<Rightarrow> nap) \<Rightarrow> nworld \<Rightarrow> nworld" where
  "fc_telegram_sleep_ms label total_ms naps w =
     (if total_ms = 0 then w
      else fc_telegram_sleep_ms label (total_ms - min 250 total_ms) (\<lambda>i. naps (Suc i)) (take_nap (naps 0) label w))"

declare fc_telegram_sleep_ms.simps [simp del]

definition fc_telegram_poll_active :: "telegram \<Rightarrow> bool" where
  "fc_telegram_poll_active tg = g_tg_poll_active tg"

definition fc_telegram_poll_idle_ms :: nat where
  "fc_telegram_poll_idle_ms =
     (if CONFIG_FRUITCLAW_TELEGRAM_POLL_IDLE_MS < CONFIG_FRUITCLAW_TELEGRAM_POLL_MIN_IDLE_MS
      then CONFIG_FRUITCLAW_TELEGRAM_POLL_MIN_IDLE_MS else CONFIG_FRUITCLAW_TELEGRAM_POLL_IDLE_MS)"

text \<open>\<^verbatim>\<open>fc_mcp_recently_active\<close>; the last argument is \<^verbatim>\<open>g_mcp_activity_ms\<close>.\<close>

definition fc_mcp_recently_active :: "int \<Rightarrow> int \<Rightarrow> int \<Rightarrow> bool" where
  "fc_mcp_recently_active now_ms quiet_ms activity_ms =
     (if quiet_ms \<le> 0 then False
      else if activity_ms \<le> 0 then False
      else now_ms < activity_ms \<or> now_ms - activity_ms < quiet_ms)"

text \<open>The two waiting loops, with the time waited so far.\<close>

function poll_wait :: "nat \<Rightarrow> (nat \<Rightarrow> nap) \<Rightarrow> nworld \<Rightarrow> nat \<times> nworld" where
  "poll_wait waited naps w =
     (if fc_telegram_poll_active (tw_tg (nw_tg w)) \<and> waited < 3000
      then poll_wait (waited + 100) (\<lambda>i. naps (Suc i)) (take_nap (naps 0) ''telegram-notify-wait'' w)
      else (waited, w))"
  by pat_completeness auto
termination by (relation "measure (\<lambda>(waited, _, _). 3000 - waited)") auto

declare poll_wait.simps [simp del]

definition mcp_step_ms :: "nat \<Rightarrow> nat" where
  "mcp_step_ms waited =
     (if waited + 250 > CONFIG_FRUITCLAW_TELEGRAM_MCP_MAX_YIELD_MS then CONFIG_FRUITCLAW_TELEGRAM_MCP_MAX_YIELD_MS - waited else 250)"

function mcp_wait :: "nat \<Rightarrow> (nat \<Rightarrow> int \<times> nap) \<Rightarrow> nworld \<Rightarrow> nat \<times> nworld" where
  "mcp_wait waited rounds w =
     (if fc_mcp_recently_active (fst (rounds 0)) CONFIG_FRUITCLAW_TELEGRAM_MCP_YIELD_MS (nw_mcp_ms w) \<and> mcp_step_ms waited \<noteq> 0
      then mcp_wait (waited + mcp_step_ms waited) (\<lambda>i. rounds (Suc i)) (take_nap (snd (rounds 0)) ''telegram-notify-mcp-yield'' w)
      else (waited, w))"
  by pat_completeness auto
termination
  by (relation "measure (\<lambda>(waited, _, _). CONFIG_FRUITCLAW_TELEGRAM_MCP_MAX_YIELD_MS - waited)")
     (auto simp: mcp_step_ms_def split: if_splits)

declare mcp_wait.simps [simp del]

definition fc_telegram_notify_yield_to_poller :: "(nat \<Rightarrow> nap) \<Rightarrow> (nat \<Rightarrow> int \<times> nap) \<Rightarrow> nworld \<Rightarrow> nworld" where
  "fc_telegram_notify_yield_to_poller polls mcps w = snd (mcp_wait 0 mcps (snd (poll_wait 0 polls w)))"

section \<open>The notification thread\<close>

text \<open>
  The environment of a turn: the naps of the three sleeps and of the yielding, the clocks of the test for the
  transport and of the heartbeats, the error of \<^verbatim>\<open>fopen\<close>, and the request.
\<close>

record notify_env =
  ne_coalesce :: "nat \<Rightarrow> nap"
  ne_open_err :: errno
  ne_ready_now :: int
  ne_defer_now :: int
  ne_defer :: "nat \<Rightarrow> nap"
  ne_polls :: "nat \<Rightarrow> nap"
  ne_mcps :: "nat \<Rightarrow> int \<times> nap"
  ne_send :: send_env
  ne_now :: int

datatype notify_turn = Waits | Deferred | Finished ret string nat

definition notify_deliver ::
    "'j cjson \<Rightarrow> tg_cfg \<Rightarrow> string \<Rightarrow> notify_env \<Rightarrow> ret \<times> string option \<Rightarrow> string \<Rightarrow> nworld \<Rightarrow> (ret \<times> nworld) option" where
  "notify_deliver cj c root e chat txt w =
     (if ret_neg (fst chat) then Some (fst chat, w)
      else let w1 = fc_telegram_notify_yield_to_poller (ne_polls e) (ne_mcps e) w
           in map_option (\<lambda>(r, tw). (r, w1\<lparr>nw_tg := tw\<rparr>)) (fc_telegram_send_message cj c root (ne_send e) (snd chat) (Some txt) (nw_tg w1)))"

text \<open>One round of the endless loop of \<^verbatim>\<open>fc_telegram_notify_thread_main\<close>.\<close>

definition fc_telegram_notify_thread_main ::
    "'j cjson \<Rightarrow> tg_cfg \<Rightarrow> string \<Rightarrow> notify_env \<Rightarrow> nworld \<Rightarrow> (notify_turn \<times> nworld) option" where
  "fc_telegram_notify_thread_main cj c root e w =
     (if g_tg_notify_count (nw_notify w) = 0 then Some (Waits, w)
      else let w1 = fc_telegram_sleep_ms ''telegram-notify-coalesce'' CONFIG_FRUITCLAW_TELEGRAM_NOTIFY_COALESCE_MS (ne_coalesce e) w;
               chat = fc_telegram_first_allowed_chat root (chat_files (nw_tg w1)) (ne_open_err e) (Some FC_CHAT_ID_LEN)
           in if \<not> ret_neg (fst chat) \<and> \<not> fc_telegram_transport_ready (ne_ready_now e) (tw_tg (nw_tg w1))
              then Some (Deferred, fc_telegram_sleep_ms ''telegram-notify-defer'' 1000 (ne_defer e)
                                     (heartbeat (ne_defer_now e) ''telegram-notify-defer'' w1))
              else case notify_batch CONFIG_FRUITCLAW_TELEGRAM_NOTIFY_BATCH_MAX [] (nw_notify w1) of
                     (txt, batched, n) \<Rightarrow>
                       map_option (\<lambda>(ret, w2).
                           (Finished ret txt batched,
                            heartbeat (ne_now e) ''telegram-notify''
                              (w2\<lparr>nw_notify := fc_telegram_record_notify_result ret batched (nw_notify w2)\<rparr>)))
                         (notify_deliver cj c root e chat txt (w1\<lparr>nw_notify := n\<rparr>)))"

section \<open>The poller\<close>

record poller =
  failure_backoff_ms :: nat
  mcp_yielded_ms :: nat

definition zero_poller :: poller where
  "zero_poller = \<lparr>failure_backoff_ms = 0, mcp_yielded_ms = 0\<rparr>"

definition next_backoff :: "nat \<Rightarrow> nat" where
  "next_backoff b =
     (if b = 0 then CONFIG_FRUITCLAW_TELEGRAM_FAIL_BACKOFF_MIN_MS
      else if b < CONFIG_FRUITCLAW_TELEGRAM_FAIL_BACKOFF_MAX_MS div 2 then b * 2
      else CONFIG_FRUITCLAW_TELEGRAM_FAIL_BACKOFF_MAX_MS)"

record poller_env =
  pv_naps :: "nat \<Rightarrow> nap"
  pv_mcp_now :: int
  pv_poll :: poll_env
  pv_now :: int

datatype poller_turn = NotifyFirst | McpFirst | Polled ret

definition poll_now ::
    "'j cjson \<Rightarrow> tg_cfg \<Rightarrow> string \<Rightarrow> poller_env \<Rightarrow> poller \<Rightarrow> nworld \<Rightarrow> (poller_turn \<times> poller \<times> nworld) option" where
  "poll_now cj c root e p w =
     map_option (\<lambda>(ret, tw).
         let w1 = heartbeat (pv_now e) ''telegram'' (w\<lparr>nw_tg := tw\<rparr>)
         in if ret_neg ret
            then let b = next_backoff (failure_backoff_ms p)
                 in (Polled ret, \<lparr>failure_backoff_ms = b, mcp_yielded_ms = 0\<rparr>, fc_telegram_sleep_ms ''telegram-backoff'' b (pv_naps e) w1)
            else (Polled ret, \<lparr>failure_backoff_ms = 0, mcp_yielded_ms = 0\<rparr>,
                  if fc_telegram_poll_idle_ms > 0
                  then fc_telegram_sleep_ms ''telegram-idle'' fc_telegram_poll_idle_ms (pv_naps e) w1 else w1))
       (fc_telegram_poll_once cj c root (pv_poll e) (nw_tg w))"

text \<open>One round of the endless loop of \<^verbatim>\<open>fc_telegram_thread_main\<close>, and what comes before the loop.\<close>

definition fc_telegram_thread_main ::
    "'j cjson \<Rightarrow> tg_cfg \<Rightarrow> string \<Rightarrow> poller_env \<Rightarrow> poller \<Rightarrow> nworld \<Rightarrow> (poller_turn \<times> poller \<times> nworld) option" where
  "fc_telegram_thread_main cj c root e p w =
     (if fc_telegram_notify_pending (nw_notify w)
      then Some (NotifyFirst, p, fc_telegram_sleep_ms ''telegram-notify-priority'' 250 (pv_naps e) w)
      else if fc_mcp_recently_active (pv_mcp_now e) CONFIG_FRUITCLAW_TELEGRAM_MCP_YIELD_MS (nw_mcp_ms w)
              \<and> mcp_yielded_ms p < CONFIG_FRUITCLAW_TELEGRAM_MCP_MAX_YIELD_MS
      then let s = mcp_step_ms (mcp_yielded_ms p)
           in Some (McpFirst, p\<lparr>mcp_yielded_ms := mcp_yielded_ms p + s\<rparr>, fc_telegram_sleep_ms ''telegram-mcp-yield'' s (pv_naps e) w)
      else poll_now cj c root e p w)"

definition telegram_thread_start :: "(nat \<Rightarrow> nap) \<Rightarrow> (nat \<Rightarrow> nap) \<Rightarrow> nworld \<Rightarrow> nworld" where
  "telegram_thread_start delay rest w =
     fc_telegram_sleep_ms ''telegram-boot-quiet'' CONFIG_FRUITCLAW_TELEGRAM_BOOT_QUIET_MS rest
       (fc_telegram_sleep_ms ''telegram-start-delay'' CONFIG_FRUITCLAW_TELEGRAM_START_DELAY_MS delay w)"

section \<open>The status text\<close>

definition age_of :: "int \<Rightarrow> int \<Rightarrow> int" where
  "age_of now t = (if t > 0 then now - t else -1)"

text \<open>\<open>locked\<close> tells whether \<^verbatim>\<open>pthread_mutex_trylock\<close> succeeds.\<close>

definition fc_telegram_status_format :: "(ret \<Rightarrow> int) \<Rightarrow> bool \<Rightarrow> int \<Rightarrow> nat option \<Rightarrow> telegram \<Rightarrow> tg_notify \<Rightarrow> ret \<times> string option" where
  "fc_telegram_status_format code locked now out tg n =
     (case out of
        None \<Rightarrow> (Err EINVAL, None)
      | Some len \<Rightarrow>
          if len = 0 then (Err EINVAL, None)
          else let cnt = (if locked then g_tg_notify_count n else 0); inflight = (if locked then g_tg_notify_inflight n else 0);
                   num = (\<lambda>x :: u32. dec_nat (unat x))
               in (OK, Some (snprintf_buf len (''telegram_status: worker='' @ (if g_tg_started tg then ''started'' else ''stopped'')
                    @ '' polls='' @ num (g_tg_poll_count tg) @ '' fails='' @ num (g_tg_poll_fail_count tg)
                    @ '' last_ret='' @ dec_int (code (g_tg_last_ret tg)) @ '' http='' @ dec_int (g_tg_last_http_status tg)
                    @ '' last_poll_age_ms='' @ dec_int (age_of now (g_tg_last_poll_ms tg))
                    @ '' last_success_age_ms='' @ dec_int (age_of now (g_tg_last_success_ms tg))
                    @ '' offset='' @ dec_int (g_update_offset tg) @ '' saved_offset='' @ dec_int (g_tg_last_saved_offset tg)
                    @ '' poll_active='' @ (if g_tg_poll_active tg then ''yes'' else ''no'')
                    @ '' updates='' @ num (g_tg_update_count tg) @ '' queued='' @ num (g_tg_queued_count tg)
                    @ '' ignored='' @ num (g_tg_ignored_count tg)
                    @ '' last_update='' @ dec_int (g_tg_last_update_id tg)
                    @ '' last_chat='' @ (if g_tg_last_chat_id tg \<noteq> [] then g_tg_last_chat_id tg else ''-'')
                    @ '' notify_queue='' @ dec_nat cnt @ '' notify_inflight='' @ dec_nat inflight
                    @ '' notify_enqueued='' @ num (g_tg_notify_enqueued n) @ '' notify_sent='' @ num (g_tg_notify_sent n)
                    @ '' notify_failed='' @ num (g_tg_notify_failed n) @ '' notify_dropped='' @ num (g_tg_notify_dropped n)))))"

section \<open>The queue implements the contract of a bounded queue\<close>

definition notify_lines :: "tg_notify \<Rightarrow> string list" where
  "notify_lines n =
     map (\<lambda>i. g_tg_notify_queue n ! ((g_tg_notify_head n + i) mod FC_TG_NOTIFY_QUEUE_LEN)) [0..<g_tg_notify_count n]"

definition notify_wf :: "tg_notify \<Rightarrow> bool" where
  "notify_wf n \<longleftrightarrow> length (g_tg_notify_queue n) = FC_TG_NOTIFY_QUEUE_LEN \<and> g_tg_notify_head n < FC_TG_NOTIFY_QUEUE_LEN
     \<and> g_tg_notify_count n \<le> FC_TG_NOTIFY_QUEUE_LEN"

definition notify_get :: "tg_notify \<Rightarrow> (string \<times> tg_notify) option" where
  "notify_get n =
     (if g_tg_notify_count n = 0 then None else Some (g_tg_notify_queue n ! g_tg_notify_head n, notify_pop n))"

lemma length_notify_lines [simp]: "length (notify_lines n) = g_tg_notify_count n"
  by (simp add: notify_lines_def)

lemma notify_len_pos [simp]: "0 < FC_TG_NOTIFY_QUEUE_LEN"
  by (simp add: FC_TG_NOTIFY_QUEUE_LEN_def)

lemma notify_put_lines:
  assumes "notify_wf n" "g_tg_notify_count n < FC_TG_NOTIFY_QUEUE_LEN"
  shows "notify_lines (snd (notify_put l n)) = notify_lines n @ [l]"
proof -
  let ?L = FC_TG_NOTIFY_QUEUE_LEN and ?h = "g_tg_notify_head n" and ?c = "g_tg_notify_count n"
  have ne: "(?h + i) mod ?L \<noteq> (?h + ?c) mod ?L" if "i < ?c" for i
    using ring_index_inj [of ?h i ?L ?c] that assms(2) by auto
  have "(g_tg_notify_queue n)[(?h + ?c) mod ?L := l] ! ((?h + i) mod ?L) = g_tg_notify_queue n ! ((?h + i) mod ?L)" if "i < ?c" for i
    using ne [OF that] by simp
  then have "map (\<lambda>i. (g_tg_notify_queue n)[(?h + ?c) mod ?L := l] ! ((?h + i) mod ?L)) [0..<?c] = notify_lines n"
    by (simp add: notify_lines_def)
  moreover have "(g_tg_notify_queue n)[(?h + ?c) mod ?L := l] ! ((?h + ?c) mod ?L) = l"
    using assms by (simp add: notify_wf_def)
  ultimately show ?thesis
    using assms(2) by (simp add: notify_put_def Let_def notify_lines_def [of "n\<lparr>g_tg_notify_queue := _, g_tg_notify_count := _\<rparr>"])
qed

lemma notify_pop_lines:
  assumes "notify_wf n" "g_tg_notify_count n \<noteq> 0"
  shows "notify_lines n = g_tg_notify_queue n ! g_tg_notify_head n # notify_lines (notify_pop n)"
proof -
  let ?L = FC_TG_NOTIFY_QUEUE_LEN and ?h = "g_tg_notify_head n"
  obtain k where k: "g_tg_notify_count n = Suc k" using assms(2) by (cases "g_tg_notify_count n") auto
  have "map (\<lambda>i. g_tg_notify_queue n ! ((?h + i) mod ?L)) [0..<Suc k]
      = g_tg_notify_queue n ! (?h mod ?L) # map (\<lambda>i. g_tg_notify_queue n ! ((?h + Suc i) mod ?L)) [0..<k]"
    by (simp only: upt_conv_Cons [of 0 "Suc k"] map_Suc_upt [symmetric]) simp
  then show ?thesis
    using assms(1) k by (simp add: notify_lines_def notify_pop_def notify_wf_def mod_add_left_eq)
qed

lemma notify_ops_wf [fc_inv]:
  "notify_wf n \<Longrightarrow> notify_wf (snd (notify_put l n))" "notify_wf n \<Longrightarrow> notify_wf (notify_pop n)"
  by (auto simp: notify_wf_def notify_put_def notify_pop_def Let_def)

interpretation nq: bounded_fifo notify_put notify_get notify_lines "\<lambda>_. FC_TG_NOTIFY_QUEUE_LEN" notify_wf
proof unfold_locales
  fix q e es
  assume q: "notify_wf q" "notify_lines q = e # es"
  then have "g_tg_notify_count q \<noteq> 0" by (metis length_notify_lines length_Cons nat.distinct(1))
  with q notify_pop_lines [of q] show "\<exists>q'. notify_get q = Some (e, q') \<and> notify_lines q' = es"
    by (auto simp: notify_get_def)
next
  fix q e q'
  assume "notify_wf q" "notify_get q = Some (e, q')"
  then show "notify_wf q'" using notify_ops_wf(2) by (auto simp: notify_get_def split: if_splits)
next
  fix q e
  assume "notify_wf q" "length (notify_lines q) < FC_TG_NOTIFY_QUEUE_LEN"
  then show "fst (notify_put e q) = OK \<and> notify_lines (snd (notify_put e q)) = notify_lines q @ [e]"
    using notify_put_lines [of q e] by (simp add: notify_put_def Let_def)
qed (auto simp: notify_put_def notify_get_def notify_lines_def notify_ops_wf [unfolded notify_put_def] notify_wf_def Let_def)

section \<open>Batches\<close>

text \<open>The text of a batch: the lines, separated by newlines.\<close>

fun join_lines :: "string list \<Rightarrow> string" where
  "join_lines [] = []"
| "join_lines [l] = l"
| "join_lines (l # m # ls) = l @ LF # join_lines (m # ls)"

definition append_lines :: "string \<Rightarrow> string list \<Rightarrow> string" where
  "append_lines t ls = (if t = [] then join_lines ls else if ls = [] then t else t @ LF # join_lines ls)"

lemma join_lines_Cons: "l \<noteq> [] \<Longrightarrow> join_lines (l # ls) = append_lines l ls"
  by (cases ls) (auto simp: append_lines_def)

lemma append_lines_Cons:
  "l \<noteq> [] \<Longrightarrow> append_lines ((if t \<noteq> [] then t @ [LF] else t) @ l) ls = append_lines t (l # ls)"
  by (cases ls) (auto simp: append_lines_def)

lemma notify_batch_take:
  assumes "notify_wf n" "\<forall>l\<in>set (notify_lines n). l \<noteq> [] \<and> length l < FC_TG_NOTIFY_TEXT_LEN"
    and "length t + k * FC_TG_NOTIFY_TEXT_LEN < FC_TG_NOTIFY_SEND_LEN"
  shows "\<exists>n'. notify_batch k t n = (append_lines t (take k (notify_lines n)), min k (length (notify_lines n)), n')
     \<and> notify_wf n' \<and> notify_lines n' = drop k (notify_lines n)
     \<and> g_tg_notify_inflight n' = g_tg_notify_inflight n + min k (length (notify_lines n))
     \<and> n' = n\<lparr>g_tg_notify_head := g_tg_notify_head n', g_tg_notify_count := g_tg_notify_count n',
              g_tg_notify_inflight := g_tg_notify_inflight n'\<rparr>"
  using assms
proof (induction k arbitrary: t n)
  case 0
  then show ?case by (simp add: append_lines_def)
next
  case (Suc k)
  show ?case
  proof (cases "g_tg_notify_count n = 0")
    case True
    then have "notify_lines n = []" by (simp add: notify_lines_def)
    then show ?thesis using True Suc.prems(1) by (simp add: append_lines_def)
  next
    case False
    let ?l = "g_tg_notify_queue n ! g_tg_notify_head n" and ?n = "notify_pop n"
    let ?t = "(if t \<noteq> [] then t @ [LF] else t) @ ?l"
    have ls: "notify_lines n = ?l # notify_lines ?n" using notify_pop_lines [OF Suc.prems(1) False] .
    then have l: "?l \<noteq> []" "length ?l < FC_TG_NOTIFY_TEXT_LEN" using Suc.prems(2) by auto
    have room: "length ?t + k * FC_TG_NOTIFY_TEXT_LEN < FC_TG_NOTIFY_SEND_LEN"
      using Suc.prems(3) l(2) by (auto simp: FC_TG_NOTIFY_TEXT_LEN_def)
    have "\<not> length t + length ?l + (if t \<noteq> [] then 1 else 0) + 1 > FC_TG_NOTIFY_SEND_LEN"
      using Suc.prems(3) l(2) by (auto simp: FC_TG_NOTIFY_TEXT_LEN_def)
    moreover obtain n' where "notify_batch k ?t ?n = (append_lines ?t (take k (notify_lines ?n)), min k (length (notify_lines ?n)), n')"
        "notify_wf n'" "notify_lines n' = drop k (notify_lines ?n)"
        "g_tg_notify_inflight n' = g_tg_notify_inflight ?n + min k (length (notify_lines ?n))"
        "n' = ?n\<lparr>g_tg_notify_head := g_tg_notify_head n', g_tg_notify_count := g_tg_notify_count n',
              g_tg_notify_inflight := g_tg_notify_inflight n'\<rparr>"
      using Suc.IH [OF notify_ops_wf(2) [OF Suc.prems(1)] _ room] Suc.prems(2) ls by auto
    ultimately show ?thesis
      using False ls append_lines_Cons [OF l(1)]
      by (auto simp: Let_def notify_pop_def simp del: length_notify_lines)
  qed
qed

section \<open>Runs\<close>

text \<open>
  What the threads do to the queue: a caller enqueues a text, the thread takes a batch, the thread accounts for the
  batch it took.  At most one batch is under way, since there is one thread.
\<close>

datatype notify_op = Enqueue "errno option" string | TakeBatch | Account ret

record notify_run =
  nr_notify :: tg_notify
  nr_batch :: "string list"
  nr_out :: "string list"
  nr_accepted :: "string list"

inductive notify_step :: "notify_run \<Rightarrow> notify_run \<Rightarrow> bool" where
  enqueue: "t \<noteq> [] \<Longrightarrow> fc_telegram_notify_owner_async created (Some t) (nr_notify r) = (ret, n) \<Longrightarrow>
    notify_step r (r\<lparr>nr_notify := n,
      nr_accepted := nr_accepted r @ (if ret = OK then [cpy FC_TG_NOTIFY_TEXT_LEN t] else [])\<rparr>)"
| batch: "nr_batch r = [] \<Longrightarrow> notify_batch CONFIG_FRUITCLAW_TELEGRAM_NOTIFY_BATCH_MAX [] (nr_notify r) = (t, b, n) \<Longrightarrow> b \<noteq> 0 \<Longrightarrow>
    notify_step r (r\<lparr>nr_notify := n, nr_batch := take b (notify_lines (nr_notify r)), nr_out := nr_out r @ [t]\<rparr>)"
| account: "nr_batch r \<noteq> [] \<Longrightarrow>
    notify_step r (r\<lparr>nr_notify := fc_telegram_record_notify_result ret (length (nr_batch r)) (nr_notify r), nr_batch := []\<rparr>)"

inductive_cases notify_stepE: "notify_step r r'"

definition start_run :: notify_run where
  "start_run = \<lparr>nr_notify = zero_notify, nr_batch = [], nr_out = [], nr_accepted = []\<rparr>"

definition lines_ok :: "string list \<Rightarrow> bool" where
  "lines_ok ls \<longleftrightarrow> (\<forall>l\<in>set ls. l \<noteq> [] \<and> length l < FC_TG_NOTIFY_TEXT_LEN)"

text \<open>
  The invariant: the counters account for every accepted text, and the messages made so far followed by what is
  queued are the accepted texts in order.
\<close>

definition notify_inv :: "notify_run \<Rightarrow> bool" where
  "notify_inv r \<longleftrightarrow>
     (let n = nr_notify r
      in notify_wf n \<and> lines_ok (notify_lines n) \<and> g_tg_notify_inflight n = length (nr_batch r)
         \<and> g_tg_notify_enqueued n = of_nat (length (nr_accepted r))
         \<and> g_tg_notify_sent n + g_tg_notify_failed n + of_nat (length (nr_batch r) + g_tg_notify_count n) = g_tg_notify_enqueued n
         \<and> (\<exists>bs. nr_out r = map join_lines bs \<and> concat bs @ notify_lines n = nr_accepted r
                \<and> (\<forall>b\<in>set bs. length b \<le> CONFIG_FRUITCLAW_TELEGRAM_NOTIFY_BATCH_MAX)))"

lemma notify_lines_cong:
  "g_tg_notify_queue n' = g_tg_notify_queue n \<Longrightarrow> g_tg_notify_head n' = g_tg_notify_head n \<Longrightarrow> g_tg_notify_count n' = g_tg_notify_count n
     \<Longrightarrow> notify_lines n' = notify_lines n \<and> notify_wf n' = notify_wf n"
  by (simp add: notify_lines_def notify_wf_def)

lemma async_cases:
  assumes "fc_telegram_notify_owner_async created (Some t) n = (ret, n')" "notify_wf n" "t \<noteq> []"
  shows "notify_wf n' \<and> g_tg_notify_inflight n' = g_tg_notify_inflight n \<and> g_tg_notify_sent n' = g_tg_notify_sent n
     \<and> g_tg_notify_failed n' = g_tg_notify_failed n
     \<and> (if ret = OK
        then notify_lines n' = notify_lines n @ [cpy FC_TG_NOTIFY_TEXT_LEN t] \<and> g_tg_notify_enqueued n' = g_tg_notify_enqueued n + 1
        else notify_lines n' = notify_lines n \<and> g_tg_notify_enqueued n' = g_tg_notify_enqueued n)"
proof -
  obtain r1 n1 where s: "fc_telegram_notify_start_locked created n = (r1, n1)" by fastforce
  have n1: "g_tg_notify_queue n1 = g_tg_notify_queue n" "g_tg_notify_head n1 = g_tg_notify_head n" "g_tg_notify_count n1 = g_tg_notify_count n"
      "g_tg_notify_inflight n1 = g_tg_notify_inflight n" "g_tg_notify_sent n1 = g_tg_notify_sent n"
      "g_tg_notify_failed n1 = g_tg_notify_failed n" "g_tg_notify_enqueued n1 = g_tg_notify_enqueued n"
    using s by (auto simp: fc_telegram_notify_start_locked_def split: if_splits option.splits)
  note same = notify_lines_cong [OF n1(1-3)]
  show ?thesis
  proof (cases r1)
    case (Err e)
    then show ?thesis using assms s same n1 by (auto simp: fc_telegram_notify_owner_async_def)
  next
    case OK
    obtain r2 n2 where p: "notify_put (cpy FC_TG_NOTIFY_TEXT_LEN t) n1 = (r2, n2)" by fastforce
    have n2: "g_tg_notify_inflight n2 = g_tg_notify_inflight n1" "g_tg_notify_sent n2 = g_tg_notify_sent n1"
        "g_tg_notify_failed n2 = g_tg_notify_failed n1" "g_tg_notify_enqueued n2 = g_tg_notify_enqueued n1"
      using p by (auto simp: notify_put_def Let_def split: if_splits)
    have "notify_wf n2 \<and> (if r2 = OK then notify_lines n2 = notify_lines n1 @ [cpy FC_TG_NOTIFY_TEXT_LEN t] else notify_lines n2 = notify_lines n1)"
      using nq.put_room [of n1 "cpy FC_TG_NOTIFY_TEXT_LEN t"] nq.put_full [of n1 "cpy FC_TG_NOTIFY_TEXT_LEN t"] nq.put_inv [of n1 "cpy FC_TG_NOTIFY_TEXT_LEN t"] assms(2) same p
      by (cases "length (notify_lines n1) < FC_TG_NOTIFY_QUEUE_LEN") (auto simp del: length_notify_lines)
    then show ?thesis
      using assms(1,3) s OK p n1 n2 same
      by (cases r2) (auto simp: fc_telegram_notify_owner_async_def notify_lines_def notify_wf_def)
  qed
qed

lemma cpy_line: "t \<noteq> [] \<Longrightarrow> cpy FC_TG_NOTIFY_TEXT_LEN t \<noteq> [] \<and> length (cpy FC_TG_NOTIFY_TEXT_LEN t) < FC_TG_NOTIFY_TEXT_LEN"
  by (cases t) (auto simp: cpy_eq FC_TG_NOTIFY_TEXT_LEN_def)

lemma lines_ok_simps [simp]:
  "lines_ok [] = True" "lines_ok (ls @ ms) \<longleftrightarrow> lines_ok ls \<and> lines_ok ms" "lines_ok [l] \<longleftrightarrow> l \<noteq> [] \<and> length l < FC_TG_NOTIFY_TEXT_LEN"
  by (auto simp: lines_ok_def)

lemma lines_ok_drop: "lines_ok ls \<Longrightarrow> lines_ok (drop k ls)"
  by (auto simp: lines_ok_def dest: in_set_dropD)

lemma notify_inv_batch:
  assumes inv: "notify_inv r" and r: "nr_batch r = []"
    and b: "notify_batch CONFIG_FRUITCLAW_TELEGRAM_NOTIFY_BATCH_MAX [] (nr_notify r) = (t, b, n)"
  shows "notify_inv (r\<lparr>nr_notify := n, nr_batch := take b (notify_lines (nr_notify r)), nr_out := nr_out r @ [t]\<rparr>)"
proof -
  let ?k = CONFIG_FRUITCLAW_TELEGRAM_NOTIFY_BATCH_MAX and ?ls = "notify_lines (nr_notify r)"
  have ok: "notify_wf (nr_notify r)" "lines_ok ?ls" using inv by (auto simp: notify_inv_def Let_def)
  have room: "length ([] :: string) + ?k * FC_TG_NOTIFY_TEXT_LEN < FC_TG_NOTIFY_SEND_LEN"
    by (simp add: CONFIG_FRUITCLAW_TELEGRAM_NOTIFY_BATCH_MAX_def FC_TG_NOTIFY_TEXT_LEN_def FC_TG_NOTIFY_SEND_LEN_def)
  from notify_batch_take [OF ok(1) ok(2) [unfolded lines_ok_def] room] b
  have n: "t = join_lines (take ?k ?ls)" "b = min ?k (length ?ls)" "notify_wf n" "notify_lines n = drop ?k ?ls"
      "g_tg_notify_inflight n = g_tg_notify_inflight (nr_notify r) + b"
      "g_tg_notify_sent n = g_tg_notify_sent (nr_notify r)" "g_tg_notify_failed n = g_tg_notify_failed (nr_notify r)"
      "g_tg_notify_enqueued n = g_tg_notify_enqueued (nr_notify r)"
    by (auto simp: append_lines_def simp del: length_notify_lines dest!: arg_cong [of _ _ "\<lambda>x. (g_tg_notify_sent x, g_tg_notify_failed x, g_tg_notify_enqueued x)"])
  obtain bs where bs: "nr_out r = map join_lines bs" "concat bs @ ?ls = nr_accepted r" "\<forall>b\<in>set bs. length b \<le> ?k"
    using inv by (auto simp: notify_inv_def Let_def)
  have cnt: "length (take b ?ls) + g_tg_notify_count n = g_tg_notify_count (nr_notify r)"
    using n(2) arg_cong [OF n(4), of length] by auto
  have "concat (bs @ [take ?k ?ls]) @ drop ?k ?ls = nr_accepted r" using bs(2) by simp
  then have "\<exists>bs. nr_out r @ [t] = map join_lines bs \<and> concat bs @ notify_lines n = nr_accepted r \<and> (\<forall>b\<in>set bs. length b \<le> ?k)"
    using bs n(1,4) by (intro exI [of _ "bs @ [take ?k ?ls]"]) (auto simp del: length_notify_lines)
  moreover have "length (take b ?ls) = b" using n(2) by (simp del: length_notify_lines)
  ultimately show ?thesis
    using inv r n ok cnt lines_ok_drop [OF ok(2), of ?k] unfolding notify_inv_def Let_def
    by (simp del: length_notify_lines length_take)
qed

lemma notify_inv_enqueue:
  assumes "notify_inv r" "t \<noteq> []" "fc_telegram_notify_owner_async created (Some t) (nr_notify r) = (ret, n)"
  shows "notify_inv (r\<lparr>nr_notify := n, nr_accepted := nr_accepted r @ (if ret = OK then [cpy FC_TG_NOTIFY_TEXT_LEN t] else [])\<rparr>)"
proof -
  have wf: "notify_wf (nr_notify r)" using assms(1) by (simp add: notify_inv_def Let_def)
  note a = async_cases [OF assms(3) wf assms(2)]
  have "g_tg_notify_count n = (if ret = OK then g_tg_notify_count (nr_notify r) + 1 else g_tg_notify_count (nr_notify r))"
    using a by (auto simp flip: length_notify_lines)
  then show ?thesis
    using a assms(1) cpy_line [OF assms(2)] unfolding notify_inv_def Let_def
    by (cases "ret = OK") (auto simp: algebra_simps)
qed

lemma notify_inv_account:
  assumes "notify_inv r"
  shows "notify_inv (r\<lparr>nr_notify := fc_telegram_record_notify_result ret (length (nr_batch r)) (nr_notify r), nr_batch := []\<rparr>)"
  using assms notify_lines_cong [of "fc_telegram_record_notify_result ret (length (nr_batch r)) (nr_notify r)" "nr_notify r"]
  by (auto simp: notify_inv_def Let_def fc_telegram_record_notify_result_def algebra_simps)

lemma notify_inv_reachable: "notify_step\<^sup>*\<^sup>* start_run r \<Longrightarrow> notify_inv r"
proof (induction rule: rtranclp_induct)
  case base
  show ?case
    by (simp add: notify_inv_def start_run_def zero_notify_def notify_wf_def notify_lines_def)
next
  case (step r r')
  from step.hyps(2) show ?case
    using step.IH notify_inv_enqueue notify_inv_batch notify_inv_account by (elim notify_stepE) auto
qed

section \<open>Waiting\<close>

lemma poll_wait_bound: "waited \<le> 3000 \<Longrightarrow> 100 dvd waited \<Longrightarrow> fst (poll_wait waited naps w) \<le> 3000"
proof (induction waited naps w rule: poll_wait.induct)
  case (1 waited naps w)
  have "waited < 3000 \<Longrightarrow> waited + 100 \<le> 3000" using "1.prems"(2) by (auto elim!: dvdE)
  then show ?case using "1" by (subst poll_wait.simps) auto
qed

lemma mcp_wait_bound:
  "waited \<le> CONFIG_FRUITCLAW_TELEGRAM_MCP_MAX_YIELD_MS \<Longrightarrow> fst (mcp_wait waited rounds w) \<le> CONFIG_FRUITCLAW_TELEGRAM_MCP_MAX_YIELD_MS"
proof (induction waited rounds w rule: mcp_wait.induct)
  case (1 waited rounds w)
  have "waited + mcp_step_ms waited \<le> CONFIG_FRUITCLAW_TELEGRAM_MCP_MAX_YIELD_MS" using "1.prems" by (simp add: mcp_step_ms_def)
  then show ?case using "1" by (subst mcp_wait.simps) auto
qed

lemma next_backoff_iterate:
  "(next_backoff ^^ k) 0 = (if k = 0 then 0 else if k < 4 then 10000 * 2 ^ (k - 1) else 60000)"
proof (induction k)
  case (Suc k)
  have "k = 0 \<or> k = 1 \<or> k = 2 \<or> k = 3 \<or> 4 \<le> k" by linarith
  then show ?case
    using Suc by (auto simp: next_backoff_def CONFIG_FRUITCLAW_TELEGRAM_FAIL_BACKOFF_MIN_MS_def CONFIG_FRUITCLAW_TELEGRAM_FAIL_BACKOFF_MAX_MS_def)
qed simp

text \<open>Consecutive turns of the poller, each with its environment, and what the other threads do between them.\<close>

inductive poller_turns ::
    "'j cjson \<Rightarrow> tg_cfg \<Rightarrow> string \<Rightarrow> poller_turn list \<Rightarrow> poller \<Rightarrow> poller \<Rightarrow> bool" for cj c root where
  none: "poller_turns cj c root [] p p"
| more: "poller_turns cj c root ts p p1 \<Longrightarrow> fc_telegram_thread_main cj c root e p1 w = Some (t, p2, w') \<Longrightarrow>
           poller_turns cj c root (ts @ [t]) p p2"

lemma poller_turn_cases:
  assumes "fc_telegram_thread_main cj c root e p w = Some (t, p', w')"
  shows "t = NotifyFirst \<and> p' = p
     \<or> t = McpFirst \<and> mcp_yielded_ms p < 5000 \<and> p' = p\<lparr>mcp_yielded_ms := mcp_yielded_ms p + mcp_step_ms (mcp_yielded_ms p)\<rparr>
     \<or> (\<exists>r. t = Polled r \<and> p' = \<lparr>failure_backoff_ms = (if r = OK then 0 else next_backoff (failure_backoff_ms p)), mcp_yielded_ms = 0\<rparr>)"
proof -
  let ?mcp = "fc_mcp_recently_active (pv_mcp_now e) CONFIG_FRUITCLAW_TELEGRAM_MCP_YIELD_MS (nw_mcp_ms w)
              \<and> mcp_yielded_ms p < CONFIG_FRUITCLAW_TELEGRAM_MCP_MAX_YIELD_MS"
  consider (notify) "fc_telegram_notify_pending (nw_notify w)" | (mcp) "\<not> fc_telegram_notify_pending (nw_notify w)" ?mcp
    | (poll) "\<not> fc_telegram_notify_pending (nw_notify w)" "\<not> ?mcp" by blast
  then show ?thesis
  proof cases
    case notify
    then show ?thesis using assms by (simp add: fc_telegram_thread_main_def)
  next
    case mcp
    then have "t = McpFirst" "p' = p\<lparr>mcp_yielded_ms := mcp_yielded_ms p + mcp_step_ms (mcp_yielded_ms p)\<rparr>"
      using assms by (simp_all add: fc_telegram_thread_main_def Let_def)
    then show ?thesis using mcp by (simp add: CONFIG_FRUITCLAW_TELEGRAM_MCP_MAX_YIELD_MS_def)
  next
    case poll
    have eq: "fc_telegram_thread_main cj c root e p w = poll_now cj c root e p w"
      unfolding fc_telegram_thread_main_def using poll by (simp only: if_False)
    obtain ret tw where r: "fc_telegram_poll_once cj c root (pv_poll e) (nw_tg w) = Some (ret, tw)"
      using assms [unfolded eq] by (auto simp: poll_now_def)
    have "t = Polled ret \<and> p' = \<lparr>failure_backoff_ms = (if ret = OK then 0 else next_backoff (failure_backoff_ms p)), mcp_yielded_ms = 0\<rparr>"
      using assms [unfolded eq] r by (cases ret) (auto simp: poll_now_def Let_def)
    then show ?thesis by blast
  qed
qed

lemma poller_yields:
  assumes "poller_turns cj c root ts p p'" "mcp_yielded_ms p = 0" "\<forall>t\<in>set ts. t = NotifyFirst \<or> t = McpFirst"
  shows "mcp_yielded_ms p' = 250 * count_list ts McpFirst \<and> count_list ts McpFirst \<le> 20"
  using assms
proof (induction rule: poller_turns.induct)
  case (more ts p p1 e w t p2 w')
  then show ?case
    using poller_turn_cases [OF more.hyps(2)]
    by (auto simp: mcp_step_ms_def CONFIG_FRUITCLAW_TELEGRAM_MCP_MAX_YIELD_MS_def)
qed simp

lemma poller_failures:
  assumes "poller_turns cj c root ts p p'" "failure_backoff_ms p = 0" "\<forall>t\<in>set ts. t \<noteq> Polled OK"
  shows "failure_backoff_ms p' = (next_backoff ^^ length (filter (\<lambda>t. \<exists>r. t = Polled r) ts)) 0"
  using assms
proof (induction rule: poller_turns.induct)
  case (more ts p p1 e w t p2 w')
  then show ?case using poller_turn_cases [OF more.hyps(2)] by auto
qed simp

section \<open>Properties\<close>

text \<open>
  C21. No notification is lost or reordered: whatever the interleaving of callers and the notification thread, the
  messages made so far, taken apart into their lines, followed by the queued texts are the accepted texts in order;
  a message has at most six lines; and the counters account for every accepted text modulo \<open>2 ^ 32\<close>.
\<close>

theorem notify_in_order:
  assumes "notify_step\<^sup>*\<^sup>* start_run r"
  shows "(\<exists>bs. nr_out r = map join_lines bs \<and> concat bs @ notify_lines (nr_notify r) = nr_accepted r \<and> (\<forall>b\<in>set bs. length b \<le> 6))
     \<and> g_tg_notify_enqueued (nr_notify r) = of_nat (length (nr_accepted r))
     \<and> g_tg_notify_enqueued (nr_notify r) = g_tg_notify_sent (nr_notify r) + g_tg_notify_failed (nr_notify r)
         + of_nat (g_tg_notify_inflight (nr_notify r) + g_tg_notify_count (nr_notify r))"
  using notify_inv_reachable [OF assms]
  by (simp add: notify_inv_def Let_def CONFIG_FRUITCLAW_TELEGRAM_NOTIFY_BATCH_MAX_def)

theorem notify_in_order_witness:
  "\<exists>r. notify_step\<^sup>*\<^sup>* start_run r \<and> nr_accepted r = [''boot'', ''low''] \<and> nr_out r = [''boot'' @ LF # ''low'']
     \<and> g_tg_notify_enqueued (nr_notify r) = 2 \<and> g_tg_notify_inflight (nr_notify r) = 2"
proof -
  define n1 where "n1 = snd (fc_telegram_notify_owner_async None (Some ''boot'') zero_notify)"
  define n2 where "n2 = snd (fc_telegram_notify_owner_async None (Some ''low'') n1)"
  define n3 where "n3 = snd (snd (notify_batch CONFIG_FRUITCLAW_TELEGRAM_NOTIFY_BATCH_MAX [] n2))"
  let ?r1 = "start_run\<lparr>nr_notify := n1, nr_accepted := [''boot'']\<rparr>" and ?r2 = "start_run\<lparr>nr_notify := n2, nr_accepted := [''boot'', ''low'']\<rparr>"
  let ?r3 = "?r2\<lparr>nr_notify := n3, nr_batch := [''boot'', ''low''], nr_out := [''boot'' @ LF # ''low'']\<rparr>"
  have r: "nr_notify start_run = zero_notify" "nr_accepted start_run = []" "nr_batch start_run = []" "nr_out start_run = []"
    by (simp_all add: start_run_def)
  have e: "fc_telegram_notify_owner_async None (Some ''boot'') zero_notify = (OK, n1)"
    "fc_telegram_notify_owner_async None (Some ''low'') n1 = (OK, n2)"
    "notify_batch CONFIG_FRUITCLAW_TELEGRAM_NOTIFY_BATCH_MAX [] n2 = (''boot'' @ LF # ''low'', 2, n3)"
    "notify_lines n2 = [''boot'', ''low'']" "cpy FC_TG_NOTIFY_TEXT_LEN ''boot'' = ''boot''" "cpy FC_TG_NOTIFY_TEXT_LEN ''low'' = ''low''"
    "g_tg_notify_inflight n3 = 2"
    unfolding n1_def n2_def n3_def by code_simp+
  have "notify_step start_run ?r1" using notify_step.enqueue [of "''boot''" None start_run OK n1] e r by simp
  moreover have "notify_step ?r1 ?r2" using notify_step.enqueue [of "''low''" None ?r1 OK n2] e r by simp
  moreover have "notify_step ?r2 ?r3" using notify_step.batch [of ?r2 "''boot'' @ LF # ''low''" 2 n3] e r by simp
  ultimately have reach: "notify_step\<^sup>*\<^sup>* start_run ?r3" by (meson rtranclp.rtrancl_into_rtrancl rtranclp.rtrancl_refl)
  with notify_in_order [OF reach] e show ?thesis by (intro exI [of _ ?r3]) simp
qed


definition demo_nworld :: nworld where
  "demo_nworld = \<lparr>nw_tg = \<lparr>tw_tg = zero_telegram, tw_main = zero_queue, tw_progress = zero_progress,
       tw_fs = \<lparr>fs_files = Map.empty, fs_dirs = [''/d''], fs_script = [], fs_off = False\<rparr>, tw_http = demo_http_world, tw_seq = 0\<rparr>,
     nw_notify = zero_notify, nw_mcp_ms = 7\<rparr>"

definition demo_poller_env :: "int \<Rightarrow> poller_env" where
  "demo_poller_env now = \<lparr>pv_naps = (\<lambda>_. (now, id)), pv_mcp_now = now,
     pv_poll = \<lparr>pe_http = demo_http_env [], pe_calloc = True, pe_now = now, pe_mark = now, pe_start = now, pe_msgs = (\<lambda>_. (0, 0))\<rparr>, pv_now = now\<rparr>"


end
