(* ===== verification/FC_Berry.thy ===== *)
theory FC_Berry
  imports FC_Cap FC_Guard_Props FC_Files
begin

text \<open>
  The script runner of \<^verbatim>\<open>script/fc_berry.c\<close>: which files may be run, the guard around a run, the tools a script
  may call, and the counters.  The interpreter itself (\<^verbatim>\<open>berry_run_file_with_claw\<close> and
  \<^verbatim>\<open>berry_check_file\<close>) is an argument; it is given the function through which a script calls tools.
\<close>

section \<open>State\<close>

datatype berry_build = BerryExperimental | BerryStub | BerryDisabled

record berry =
  g_berry_call_count :: u32
  g_berry_fail_count :: u32
  g_berry_last_start_ms :: int
  g_berry_last_done_ms :: int
  g_berry_last_ret :: ret
  g_berry_last_path :: string

definition zero_berry :: berry where
  "zero_berry = \<lparr>g_berry_call_count = 0, g_berry_fail_count = 0, g_berry_last_start_ms = 0, g_berry_last_done_ms = 0,
     g_berry_last_ret = OK, g_berry_last_path = []\<rparr>"

definition FC_GUARD_STAGE_BERRY :: u32 where "FC_GUARD_STAGE_BERRY = 0x46434245"

section \<open>Counters and paths\<close>

definition fc_berry_record_start :: "int \<Rightarrow> string option \<Rightarrow> berry \<Rightarrow> berry" where
  "fc_berry_record_start now path b =
     b\<lparr>g_berry_call_count := g_berry_call_count b + 1, g_berry_last_start_ms := now,
       g_berry_last_path := cpy FC_PATH_LEN (case path of Some p \<Rightarrow> p | None \<Rightarrow> ''-'')\<rparr>"

definition fc_berry_record_result :: "int \<Rightarrow> ret \<Rightarrow> berry \<Rightarrow> ret \<times> berry" where
  "fc_berry_record_result now ret b =
     (let b1 = b\<lparr>g_berry_last_done_ms := now, g_berry_last_ret := ret\<rparr>
      in (ret, if ret_neg ret then b1\<lparr>g_berry_fail_count := g_berry_fail_count b1 + 1\<rparr> else b1))"

definition fc_berry_clear_status :: "berry \<Rightarrow> berry" where
  "fc_berry_clear_status b =
     b\<lparr>g_berry_call_count := 0, g_berry_fail_count := 0, g_berry_last_start_ms := 0, g_berry_last_done_ms := 0,
       g_berry_last_ret := OK, g_berry_last_path := []\<rparr>"

definition fc_berry_resolve_path :: "string \<Rightarrow> string option \<Rightarrow> nat option \<Rightarrow> ret \<times> string option" where
  "fc_berry_resolve_path root path full =
     (case (path, full) of
        (Some p, Some n) \<Rightarrow>
          if p = [] \<or> fc_path_has_parent_ref path \<or> n = 0 then (Err EINVAL, None)
          else (case fc_data_path root (Some ''scripts'') (Some FC_PATH_LEN) of
                 (OK, Some scripts_root) \<Rightarrow>
                   if hd p = CHR ''/''
                   then (if \<not> prefix scripts_root p
                            \<or> (let rest = drop (length scripts_root) p in rest \<noteq> [] \<and> hd rest \<noteq> CHR ''/'')
                         then (Err EACCES, None)
                         else fc_strlcpy full path)
                   else if prefix ''scripts/'' p then fc_data_path root path full
                   else let s = scripts_root @ ''/'' @ p
                        in (if length s \<ge> n then Err ENAMETOOLONG else OK, Some (snprintf_buf n s))
               | _ \<Rightarrow> (Err EINVAL, None))
      | _ \<Rightarrow> (Err EINVAL, None))"

section \<open>Running a script\<close>

text \<open>
  How a script calls a tool: name, arguments, size of the buffer.  The interpreter takes that function, a path,
  the arguments and the size of the output buffer.
\<close>

type_synonym 'w host_call = "string option \<Rightarrow> string option \<Rightarrow> nat option \<Rightarrow> 'w cap_world \<Rightarrow> (ret \<times> string option) \<times> 'w cap_world"
type_synonym 'w berry_vm = "'w host_call \<Rightarrow> string \<Rightarrow> string \<Rightarrow> nat \<Rightarrow> 'w cap_world \<Rightarrow> (ret \<times> string) \<times> 'w cap_world"

definition fc_berry_host_call :: "(int \<times> int \<times> int) \<Rightarrow> fc_tool_context \<Rightarrow> 'w host_call" where
  "fc_berry_host_call clk ctx name args_json out w =
     fc_cap_execute_ctx clk (Some ctx) name (Some (case args_json of Some a \<Rightarrow> a | None \<Rightarrow> ''{}'')) out w"

text \<open>
  The environment of a run: the build, the clocks of the counters and of the tools, what the guard meets, whether
  the worker thread starts, and how a return code prints.
\<close>

record berry_env =
  be_build :: berry_build
  be_start :: int
  be_done :: int
  be_tool_clk :: "int \<times> int \<times> int"
  be_cfg :: guard_cfg
  be_self :: nat
  be_guard_now :: int
  be_guard_rounds :: "begin_round list"
  be_guard_opened :: "errno + int"
  be_created :: "errno option"
  be_code :: "ret \<Rightarrow> int"

record 'w berry_world =
  bw_berry :: berry
  bw_guard :: guard
  bw_caps :: "'w cap_world"

definition fc_berry_run_worker ::
    "'w berry_vm \<Rightarrow> berry_env \<Rightarrow> fc_tool_context \<Rightarrow> string \<Rightarrow> string \<Rightarrow> nat \<Rightarrow> 'w cap_world \<Rightarrow> (ret \<times> string) \<times> 'w cap_world" where
  \<open>fc_berry_run_worker vm e ctx path args n w =
     (case be_created e of
        Some x \<Rightarrow>
          ((Err x, snprintf_buf n (''{"ok":false,"error":"Berry worker start failed","code":'' @ dec_int (be_code e (Err x)) @ ''}'')), w)
      | None \<Rightarrow> vm (fc_berry_host_call (be_tool_clk e) ctx) path args n w)\<close>

definition berry_finish :: "berry_env \<Rightarrow> ret \<Rightarrow> string \<Rightarrow> 'w berry_world \<Rightarrow> (ret \<times> string option) \<times> 'w berry_world" where
  "berry_finish e ret t w =
     (case fc_berry_record_result (be_done e) ret (bw_berry w) of (r, b) \<Rightarrow> ((r, Some t), w\<lparr>bw_berry := b\<rparr>))"

definition fc_berry_run_file ::
    "'w berry_vm \<Rightarrow> string \<Rightarrow> berry_env \<Rightarrow> fc_tool_context option \<Rightarrow> string option \<Rightarrow> string option \<Rightarrow> nat option \<Rightarrow> 'w berry_world
       \<Rightarrow> ((ret \<times> string option) \<times> 'w berry_world) option" where
  \<open>fc_berry_run_file vm root e ctx path args_json out w =
     (case out of
        None \<Rightarrow> Some ((Err EINVAL, None), w)
      | Some n \<Rightarrow>
          if n = 0 then Some ((Err EINVAL, None), w)
          else let w1 = w\<lparr>bw_berry := fc_berry_record_start (be_start e) path (bw_berry w)\<rparr>
               in case be_build e of
                    BerryDisabled \<Rightarrow>
                      Some (berry_finish e (Err ENOSYS) (snprintf_buf n ''{"ok":false,"error":"Berry support disabled"}'') w1)
                  | build \<Rightarrow>
                      (case fc_berry_resolve_path root path (Some FC_PATH_LEN) of
                         (Err x, _) \<Rightarrow>
                           Some (berry_finish e (Err x) (snprintf_buf n ''{"ok":false,"error":"script path denied"}'') w1)
                       | (OK, full) \<Rightarrow>
                           if build = BerryStub
                           then Some (berry_finish e (Err ENOSYS) (snprintf_buf n
                                  (''{"ok":false,"error":"Berry runner integration disabled",''
                                   @ ''"detail":"direct VM wrapper is blocked after watchdog hang; ''
                                   @ ''enable CONFIG_FRUITCLAW_BERRY_EXPERIMENTAL_RUNNER only for ''
                                   @ ''supervised debugging"}'')) w1)
                           else let host_ctx = (case ctx of Some c \<Rightarrow> c | None \<Rightarrow> zero_context)\<lparr>tc_guarded := True\<rparr>
                                in (case fc_guard_arm (be_cfg e) (be_self e) FC_GUARD_STAGE_BERRY True (be_guard_now e)
                                           (be_guard_rounds e) (be_guard_opened e) (bw_guard w1) of
                                      None \<Rightarrow> None
                                    | Some (Err x, _, g) \<Rightarrow>
                                        Some (berry_finish e (Err x)
                                          (snprintf_buf n (''{"ok":false,"error":"Berry guard unavailable","code":''
                                             @ dec_int (be_code e (Err x)) @ ''}'')) (w1\<lparr>bw_guard := g\<rparr>))
                                    | Some (OK, fd, g) \<Rightarrow>
                                        (case fc_berry_run_worker vm e host_ctx (the full)
                                                (case args_json of Some a \<Rightarrow> a | None \<Rightarrow> ''{}'') n (bw_caps w1) of
                                           ((ret, t), cw) \<Rightarrow>
                                             Some (berry_finish e ret t
                                               (w1\<lparr>bw_caps := cw, bw_guard := snd (fc_guard_disarm (be_cfg e) (be_self e) fd g)\<rparr>))))))\<close>

definition fc_berry_check_file ::
    "(string \<Rightarrow> nat \<Rightarrow> ret \<times> string) \<Rightarrow> string \<Rightarrow> berry_env \<Rightarrow> string option \<Rightarrow> nat option \<Rightarrow> 'w berry_world
       \<Rightarrow> (ret \<times> string option) \<times> 'w berry_world" where
  \<open>fc_berry_check_file check root e path out w =
     (case out of
        None \<Rightarrow> ((Err EINVAL, None), w)
      | Some n \<Rightarrow>
          if n = 0 then ((Err EINVAL, None), w)
          else if be_build e = BerryDisabled
          then berry_finish e (Err ENOSYS) (snprintf_buf n ''{"ok":false,"mode":"syntax","error":"Berry support disabled"}'') w
          else let w1 = w\<lparr>bw_berry := fc_berry_record_start (be_start e) path (bw_berry w)\<rparr>
               in (case fc_berry_resolve_path root path (Some FC_PATH_LEN) of
                     (Err x, _) \<Rightarrow>
                       berry_finish e (Err x) (snprintf_buf n ''{"ok":false,"mode":"syntax","error":"script path denied"}'') w1
                   | (OK, full) \<Rightarrow>
                       if be_build e = BerryStub
                       then berry_finish e (Err ENOSYS)
                              (snprintf_buf n ''{"ok":false,"mode":"syntax","error":"Berry runner integration disabled"}'') w1
                       else (case check (the full) n of (ret, t) \<Rightarrow> berry_finish e ret t w1)))\<close>

definition fc_berry_status_format :: "berry_build \<Rightarrow> (ret \<Rightarrow> int) \<Rightarrow> int \<Rightarrow> nat option \<Rightarrow> berry \<Rightarrow> ret \<times> string option" where
  "fc_berry_status_format build code now out b =
     (case out of
        None \<Rightarrow> (Err EINVAL, None)
      | Some n \<Rightarrow>
          if n = 0 then (Err EINVAL, None)
          else (OK, Some (snprintf_buf n (''berry_status: runner=''
                 @ (case build of BerryExperimental \<Rightarrow> ''experimental'' | BerryStub \<Rightarrow> ''stub'' | BerryDisabled \<Rightarrow> ''disabled'')
                 @ '' calls='' @ dec_nat (unat (g_berry_call_count b)) @ '' failures='' @ dec_nat (unat (g_berry_fail_count b))
                 @ '' last_ret='' @ dec_int (code (g_berry_last_ret b))
                 @ '' last_start_age_ms='' @ dec_int (if g_berry_last_start_ms b > 0 then now - g_berry_last_start_ms b else -1)
                 @ '' last_done_age_ms='' @ dec_int (if g_berry_last_done_ms b > 0 then now - g_berry_last_done_ms b else -1)
                 @ '' last_path='' @ cpy FC_PATH_LEN (if g_berry_last_path b \<noteq> [] then g_berry_last_path b else ''-'')))))"

section \<open>Properties\<close>

text \<open>Inside the directory of the scripts, after lexical resolution.\<close>

definition in_scripts :: "string \<Rightarrow> string \<Rightarrow> bool" where
  "in_scripts root p \<longleftrightarrow> prefix (resolve [] (components (root @ ''/scripts''))) (resolve [] (components p))"

lemma in_scripts_below:
  assumes "\<not> fc_path_has_parent_ref (Some q)"
  shows "in_scripts root (root @ ''/scripts/'' @ q)"
proof -
  have "components (root @ ''/scripts/'' @ q) = components (root @ ''/scripts'') @ components q"
    using components_append_slash [of "root @ ''/scripts''" q] by simp
  then show ?thesis
    using resolve_no_dotdot [OF no_dotdot_component [OF assms], of "resolve [] (components (root @ ''/scripts''))"]
    by (auto simp: in_scripts_def resolve_append)
qed

lemma parent_ref_sublist:
  assumes "\<not> fc_path_has_parent_ref (Some (a @ CHR ''/'' # q))"
  shows "\<not> fc_path_has_parent_ref (Some q)"
proof -
  have sub: "\<not> sublist ''../'' (a @ CHR ''/'' # q)" "\<not> sublist ''/..'' (a @ CHR ''/'' # q)"
    using assms by (auto simp: fc_path_has_parent_ref_def strstr_None_iff)
  have "sublist q (a @ CHR ''/'' # q)" unfolding sublist_def by (rule exI [of _ "a @ ''/''"], rule exI [of _ "[]"]) simp
  moreover have "q \<noteq> ''..''" using sub(2) by (auto simp: sublist_append_rightI)
  ultimately show ?thesis
    using sub by (auto simp: fc_path_has_parent_ref_def strstr_None_iff dest: sublist_order.order_trans)
qed

lemma resolve_path_confined:
  assumes "fc_berry_resolve_path root path full = (OK, p)"
  shows "\<exists>q. p = Some q \<and> in_scripts root q"
proof -
  obtain s n where s: "path = Some s" "full = Some n" "s \<noteq> []" "\<not> fc_path_has_parent_ref (Some s)" "n \<noteq> 0"
    using assms by (auto simp: fc_berry_resolve_path_def split: option.splits if_splits)
  obtain r sr where r: "fc_data_path root (Some ''scripts'') (Some FC_PATH_LEN) = (r, sr)" by fastforce
  have sr: "r = OK" "sr = Some (root @ ''/scripts'')"
    using assms s r by (auto simp: fc_berry_resolve_path_def fc_data_path_def snprintf_buf_def Let_def split: if_splits ret.splits option.splits)
  consider (abs) "hd s = CHR ''/''" | (data) "hd s \<noteq> CHR ''/''" "prefix ''scripts/'' s" | (rel) "hd s \<noteq> CHR ''/''" "\<not> prefix ''scripts/'' s"
    by blast
  then show ?thesis
  proof cases
    case abs
    then obtain rest where rest: "s = root @ ''/scripts'' @ rest" "rest = [] \<or> hd rest = CHR ''/''" "p = Some s"
      using assms s r sr by (auto simp: fc_berry_resolve_path_def Let_def prefix_def fc_strlcpy_def split: if_splits)
    show ?thesis
    proof (cases rest)
      case Nil
      then show ?thesis using rest by (simp add: in_scripts_def)
    next
      case (Cons c q)
      then have "s = (root @ ''/scripts'') @ CHR ''/'' # q" using rest by auto
      then show ?thesis
        using in_scripts_below [OF parent_ref_sublist [of "root @ ''/scripts''" q]] s(4) rest(3) by auto
    qed
  next
    case data
    then obtain q where q: "s = ''scripts'' @ CHR ''/'' # q" by (auto simp: prefix_def)
    then have "p = Some (root @ ''/scripts/'' @ q)"
      using assms s r sr data by (auto simp: fc_berry_resolve_path_def fc_data_path_def snprintf_buf_def Let_def split: if_splits)
    then show ?thesis using in_scripts_below [OF parent_ref_sublist [of "''scripts''" q]] s(4) q by auto
  next
    case rel
    then have "p = Some (root @ ''/scripts/'' @ s)"
      using assms s r sr by (auto simp: fc_berry_resolve_path_def snprintf_buf_def Let_def split: if_splits)
    then show ?thesis using in_scripts_below s(4) by auto
  qed
qed

text \<open>
  C22. The interpreter only ever sees files of the scripts directory: two interpreters that agree on the paths inside
  it (after resolving every \<open>..\<close>) are indistinguishable, whatever path, arguments and context a run is asked for.
\<close>

theorem berry_confined:
  assumes "\<And>hc p args n cw. in_scripts root p \<Longrightarrow> vm hc p args n cw = vm' hc p args n cw"
  shows "fc_berry_run_file vm root e ctx path args_json out w = fc_berry_run_file vm' root e ctx path args_json out w"
proof -
  obtain r p where p: "fc_berry_resolve_path root path (Some FC_PATH_LEN) = (r, p)" by fastforce
  have "fc_berry_run_worker vm e c (the p) args n cw = fc_berry_run_worker vm' e c (the p) args n cw" if "r = OK" for c args n cw
    using resolve_path_confined [of root path "Some FC_PATH_LEN" p] p that assms
    by (auto simp: fc_berry_run_worker_def split: option.splits)
  then show ?thesis
    using p by (auto simp: fc_berry_run_file_def Let_def split: option.splits berry_build.splits ret.splits prod.splits)
qed

definition demo_berry_env :: berry_env where
  "demo_berry_env = \<lparr>be_build = BerryExperimental, be_start = 1, be_done = 2, be_tool_clk = (1, 1, 2), be_cfg = demo_cfg,
     be_self = 1, be_guard_now = 1, be_guard_rounds = [(1, 1, id)], be_guard_opened = Inr 3, be_created = None, be_code = (\<lambda>_. -1)\<rparr>"

definition demo_vm :: "unit berry_vm" where
  "demo_vm hc p args n cw = ((OK, p), cw)"

definition demo_berry_world :: "unit berry_world" where
  "demo_berry_world = \<lparr>bw_berry = zero_berry, bw_guard = zero_guard blank_hw,
     bw_caps = \<lparr>cw_registry = zero_registry, cw_progress = zero_progress, cw_state = ()\<rparr>\<rparr>"

theorem berry_confined_witness:
  "fc_berry_resolve_path ''/d'' (Some ''a.be'') (Some FC_PATH_LEN) = (OK, Some ''/d/scripts/a.be'')
   \<and> fc_berry_resolve_path ''/d'' (Some ''/d/secrets/a.be'') (Some FC_PATH_LEN) = (Err EACCES, None)
   \<and> fc_berry_run_file demo_vm ''/d'' demo_berry_env None (Some ''a.be'') None (Some 64) demo_berry_world
     = fc_berry_run_file (\<lambda>hc p args n cw. if in_scripts ''/d'' p then demo_vm hc p args n cw else ((Err EACCES, []), cw))
         ''/d'' demo_berry_env None (Some ''a.be'') None (Some 64) demo_berry_world"
proof -
  have "fc_berry_resolve_path ''/d'' (Some ''a.be'') (Some FC_PATH_LEN) = (OK, Some ''/d/scripts/a.be'')"
    "fc_berry_resolve_path ''/d'' (Some ''/d/secrets/a.be'') (Some FC_PATH_LEN) = (Err EACCES, None)" by code_simp+
  moreover have "fc_berry_run_file demo_vm ''/d'' demo_berry_env None (Some ''a.be'') None (Some 64) demo_berry_world
     = fc_berry_run_file (\<lambda>hc p args n cw. if in_scripts ''/d'' p then demo_vm hc p args n cw else ((Err EACCES, []), cw))
         ''/d'' demo_berry_env None (Some ''a.be'') None (Some 64) demo_berry_world"
    by (rule berry_confined) simp
  ultimately show ?thesis by blast
qed

end
