(* ===== verification/FC_Web.thy ===== *)
theory FC_Web
  imports FC_Guard_Props FC_Files
begin

text \<open>
  The home page of \<^verbatim>\<open>net/fc_web.c\<close>: reading and writing the file behind it, and the handler of the web
  server.  \<open>root\<close> is the value of \<^verbatim>\<open>fc_data_dir()\<close>.
\<close>

section \<open>Operations\<close>

definition CONFIG_FRUITCLAW_WEB_HOME_MAX_BYTES :: nat where "CONFIG_FRUITCLAW_WEB_HOME_MAX_BYTES = 4096"

definition FC_WEB_HOME_LEAF :: string where "FC_WEB_HOME_LEAF = ''www/home.md''"

definition g_default_home :: string where
  "g_default_home = ''# FruitClaw'' @ [LF, LF]
     @ ''FruitClaw is running on this Adafruit Fruit Jam RP2350.'' @ [LF, LF]
     @ ''- Open `/docs/` for the full manual.'' @ [LF]
     @ ''- Use MCP at `/mcp` for tool calls.'' @ [LF]
     @ ''- Update this page with the `web.home.write` tool or by editing ''
     @ ''`www/home.md` under the active FruitClaw data root.'' @ [LF]"

definition fc_web_home_path :: "string \<Rightarrow> nat option \<Rightarrow> ret \<times> string option" where
  "fc_web_home_path root out = fc_data_path root (Some FC_WEB_HOME_LEAF) out"

text \<open>The last component of the result is what \<^verbatim>\<open>*custom\<close> is set to.\<close>

definition fc_web_home_read :: "string \<Rightarrow> nat option \<Rightarrow> posix_fs \<Rightarrow> (ret \<times> string option \<times> bool) \<times> posix_fs" where
  "fc_web_home_read root out fs =
     (case out of
        None \<Rightarrow> ((Err EINVAL, None, False), fs)
      | Some n \<Rightarrow>
          if n = 0 then ((Err EINVAL, None, False), fs)
          else case fc_web_home_path root (Some FC_PATH_LEN) of
                 (OK, path) \<Rightarrow>
                   (case fc_read_text_file path out False fs of
                      ((OK, t), fs1) \<Rightarrow> ((OK, t, True), fs1)
                    | (_, fs1) \<Rightarrow> ((OK, Some (cpy n g_default_home), False), fs1))
               | _ \<Rightarrow> ((OK, Some (cpy n g_default_home), False), fs))"

definition fc_web_home_write :: "string \<Rightarrow> string option \<Rightarrow> posix_fs \<Rightarrow> ret \<times> posix_fs" where
  "fc_web_home_write root markdown fs =
     (case markdown of
        None \<Rightarrow> (Err EINVAL, fs)
      | Some md \<Rightarrow>
          if length md > CONFIG_FRUITCLAW_WEB_HOME_MAX_BYTES then (Err EFBIG, fs)
          else case fc_data_path root (Some ''www'') (Some FC_PATH_LEN) of
                 (Err e, _) \<Rightarrow> (Err e, fs)
               | (OK, dir) \<Rightarrow>
                   (case fc_mkdir_p dir fs of
                      (Err e, fs1) \<Rightarrow> (Err e, fs1)
                    | (OK, fs1) \<Rightarrow>
                        (case fc_web_home_path root (Some FC_PATH_LEN) of
                           (Err e, _) \<Rightarrow> (Err e, fs1)
                         | (OK, path) \<Rightarrow> fc_write_text_file_atomic path markdown fs1)))"

text \<open>The methods the web server tells apart, and what a handler answers.\<close>

datatype httpd_method = HTTPD_METHOD_GET | HTTPD_METHOD_POST | HTTPD_METHOD_OPTIONS | HTTPD_METHOD_DELETE | HTTPD_METHOD_OTHER

record httpd_response =
  hr_status :: int
  hr_type :: string
  hr_headers :: string
  hr_body :: "string option"

abbreviation CRLF :: string where "CRLF \<equiv> [CHR 0x0D, LF]"

definition home_headers :: string where
  "home_headers = ''Allow: GET, OPTIONS'' @ CRLF @ ''Cache-Control: no-cache'' @ CRLF"

definition plain_response :: "int \<Rightarrow> string \<Rightarrow> string option \<Rightarrow> httpd_response" where
  "plain_response status headers body = \<lparr>hr_status = status, hr_type = ''text/plain'', hr_headers = headers, hr_body = body\<rparr>"

definition fc_web_home_http_handler ::
    "string \<Rightarrow> int \<Rightarrow> httpd_method \<Rightarrow> guard \<times> posix_fs \<Rightarrow> httpd_response \<times> guard \<times> posix_fs" where
  "fc_web_home_http_handler root now meth w =
     (case w of (g, fs) \<Rightarrow>
        let g1 = fc_guard_session_heartbeat now (Some ''web-home'') g
        in if meth = HTTPD_METHOD_OPTIONS then (plain_response 204 home_headers None, g1, fs)
           else if meth \<noteq> HTTPD_METHOD_GET then (plain_response 405 home_headers None, g1, fs)
           else case fc_web_home_read root (Some (CONFIG_FRUITCLAW_WEB_HOME_MAX_BYTES + 1)) fs of
                  ((Err _, _, _), fs1) \<Rightarrow> (plain_response 500 home_headers (Some (''home read failed'' @ [LF])), g1, fs1)
                | ((OK, body, _), fs1) \<Rightarrow>
                    (\<lparr>hr_status = 200, hr_type = ''text/markdown; charset=utf-8'', hr_headers = home_headers, hr_body = body\<rparr>, g1, fs1))"

text \<open>The flag is \<^verbatim>\<open>g_web_registered\<close>; the second result tells whether the handler is registered now.\<close>

definition fc_web_register_http :: "bool \<Rightarrow> bool \<Rightarrow> (ret \<times> bool) \<times> bool" where
  "fc_web_register_http cgi_paths registered =
     (if \<not> cgi_paths then ((OK, False), registered)
      else if registered then ((OK, False), True) else ((OK, True), True))"

section \<open>Properties\<close>

lemma web_home_write_OK:
  assumes "fc_web_home_write root (Some md) fs = (OK, fs1)"
  obtains fs0 p where "length md \<le> CONFIG_FRUITCLAW_WEB_HOME_MAX_BYTES" "fc_web_home_path root (Some FC_PATH_LEN) = (OK, Some p)"
    "fc_write_text_file_atomic (Some p) (Some md) fs0 = (OK, fs1)"
proof -
  obtain fs0 pth where p: "length md \<le> CONFIG_FRUITCLAW_WEB_HOME_MAX_BYTES" "fc_web_home_path root (Some FC_PATH_LEN) = (OK, pth)"
      "fc_write_text_file_atomic pth (Some md) fs0 = (OK, fs1)"
    using assms by (auto simp: fc_web_home_write_def split: if_splits prod.splits ret.splits)
  moreover from p(3) obtain q where "pth = Some q" by (cases pth) (auto simp: fc_write_text_file_atomic_def)
  ultimately show thesis using that by blast
qed

text \<open>
  C30. A page that was written is served: after a successful write the handler answers a GET with status 200 and the
  page itself, for every page the write accepts.
\<close>

theorem web_home_roundtrip:
  assumes "fc_web_home_write root (Some md) fs = (OK, fs1)" "no_faults fs1" "NUL \<notin> set md"
  shows "fst (fc_web_home_http_handler root now HTTPD_METHOD_GET (g, fs1))
           = \<lparr>hr_status = 200, hr_type = ''text/markdown; charset=utf-8'', hr_headers = home_headers, hr_body = Some md\<rparr>"
proof -
  obtain fs0 p where p: "length md \<le> CONFIG_FRUITCLAW_WEB_HOME_MAX_BYTES" "fc_web_home_path root (Some FC_PATH_LEN) = (OK, Some p)"
      "fc_write_text_file_atomic (Some p) (Some md) fs0 = (OK, fs1)"
    using web_home_write_OK [OF assms(1)] .
  have "fst (fc_read_text_file (Some p) (Some (CONFIG_FRUITCLAW_WEB_HOME_MAX_BYTES + 1)) False fs1) = (OK, Some md)"
    using write_then_read [OF p(3) assms(2,3)] p(1) by simp
  then show ?thesis
    using p(2) by (auto simp: fc_web_home_http_handler_def fc_web_home_read_def Let_def split: prod.splits)
qed

theorem web_home_roundtrip_witness:
  "\<exists>fs1. fc_web_home_write ''/d'' (Some ''# Hi'')
        \<lparr>fs_files = Map.empty, fs_dirs = [''/d/www'', ''/d'', ''/''], fs_script = [], fs_off = False\<rparr> = (OK, fs1)
     \<and> hr_body (fst (fc_web_home_http_handler ''/d'' 5 HTTPD_METHOD_GET (zero_guard blank_hw, fs1))) = Some ''# Hi''"
proof -
  let ?fs = "\<lparr>fs_files = Map.empty, fs_dirs = [''/d/www'', ''/d'', ''/''], fs_script = [], fs_off = False\<rparr>"
  let ?fs1 = "?fs\<lparr>fs_files := [''/d/www/home.md'' \<mapsto> ''# Hi'']\<rparr>"
  have p: "fc_data_path ''/d'' (Some ''www'') (Some FC_PATH_LEN) = (OK, Some ''/d/www'')"
    "fc_web_home_path ''/d'' (Some FC_PATH_LEN) = (OK, Some ''/d/www/home.md'')" by code_simp+
  have m: "fc_mkdir_p (Some ''/d/www'') ?fs = (OK, ?fs)"
    by (simp add: fc_mkdir_p_def FC_PATH_LEN_def mkdir_one_def fc_mkdir_skip_mount_root_def sys_mkdir_def fs_call_def fs_next_def dir_present_def)
  have "fc_write_text_file_atomic (Some ''/d/www/home.md'') (Some ''# Hi'') ?fs = (OK, ?fs1)"
    by (simp add: fc_write_text_file_atomic_def FC_PATH_LEN_def sys_open_trunc_def fs_call_def
        fs_next_def dir_present_def parent_dir_def sys_write_def sys_rename_def fun_eq_iff)
  then have w: "fc_web_home_write ''/d'' (Some ''# Hi'') ?fs = (OK, ?fs1)"
    by (simp add: fc_web_home_write_def CONFIG_FRUITCLAW_WEB_HOME_MAX_BYTES_def p m)
  have "no_faults ?fs1" by (simp add: no_faults_def)
  then show ?thesis using w web_home_roundtrip [OF w, of 5 "zero_guard blank_hw"] by simp
qed

end
