(* ===== verification/FC_Mcp.thy ===== *)
theory FC_Mcp
  imports FC_Cap_Props FC_Tg_Notify FC_Guard_Props FC_Web
begin

text \<open>
  The MCP server of \<^verbatim>\<open>net/fc_mcp.c\<close>: JSON-RPC requests that list and call tools, the guard around a call, the
  notifications to the owner, and the handler of the web server.
\<close>

section \<open>State\<close>

definition CONFIG_FRUITCLAW_MCP_NOTIFY_STATUS_INTERVAL_MS :: int where "CONFIG_FRUITCLAW_MCP_NOTIFY_STATUS_INTERVAL_MS = 300000"
definition CONFIG_FRUITCLAW_MCP_NOTIFY_TOOL_INTERVAL_MS :: int where "CONFIG_FRUITCLAW_MCP_NOTIFY_TOOL_INTERVAL_MS = 10000"
definition FC_GUARD_STAGE_MCP :: u32 where "FC_GUARD_STAGE_MCP = 0x46434d43"

datatype mcp_dispatch = FC_MCP_DISPATCH_RESPONSE | FC_MCP_DISPATCH_NOTIFICATION_ACCEPTED | FC_MCP_DISPATCH_HTTP_ERROR

record mcp =
  g_mcp_registered :: bool
  g_mcp_request_count :: u32
  g_mcp_failure_count :: u32
  g_mcp_notification_count :: u32
  g_mcp_notification_suppressed_count :: u32
  g_mcp_tool_call_count :: u32
  g_mcp_tool_failure_count :: u32
  g_mcp_status_notify_ms :: int
  g_mcp_tool_notify_ms :: int
  g_mcp_activity_ms :: int
  g_mcp_last_ms :: int
  g_mcp_last_ret :: ret
  g_mcp_last_http_status :: int
  g_mcp_last_dispatch_status :: mcp_dispatch
  g_mcp_last_method :: string
  g_mcp_last_tool :: string

definition zero_mcp :: mcp where
  "zero_mcp = \<lparr>g_mcp_registered = False, g_mcp_request_count = 0, g_mcp_failure_count = 0, g_mcp_notification_count = 0,
     g_mcp_notification_suppressed_count = 0, g_mcp_tool_call_count = 0, g_mcp_tool_failure_count = 0, g_mcp_status_notify_ms = 0,
     g_mcp_tool_notify_ms = 0, g_mcp_activity_ms = 0, g_mcp_last_ms = 0, g_mcp_last_ret = OK, g_mcp_last_http_status = 0,
     g_mcp_last_dispatch_status = FC_MCP_DISPATCH_RESPONSE, g_mcp_last_method = [], g_mcp_last_tool = []\<rparr>"

section \<open>Counters and notifications\<close>

definition fc_mcp_mark_activity :: "int \<Rightarrow> mcp \<Rightarrow> mcp" where
  "fc_mcp_mark_activity now m = m\<lparr>g_mcp_activity_ms := now\<rparr>"

definition fc_mcp_record_dispatch ::
    "int \<Rightarrow> int \<Rightarrow> string option \<Rightarrow> ret \<Rightarrow> mcp_dispatch \<Rightarrow> int \<Rightarrow> bool \<Rightarrow> mcp \<times> progress \<Rightarrow> mcp \<times> progress" where
  "fc_mcp_record_dispatch now mark method ret dispatch_status http_status rpc_error mp =
     (case mp of (m, p) \<Rightarrow>
        (m\<lparr>g_mcp_request_count := g_mcp_request_count m + 1,
           g_mcp_failure_count := (if ret_neg ret \<or> http_status \<ge> 400 \<or> rpc_error then g_mcp_failure_count m + 1 else g_mcp_failure_count m),
           g_mcp_notification_count := (if dispatch_status = FC_MCP_DISPATCH_NOTIFICATION_ACCEPTED
                                        then g_mcp_notification_count m + 1 else g_mcp_notification_count m),
           g_mcp_last_ms := now, g_mcp_last_ret := ret, g_mcp_last_http_status := http_status,
           g_mcp_last_dispatch_status := dispatch_status,
           g_mcp_last_method := cpy 64 (case method of Some s \<Rightarrow> s | None \<Rightarrow> ''-'')\<rparr>,
         if \<not> ret_neg ret \<and> http_status < 500 then fc_operator_progress_mark mark (Some ''mcp'') p else p))"

definition fc_mcp_record_tool :: "string option \<Rightarrow> ret \<Rightarrow> mcp \<Rightarrow> mcp" where
  "fc_mcp_record_tool name ret m =
     m\<lparr>g_mcp_tool_call_count := g_mcp_tool_call_count m + 1,
       g_mcp_tool_failure_count := (if ret_neg ret then g_mcp_tool_failure_count m + 1 else g_mcp_tool_failure_count m),
       g_mcp_last_tool := cpy FC_TOOL_NAME_LEN (case name of Some s \<Rightarrow> s | None \<Rightarrow> ''-'')\<rparr>"

definition fc_mcp_clear_status :: "mcp \<Rightarrow> mcp" where
  "fc_mcp_clear_status m = zero_mcp\<lparr>g_mcp_registered := g_mcp_registered m\<rparr>"

definition suppress :: "mcp \<Rightarrow> mcp" where
  "suppress m = m\<lparr>g_mcp_notification_suppressed_count := g_mcp_notification_suppressed_count m + 1\<rparr>"

definition fc_mcp_should_notify_tool_call :: "int \<Rightarrow> string option \<Rightarrow> ret \<Rightarrow> mcp \<Rightarrow> bool \<times> mcp" where
  "fc_mcp_should_notify_tool_call now name ret m =
     (case name of
        None \<Rightarrow> (False, m)
      | Some s \<Rightarrow>
          let status = (s = ''system.status'');
              min_interval = (if \<not> ret_neg ret \<and> status then CONFIG_FRUITCLAW_MCP_NOTIFY_STATUS_INTERVAL_MS
                              else CONFIG_FRUITCLAW_MCP_NOTIFY_TOOL_INTERVAL_MS);
              last = (if status then g_mcp_status_notify_ms m else g_mcp_tool_notify_ms m);
              notify = \<not> (min_interval \<le> 0 \<or> last > 0 \<and> now - last < min_interval)
          in if notify
             then (True, if status then m\<lparr>g_mcp_status_notify_ms := now\<rparr> else m\<lparr>g_mcp_tool_notify_ms := now\<rparr>)
             else (False, suppress m))"

definition fc_mcp_notify_tool_call ::
    "bool \<Rightarrow> int \<Rightarrow> errno option \<Rightarrow> (ret \<Rightarrow> int) \<Rightarrow> string option \<Rightarrow> ret \<Rightarrow> mcp \<times> tg_notify \<Rightarrow> mcp \<times> tg_notify" where
  "fc_mcp_notify_tool_call telegram_on now created code name ret mn =
     (case mn of (m, n) \<Rightarrow>
        if \<not> telegram_on \<or> \<not> g_mcp_registered m \<or> name = None then (m, n)
        else case fc_mcp_should_notify_tool_call now name ret m of
               (False, m1) \<Rightarrow> (m1, n)
             | (True, m1) \<Rightarrow>
                 (let t = snprintf_buf 160 (''FruitClaw MCP tool call: '' @ the name
                            @ (if ret_neg ret then '' -> error ('' @ dec_int (code ret) @ '')'' else '' -> ok''))
                  in case fc_telegram_notify_owner_async created (Some t) n of
                       (r, n1) \<Rightarrow> (if ret_neg r then suppress m1 else m1, n1)))"

section \<open>Answers\<close>

definition fc_mcp_copy_json :: "'j cjson \<Rightarrow> 'j option \<Rightarrow> nat option \<Rightarrow> ret \<times> string option" where
  "fc_mcp_copy_json cj rt out =
     (case (rt, out) of
        (Some x, Some n) \<Rightarrow>
          if n = 0 then (Err EINVAL, None)
          else print_to cj n x
      | _ \<Rightarrow> (Err EINVAL, None))"

definition fc_mcp_add_id :: "'j cjson \<Rightarrow> 'j \<Rightarrow> 'j option \<Rightarrow> 'j" where
  "fc_mcp_add_id cj resp i =
     (case i of
        None \<Rightarrow> cj_add_null cj resp ''id''
      | Some x \<Rightarrow> (case cj_dup cj x of None \<Rightarrow> cj_add_null cj resp ''id'' | Some y \<Rightarrow> cj_add_child cj resp ''id'' y))"

text \<open>The object a response or an error starts from; the numbers tell the allocations apart.\<close>

definition rpc_head :: "'j cjson \<Rightarrow> 'j \<Rightarrow> 'j option \<Rightarrow> 'j" where
  "rpc_head cj resp i = fc_mcp_add_id cj (cj_add_string cj resp ''jsonrpc'' ''2.0'') i"

definition fc_mcp_error :: "'j cjson \<Rightarrow> 'j option \<Rightarrow> int \<Rightarrow> string option \<Rightarrow> nat option \<Rightarrow> ret \<times> string option" where
  "fc_mcp_error cj i code message out =
     (case (cj_object cj 1000, cj_object cj 1001) of
        (Some resp, Some err) \<Rightarrow>
          fc_mcp_copy_json cj
            (Some (cj_add_child cj (rpc_head cj resp i) ''error''
               (cj_add_string cj (cj_add_number cj err ''code'' code) ''message'' (case message of Some s \<Rightarrow> s | None \<Rightarrow> ''error'')))) out
      | _ \<Rightarrow> (Err ENOMEM, None))"

text \<open>With the flag \<^verbatim>\<open>rpc_error\<close> as the last component.\<close>

type_synonym answer = "(ret \<times> string option) \<times> bool"

definition fc_mcp_error_mark :: "'j cjson \<Rightarrow> 'j option \<Rightarrow> int \<Rightarrow> string \<Rightarrow> nat option \<Rightarrow> answer" where
  "fc_mcp_error_mark cj i code message out = (fc_mcp_error cj i code (Some message) out, True)"

definition fc_mcp_response :: "'j cjson \<Rightarrow> 'j option \<Rightarrow> 'j option \<Rightarrow> nat option \<Rightarrow> ret \<times> string option" where
  "fc_mcp_response cj i result out =
     (case (cj_object cj 1002, result) of
        (Some resp, Some r) \<Rightarrow> fc_mcp_copy_json cj (Some (cj_add_child cj (rpc_head cj resp i) ''result'' r)) out
      | _ \<Rightarrow> (Err ENOMEM, None))"

definition fc_mcp_initialize_result :: "'j cjson \<Rightarrow> 'j option" where
  "fc_mcp_initialize_result cj =
     (case (cj_object cj 1003, cj_object cj 1004, cj_object cj 1005, cj_object cj 1006) of
        (Some result, Some caps, Some tools, Some info) \<Rightarrow>
          Some (cj_add_child cj
            (cj_add_child cj (cj_add_string cj result ''protocolVersion'' ''2025-11-25'')
               ''capabilities'' (cj_add_child cj caps ''tools'' (cj_add_bool cj tools ''listChanged'' False)))
            ''serverInfo'' (cj_add_string cj (cj_add_string cj info ''name'' ''fruitclaw'') ''version'' ''0.1.0''))
      | _ \<Rightarrow> None)"

definition fc_mcp_tools_list :: "'j cjson \<Rightarrow> bool \<Rightarrow> 'j option \<Rightarrow> nat option \<Rightarrow> 'w registry \<Rightarrow> answer" where
  "fc_mcp_tools_list cj calloc_ok i out r =
     (if \<not> calloc_ok then ((Err ENOMEM, None), False)
      else case fc_cap_build_mcp_tools_json cj (Some CONFIG_FRUITCLAW_MCP_MAX_RESPONSE) True r of
             (Err _, _) \<Rightarrow> fc_mcp_error_mark cj i (-32603) ''tools/list failed'' out
           | (OK, tools_json) \<Rightarrow>
               (case cj_parse cj (the tools_json) of
                  None \<Rightarrow> fc_mcp_error_mark cj i (-32603) ''tools/list invalid'' out
                | Some result \<Rightarrow> (fc_mcp_response cj i (Some result) out, False)))"

section \<open>Calling a tool\<close>

definition fc_mcp_tool_has_own_guard :: "string option \<Rightarrow> bool" where
  "fc_mcp_tool_has_own_guard name \<longleftrightarrow>
     name = Some ''terminal.run'' \<or> name = Some ''berry.run_script'' \<or> name = Some ''neopixels.set'' \<or> name = Some ''neopixels.off''
     \<or> name = Some ''neopixels.effect'' \<or> name = Some ''file.write_limited'' \<or> name = Some ''script.remove'' \<or> name = Some ''device.write''
     \<or> name = Some ''scheduler.add'' \<or> name = Some ''scheduler.remove'' \<or> name = Some ''http.request''"

definition fc_mcp_tool_needs_outer_guard :: "string option \<Rightarrow> bool" where
  "fc_mcp_tool_needs_outer_guard name \<longleftrightarrow>
     name = Some ''device.read'' \<or> name = Some ''device.write'' \<or> name = Some ''file.write_limited'' \<or> name = Some ''script.remove''
     \<or> name = Some ''scheduler.add'' \<or> name = Some ''scheduler.remove'' \<or> name = Some ''terminal.run'' \<or> name = Some ''berry.run_script''
     \<or> name = Some ''neopixels.set'' \<or> name = Some ''neopixels.off'' \<or> name = Some ''neopixels.effect'' \<or> name = Some ''http.request''"

record 'w mcp_world =
  mw_mcp :: mcp
  mw_guard :: guard
  mw_notify :: tg_notify
  mw_caps :: "'w cap_world"

text \<open>
  The environment of a request: the build options (\<^verbatim>\<open>YOLO_MODE\<close> and Telegram), the allocations, what the guard
  meets, the clocks, the start of the notification thread, and how a return code prints.
\<close>

record mcp_env =
  me_yolo :: bool
  me_telegram :: bool
  me_calloc_copy :: bool
  me_calloc_tools :: bool
  me_calloc_args :: bool
  me_calloc_out :: bool
  me_cfg :: guard_cfg
  me_self :: nat
  me_guard_now :: int
  me_guard_rounds :: "begin_round list"
  me_guard_opened :: "errno + int"
  me_tool_clk :: "int \<times> int \<times> int"
  me_notify_now :: int
  me_notify_created :: "errno option"
  me_now :: int
  me_mark :: int
  me_code :: "ret \<Rightarrow> int"

definition fc_mcp_execute_tool_on_worker ::
    "int \<times> int \<times> int \<Rightarrow> fc_tool_context option \<Rightarrow> string option \<Rightarrow> string option \<Rightarrow> nat option \<Rightarrow> 'w cap_world
       \<Rightarrow> (ret \<times> string option) \<times> 'w cap_world" where
  "fc_mcp_execute_tool_on_worker clk ctx name args out w =
     (if ctx = None \<or> name = None \<or> args = None \<or> out = None \<or> out = Some 0 then ((Err EINVAL, None), w)
      else fc_cap_execute_ctx clk ctx name args out w)"

definition mcp_call_context :: "bool \<Rightarrow> fc_tool_context option \<Rightarrow> fc_tool_context" where
  "mcp_call_context yolo ctx =
     (let c = (case ctx of Some x \<Rightarrow> x | None \<Rightarrow> zero_context)
                \<lparr>tc_source := cpy FC_SOURCE_LEN ''mcp'', tc_channel := cpy FC_CHANNEL_LEN ''mcp''\<rparr>;
          c1 = (if tc_session_id c = [] then c\<lparr>tc_session_id := cpy FC_SESSION_ID_LEN ''mcp''\<rparr> else c)
      in if yolo then c1\<lparr>tc_owner_mode := True\<rparr> else c1)"

text \<open>The part from the look-up of the tool to the record of the call: return code, output, world.\<close>

definition mcp_run_tool ::
    "mcp_env \<Rightarrow> string \<Rightarrow> string \<Rightarrow> fc_tool_context \<Rightarrow> 'w mcp_world \<Rightarrow> ((ret \<times> string) \<times> 'w mcp_world) option" where
  \<open>mcp_run_tool e name args ctx w =
     (let cap = fc_cap_find (Some name) (cw_registry (mw_caps w));
          go = (\<lambda>c fd g. case fc_mcp_execute_tool_on_worker (me_tool_clk e) (Some c) (Some name) (Some args)
                               (Some CONFIG_FRUITCLAW_MAX_JSON) (mw_caps w) of
                  ((ret, t), cw) \<Rightarrow>
                    ((ret, case t of Some x \<Rightarrow> x | None \<Rightarrow> []),
                     w\<lparr>mw_caps := cw, mw_guard := snd (fc_guard_disarm (me_cfg e) (me_self e) fd g),
                       mw_mcp := fc_mcp_record_tool (Some name) ret (mw_mcp w)\<rparr>))
      in if (case cap of None \<Rightarrow> False | Some c \<Rightarrow> requires_confirmation c \<or> fc_mcp_tool_needs_outer_guard (Some name))
            \<and> \<not> fc_mcp_tool_has_own_guard (Some name)
         then (case fc_guard_arm (me_cfg e) (me_self e) FC_GUARD_STAGE_MCP True (me_guard_now e) (me_guard_rounds e)
                      (me_guard_opened e) (mw_guard w) of
                 None \<Rightarrow> None
               | Some (Err x, _, g) \<Rightarrow>
                   Some ((Err x, snprintf_buf CONFIG_FRUITCLAW_MAX_JSON (''{"ok":false,"error":"mcp guard unavailable","code":''
                            @ dec_int (me_code e (Err x)) @ ''}'')),
                         w\<lparr>mw_guard := g, mw_mcp := fc_mcp_record_tool (Some name) (Err x) (mw_mcp w)\<rparr>)
               | Some (OK, fd, g) \<Rightarrow> Some (go (ctx\<lparr>tc_guarded := True\<rparr>) fd g))
         else Some (go ctx (-1) (mw_guard w)))\<close>

definition mcp_tool_result :: "'j cjson \<Rightarrow> ret \<Rightarrow> string \<Rightarrow> 'j option" where
  "mcp_tool_result cj ret tool_out =
     (case (cj_object cj 1007, cj_array cj, cj_object cj 1008) of
        (Some result, Some content, Some txt) \<Rightarrow>
          let r = cj_add_bool cj
                    (cj_add_child cj result ''content''
                       (cj_add_item cj content (cj_add_string cj (cj_add_string cj txt ''type'' ''text'') ''text'' tool_out)))
                    ''isError'' (ret_neg ret)
          in Some (case cj_parse cj tool_out of None \<Rightarrow> r | Some s \<Rightarrow> cj_add_child cj r ''structuredContent'' s)
      | _ \<Rightarrow> None)"

definition fc_mcp_tools_call ::
    "'j cjson \<Rightarrow> mcp_env \<Rightarrow> 'j option \<Rightarrow> 'j option \<Rightarrow> nat option \<Rightarrow> fc_tool_context option \<Rightarrow> 'w mcp_world
       \<Rightarrow> (answer \<times> 'w mcp_world) option" where
  "fc_mcp_tools_call cj e i params out ctx w =
     (if \<not> cj_is_object cj params then Some (fc_mcp_error_mark cj i (-32602) ''invalid params'' out, w)
      else let name = cj_string cj (cj_get cj (the params) ''name''); arguments = cj_get cj (the params) ''arguments''
           in if name = None \<or> arguments \<noteq> None \<and> \<not> cj_is_object cj arguments
              then Some (fc_mcp_error_mark cj i (-32602) ''invalid tool call'' out, w)
              else let args = (case arguments of None \<Rightarrow> if me_calloc_args e then Some ''{}'' else None | Some a \<Rightarrow> cj_print cj a)
                   in if args = None \<or> \<not> me_calloc_out e then Some (((Err ENOMEM, None), False), w)
                      else map_option (\<lambda>((ret, tool_out), w1).
                          let mn = fc_mcp_notify_tool_call (me_telegram e) (me_notify_now e) (me_notify_created e) (me_code e) name ret
                                     (mw_mcp w1, mw_notify w1);
                              w2 = w1\<lparr>mw_mcp := fst mn, mw_notify := snd mn\<rparr>
                          in case mcp_tool_result cj ret tool_out of
                               None \<Rightarrow> (((Err ENOMEM, None), False), w2)
                             | Some result \<Rightarrow> ((fc_mcp_response cj i (Some result) out, False), w2))
                        (mcp_run_tool e (the name) (the args) (mcp_call_context (me_yolo e) ctx) w))"

section \<open>Dispatch\<close>

definition mcp_method ::
    "'j cjson \<Rightarrow> mcp_env \<Rightarrow> 'j \<Rightarrow> 'j option \<Rightarrow> string \<Rightarrow> nat option \<Rightarrow> fc_tool_context option \<Rightarrow> 'w mcp_world
       \<Rightarrow> (answer \<times> 'w mcp_world) option" where
  "mcp_method cj e rt i method out ctx w =
     (if method = ''initialize'' then Some ((fc_mcp_response cj i (fc_mcp_initialize_result cj) out, False), w)
      else if method = ''notifications/initialized'' then Some ((fc_mcp_response cj i (cj_object cj 1009) out, False), w)
      else if method = ''ping'' then Some ((fc_mcp_response cj i (cj_object cj 1010) out, False), w)
      else if method = ''tools/list'' then Some (fc_mcp_tools_list cj (me_calloc_tools e) i out (cw_registry (mw_caps w)), w)
      else if method = ''tools/call'' then fc_mcp_tools_call cj e i (cj_get cj rt ''params'') out ctx w
      else Some (fc_mcp_error_mark cj i (-32601) ''method not found'' out, w))"

text \<open>What a parsed request leads to: the method, the answer, the two status values and the world.\<close>

definition mcp_request ::
    "'j cjson \<Rightarrow> mcp_env \<Rightarrow> 'j \<Rightarrow> nat option \<Rightarrow> fc_tool_context option \<Rightarrow> 'w mcp_world
       \<Rightarrow> (string option \<times> answer \<times> (mcp_dispatch \<times> int) \<times> 'w mcp_world) option" where
  "mcp_request cj e rt out ctx w =
     (let reply = (\<lambda>m a. Some (m, a, (FC_MCP_DISPATCH_RESPONSE, 200), w))
      in if cj_is_array cj (Some rt) then reply None (fc_mcp_error_mark cj None (-32600) ''batch unsupported'' out)
         else if \<not> cj_is_object cj (Some rt) \<or> cj_string cj (cj_get cj rt ''jsonrpc'') \<noteq> Some ''2.0''
         then reply None (fc_mcp_error_mark cj None (-32600) ''invalid request'' out)
         else let i = cj_get cj rt ''id''
              in case cj_string cj (cj_get cj rt ''method'') of
                   None \<Rightarrow> reply None (fc_mcp_error_mark cj i (-32600) ''missing method'' out)
                 | Some method \<Rightarrow>
                     if i = None
                     then (if method = ''notifications/initialized''
                           then Some (Some method, ((OK, Some []), False), (FC_MCP_DISPATCH_NOTIFICATION_ACCEPTED, 202), w)
                           else reply (Some method) (fc_mcp_error_mark cj None (-32600) ''notifications unsupported'' out))
                     else map_option (\<lambda>(a, w1). (Some method, a, (FC_MCP_DISPATCH_RESPONSE, 200), w1))
                            (mcp_method cj e rt i method out ctx w))"

definition record_in_world ::
    "mcp_env \<Rightarrow> string option \<Rightarrow> answer \<Rightarrow> mcp_dispatch \<times> int \<Rightarrow> 'w mcp_world \<Rightarrow> 'w mcp_world" where
  "record_in_world e method a st w =
     (case fc_mcp_record_dispatch (me_now e) (me_mark e) method (fst (fst a)) (fst st) (snd st) (snd a)
             (mw_mcp w, cw_progress (mw_caps w)) of
        (m, p) \<Rightarrow> w\<lparr>mw_mcp := m, mw_caps := (mw_caps w)\<lparr>cw_progress := p\<rparr>\<rparr>)"

definition fc_mcp_jsonrpc_dispatch ::
    "'j cjson \<Rightarrow> mcp_env \<Rightarrow> string option \<Rightarrow> nat option \<Rightarrow> fc_tool_context option \<Rightarrow> 'w mcp_world
       \<Rightarrow> ((ret \<times> string option) \<times> (mcp_dispatch \<times> int) \<times> 'w mcp_world) option" where
  "fc_mcp_jsonrpc_dispatch cj e body out ctx w =
     (let st = (FC_MCP_DISPATCH_RESPONSE, 200)
      in if body = None \<or> out = None \<or> out = Some 0
         then Some ((Err EINVAL, None), st, record_in_world e (Some ''-'') ((Err EINVAL, None), False) st w)
         else if \<not> me_calloc_copy e
         then Some ((Err ENOMEM, None), st, record_in_world e (Some ''-'') ((Err ENOMEM, None), False) st w)
         else case cj_parse cj (takeWhile (\<lambda>c. c \<noteq> NUL) (the body)) of
                None \<Rightarrow>
                  (let a = fc_mcp_error_mark cj None (-32700) ''parse error'' out
                   in Some (fst a, st, record_in_world e (Some ''-'') a st w))
              | Some rt \<Rightarrow>
                  map_option (\<lambda>(method, a, st1, w1). (fst a, st1, record_in_world e method a st1 w1)) (mcp_request cj e rt out ctx w))"

section \<open>The handler of the web server\<close>

definition fc_mcp_header_starts :: "string option \<Rightarrow> string option \<Rightarrow> bool" where
  "fc_mcp_header_starts value pre =
     (case (value, pre) of
        (Some v, Some p) \<Rightarrow> length p \<le> length v \<and> map tolower (take (length p) v) = map tolower p
      | _ \<Rightarrow> False)"

record httpd_request =
  ht_method :: httpd_method
  ht_content_type :: string
  ht_mcp_session_id :: string
  ht_body :: "string option"

record handler_env =
  hv_activity :: int
  hv_heartbeat :: int
  hv_mark :: int
  hv_calloc :: bool
  hv_mcp :: mcp_env

definition mcp_allow :: string where
  "mcp_allow = ''Allow: POST, OPTIONS'' @ CRLF"

definition mcp_http_context :: "bool \<Rightarrow> string \<Rightarrow> fc_tool_context" where
  "mcp_http_context yolo sid =
     zero_context\<lparr>tc_source := cpy FC_SOURCE_LEN ''mcp'', tc_channel := cpy FC_CHANNEL_LEN ''mcp'',
       tc_session_id := cpy FC_SESSION_ID_LEN (if sid \<noteq> [] then sid else ''mcp''), tc_owner_mode := yolo\<rparr>"

definition fc_mcp_http_handler ::
    "'j cjson \<Rightarrow> handler_env \<Rightarrow> httpd_request \<Rightarrow> 'w mcp_world \<Rightarrow> (httpd_response \<times> 'w mcp_world) option" where
  "fc_mcp_http_handler cj h rq w =
     (let w1 = w\<lparr>mw_mcp := fc_mcp_mark_activity (hv_activity h) (mw_mcp w),
                 mw_guard := fc_guard_session_heartbeat (hv_heartbeat h) (Some ''mcp'') (mw_guard w)\<rparr>;
          mark = (\<lambda>s. w1\<lparr>mw_caps := (mw_caps w1)\<lparr>cw_progress := fc_operator_progress_mark (hv_mark h) (Some s) (cw_progress (mw_caps w1))\<rparr>\<rparr>)
      in if ht_method rq = HTTPD_METHOD_OPTIONS then Some (plain_response 204 mcp_allow None, mark ''mcp-options'')
         else if ht_method rq \<noteq> HTTPD_METHOD_POST then Some (plain_response 405 mcp_allow None, mark ''mcp-method'')
         else if ht_content_type rq \<noteq> [] \<and> \<not> fc_mcp_header_starts (Some (ht_content_type rq)) (Some ''application/json'')
         then Some (plain_response 415 mcp_allow None, w1)
         else if ht_body rq = None then Some (plain_response 400 mcp_allow None, w1)
         else if \<not> hv_calloc h then Some (plain_response 500 mcp_allow None, w1)
         else map_option (\<lambda>((ret, t), (ds, hs), w2).
                (if ret_neg ret then plain_response 500 mcp_allow None
                 else if ds = FC_MCP_DISPATCH_NOTIFICATION_ACCEPTED then plain_response 202 mcp_allow None
                 else \<lparr>hr_status = hs, hr_type = ''application/json'', hr_headers = mcp_allow,
                       hr_body = Some (case t of Some x \<Rightarrow> x | None \<Rightarrow> [])\<rparr>, w2))
              (fc_mcp_jsonrpc_dispatch cj (hv_mcp h) (ht_body rq) (Some CONFIG_FRUITCLAW_MCP_MAX_RESPONSE)
                 (Some (mcp_http_context (me_yolo (hv_mcp h)) (ht_mcp_session_id rq))) w1))"

definition fc_mcp_register_http :: "mcp \<Rightarrow> (ret \<times> bool) \<times> mcp" where
  "fc_mcp_register_http m =
     (if g_mcp_registered m then ((OK, False), m) else ((OK, True), m\<lparr>g_mcp_registered := True\<rparr>))"

definition fc_mcp_status_format :: "(ret \<Rightarrow> int) \<Rightarrow> int \<Rightarrow> nat option \<Rightarrow> mcp \<Rightarrow> ret \<times> string option" where
  "fc_mcp_status_format code now out m =
     (case out of
        None \<Rightarrow> (Err EINVAL, None)
      | Some len \<Rightarrow>
          if len = 0 then (Err EINVAL, None)
          else let num = (\<lambda>x :: u32. dec_nat (unat x))
               in (OK, Some (snprintf_buf len (''mcp_status: registered='' @ (if g_mcp_registered m then ''yes'' else ''no'')
                    @ '' requests='' @ num (g_mcp_request_count m) @ '' failures='' @ num (g_mcp_failure_count m)
                    @ '' notifications='' @ num (g_mcp_notification_count m)
                    @ '' notify_suppressed='' @ num (g_mcp_notification_suppressed_count m)
                    @ '' tools='' @ num (g_mcp_tool_call_count m) @ '' tool_failures='' @ num (g_mcp_tool_failure_count m)
                    @ '' last_ret='' @ dec_int (code (g_mcp_last_ret m)) @ '' last_http='' @ dec_int (g_mcp_last_http_status m)
                    @ '' last_dispatch='' @ (case g_mcp_last_dispatch_status m of FC_MCP_DISPATCH_RESPONSE \<Rightarrow> ''0''
                                            | FC_MCP_DISPATCH_NOTIFICATION_ACCEPTED \<Rightarrow> ''1'' | FC_MCP_DISPATCH_HTTP_ERROR \<Rightarrow> ''2'')
                    @ '' last_age_ms='' @ dec_int (age_of now (g_mcp_last_ms m))
                    @ '' activity_age_ms='' @ dec_int (age_of now (g_mcp_activity_ms m))
                    @ '' status_notify_age_ms='' @ dec_int (age_of now (g_mcp_status_notify_ms m))
                    @ '' last_method='' @ cpy 64 (if g_mcp_last_method m \<noteq> [] then g_mcp_last_method m else ''-'')
                    @ '' last_tool='' @ cpy FC_TOOL_NAME_LEN (if g_mcp_last_tool m \<noteq> [] then g_mcp_last_tool m else ''-'')))))"

text \<open>What the shell's report prints.\<close>

definition fc_mcp_status :: "(ret \<Rightarrow> int) \<Rightarrow> int \<Rightarrow> bool \<Rightarrow> 'w registry \<Rightarrow> mcp \<Rightarrow> string" where
  "fc_mcp_status code now yolo r m =
     ''  mcp: enabled'' @ [LF]
     @ (case fc_mcp_status_format code now (Some 512) m of (OK, Some s) \<Rightarrow> ''  '' @ s @ [LF] | _ \<Rightarrow> [])
     @ ''  mcp_route: '' @ (if g_mcp_registered m then ''registered'' else ''not registered'') @ [LF]
     @ ''  mcp_yolo_mode: '' @ (if yolo then ''enabled'' else ''disabled'') @ [LF]
     @ ''  mcp_visible_tools: '' @ dec_nat (fc_cap_count True r) @ [LF]"

section \<open>The owner gate\<close>

abbreviation kept :: "('w \<Rightarrow> bool) \<Rightarrow> 'w mcp_world \<Rightarrow> 'w mcp_world \<Rightarrow> bool" where
  "kept P w w' \<equiv> P (cw_state (mw_caps w')) \<and> g_caps (cw_registry (mw_caps w')) = g_caps (cw_registry (mw_caps w))"

lemma worker_keeps:
  assumes "open_tools_keep P (cw_registry w)" "P (cw_state w)" "\<not> tc_owner_mode c"
    and "fc_mcp_execute_tool_on_worker clk (Some c) name args out w = (x, w')"
  shows "P (cw_state w') \<and> g_caps (cw_registry w') = g_caps (cw_registry w)"
  using assms(4) cap_execute_keeps [OF assms(1,3,2), of clk name args out] assms(2)
  by (auto simp: fc_mcp_execute_tool_on_worker_def split: if_splits)

lemma run_tool_keeps:
  assumes "open_tools_keep P (cw_registry (mw_caps w))" "\<not> tc_owner_mode c" "P (cw_state (mw_caps w))"
    and "mcp_run_tool e name args c w = Some (x, w')"
  shows "kept P w w'"
  using assms(2-4)
  by (auto simp: mcp_run_tool_def Let_def split: if_splits option.splits prod.splits ret.splits
      dest!: worker_keeps [OF assms(1,3), rotated])

lemma tools_call_keeps:
  assumes "open_tools_keep P (cw_registry (mw_caps w))" "\<not> me_yolo e" "\<forall>c. ctx = Some c \<longrightarrow> \<not> tc_owner_mode c"
    and "P (cw_state (mw_caps w))" "fc_mcp_tools_call cj e i params out ctx w = Some (a, w')"
  shows "kept P w w'"
proof -
  have o: "\<not> tc_owner_mode (mcp_call_context (me_yolo e) ctx)"
    using assms(2,3) by (auto simp: mcp_call_context_def Let_def zero_context_def split: option.splits)
  show ?thesis
    using assms(5) run_tool_keeps [OF assms(1) o assms(4)] assms(4)
    by (auto simp: fc_mcp_tools_call_def Let_def split: if_splits option.splits)
qed

lemma dispatch_keeps:
  assumes "open_tools_keep P (cw_registry (mw_caps w))" "\<not> me_yolo e" "\<forall>c. ctx = Some c \<longrightarrow> \<not> tc_owner_mode c"
    and "P (cw_state (mw_caps w))" "fc_mcp_jsonrpc_dispatch cj e body out ctx w = Some (x, st, w')"
  shows "kept P w w'"
proof -
  have rec: "kept P w0 (record_in_world e m a st w0)" if "P (cw_state (mw_caps w0))" for m a st w0
    using that by (simp add: record_in_world_def split: prod.splits)
  have meth: "kept P w w1" if "mcp_method cj e rt i m out1 ctx w = Some (a, w1)" for rt i m out1 a w1
    using that assms(4) by (auto simp: mcp_method_def split: if_splits dest: tools_call_keeps [OF assms(1-4)])
  have req: "kept P w w1" if "mcp_request cj e rt out1 ctx w = Some (m, a, st, w1)" for rt out1 m a st w1
    using that assms(4) by (auto simp: mcp_request_def Let_def split: if_splits option.splits dest: meth)
  show ?thesis
    using assms(4,5) rec [OF assms(4)]
    by (auto simp: fc_mcp_jsonrpc_dispatch_def Let_def rec split: if_splits option.splits dest!: req)
qed

section \<open>The shape of an answer\<close>

text \<open>What cJSON promises of objects: a new one is empty, and an added member is found under its key, without regard to case.\<close>

definition json_laws :: "'j cjson \<Rightarrow> bool" where
  "json_laws cj \<longleftrightarrow>
     (\<forall>m ob k. cj_object cj m = Some ob \<longrightarrow> cj_get cj ob k = None)
     \<and> (\<forall>ob k k' v s. map tolower k' \<noteq> map tolower k \<longrightarrow>
          cj_get cj (cj_add_child cj ob k v) k' = cj_get cj ob k' \<and> cj_get cj (cj_add_string cj ob k s) k' = cj_get cj ob k'
          \<and> cj_get cj (cj_add_null cj ob k) k' = cj_get cj ob k')
     \<and> (\<forall>ob k v s. cj_get cj ob k = None \<longrightarrow>
          cj_get cj (cj_add_child cj ob k v) k = Some v \<and> cj_string cj (cj_get cj (cj_add_string cj ob k s) k) = Some s
          \<and> cj_get cj (cj_add_null cj ob k) k \<noteq> None)"

definition rpc_answer :: "'j cjson \<Rightarrow> 'j option \<Rightarrow> bool \<Rightarrow> 'j \<Rightarrow> bool" where
  "rpc_answer cj i failed resp \<longleftrightarrow>
     cj_string cj (cj_get cj resp ''jsonrpc'') = Some ''2.0''
     \<and> (case Option.bind i (cj_dup cj) of Some y \<Rightarrow> cj_get cj resp ''id'' = Some y | None \<Rightarrow> cj_get cj resp ''id'' \<noteq> None)
     \<and> (cj_get cj resp ''error'' \<noteq> None \<longleftrightarrow> failed) \<and> (cj_get cj resp ''result'' \<noteq> None \<longleftrightarrow> \<not> failed)"

definition answered :: "'j cjson \<Rightarrow> 'j option \<Rightarrow> nat \<Rightarrow> answer \<Rightarrow> bool" where
  "answered cj i n a \<longleftrightarrow> fst (fst a) = OK \<longrightarrow>
     (\<exists>resp s. snd (fst a) = Some s \<and> cj_print cj resp = Some s \<and> length s < n \<and> rpc_answer cj i (snd a) resp)"

lemma rpc_head_get:
  assumes "json_laws cj" "cj_object cj m = Some ob"
  shows "cj_string cj (cj_get cj (rpc_head cj ob i) ''jsonrpc'') = Some ''2.0''"
    "case Option.bind i (cj_dup cj) of Some y \<Rightarrow> cj_get cj (rpc_head cj ob i) ''id'' = Some y | None \<Rightarrow> cj_get cj (rpc_head cj ob i) ''id'' \<noteq> None"
    "cj_get cj (rpc_head cj ob i) ''error'' = None" "cj_get cj (rpc_head cj ob i) ''result'' = None"
  using assms by (auto simp: rpc_head_def fc_mcp_add_id_def json_laws_def tolower_def split: option.splits)

lemma json_child:
  assumes "json_laws cj"
  shows "map tolower k' \<noteq> map tolower k \<Longrightarrow> cj_get cj (cj_add_child cj ob k v) k' = cj_get cj ob k'"
    "cj_get cj ob k = None \<Longrightarrow> cj_get cj (cj_add_child cj ob k v) k = Some v"
  using assms by (simp_all add: json_laws_def)

lemma rpc_answer_child:
  assumes "json_laws cj" "cj_object cj m = Some ob"
  shows "rpc_answer cj i True (cj_add_child cj (rpc_head cj ob i) ''error'' v)"
    "rpc_answer cj i False (cj_add_child cj (rpc_head cj ob i) ''result'' v)"
  using rpc_head_get [OF assms, of i] by (simp_all add: rpc_answer_def json_child [OF assms(1)] tolower_def split: option.splits)

lemma copied_answered:
  assumes "rpc_answer cj i b x"
  shows "answered cj i n (fc_mcp_copy_json cj (Some x) (Some n), b)"
proof (cases "cj_print cj x")
  case (Some s)
  then show ?thesis using assms
    by (cases "length s < n") (auto simp: answered_def fc_mcp_copy_json_def print_to_def fc_strlcpy_def Let_def)
qed (simp add: answered_def fc_mcp_copy_json_def print_to_def)

lemma error_answered:
  assumes "json_laws cj"
  shows "answered cj i n (fc_mcp_error_mark cj i code msg (Some n))"
  using rpc_answer_child(1) [OF assms]
  by (auto simp: fc_mcp_error_mark_def fc_mcp_error_def copied_answered answered_def [of _ _ _ "((Err ENOMEM, None), b)" for b]
      split: option.splits)

lemma response_answered:
  assumes "json_laws cj"
  shows "answered cj i n (fc_mcp_response cj i r (Some n), False)"
  using rpc_answer_child(2) [OF assms]
  by (auto simp: fc_mcp_response_def copied_answered answered_def [of _ _ _ "((Err ENOMEM, None), b)" for b] split: option.splits)

lemma answered_Err: "answered cj i n ((Err x, t), b)"
  by (simp add: answered_def)

lemmas answered_intros = error_answered response_answered answered_Err

lemma method_answered:
  assumes "json_laws cj" "mcp_method cj e rt i m (Some n) ctx w = Some (a, w')"
  shows "answered cj i n a"
proof -
  have "answered cj i n b" if "fc_mcp_tools_call cj e i ps (Some n) ctx w = Some (b, w1)" for ps b w1
    using that assms(1)
    by (auto simp: fc_mcp_tools_call_def Let_def answered_intros split: if_splits option.splits)
  moreover have "answered cj i n (fc_mcp_tools_list cj ok i (Some n) r)" for ok and r :: "'b registry"
    using assms(1) by (auto simp: fc_mcp_tools_list_def answered_intros split: prod.splits ret.splits option.splits)
  ultimately show ?thesis
    using assms by (auto simp: mcp_method_def answered_intros split: if_splits)
qed

text \<open>The identifier an answer carries.\<close>

definition request_id :: "'j cjson \<Rightarrow> 'j \<Rightarrow> 'j option" where
  "request_id cj rt =
     (if \<not> cj_is_array cj (Some rt) \<and> cj_is_object cj (Some rt) \<and> cj_string cj (cj_get cj rt ''jsonrpc'') = Some ''2.0''
      then cj_get cj rt ''id'' else None)"

lemma request_answered:
  assumes "json_laws cj" "mcp_request cj e rt (Some n) ctx w = Some (m, a, st, w')"
  shows "st = (FC_MCP_DISPATCH_RESPONSE, 200) \<and> answered cj (request_id cj rt) n a
     \<or> st = (FC_MCP_DISPATCH_NOTIFICATION_ACCEPTED, 202) \<and> a = ((OK, Some []), False) \<and> request_id cj rt = None
       \<and> m = Some ''notifications/initialized''"
  using assms(2) error_answered [OF assms(1)]
  by (auto simp: mcp_request_def request_id_def Let_def split: if_splits option.splits dest: method_answered [OF assms(1)])

lemma failure_count_kept:
  assumes "mcp_request cj e rt out ctx w = Some (m, a, st, w')"
  shows "g_mcp_failure_count (mw_mcp w') = g_mcp_failure_count (mw_mcp w)"
proof -
  have n: "g_mcp_failure_count (fst (fc_mcp_notify_tool_call b t cr code k r (m, q))) = g_mcp_failure_count m" for b t cr code k r m q
    by (auto simp: fc_mcp_notify_tool_call_def fc_mcp_should_notify_tool_call_def suppress_def Let_def split: option.splits prod.splits bool.splits)
  have t: "g_mcp_failure_count (mw_mcp w1) = g_mcp_failure_count (mw_mcp w)" if "mcp_run_tool e k ar c w = Some (x, w1)" for k ar c x w1
    using that by (auto simp: mcp_run_tool_def Let_def fc_mcp_record_tool_def split: if_splits option.splits prod.splits ret.splits)
  have "g_mcp_failure_count (mw_mcp w1) = g_mcp_failure_count (mw_mcp w)" if "fc_mcp_tools_call cj e i ps out ctx w = Some (b, w1)" for i ps b w1
    using that by (auto simp: fc_mcp_tools_call_def Let_def n split: if_splits option.splits dest!: t)
  then have "g_mcp_failure_count (mw_mcp w1) = g_mcp_failure_count (mw_mcp w)" if "mcp_method cj e rt i k out ctx w = Some (b, w1)" for i k b w1
    using that by (auto simp: mcp_method_def split: if_splits)
  then show ?thesis using assms by (auto simp: mcp_request_def Let_def split: if_splits option.splits)
qed

section \<open>The pace of notifications\<close>

text \<open>The calls that are announced, of a series of calls with the time, name and result of each.\<close>

fun notified :: "(int \<times> string \<times> ret) list \<Rightarrow> mcp \<Rightarrow> (int \<times> bool) list" where
  "notified [] m = []"
| "notified ((now, name, ret) # cs) m =
     (case fc_mcp_should_notify_tool_call now (Some name) ret m of
        (yes, m1) \<Rightarrow> (if yes then [(now, name = ''system.status'')] else []) @ notified cs m1)"

definition times_of :: "bool \<Rightarrow> (int \<times> bool) list \<Rightarrow> int list" where
  "times_of status xs = map fst (filter (\<lambda>x. snd x = status) xs)"

definition notice_interval :: "string \<Rightarrow> ret \<Rightarrow> int" where
  "notice_interval name ret = (if \<not> ret_neg ret \<and> name = ''system.status'' then CONFIG_FRUITCLAW_MCP_NOTIFY_STATUS_INTERVAL_MS
                               else CONFIG_FRUITCLAW_MCP_NOTIFY_TOOL_INTERVAL_MS)"

lemma notified_spaced:
  assumes "0 \<le> d" "\<forall>(t, s, r)\<in>set cs. 0 < t \<and> ((s = ''system.status'') = b \<longrightarrow> d \<le> notice_interval s r)"
  defines "lst \<equiv> (\<lambda>m. if b then g_mcp_status_notify_ms m else g_mcp_tool_notify_ms m)"
  shows "sorted_wrt (\<lambda>x y. d \<le> y - x) (times_of b (notified cs m))
     \<and> (\<forall>t\<in>set (times_of b (notified cs m)). 0 < lst m \<longrightarrow> d \<le> t - lst m)"
  using assms(2)
proof (induction cs arbitrary: m)
  case (Cons c cs)
  obtain t s r where c: "c = (t, s, r)" by (cases c)
  obtain yes m1 where y: "fc_mcp_should_notify_tool_call t (Some s) r m = (yes, m1)" by fastforce
  have IH: "sorted_wrt (\<lambda>x y. d \<le> y - x) (times_of b (notified cs m1))"
      "\<forall>u\<in>set (times_of b (notified cs m1)). 0 < lst m1 \<longrightarrow> d \<le> u - lst m1"
    using Cons by auto
  have k: "if yes \<and> (s = ''system.status'') = b then lst m1 = t \<and> (0 < lst m \<longrightarrow> notice_interval s r \<le> t - lst m) else lst m1 = lst m"
    using y by (auto simp: fc_mcp_should_notify_tool_call_def suppress_def notice_interval_def lst_def Let_def split: if_splits)
  have "0 < t" "(s = ''system.status'') = b \<longrightarrow> d \<le> notice_interval s r" using Cons.prems c by auto
  then show ?case using IH k c y assms(1) by (auto simp: times_of_def split: if_splits)
qed (simp add: times_of_def)

section \<open>Properties\<close>

text \<open>
  C15. The owner gate of the MCP endpoint: in a build without the trusted mode, no request over HTTP, whatever its method, headers
  and body, changes the tools' state except through the tools that are open to everybody: what these keep is kept.
\<close>

theorem mcp_owner_gate:
  assumes "\<not> me_yolo (hv_mcp h)" "open_tools_keep P (cw_registry (mw_caps w))" "P (cw_state (mw_caps w))"
    and "fc_mcp_http_handler cj h rq w = Some (resp, w')"
  shows "P (cw_state (mw_caps w')) \<and> open_tools_keep P (cw_registry (mw_caps w'))"
proof -
  let ?w = "w\<lparr>mw_mcp := fc_mcp_mark_activity (hv_activity h) (mw_mcp w),
              mw_guard := fc_guard_session_heartbeat (hv_heartbeat h) (Some ''mcp'') (mw_guard w)\<rparr>"
  have d: "kept P w w1"
    if "fc_mcp_jsonrpc_dispatch cj (hv_mcp h) body out (Some (mcp_http_context (me_yolo (hv_mcp h)) sid)) ?w = Some (x, st, w1)"
    for body out sid x st w1
    using dispatch_keeps [OF _ assms(1) _ _ that, of P] assms(1-3) by (simp add: mcp_http_context_def)
  have "kept P w w'"
    using assms(3,4) by (auto simp: fc_mcp_http_handler_def Let_def split: if_splits dest!: d)
  then show ?thesis using assms(2) by (simp add: open_tools_keep_def)
qed

definition demo_shell_cap :: "nat fc_cap" where
  "demo_shell_cap = \<lparr>cap_id = Some ''terminal.run'', cap_name = None, cap_description = None, cap_schema = None,
     visible_to_llm = True, requires_confirmation = True, cap_execute = Some (\<lambda>ctx a n s. ((OK, ''done''), s + 1))\<rparr>"

definition demo_mcp_env :: "bool \<Rightarrow> mcp_env" where
  "demo_mcp_env yolo = \<lparr>me_yolo = yolo, me_telegram = False, me_calloc_copy = True, me_calloc_tools = True, me_calloc_args = True,
     me_calloc_out = True, me_cfg = demo_cfg, me_self = 1, me_guard_now = 1, me_guard_rounds = [], me_guard_opened = Inr 3,
     me_tool_clk = (1, 1, 2), me_notify_now = 2, me_notify_created = None, me_now = 3, me_mark = 3, me_code = (\<lambda>_. -1)\<rparr>"

definition demo_mcp_world :: "nat mcp_world" where
  "demo_mcp_world = \<lparr>mw_mcp = zero_mcp, mw_guard = zero_guard blank_hw, mw_notify = zero_notify,
     mw_caps = \<lparr>cw_registry = zero_registry\<lparr>g_caps := [demo_shell_cap]\<rparr>, cw_progress = zero_progress, cw_state = 3\<rparr>\<rparr>"

definition demo_call :: demo_json where
  "demo_call = DObject [(''jsonrpc'', DString ''2.0''), (''id'', DNumber 7), (''method'', DString ''tools/call''),
     (''params'', DObject [(''name'', DString ''terminal.run'')])]"

definition demo_ping :: demo_json where
  "demo_ping = DObject [(''jsonrpc'', DString ''2.0''), (''id'', DNumber 7), (''method'', DString ''ping'')]"

definition demo_mcp_cjson :: "demo_json \<Rightarrow> demo_json cjson" where
  "demo_mcp_cjson doc = (demo_cjson ''{..}'' doc)\<lparr>cj_print := (\<lambda>_. Some ''answer'')\<rparr>"

lemmas demo_call_simps = fc_mcp_http_handler_def fc_mcp_jsonrpc_dispatch_def mcp_request_def mcp_method_def fc_mcp_tools_call_def
  mcp_run_tool_def fc_mcp_execute_tool_on_worker_def mcp_tool_result_def fc_mcp_response_def fc_mcp_copy_json_def print_to_def
  fc_strlcpy_def record_in_world_def fc_mcp_record_dispatch_def fc_mcp_record_tool_def fc_mcp_notify_tool_call_def
  fc_cap_execute_ctx_def fc_cap_find_def fc_mcp_tool_has_own_guard_def mcp_http_context_def
  mcp_call_context_def zero_context_def fc_mcp_mark_activity_def Let_def
  demo_mcp_cjson_def demo_cjson_def demo_call_def demo_ping_def demo_mcp_env_def demo_mcp_world_def demo_shell_cap_def zero_mcp_def
  CONFIG_FRUITCLAW_MCP_MAX_RESPONSE_def CONFIG_FRUITCLAW_MAX_JSON_def

text \<open>A call of the shell over HTTP leaves the counter that the shell would increment alone.\<close>

theorem mcp_owner_gate_witness:
  "\<exists>h rq resp w'. \<not> me_yolo (hv_mcp h) \<and> fc_mcp_http_handler (demo_mcp_cjson demo_call) h rq demo_mcp_world = Some (resp, w')
     \<and> hr_status resp = 200 \<and> g_mcp_tool_call_count (mw_mcp w') = 1 \<and> cw_state (mw_caps w') = 3"
proof -
  let ?h = "\<lparr>hv_activity = 1, hv_heartbeat = 1, hv_mark = 1, hv_calloc = True, hv_mcp = demo_mcp_env False\<rparr>"
  let ?rq = "\<lparr>ht_method = HTTPD_METHOD_POST, ht_content_type = ''Application/JSON'', ht_mcp_session_id = [], ht_body = Some ''{..}''\<rparr>"
  have ct: "fc_mcp_header_starts (Some ''Application/JSON'') (Some ''application/json'')" by code_simp
  have "case fc_mcp_http_handler (demo_mcp_cjson demo_call) ?h ?rq demo_mcp_world of
      None \<Rightarrow> False | Some (resp, w') \<Rightarrow> hr_status resp = 200 \<and> g_mcp_tool_call_count (mw_mcp w') = 1"
    by (simp add: demo_call_simps ct)
  then obtain resp w' where r: "fc_mcp_http_handler (demo_mcp_cjson demo_call) ?h ?rq demo_mcp_world = Some (resp, w')"
      "hr_status resp = 200" "g_mcp_tool_call_count (mw_mcp w') = 1"
    by (simp split: option.splits prod.splits)
  have "cw_state (mw_caps w') = 3 \<and> open_tools_keep (\<lambda>s. s = 3) (cw_registry (mw_caps w'))"
    by (rule mcp_owner_gate [OF _ _ _ r(1)])
       (simp_all add: demo_mcp_env_def demo_mcp_world_def open_tools_keep_def demo_shell_cap_def)
  then show ?thesis using r by (intro exI [of _ ?h] exI [of _ ?rq] exI [of _ resp] exI [of _ w']) (simp add: demo_mcp_env_def)
qed

text \<open>
  C24. Every request that is answered is answered by the protocol: either it is the one notification the server knows, which is accepted
  without a body, or the body is one complete JSON-RPC 2.0 response that carries the request's identifier (or one of its own when
  the request has none) and exactly one of result and error, an error exactly when the failure counter moved.
\<close>

theorem mcp_answers:
  assumes "json_laws cj" "fc_mcp_jsonrpc_dispatch cj e (Some body) (Some n) ctx w = Some ((OK, t), st, w')"
  shows "st = (FC_MCP_DISPATCH_NOTIFICATION_ACCEPTED, 202) \<and> t = Some [] \<and> g_mcp_last_method (mw_mcp w') = ''notifications/initialized''
     \<or> st = (FC_MCP_DISPATCH_RESPONSE, 200)
       \<and> (\<exists>resp s. t = Some s \<and> cj_print cj resp = Some s \<and> length s < n
            \<and> rpc_answer cj (Option.bind (cj_parse cj (takeWhile (\<lambda>c. c \<noteq> NUL) body)) (request_id cj))
                (g_mcp_failure_count (mw_mcp w') \<noteq> g_mcp_failure_count (mw_mcp w)) resp)"
proof -
  have rec: "(g_mcp_failure_count (mw_mcp (record_in_world e m ((OK, t), b) (FC_MCP_DISPATCH_RESPONSE, 200) w1)) \<noteq> g_mcp_failure_count (mw_mcp w1)) = b"
    for m b and w1 :: "'b mcp_world"
    by (auto simp: record_in_world_def fc_mcp_record_dispatch_def split: prod.splits)
  show ?thesis
  proof (cases "cj_parse cj (takeWhile (\<lambda>c. c \<noteq> NUL) body)")
    case None
    then have "fc_mcp_error_mark cj None (-32700) ''parse error'' (Some n) = ((OK, t), True)"
        "st = (FC_MCP_DISPATCH_RESPONSE, 200)" "w' = record_in_world e (Some ''-'') ((OK, t), True) st w"
      using assms(2) by (auto simp: fc_mcp_jsonrpc_dispatch_def fc_mcp_error_mark_def Let_def split: if_splits)
    then show ?thesis using error_answered [OF assms(1), of None n "-32700" "''parse error''"] None
      by (simp add: answered_def rec)
  next
    case (Some rt)
    then obtain m b w1 where r: "mcp_request cj e rt (Some n) ctx w = Some (m, ((OK, t), b), st, w1)"
        "w' = record_in_world e m ((OK, t), b) st w1"
      using assms(2) by (auto simp: fc_mcp_jsonrpc_dispatch_def Let_def split: if_splits)
    then show ?thesis using request_answered [OF assms(1) r(1)] failure_count_kept [OF r(1)] rec [of m b w1] Some
      by (elim disjE conjE) (simp_all add: answered_def record_in_world_def fc_mcp_record_dispatch_def cpy_def fc_strlcpy_def Let_def split: prod.splits)
  qed
qed

lemma json_laws_demo: "json_laws (demo_mcp_cjson doc)"
  by (auto simp: json_laws_def demo_mcp_cjson_def demo_cjson_def demo_get_add(2) intro!: demo_get_add(1))

theorem mcp_answers_witness:
  "\<exists>st w' resp. fc_mcp_jsonrpc_dispatch (demo_mcp_cjson demo_ping) (demo_mcp_env True) (Some ''{..}'') (Some 16) None demo_mcp_world
       = Some ((OK, Some ''answer''), st, w')
     \<and> rpc_answer (demo_mcp_cjson demo_ping) (Some (DNumber 7)) (g_mcp_failure_count (mw_mcp w') \<noteq> 0) resp"
proof -
  have "case fc_mcp_jsonrpc_dispatch (demo_mcp_cjson demo_ping) (demo_mcp_env True) (Some ''{..}'') (Some 16) None demo_mcp_world of
       None \<Rightarrow> False | Some (a, st, w') \<Rightarrow> a = (OK, Some ''answer'') \<and> fst st = FC_MCP_DISPATCH_RESPONSE"
    by (simp add: demo_call_simps)
  then obtain st w' where d: "fc_mcp_jsonrpc_dispatch (demo_mcp_cjson demo_ping) (demo_mcp_env True) (Some ''{..}'') (Some 16) None demo_mcp_world
       = Some ((OK, Some ''answer''), st, w')" "fst st = FC_MCP_DISPATCH_RESPONSE"
    by (simp split: option.splits prod.splits)
  have i: "Option.bind (cj_parse (demo_mcp_cjson demo_ping) (takeWhile (\<lambda>c. c \<noteq> NUL) ''{..}'')) (request_id (demo_mcp_cjson demo_ping)) = Some (DNumber 7)"
    by (simp add: demo_call_simps request_id_def)
  have z: "g_mcp_failure_count (mw_mcp demo_mcp_world) = 0" by (simp add: demo_mcp_world_def zero_mcp_def)
  show ?thesis using mcp_answers [OF json_laws_demo d(1), unfolded i z] d by auto
qed

text \<open>
  The owner is not flooded: of any series of tool calls, the announced ones lie at least ten seconds apart, counted separately
  for the status tool and for the others, and those of the status tool at least five minutes when its calls succeed.
\<close>

theorem mcp_notices_spaced:
  assumes "\<forall>(t, s, r)\<in>set cs. 0 < t"
  shows "sorted_wrt (\<lambda>x y. 10000 \<le> y - x) (times_of b (notified cs m))
     \<and> ((\<forall>(t, s, r)\<in>set cs. r = OK) \<longrightarrow> sorted_wrt (\<lambda>x y. 300000 \<le> y - x) (times_of True (notified cs m)))"
proof
  have i: "\<forall>(t, s, r)\<in>set cs. 0 < t \<and> ((s = ''system.status'') = b \<longrightarrow> 10000 \<le> notice_interval s r)"
    using assms
    by (auto simp: notice_interval_def CONFIG_FRUITCLAW_MCP_NOTIFY_STATUS_INTERVAL_MS_def CONFIG_FRUITCLAW_MCP_NOTIFY_TOOL_INTERVAL_MS_def)
  show "sorted_wrt (\<lambda>x y. 10000 \<le> y - x) (times_of b (notified cs m))"
    using notified_spaced [of 10000 cs b m] i by simp
  show "(\<forall>(t, s, r)\<in>set cs. r = OK) \<longrightarrow> sorted_wrt (\<lambda>x y. 300000 \<le> y - x) (times_of True (notified cs m))"
    using notified_spaced [of 300000 cs True m] assms
    by (fastforce simp: notice_interval_def CONFIG_FRUITCLAW_MCP_NOTIFY_STATUS_INTERVAL_MS_def split: prod.splits)
qed

theorem mcp_notices_spaced_witness:
  "times_of False (notified [(5, ''file.read'', OK), (6, ''file.read'', OK), (10005, ''file.read'', OK)] zero_mcp) = [5, 10005]
     \<and> sorted_wrt (\<lambda>x y. 10000 \<le> y - x) [5, 10005 :: int]"
proof -
  let ?cs = "[(5, ''file.read'', OK), (6, ''file.read'', OK), (10005 :: int, ''file.read'', OK)]"
  have "times_of False (notified ?cs zero_mcp) = [5, 10005]"
    by (simp add: times_of_def fc_mcp_should_notify_tool_call_def zero_mcp_def suppress_def CONFIG_FRUITCLAW_MCP_NOTIFY_TOOL_INTERVAL_MS_def)
  then show ?thesis using mcp_notices_spaced [of ?cs False zero_mcp] by simp
qed

end
