(* ===== verification/FC_Deepseek.thy ===== *)
theory FC_Deepseek
  imports FC_Cap FC_Tg_Props FC_Guard_Props
begin

text \<open>
  The client of the language model, \<^verbatim>\<open>net/fc_deepseek.c\<close>: one request with the conversation and the tools, and
  the message of its answer.
\<close>

section \<open>State\<close>

definition CONFIG_FRUITCLAW_DEEPSEEK_ENDPOINT :: string where
  "CONFIG_FRUITCLAW_DEEPSEEK_ENDPOINT = ''https://api.deepseek.com/chat/completions''"
definition CONFIG_FRUITCLAW_DEEPSEEK_MODEL :: string where "CONFIG_FRUITCLAW_DEEPSEEK_MODEL = ''deepseek-chat''"
definition CONFIG_FRUITCLAW_DEEPSEEK_HTTP_TIMEOUT_SEC :: u32 where "CONFIG_FRUITCLAW_DEEPSEEK_HTTP_TIMEOUT_SEC = 15"
definition CONFIG_FRUITCLAW_LLM_GUARD_TIMEOUT_MS :: u32 where "CONFIG_FRUITCLAW_LLM_GUARD_TIMEOUT_MS = 60000"
definition FC_GUARD_STAGE_LLM :: u32 where "FC_GUARD_STAGE_LLM = 0x46434c4d"

record deepseek =
  g_deepseek_call_count :: u32
  g_deepseek_fail_count :: u32
  g_deepseek_last_start_ms :: int
  g_deepseek_last_success_ms :: int
  g_deepseek_last_ret :: ret
  g_deepseek_last_http_status :: int

definition zero_deepseek :: deepseek where
  "zero_deepseek = \<lparr>g_deepseek_call_count = 0, g_deepseek_fail_count = 0, g_deepseek_last_start_ms = 0,
     g_deepseek_last_success_ms = 0, g_deepseek_last_ret = OK, g_deepseek_last_http_status = 0\<rparr>"

record ds_world =
  dw_ds :: deepseek
  dw_progress :: progress
  dw_fs :: posix_fs
  dw_http :: http_world

text \<open>The environment of a call: clocks, the HTTP environment and the two allocations.\<close>

record ds_env =
  de_mark1 :: int
  de_start :: int
  de_mark2 :: int
  de_done :: int
  de_http :: http_env
  de_calloc_tools :: bool
  de_calloc_resp :: bool

section \<open>Operations\<close>

definition fc_deepseek_record_start :: "ds_env \<Rightarrow> ds_world \<Rightarrow> ds_world" where
  "fc_deepseek_record_start e w =
     w\<lparr>dw_progress := fc_operator_progress_mark (de_mark1 e) (Some ''deepseek-start'') (dw_progress w),
       dw_ds := (dw_ds w)\<lparr>g_deepseek_call_count := g_deepseek_call_count (dw_ds w) + 1, g_deepseek_last_start_ms := de_start e\<rparr>\<rparr>"

definition fc_deepseek_record_result :: "ds_env \<Rightarrow> ret \<Rightarrow> int \<Rightarrow> ds_world \<Rightarrow> ds_world" where
  "fc_deepseek_record_result e ret status w =
     (let d = (dw_ds w)\<lparr>g_deepseek_last_ret := ret, g_deepseek_last_http_status := status\<rparr>
      in w\<lparr>dw_progress := fc_operator_progress_mark (de_mark2 e)
                            (Some (if ret_neg ret then ''deepseek-fail'' else ''deepseek-ok'')) (dw_progress w),
           dw_ds := (if ret_neg ret then d\<lparr>g_deepseek_fail_count := g_deepseek_fail_count d + 1\<rparr>
                     else d\<lparr>g_deepseek_last_success_ms := de_done e\<rparr>)\<rparr>)"

definition fc_deepseek_read_key :: "string \<Rightarrow> nat option \<Rightarrow> posix_fs \<Rightarrow> (ret \<times> string option) \<times> posix_fs" where
  "fc_deepseek_read_key root key fs =
     (case fc_secret_path root (Some ''deepseek_api_key'') (Some FC_PATH_LEN) of
        (Err x, _) \<Rightarrow> ((Err x, None), fs)
      | (OK, path) \<Rightarrow> fc_read_text_file path key True fs)"

text \<open>The body of the request; \<open>messages\<close> is left out when its copy fails, the tools when there are none.\<close>

definition chat_body :: "'j cjson \<Rightarrow> 'j \<Rightarrow> 'w registry \<Rightarrow> 'j \<Rightarrow> 'j" where
  "chat_body cj rt r messages =
     (let b0 = cj_add_string cj rt ''model'' CONFIG_FRUITCLAW_DEEPSEEK_MODEL;
          b1 = (case cj_dup cj messages of Some m \<Rightarrow> cj_add_child cj b0 ''messages'' m | None \<Rightarrow> b0);
          b2 = cj_add_bool cj b1 ''stream'' False
      in case fc_cap_build_openai_tools_json cj (Some CONFIG_FRUITCLAW_MCP_MAX_RESPONSE) True r of
           (OK, tools_json) \<Rightarrow>
             (case cj_parse cj (the tools_json) of
                Some tools \<Rightarrow>
                  if length (cj_items cj tools) > 0
                  then cj_add_string cj (cj_add_child cj b2 ''tools'' tools) ''tool_choice'' ''auto'' else b2
              | None \<Rightarrow> b2)
         | (Err _, _) \<Rightarrow> b2)"

text \<open>The message of an answer.\<close>

definition chat_message :: "'j cjson \<Rightarrow> string \<Rightarrow> 'j option" where
  "chat_message cj resp =
     (case cj_parse cj resp of
        None \<Rightarrow> None
      | Some j \<Rightarrow>
          (case cj_get cj j ''choices'' of
             Some c \<Rightarrow> if cj_is_array cj (Some c)
                       then (case cj_items cj c of c0 # _ \<Rightarrow> cj_get cj c0 ''message'' | [] \<Rightarrow> None) else None
           | None \<Rightarrow> None))"

definition chat_fail :: "ds_env \<Rightarrow> errno \<Rightarrow> int \<Rightarrow> ds_world \<Rightarrow> (ret \<times> 'j option) \<times> ds_world" where
  "chat_fail e x status w = ((Err x, None), fc_deepseek_record_result e (Err x) status w)"

text \<open>From the answer of the HTTP client to the end of the call.\<close>

definition chat_answer ::
    "'j cjson \<Rightarrow> ds_env \<Rightarrow> ret \<Rightarrow> (string \<times> int) option \<Rightarrow> ds_world \<Rightarrow> (ret \<times> 'j option) \<times> ds_world" where
  "chat_answer cj e ret out w =
     (let status = (case out of Some (_, s) \<Rightarrow> s | None \<Rightarrow> 0)
      in case ret of
           Err x \<Rightarrow> chat_fail e x status w
         | OK \<Rightarrow>
             if status < 200 \<or> status \<ge> 300 then chat_fail e EIO status w
             else (case chat_message cj (fst (the out)) of
                     None \<Rightarrow> chat_fail e EINVAL status w
                   | Some msg \<Rightarrow>
                       (case cj_dup cj msg of
                          None \<Rightarrow> chat_fail e ENOMEM status w
                        | Some m \<Rightarrow> ((OK, Some m), fc_deepseek_record_result e OK status w))))"

definition fc_deepseek_chat ::
    "'j cjson \<Rightarrow> string \<Rightarrow> ds_env \<Rightarrow> 'w registry \<Rightarrow> 'j option \<Rightarrow> bool \<Rightarrow> ds_world \<Rightarrow> ((ret \<times> 'j option) \<times> ds_world) option" where
  "fc_deepseek_chat cj root e r messages has_out w =
     (if messages = None \<or> \<not> has_out then Some ((Err EINVAL, None), w)
      else case fc_deepseek_read_key root (Some 256) (dw_fs w) of ((kr, key), fs1) \<Rightarrow>
        (let w1 = (fc_deepseek_record_start e w)\<lparr>dw_fs := fs1\<rparr>
         in if ret_neg kr \<or> key = Some [] then Some (chat_fail e ENOENT 0 w1)
            else case cj_object cj 0 of
              None \<Rightarrow> Some (chat_fail e ENOMEM 0 w1)
            | Some rt \<Rightarrow>
                if \<not> de_calloc_tools e then Some (chat_fail e ENOMEM 0 w1)
                else (case cj_print cj (chat_body cj rt r (the messages)) of
                  None \<Rightarrow> Some (chat_fail e ENOMEM 0 w1)
                | Some body \<Rightarrow>
                    if \<not> de_calloc_resp e then Some (chat_fail e ENOMEM 0 w1)
                    else map_option (\<lambda>((ret, out), hw). chat_answer cj e ret out (w1\<lparr>dw_http := hw\<rparr>))
                      (fc_http_post_json_guarded_timeout (de_http e) FC_GUARD_STAGE_LLM CONFIG_FRUITCLAW_LLM_GUARD_TIMEOUT_MS
                         CONFIG_FRUITCLAW_DEEPSEEK_HTTP_TIMEOUT_SEC (Some CONFIG_FRUITCLAW_DEEPSEEK_ENDPOINT)
                         (Some [(''Authorization'', snprintf_buf 320 (''Bearer '' @ the key))]) (Some body)
                         (Some CONFIG_FRUITCLAW_MAX_HTTP_BODY) (dw_http w1)))))"

definition fc_deepseek_test ::
    "'j cjson \<Rightarrow> (ret \<Rightarrow> int) \<Rightarrow> string \<Rightarrow> ds_env \<Rightarrow> 'w registry \<Rightarrow> nat option \<Rightarrow> ds_world
       \<Rightarrow> ((ret \<times> string option) \<times> ds_world) option" where
  "fc_deepseek_test cj code root e r out w =
     (if out = None \<or> out = Some 0 then Some ((Err EINVAL, None), w)
      else case (cj_array cj, cj_object cj 1) of
        (Some a, Some m) \<Rightarrow>
          map_option (\<lambda>((ret, reply), w1).
            if ret_neg ret
            then (let t = (if ret = Err ENOENT
                           then ''DeepSeek API key not found at '' @ the (snd (fc_secret_path root (Some ''deepseek_api_key'') (Some FC_PATH_LEN)))
                           else ''DeepSeek request failed: '' @ dec_int (code ret))
                  in ((ret, Some (snprintf_buf (the out) t)), w1))
            else let c = cj_string cj (cj_get cj (the reply) ''content'')
                 in ((OK, snd (fc_strlcpy out (Some (case c of Some s \<Rightarrow> s | None \<Rightarrow> [])))), w1))
          (fc_deepseek_chat cj root e r
             (Some (cj_add_item cj a (cj_add_string cj (cj_add_string cj m ''role'' ''user'') ''content''
                      ''Reply with one short sentence that starts with OK.''))) True w)
      | _ \<Rightarrow> Some ((Err ENOMEM, None), w))"

definition fc_deepseek_status_format :: "(ret \<Rightarrow> int) \<Rightarrow> int \<Rightarrow> nat option \<Rightarrow> deepseek \<Rightarrow> ret \<times> string option" where
  "fc_deepseek_status_format code now out d =
     (case out of
        None \<Rightarrow> (Err EINVAL, None)
      | Some len \<Rightarrow>
          if len = 0 then (Err EINVAL, None)
          else let age = (\<lambda>t. dec_int (if t > 0 then now - t else -1))
               in (OK, Some (snprintf_buf len (''deepseek_status: calls='' @ dec_nat (unat (g_deepseek_call_count d))
                    @ '' fails='' @ dec_nat (unat (g_deepseek_fail_count d))
                    @ '' last_ret='' @ dec_int (code (g_deepseek_last_ret d)) @ '' http='' @ dec_int (g_deepseek_last_http_status d)
                    @ '' last_start_age_ms='' @ age (g_deepseek_last_start_ms d)
                    @ '' last_success_age_ms='' @ age (g_deepseek_last_success_ms d)))))"

section \<open>Properties\<close>

lemma read_key_Some: "fst (fc_deepseek_read_key root (Some n) fs) = (OK, k) \<Longrightarrow> \<exists>key. k = Some key"
  by (auto simp: fc_deepseek_read_key_def fc_read_text_file_def Let_def
      split: prod.splits ret.splits option.splits sum.splits if_splits)

text \<open>The request of a call, with the header lines as the HTTP client sends them.\<close>

lemma deepseek_post_cases:
  assumes "fc_http_post_json_guarded_timeout e st gt rt (Some CONFIG_FRUITCLAW_DEEPSEEK_ENDPOINT)
      (Some [(''Authorization'', snprintf_buf 320 (''Bearer '' @ key))]) (Some body) (Some n) w = Some ((ret, out), w')"
  shows "ret \<noteq> OK \<and> hx_sent w' = hx_sent w
     \<or> (\<exists>rq t. hx_sent w' = hx_sent w @ [rq] \<and> rq_url rq = CONFIG_FRUITCLAW_DEEPSEEK_ENDPOINT \<and> rq_tls rq \<and> rq_body rq = Some body
          \<and> rq_headers rq = [''Content-Type: application/json'', take 159 (''Authorization: Bearer '' @ key)]
          \<and> out = Some (t, wr_status (he_web e rq)))"
proof -
  have h: "header_lines (Some (merge_json_headers (Some [(''Authorization'', snprintf_buf 320 (''Bearer '' @ key))])))
      = [''Content-Type: application/json'', take 159 (''Authorization: Bearer '' @ key)]"
    by (simp add: header_lines_def merge_json_headers_def FC_HTTP_HEADER_MAX_def snprintf_buf_def)
  have t: "prefix ''https://'' CONFIG_FRUITCLAW_DEEPSEEK_ENDPOINT" by code_simp
  from http_perform_cases [OF assms [unfolded fc_http_post_json_guarded_timeout_def h]] show ?thesis
    using t h by (auto simp: json_body_or_empty_def dest!: http_exchange_text [OF _ _ refl])
qed

lemma chat_fail_facts:
  assumes "((ret, m), w') = chat_fail e x status w"
  shows "ret \<noteq> OK" "dw_http w' = dw_http w" "g_deepseek_call_count (dw_ds w') = g_deepseek_call_count (dw_ds w)"
    "g_deepseek_fail_count (dw_ds w') = g_deepseek_fail_count (dw_ds w) + 1"
  using assms by (simp_all add: chat_fail_def fc_deepseek_record_result_def Let_def)

lemma chat_answer_facts:
  assumes "((ret, m), w') = chat_answer cj e r out w"
  shows "dw_http w' = dw_http w" "g_deepseek_call_count (dw_ds w') = g_deepseek_call_count (dw_ds w)"
    "g_deepseek_fail_count (dw_ds w') = g_deepseek_fail_count (dw_ds w) + (if ret = OK then 0 else 1)"
    "ret = OK \<Longrightarrow> r = OK \<and> m \<noteq> None \<and> (\<exists>b s. out = Some (b, s) \<and> 200 \<le> s \<and> s < 300)"
  using assms
  by (auto simp: chat_answer_def Let_def chat_fail_def fc_deepseek_record_result_def split: ret.splits if_splits option.splits)

lemma deepseek_chat_cases:
  assumes "fc_deepseek_chat cj root e r (Some messages) True w = Some ((ret, m), w')"
  obtains (refused) x fs1 where "((ret, m), w') = chat_fail e x 0 ((fc_deepseek_record_start e w)\<lparr>dw_fs := fs1\<rparr>)"
  | (asked) key fs1 body r1 out hw where "fst (fc_deepseek_read_key root (Some 256) (dw_fs w)) = (OK, Some key)" "key \<noteq> []"
      "fc_http_post_json_guarded_timeout (de_http e) FC_GUARD_STAGE_LLM CONFIG_FRUITCLAW_LLM_GUARD_TIMEOUT_MS
         CONFIG_FRUITCLAW_DEEPSEEK_HTTP_TIMEOUT_SEC (Some CONFIG_FRUITCLAW_DEEPSEEK_ENDPOINT)
         (Some [(''Authorization'', snprintf_buf 320 (''Bearer '' @ key))]) (Some body) (Some CONFIG_FRUITCLAW_MAX_HTTP_BODY) (dw_http w)
       = Some ((r1, out), hw)"
      "((ret, m), w') = chat_answer cj e r1 out ((fc_deepseek_record_start e w)\<lparr>dw_fs := fs1, dw_http := hw\<rparr>)"
proof -
  obtain kr key fs1 where k: "fc_deepseek_read_key root (Some 256) (dw_fs w) = ((kr, key), fs1)" by (metis prod.collapse)
  have hs: "dw_http ((fc_deepseek_record_start e w)\<lparr>dw_fs := fs1\<rparr>) = dw_http w" by (simp add: fc_deepseek_record_start_def)
  show thesis
  proof (cases "ret_neg kr \<or> key = Some []")
    case False
    then obtain s where s: "key = Some s" "s \<noteq> []" "kr = OK" using k read_key_Some [of root 256 "dw_fs w" key] by (cases kr) auto
    let ?run = "\<lambda>body. fc_http_post_json_guarded_timeout (de_http e) FC_GUARD_STAGE_LLM CONFIG_FRUITCLAW_LLM_GUARD_TIMEOUT_MS
         CONFIG_FRUITCLAW_DEEPSEEK_HTTP_TIMEOUT_SEC (Some CONFIG_FRUITCLAW_DEEPSEEK_ENDPOINT)
         (Some [(''Authorization'', snprintf_buf 320 (''Bearer '' @ s))]) (Some body) (Some CONFIG_FRUITCLAW_MAX_HTTP_BODY) (dw_http w)"
    show thesis
    proof (cases "\<exists>rt body. cj_object cj 0 = Some rt \<and> de_calloc_tools e \<and> cj_print cj (chat_body cj rt r messages) = Some body \<and> de_calloc_resp e")
      case True
      then obtain rt body where b: "cj_object cj 0 = Some rt" "de_calloc_tools e" "cj_print cj (chat_body cj rt r messages) = Some body" "de_calloc_resp e"
        by (elim exE conjE) (rule that)
      have "map_option (\<lambda>((ret, out), hw). chat_answer cj e ret out ((fc_deepseek_record_start e w)\<lparr>dw_fs := fs1, dw_http := hw\<rparr>)) (?run body)
          = Some ((ret, m), w')"
        using assms [unfolded fc_deepseek_chat_def Let_def k] s b hs by simp
      then obtain r1 out hw where "?run body = Some ((r1, out), hw)"
          "((ret, m), w') = chat_answer cj e r1 out ((fc_deepseek_record_start e w)\<lparr>dw_fs := fs1, dw_http := hw\<rparr>)"
        by (cases "?run body") auto
      then show thesis by (rule asked [rotated 2]) (use k s in simp_all)
    next
      case no: False
      show thesis
        by (rule refused [of ENOMEM fs1])
           (use assms [unfolded fc_deepseek_chat_def Let_def k] False no in \<open>simp split: if_splits option.splits\<close>)
    qed
  qed (rule refused [of ENOENT fs1], use assms [unfolded fc_deepseek_chat_def Let_def k] in simp)
qed

lemma deepseek_chat_counts:
  assumes "fc_deepseek_chat cj root e r (Some messages) True w = Some ((ret, m), w')"
  shows "g_deepseek_call_count (dw_ds w') = g_deepseek_call_count (dw_ds w) + 1"
proof -
  have s: "g_deepseek_call_count (dw_ds (fc_deepseek_record_start e w)) = g_deepseek_call_count (dw_ds w) + 1"
    by (simp add: fc_deepseek_record_start_def)
  from assms show ?thesis
    by (cases rule: deepseek_chat_cases) (simp_all add: chat_fail_facts(3) chat_answer_facts(2) s)
qed


definition demo_llm_http :: http_env where
  "demo_llm_http = (demo_http_env [''{answer}''])\<lparr>he_files := (\<lambda>p. if p = ''/d/http_allowlist.txt''
     then Some (''api.deepseek.com'' @ [LF]) else None), he_tls := True, he_guard_rounds := [(0, 0, \<lambda>g. g)]\<rparr>"

definition demo_llm_env :: ds_env where
  "demo_llm_env = \<lparr>de_mark1 = 1, de_start = 1, de_mark2 = 2, de_done = 2, de_http = demo_llm_http, de_calloc_tools = True, de_calloc_resp = True\<rparr>"

definition demo_llm_json :: "demo_json cjson" where
  "demo_llm_json = (demo_cjson ''{answer}'' (DObject [(''choices'', DArray [DObject [(''message'', DObject [(''content'', DString ''hello'')])]])]))
     \<lparr>cj_print := (\<lambda>_. Some ''{request}'')\<rparr>"

text \<open>A world whose thread already holds the guard.\<close>

definition demo_llm_world :: ds_world where
  "demo_llm_world = \<lparr>dw_ds = zero_deepseek, dw_progress = zero_progress,
     dw_fs = \<lparr>fs_files = (\<lambda>p. if p = ''/d/secrets/deepseek_api_key'' then Some ''K'' else None), fs_dirs = [''/d''], fs_script = [], fs_off = False\<rparr>,
     dw_http = demo_http_world\<lparr>hx_guard := demo_held\<rparr>\<rparr>"

lemma demo_llm_key: "fc_deepseek_read_key ''/d'' (Some 256) (dw_fs demo_llm_world) = ((OK, Some ''K''), dw_fs demo_llm_world)"
proof -
  have p: "fc_secret_path ''/d'' (Some ''deepseek_api_key'') (Some FC_PATH_LEN) = (OK, Some ''/d/secrets/deepseek_api_key'')" by code_simp
  have trim: "fc_trim ''K'' = ''K''" by code_simp
  show ?thesis
    by (simp add: fc_deepseek_read_key_def p fc_read_text_file_def sys_open_rd_def fs_call_def fs_next_def demo_llm_world_def
        read_loop.simps sys_read_def trim)
qed

lemma demo_llm_request:
  "\<exists>hw. fc_http_post_json_guarded_timeout demo_llm_http FC_GUARD_STAGE_LLM CONFIG_FRUITCLAW_LLM_GUARD_TIMEOUT_MS
      CONFIG_FRUITCLAW_DEEPSEEK_HTTP_TIMEOUT_SEC (Some CONFIG_FRUITCLAW_DEEPSEEK_ENDPOINT) hs body (Some CONFIG_FRUITCLAW_MAX_HTTP_BODY)
      (dw_http demo_llm_world) = Some ((OK, Some (''{answer}'', 200)), hw)"
proof -
  have "fc_parse_url_host (Some CONFIG_FRUITCLAW_DEEPSEEK_ENDPOINT) (Some 96) = Some ''api.deepseek.com''" by code_simp
  moreover have "fc_data_path ''/d'' (Some ''http_allowlist.txt'') (Some FC_PATH_LEN) = (OK, Some ''/d/http_allowlist.txt'')" by code_simp
  moreover have "list_ex (allow_line_matches ''api.deepseek.com'') (fgets_lines 128 (''api.deepseek.com'' @ [LF]))" by code_simp
  ultimately have a: "fc_url_host_allowed (he_root demo_llm_http) (he_files demo_llm_http) (Some CONFIG_FRUITCLAW_DEEPSEEK_ENDPOINT)"
    by (simp add: fc_url_host_allowed_def demo_llm_http_def demo_http_env_def)
  have l: "fc_http_lock_timed (he_lock demo_llm_http) s g = OK" for s g
    by (simp add: demo_llm_http_def demo_http_env_def fc_http_lock_timed_def)
  have p: "he_tls demo_llm_http" "he_web demo_llm_http rq = \<lparr>wr_chunks = [''{answer}''], wr_status = 200, wr_ret = OK\<rparr>"
      "he_self demo_llm_http = 1" "he_guard_rounds demo_llm_http = [(0, 0, \<lambda>g. g)]" "he_feeder demo_llm_http l = l" for rq l
    by (simp_all add: demo_llm_http_def demo_http_env_def)
  have g: "fc_guard_long_start c (Suc 0) st tm t0 now [(0, 0, \<lambda>g. g)] op cr demo_held = Some (OK, \<lparr>gl_stop = False, gl_started = False,
      gl_expired = False, gl_reentrant = True, gl_fd = -1, gl_stage = st, gl_timeout_ms = tm, gl_deadline_ms = t0 + uint tm\<rparr>, demo_held)"
    for c st tm t0 now op cr
    by (simp add: fc_guard_long_start_def fc_guard_begin_short_def try_begin_def demo_held_def zero_guard_def Let_def)
  have h: "hx_guard (dw_http demo_llm_world) = demo_held" by (simp add: demo_llm_world_def)
  show ?thesis
    by (simp add: fc_http_post_json_guarded_timeout_def fc_http_perform_def a l p g h http_exchange_def webclient_transfer_eq [OF _ refl]
        fc_guard_long_stop_def CONFIG_FRUITCLAW_LLM_GUARD_TIMEOUT_MS_def CONFIG_FRUITCLAW_MAX_HTTP_BODY_def Let_def)
qed


end
