(* ===== verification/FC_Agent.thy ===== *)
theory FC_Agent
  imports FC_Deepseek FC_Memory FC_Cap_Props
begin

text \<open>
  The agent of \<^verbatim>\<open>core/fc_agent.c\<close>: scheduled texts and tools that bypass the language model, the conversation with the model
  and its tools, the reply, and the turn of the worker thread.
\<close>

section \<open>Texts of scheduled jobs\<close>

definition fc_agent_skip_space :: "string option \<Rightarrow> string" where
  "fc_agent_skip_space s = (case s of None \<Rightarrow> [] | Some t \<Rightarrow> dropWhile isspace t)"

text \<open>The loop over the prefix; the result is what follows it.\<close>

fun match_ci :: "string \<Rightarrow> string \<Rightarrow> string option" where
  "match_ci s [] = Some s"
| "match_ci [] (p # ps) = None"
| "match_ci (c # cs) (p # ps) = (if tolower c \<noteq> tolower p then None else match_ci cs ps)"

definition fc_agent_match_prefix_ci :: "string option \<Rightarrow> string option \<Rightarrow> string option" where
  "fc_agent_match_prefix_ci s pre = (case (s, pre) of (Some t, Some p) \<Rightarrow> match_ci t p | _ \<Rightarrow> None)"

fun find_ci :: "string \<Rightarrow> string \<Rightarrow> string option" where
  "find_ci [] m = None"
| "find_ci (c # cs) m = (case match_ci (c # cs) m of Some r \<Rightarrow> Some r | None \<Rightarrow> find_ci cs m)"

definition fc_agent_find_marker_ci :: "string option \<Rightarrow> string option \<Rightarrow> string option" where
  "fc_agent_find_marker_ci s marker =
     (case (s, marker) of (Some t, Some m) \<Rightarrow> if m = [] then None else find_ci t m | _ \<Rightarrow> None)"

definition agent_prefix :: "string \<Rightarrow> string option" where
  "agent_prefix s =
     (case fc_agent_match_prefix_ci (Some s) (Some ''agent:'') of
        Some r \<Rightarrow> Some r
      | None \<Rightarrow> (case fc_agent_match_prefix_ci (Some s) (Some ''llm:'') of
                  Some r \<Rightarrow> Some r
                | None \<Rightarrow> fc_agent_match_prefix_ci (Some s) (Some ''tool:'')))"

definition fc_agent_schedule_agent_text :: "string option \<Rightarrow> string" where
  "fc_agent_schedule_agent_text text' =
     (case agent_prefix (fc_agent_skip_space text') of
        Some after \<Rightarrow> fc_agent_skip_space (Some after)
      | None \<Rightarrow> (case text' of Some t \<Rightarrow> t | None \<Rightarrow> []))"

definition fc_agent_schedule_direct_text :: "string option \<Rightarrow> string option" where
  "fc_agent_schedule_direct_text text' =
     (let s = fc_agent_skip_space text'
      in if agent_prefix s \<noteq> None then None
         else case fc_agent_find_marker_ci (Some s) (Some ''exactly:'') of
                Some m \<Rightarrow> Some (fc_agent_skip_space (Some m))
              | None \<Rightarrow>
                  (case fc_agent_match_prefix_ci (Some s) (Some ''reply:'') of
                     Some m \<Rightarrow> Some (fc_agent_skip_space (Some m))
                   | None \<Rightarrow> Some s))"

section \<open>State and environment\<close>

record agent =
  g_agent_started :: bool
  g_agent_events_started :: u32
  g_agent_events_done :: u32
  g_agent_event_failures :: u32
  g_agent_tool_calls :: u32
  g_agent_tool_failures :: u32
  g_agent_replies_sent :: u32
  g_agent_reply_failures :: u32
  g_agent_last_event_ms :: int
  g_agent_last_done_ms :: int
  g_agent_last_reply_ms :: int
  g_agent_last_ret :: ret
  g_agent_last_reply_ret :: ret
  g_agent_last_source :: string
  g_agent_last_channel :: string
  g_agent_last_session :: string
  g_agent_last_tool :: string

definition zero_agent :: agent where
  "zero_agent = \<lparr>g_agent_started = False, g_agent_events_started = 0, g_agent_events_done = 0, g_agent_event_failures = 0,
     g_agent_tool_calls = 0, g_agent_tool_failures = 0, g_agent_replies_sent = 0, g_agent_reply_failures = 0,
     g_agent_last_event_ms = 0, g_agent_last_done_ms = 0, g_agent_last_reply_ms = 0, g_agent_last_ret = OK,
     g_agent_last_reply_ret = OK, g_agent_last_source = [], g_agent_last_channel = [], g_agent_last_session = [],
     g_agent_last_tool = []\<rparr>"

text \<open>
  What the tools can reach besides the registry and the progress clock: Telegram with the main queue, the files, the HTTP lane with
  the guard, and a state of their own.  The agent's world adds the counters, the standard output and the number of the next step.
\<close>

record 's dev =
  dv_tg :: telegram
  dv_main :: fc_queue
  dv_fs :: posix_fs
  dv_http :: http_world
  dv_seq :: u32
  dv_tools :: 's

record 's agent_world =
  aw_agent :: agent
  aw_ds :: deepseek
  aw_caps :: "'s dev cap_world"
  aw_stdout :: "string list"
  aw_step :: nat

text \<open>
  What a step meets: the clocks, the allocations, the bytes that blocks of memory held before (by block and index), the text a failed
  read leaves in its buffer, and the environments of the tools, the language model and Telegram.
\<close>

record moment =
  mo_now :: int
  mo_mark :: int
  mo_time :: int
  mo_alloc :: bool
  mo_log_alloc :: "bool \<times> bool"
  mo_byte :: "nat \<Rightarrow> nat \<Rightarrow> char"
  mo_partial :: "nat \<Rightarrow> string"
  mo_tool_clk :: "int \<times> int \<times> int"
  mo_ds :: ds_env
  mo_send :: send_env

record agent_env =
  ae_root :: string
  ae_tg :: tg_cfg
  ae_code :: "ret \<Rightarrow> int"
  ae_at :: "nat \<Rightarrow> moment"

definition here :: "agent_env \<Rightarrow> 's agent_world \<Rightarrow> moment" where
  "here e w = ae_at e (aw_step w)"

definition tick :: "'s agent_world \<Rightarrow> 's agent_world" where
  "tick w = w\<lparr>aw_step := Suc (aw_step w)\<rparr>"

definition agent_mark :: "agent_env \<Rightarrow> string \<Rightarrow> 's agent_world \<Rightarrow> 's agent_world" where
  "agent_mark e s w =
     tick (w\<lparr>aw_caps := (aw_caps w)\<lparr>cw_progress := fc_operator_progress_mark (mo_mark (here e w)) (Some s) (cw_progress (aw_caps w))\<rparr>\<rparr>)"

definition set_fs :: "posix_fs \<Rightarrow> 's agent_world \<Rightarrow> 's agent_world" where
  "set_fs fs w = w\<lparr>aw_caps := (aw_caps w)\<lparr>cw_state := (cw_state (aw_caps w))\<lparr>dv_fs := fs\<rparr>\<rparr>\<rparr>"

definition block :: "moment \<Rightarrow> nat \<Rightarrow> nat \<Rightarrow> char list" where
  "block m k n = map (mo_byte m k) [0..<n]"

text \<open>A line of the session log; \<open>None\<close> where the code reads past the end of an array.\<close>

definition agent_log ::
    "agent_env \<Rightarrow> string \<Rightarrow> string \<Rightarrow> string option \<Rightarrow> string \<Rightarrow> 's agent_world \<Rightarrow> 's agent_world option" where
  "agent_log e sid role name content w =
     (let m = here e w
      in map_option (\<lambda>(_, fs). tick (set_fs fs w))
           (fc_session_append (ae_root e) (mo_time m) (mo_log_alloc m) (block m 0 32) (block m 1 FC_TOOL_NAME_LEN)
              (block m 2 (length content * 6 + 1)) (Some sid) (Some role) name (Some content) (dv_fs (cw_state (aw_caps w)))))"

section \<open>Counters\<close>

definition fc_agent_record_event_start :: "agent_env \<Rightarrow> fc_event option \<Rightarrow> 's agent_world \<Rightarrow> 's agent_world" where
  "fc_agent_record_event_start e ev w =
     (let a = (aw_agent w)\<lparr>g_agent_events_started := g_agent_events_started (aw_agent w) + 1, g_agent_last_event_ms := mo_now (here e w)\<rparr>
      in agent_mark e ''agent-start'' (w\<lparr>aw_agent :=
           (case ev of
              None \<Rightarrow> a
            | Some x \<Rightarrow> a\<lparr>g_agent_last_source := cpy FC_SOURCE_LEN (ev_source x), g_agent_last_channel := cpy FC_CHANNEL_LEN (ev_channel x),
                          g_agent_last_session := cpy FC_SESSION_ID_LEN (ev_session_id x)\<rparr>)\<rparr>))"

definition fc_agent_record_event_done :: "agent_env \<Rightarrow> ret \<Rightarrow> 's agent_world \<Rightarrow> 's agent_world" where
  "fc_agent_record_event_done e ret w =
     agent_mark e (if ret_neg ret then ''agent-fail'' else ''agent-done'')
       (w\<lparr>aw_agent := (aw_agent w)\<lparr>g_agent_events_done := g_agent_events_done (aw_agent w) + 1,
          g_agent_last_done_ms := mo_now (here e w), g_agent_last_ret := ret,
          g_agent_event_failures := g_agent_event_failures (aw_agent w) + (if ret_neg ret then 1 else 0)\<rparr>\<rparr>)"

definition fc_agent_record_tool_result :: "agent_env \<Rightarrow> string option \<Rightarrow> ret \<Rightarrow> 's agent_world \<Rightarrow> 's agent_world" where
  "fc_agent_record_tool_result e k ret w =
     agent_mark e (if ret_neg ret then ''agent-tool-fail'' else ''agent-tool-ok'')
       (w\<lparr>aw_agent := (aw_agent w)\<lparr>g_agent_tool_calls := g_agent_tool_calls (aw_agent w) + 1,
          g_agent_tool_failures := g_agent_tool_failures (aw_agent w) + (if ret_neg ret then 1 else 0),
          g_agent_last_tool := cpy FC_TOOL_NAME_LEN (case k of Some s \<Rightarrow> s | None \<Rightarrow> ''unknown'')\<rparr>\<rparr>)"

definition fc_agent_record_reply_result :: "agent_env \<Rightarrow> ret \<Rightarrow> 's agent_world \<Rightarrow> 's agent_world" where
  "fc_agent_record_reply_result e ret w =
     agent_mark e (if ret_neg ret then ''agent-reply-fail'' else ''agent-reply-ok'')
       (w\<lparr>aw_agent := (aw_agent w)\<lparr>g_agent_replies_sent := g_agent_replies_sent (aw_agent w) + 1,
          g_agent_last_reply_ms := mo_now (here e w), g_agent_last_reply_ret := ret,
          g_agent_reply_failures := g_agent_reply_failures (aw_agent w) + (if ret_neg ret then 1 else 0)\<rparr>\<rparr>)"

section \<open>Scheduled events\<close>

definition timer_event :: "fc_event \<Rightarrow> bool" where
  "timer_event ev \<longleftrightarrow> ev_source ev = ''scheduler'' \<and> ev_type ev = ''timer.fire''"

text \<open>The result is the reply, or \<open>None\<close> inside when the event is not one for this function.\<close>

definition fc_agent_try_direct_scheduler_reply ::
    "agent_env \<Rightarrow> fc_event option \<Rightarrow> nat option \<Rightarrow> 's agent_world \<Rightarrow> (string option \<times> 's agent_world) option" where
  "fc_agent_try_direct_scheduler_reply e evp out w =
     (case (evp, out) of
        (Some ev, Some n) \<Rightarrow>
          if n = 0 \<or> \<not> timer_event ev then Some (None, w)
          else (case fc_agent_schedule_direct_text (Some (ev_text ev)) of
                  None \<Rightarrow> Some (None, w)
                | Some t \<Rightarrow>
                    let reply = cpy n (if t = [] then ''Scheduled task fired.'' else t)
                    in Option.bind (agent_log e (ev_session_id ev) ''user'' None (ev_text ev) w) (\<lambda>w1.
                       Option.bind (agent_log e (ev_session_id ev) ''assistant'' None reply w1) (\<lambda>w2.
                       Some (Some reply, agent_mark e ''agent-schedule-direct'' w2))))
      | _ \<Rightarrow> Some (None, w))"

definition run_tool ::
    "agent_env \<Rightarrow> fc_tool_context \<Rightarrow> string \<Rightarrow> string \<Rightarrow> 's agent_world \<Rightarrow> (ret \<times> string) \<times> 's agent_world" where
  "run_tool e ctx k args w =
     (case fc_cap_execute_ctx (mo_tool_clk (here e w)) (Some ctx) (Some k) (Some args) (Some CONFIG_FRUITCLAW_MAX_JSON) (aw_caps w) of
        ((ret, t), cw) \<Rightarrow> ((ret, case t of Some x \<Rightarrow> x | None \<Rightarrow> []), tick (w\<lparr>aw_caps := cw\<rparr>)))"

definition fc_agent_try_direct_scheduler_tool ::
    "agent_env \<Rightarrow> fc_event option \<Rightarrow> nat option \<Rightarrow> 's agent_world \<Rightarrow> (string option \<times> 's agent_world) option" where
  "fc_agent_try_direct_scheduler_tool e evp out w =
     (case (evp, out) of
        (Some ev, Some n) \<Rightarrow>
          if n = 0 \<or> \<not> timer_event ev then Some (None, w)
          else (case fc_agent_match_prefix_ci (Some (fc_agent_skip_space (Some (ev_text ev)))) (Some ''tool:'') of
            None \<Rightarrow> Some (None, w)
          | Some r \<Rightarrow>
              let after = fc_agent_skip_space (Some r);
                  tool = take (FC_TOOL_NAME_LEN - 1) (takeWhile (\<lambda>c. \<not> isspace c) after)
              in if tool = []
                 then let reply = cpy n ''Scheduled tool failed: missing tool name.''
                      in Option.bind (agent_log e (ev_session_id ev) ''user'' None (ev_text ev) w) (\<lambda>w1.
                         Option.bind (agent_log e (ev_session_id ev) ''assistant'' None reply w1) (\<lambda>w2.
                         Some (Some reply, agent_mark e ''agent-schedule-tool-bad'' w2)))
                 else let a = fc_agent_skip_space (Some (drop (length tool) after));
                          args = (if a = [] then ''{}'' else a)
                      in case run_tool e ((fc_tool_context_from_event (Some ev))\<lparr>tc_guarded := True\<rparr>) tool args w of
                           ((ret, result), w1) \<Rightarrow>
                             let w2 = fc_agent_record_tool_result e (Some tool) ret w1;
                                 reply = snprintf_buf n (''Scheduled tool '' @ tool @ '' -> '' @ (if ret = OK then ''ok'' else ''failed'')
                                           @ '': '' @ take 512 result)
                             in Option.bind (agent_log e (ev_session_id ev) ''user'' None (ev_text ev) w2) (\<lambda>w3.
                                Option.bind (agent_log e (ev_session_id ev) ''tool'' (Some tool) result w3) (\<lambda>w4.
                                Option.bind (agent_log e (ev_session_id ev) ''assistant'' None reply w4) (\<lambda>w5.
                                Some (Some reply, agent_mark e (if ret = OK then ''agent-schedule-tool-ok''
                                                               else ''agent-schedule-tool-fail'') w5)))))
      | _ \<Rightarrow> Some (None, w))"

section \<open>The conversation\<close>

text \<open>The allocations of JSON objects are told apart by the step.\<close>

definition fc_add_message :: "'j cjson \<Rightarrow> nat \<Rightarrow> 'j \<Rightarrow> string \<Rightarrow> string option \<Rightarrow> 'j" where
  "fc_add_message cj k messages role content =
     (case cj_object cj k of
        None \<Rightarrow> messages
      | Some msg \<Rightarrow> cj_add_item cj messages (cj_add_string cj (cj_add_string cj msg ''role'' role) ''content''
                      (case content of Some c \<Rightarrow> c | None \<Rightarrow> [])))"

definition AGENT_INSTRUCTIONS :: string where
  "AGENT_INSTRUCTIONS =
     ''Safety: never reveal secrets, credentials, authorization headers, or secret file contents. Use tools directly when ''
     @ ''useful. When owner_mode is true, the user is the device owner and you may run terminal, scheduler, Berry, device, and ''
     @ ''NeoPixel tools without asking for extra confirmation. For scheduled Telegram reminders, use scheduler.add; the tool ''
     @ ''inherits this chat/session. Simple schedule prompts are delivered directly at fire time. Prefix a scheduled prompt ''
     @ ''with agent: only when the scheduled job should wake the LLM and use tools. For reusable Berry or NSH automation, use ''
     @ ''script.write with kind=berry or kind=shell and a short description; generated scripts live in scripts/generated/. ''
     @ ''Then use script.validate, script.run, script.schedule, script.read, script.list, and script.remove to test, rework, ''
     @ ''schedule, inspect, or clean them up. For LVGL or other long-running Berry UI scripts, use script.write ''
     @ ''validate_mode=syntax or script.validate mode=syntax so validation parses the script without executing lv.run() ''
     @ ''forever; schedule boot UIs with script.schedule type=boot after syntax validation. Use Berry for small board ''
     @ ''workflows, NeoPixel effects, RTTTL, LVGL UI experiments, and maintenance scripts. In Berry, prefer the constrained ''
     @ ''claw helpers: reply(), tool(), memory_append(), terminal_run(), neopixels_set(), neopixels_off(), neopixels_effect(), ''
     @ ''schedule_add(), script_run(), rtttl_play(), service_control(), and telegram_send(). Use the global lv module for LVGL ''
     @ ''widgets when Berry LVGL is compiled. Keep terminal commands bounded and return concise summaries.''"

definition left_in :: "moment \<Rightarrow> nat \<Rightarrow> ret \<times> string option \<Rightarrow> string" where
  "left_in m k r = (case snd r of Some s \<Rightarrow> s | None \<Rightarrow> mo_partial m k)"

definition fc_build_system_context :: "agent_env \<Rightarrow> fc_event \<Rightarrow> 's agent_world \<Rightarrow> string option \<times> 's agent_world" where
  "fc_build_system_context e ev w =
     (let m = here e w; root = ae_root e; fs = dv_fs (cw_state (aw_caps w))
      in if \<not> mo_alloc m then (None, tick w)
         else case fc_read_text_file (snd (fc_data_path root (Some ''system.md'') (Some FC_PATH_LEN))) (Some 2048) False fs of (r1, fs1) \<Rightarrow>
              case fc_read_text_file (snd (fc_data_path root (Some ''user.md'') (Some FC_PATH_LEN))) (Some 1024) False fs1 of (r2, fs2) \<Rightarrow>
              case fc_memory_read_tail root 1800 (Some 2048) fs2 of (r3, fs3) \<Rightarrow>
              case fc_session_read_tail root (Some (ev_session_id ev)) 1800 (Some 2048) fs3 of (r4, fs4) \<Rightarrow>
                (Some (snprintf_buf CONFIG_FRUITCLAW_MAX_JSON
                   (left_in m 0 r1 @ [LF] @ left_in m 1 r2 @ [LF, LF] @ ''Device: FruitClaw on NuttX RP2350.'' @ [LF]
                    @ ''Current unix_ms: '' @ dec_int (mo_time m) @ ''.'' @ [LF]
                    @ ''Current turn: source='' @ ev_source ev @ '' channel='' @ ev_channel ev @ '' chat_id='' @ ev_chat_id ev
                    @ '' session='' @ ev_session_id ev @ '' owner_mode='' @ (if ev_owner_mode ev then ''true'' else ''false'') @ ''.'' @ [LF]
                    @ AGENT_INSTRUCTIONS @ [LF, LF] @ ''Memory JSONL tail:'' @ [LF] @ left_in m 2 r3 @ [LF, LF]
                    @ ''Session JSONL tail:'' @ [LF] @ left_in m 3 r4 @ [LF])),
                 tick (set_fs fs4 w)))"

definition agent_chat ::
    "'j cjson \<Rightarrow> agent_env \<Rightarrow> 'j \<Rightarrow> 's agent_world \<Rightarrow> ((ret \<times> 'j option) \<times> 's agent_world) option" where
  "agent_chat cj e messages w =
     (let d = cw_state (aw_caps w)
      in map_option (\<lambda>(r, w1). (r, tick (w\<lparr>aw_ds := dw_ds w1,
             aw_caps := (aw_caps w)\<lparr>cw_progress := dw_progress w1, cw_state := d\<lparr>dv_fs := dw_fs w1, dv_http := dw_http w1\<rparr>\<rparr>\<rparr>)))
           (fc_deepseek_chat cj (ae_root e) (mo_ds (here e w)) (cw_registry (aw_caps w)) (Some messages) True
              \<lparr>dw_ds = aw_ds w, dw_progress = cw_progress (aw_caps w), dw_fs = dv_fs d, dw_http = dv_http d\<rparr>))"

text \<open>The result: the return code and the messages.\<close>

definition fc_execute_tool_call ::
    "'j cjson \<Rightarrow> agent_env \<Rightarrow> 'j \<Rightarrow> 'j \<Rightarrow> fc_event \<Rightarrow> 's agent_world \<Rightarrow> (ret \<times> 'j \<times> 's agent_world) option" where
  \<open>fc_execute_tool_call cj e call messages ev w =
     (let fn = cj_get cj call ''function'';
          member = (\<lambda>k. case fn of Some f \<Rightarrow> cj_string cj (cj_get cj f k) | None \<Rightarrow> None);
          call_id = (case cj_string cj (cj_get cj call ''id'') of Some s \<Rightarrow> s | None \<Rightarrow> ''tool-call'');
          api_name = member ''name'';
          found = (case api_name of None \<Rightarrow> (Err EINVAL, None)
                   | Some nm \<Rightarrow> fc_tool_name_from_openai (Some nm) (Some FC_TOOL_NAME_LEN) (cw_registry (aw_caps w)));
          (ret, result, cap_id, w1) =
            (case found of
               (Err _, _) \<Rightarrow> (Err ENOENT, ''{"ok":false,"error":"unknown tool"}'',
                              cpy FC_TOOL_NAME_LEN (case api_name of Some s \<Rightarrow> s | None \<Rightarrow> ''unknown''), w)
             | (OK, k) \<Rightarrow>
                 (case run_tool e (fc_tool_context_from_event (Some ev)) (the k)
                         (case member ''arguments'' of Some a \<Rightarrow> a | None \<Rightarrow> ''{}'') w of
                    ((r, t), w') \<Rightarrow> (r, if ret_neg r \<and> t = [] then ''{"ok":false,"error":"tool failed"}'' else t, the k, w')));
          w2 = fc_agent_record_tool_result e (Some cap_id) ret w1
      in case cj_object cj (aw_step w2) of
           None \<Rightarrow> Some (Err ENOMEM, messages, tick w2)
         | Some msg \<Rightarrow>
             map_option (\<lambda>w3. (OK, cj_add_item cj messages (cj_add_string cj (cj_add_string cj (cj_add_string cj msg ''role'' ''tool'')
                                ''tool_call_id'' call_id) ''content'' result), w3))
               (agent_log e (ev_session_id ev) ''tool'' (Some cap_id) result w2))\<close>

fun execute_calls ::
    "'j cjson \<Rightarrow> agent_env \<Rightarrow> 'j list \<Rightarrow> 'j \<Rightarrow> fc_event \<Rightarrow> 's agent_world \<Rightarrow> ('j \<times> 's agent_world) option" where
  "execute_calls cj e [] messages ev w = Some (messages, w)"
| "execute_calls cj e (c # cs) messages ev w =
     (case fc_execute_tool_call cj e c messages ev w of
        None \<Rightarrow> None
      | Some (_, messages1, w1) \<Rightarrow> execute_calls cj e cs messages1 ev w1)"

definition CONFIG_FRUITCLAW_MAX_TOOL_ITERATIONS :: nat where "CONFIG_FRUITCLAW_MAX_TOOL_ITERATIONS = 6"

text \<open>The loop over the iterations that are left; the result is the return code and the reply.\<close>

fun agent_loop ::
    "'j cjson \<Rightarrow> agent_env \<Rightarrow> nat \<Rightarrow> 'j \<Rightarrow> fc_event \<Rightarrow> nat \<Rightarrow> 's agent_world \<Rightarrow> ((ret \<times> string) \<times> 's agent_world) option" where
  "agent_loop cj e 0 messages ev n w = Some ((OK, []), w)"
| "agent_loop cj e (Suc k) messages ev n w =
     (case agent_chat cj e messages (agent_mark e ''agent-llm'' w) of
        None \<Rightarrow> None
      | Some ((Err x, _), w1) \<Rightarrow> Some ((Err x, snprintf_buf n (''LLM request failed: '' @ dec_int (ae_code e (Err x)))), w1)
      | Some ((OK, reply_msg), w1) \<Rightarrow>
          let msg = the reply_msg; messages1 = cj_add_item cj messages msg; tool_calls = cj_get cj msg ''tool_calls''
          in if cj_is_array cj tool_calls \<and> cj_items cj (the tool_calls) \<noteq> []
             then (case execute_calls cj e (cj_items cj (the tool_calls)) messages1 ev w1 of
                     None \<Rightarrow> None
                   | Some (messages2, w2) \<Rightarrow> agent_loop cj e k messages2 ev n w2)
             else let c = cj_string cj (cj_get cj msg ''content'');
                      reply = cpy n (case c of Some s \<Rightarrow> if s \<noteq> [] then s else ''(no response)'' | None \<Rightarrow> ''(no response)'')
                  in map_option (\<lambda>w2. ((OK, reply), w2)) (agent_log e (ev_session_id ev) ''assistant'' None reply w1))"

definition agent_limit :: "agent_env \<Rightarrow> fc_event \<Rightarrow> nat \<Rightarrow> ret \<Rightarrow> string \<Rightarrow> 's agent_world \<Rightarrow> (string \<times> 's agent_world) option" where
  "agent_limit e ev n ret reply w =
     (if reply = [] \<and> ret = OK
      then let r = cpy n ''Tool iteration limit reached.''
           in map_option (\<lambda>w1. (r, w1)) (agent_log e (ev_session_id ev) ''assistant'' None r w)
      else Some (reply, w))"

text \<open>
  The part with the language model.  The outer guard \<^verbatim>\<open>CONFIG_FRUITCLAW_AGENT_GUARD_TIMEOUT_MS\<close> is zero by
  default, which compiles its calls out.
\<close>

definition agent_converse ::
    "'j cjson \<Rightarrow> agent_env \<Rightarrow> fc_event \<Rightarrow> nat \<Rightarrow> 's agent_world \<Rightarrow> ((ret \<times> string) \<times> 's agent_world) option" where
  "agent_converse cj e ev n w =
     (let user_text = (if timer_event ev then fc_agent_schedule_agent_text (Some (ev_text ev)) else ev_text ev)
      in case fc_build_system_context e ev w of
           (None, w1) \<Rightarrow> Some ((Err ENOMEM, []), fc_agent_record_event_done e (Err ENOMEM) w1)
         | (Some system_ctx, w1) \<Rightarrow>
             (case cj_array cj of
                None \<Rightarrow> Some ((Err ENOMEM, []), fc_agent_record_event_done e (Err ENOMEM) w1)
              | Some a \<Rightarrow>
                  let m1 = fc_add_message cj (aw_step w1) a ''system'' (Some system_ctx);
                      m2 = fc_add_message cj (Suc (aw_step w1)) m1 ''user'' (Some user_text)
                  in Option.bind (agent_log e (ev_session_id ev) ''user'' None user_text (tick w1)) (\<lambda>w2.
                     Option.bind (agent_loop cj e CONFIG_FRUITCLAW_MAX_TOOL_ITERATIONS m2 ev n w2) (\<lambda>((ret, reply), w3).
                     Option.bind (agent_limit e ev n ret reply w3) (\<lambda>(reply1, w4).
                     Some ((ret, reply1), fc_agent_record_event_done e ret (agent_mark e ''agent-cleanup'' w4)))))))"

definition fc_agent_handle_event ::
    "'j cjson \<Rightarrow> agent_env \<Rightarrow> fc_event option \<Rightarrow> nat option \<Rightarrow> 's agent_world \<Rightarrow> ((ret \<times> string) \<times> 's agent_world) option" where
  "fc_agent_handle_event cj e evp out w =
     (case (evp, out) of
        (Some ev, Some n) \<Rightarrow>
          if n = 0 then Some ((Err EINVAL, []), w)
          else Option.bind (fc_agent_try_direct_scheduler_tool e evp out (fc_agent_record_event_start e evp w)) (\<lambda>(r1, w1).
            case r1 of
              Some reply \<Rightarrow> Some ((OK, reply), fc_agent_record_event_done e OK w1)
            | None \<Rightarrow>
                Option.bind (fc_agent_try_direct_scheduler_reply e evp out w1) (\<lambda>(r2, w2).
                  case r2 of
                    Some reply \<Rightarrow> Some ((OK, reply), fc_agent_record_event_done e OK w2)
                  | None \<Rightarrow> agent_converse cj e ev n w2))
      | _ \<Rightarrow> Some ((Err EINVAL, []), w))"

section \<open>The worker\<close>

definition agent_send ::
    "'j cjson \<Rightarrow> agent_env \<Rightarrow> string \<Rightarrow> string \<Rightarrow> 's agent_world \<Rightarrow> (ret \<times> 's agent_world) option" where
  "agent_send cj e chat text' w =
     (let d = cw_state (aw_caps w)
      in map_option (\<lambda>(ret, t). (ret, tick (w\<lparr>aw_caps := (aw_caps w)\<lparr>cw_progress := tw_progress t,
             cw_state := d\<lparr>dv_tg := tw_tg t, dv_main := tw_main t, dv_fs := tw_fs t, dv_http := tw_http t, dv_seq := tw_seq t\<rparr>\<rparr>\<rparr>)))
           (fc_telegram_send_message cj (ae_tg e) (ae_root e) (mo_send (here e w)) (Some chat) (Some text')
              \<lparr>tw_tg = dv_tg d, tw_main = dv_main d, tw_progress = cw_progress (aw_caps w), tw_fs = dv_fs d, tw_http = dv_http d,
               tw_seq = dv_seq d\<rparr>))"

definition fc_agent_reply :: "'j cjson \<Rightarrow> agent_env \<Rightarrow> fc_event \<Rightarrow> string \<Rightarrow> 's agent_world \<Rightarrow> 's agent_world option" where
  "fc_agent_reply cj e ev reply w =
     (let w1 = agent_mark e ''agent-reply'' w
      in if ev_channel ev = ''telegram'' \<and> ev_chat_id ev \<noteq> []
         then map_option (\<lambda>(ret, w2). fc_agent_record_reply_result e ret w2) (agent_send cj e (ev_chat_id ev) reply w1)
         else Some (fc_agent_record_reply_result e OK (w1\<lparr>aw_stdout := aw_stdout w1 @ [reply @ [LF]]\<rparr>)))"

definition agent_heartbeat :: "agent_env \<Rightarrow> 's agent_world \<Rightarrow> 's agent_world" where
  "agent_heartbeat e w =
     (let d = cw_state (aw_caps w); h = dv_http d
      in tick (w\<lparr>aw_caps := (aw_caps w)\<lparr>cw_state := d\<lparr>dv_http :=
           h\<lparr>hx_guard := fc_guard_session_heartbeat (mo_now (here e w)) (Some ''agent'') (hx_guard h)\<rparr>\<rparr>\<rparr>\<rparr>))"

text \<open>What the loop of \<^verbatim>\<open>fc_agent_thread_main\<close> does with an event it has received.\<close>

definition agent_event_turn :: "'j cjson \<Rightarrow> agent_env \<Rightarrow> fc_event \<Rightarrow> 's agent_world \<Rightarrow> 's agent_world option" where
  "agent_event_turn cj e ev w =
     Option.bind (fc_agent_handle_event cj e (Some ev) (Some CONFIG_FRUITCLAW_MAX_JSON) (agent_heartbeat e w)) (\<lambda>((ret, reply), w1).
     Option.bind (if ret = OK \<or> reply \<noteq> [] then fc_agent_reply cj e ev reply w1 else Some w1) (\<lambda>w2.
     Some (agent_heartbeat e w2)))"

text \<open>A turn of the loop: \<open>None\<close> while the receive blocks or the event is not done.\<close>

definition fc_agent_thread_main ::
    "'j cjson \<Rightarrow> agent_env \<Rightarrow> wait_round list \<Rightarrow> fc_queue \<times> 's agent_world \<Rightarrow> (fc_queue \<times> 's agent_world) option" where
  "fc_agent_thread_main cj e ws qw =
     (case fc_queue_receive (Some (fst qw)) True (-1) ws of
        None \<Rightarrow> None
      | Some (r, evp, q) \<Rightarrow>
          if r = OK then map_option (\<lambda>w1. (the q, w1)) (agent_event_turn cj e (the evp) (snd qw))
          else Some (the q, snd qw))"

definition fc_agent_worker_start :: "errno option \<Rightarrow> agent \<Rightarrow> ret \<times> agent" where
  "fc_agent_worker_start created a =
     (if g_agent_started a then (OK, a)
      else case created of Some x \<Rightarrow> (Err x, a) | None \<Rightarrow> (OK, a\<lparr>g_agent_started := True\<rparr>))"

definition fc_agent_status_format :: "(ret \<Rightarrow> int) \<Rightarrow> int \<Rightarrow> nat option \<Rightarrow> agent \<Rightarrow> ret \<times> string option" where
  "fc_agent_status_format code now out a =
     (case out of
        None \<Rightarrow> (Err EINVAL, None)
      | Some len \<Rightarrow>
          if len = 0 then (Err EINVAL, None)
          else let num = (\<lambda>x :: u32. dec_nat (unat x));
                   age = (\<lambda>t. dec_int (if t > 0 then now - t else -1));
                   dash = (\<lambda>n s. cpy n (if s \<noteq> [] then s else ''-''))
               in (OK, Some (snprintf_buf len (''agent_status: worker='' @ (if g_agent_started a then ''started'' else ''stopped'')
                    @ '' started='' @ num (g_agent_events_started a) @ '' done='' @ num (g_agent_events_done a)
                    @ '' failures='' @ num (g_agent_event_failures a) @ '' tools='' @ num (g_agent_tool_calls a)
                    @ '' tool_failures='' @ num (g_agent_tool_failures a) @ '' replies='' @ num (g_agent_replies_sent a)
                    @ '' reply_failures='' @ num (g_agent_reply_failures a)
                    @ '' last_ret='' @ dec_int (code (g_agent_last_ret a)) @ '' last_reply_ret='' @ dec_int (code (g_agent_last_reply_ret a))
                    @ '' last_event_age_ms='' @ age (g_agent_last_event_ms a) @ '' last_done_age_ms='' @ age (g_agent_last_done_ms a)
                    @ '' last_reply_age_ms='' @ age (g_agent_last_reply_ms a)
                    @ '' last='' @ dash FC_SOURCE_LEN (g_agent_last_source a) @ ''/'' @ dash FC_CHANNEL_LEN (g_agent_last_channel a)
                    @ '' session='' @ dash FC_SESSION_ID_LEN (g_agent_last_session a)
                    @ '' tool='' @ dash FC_TOOL_NAME_LEN (g_agent_last_tool a)))))"

section \<open>What the operations keep\<close>

lemma tick_simps [simp]:
  "aw_agent (tick w) = aw_agent w" "aw_ds (tick w) = aw_ds w" "aw_caps (tick w) = aw_caps w" "aw_stdout (tick w) = aw_stdout w"
  by (simp_all add: tick_def)

lemma agent_mark_simps [simp]:
  "aw_agent (agent_mark e s w) = aw_agent w" "aw_ds (agent_mark e s w) = aw_ds w" "aw_stdout (agent_mark e s w) = aw_stdout w"
  "cw_registry (aw_caps (agent_mark e s w)) = cw_registry (aw_caps w)" "cw_state (aw_caps (agent_mark e s w)) = cw_state (aw_caps w)"
  by (simp_all add: agent_mark_def)

lemma set_fs_simps [simp]:
  "aw_agent (set_fs fs w) = aw_agent w" "aw_ds (set_fs fs w) = aw_ds w" "aw_stdout (set_fs fs w) = aw_stdout w"
  "cw_registry (aw_caps (set_fs fs w)) = cw_registry (aw_caps w)"
  "cw_state (aw_caps (set_fs fs w)) = (cw_state (aw_caps w))\<lparr>dv_fs := fs\<rparr>"
  by (simp_all add: set_fs_def)

lemma agent_log_Some:
  assumes "agent_log e sid role name content w = Some w'"
  shows "aw_agent w' = aw_agent w" "aw_ds w' = aw_ds w" "aw_stdout w' = aw_stdout w"
    "cw_registry (aw_caps w') = cw_registry (aw_caps w)" "\<exists>fs. cw_state (aw_caps w') = (cw_state (aw_caps w))\<lparr>dv_fs := fs\<rparr>"
  using assms by (auto simp: agent_log_def Let_def)

lemma record_state_simps [simp]:
  "cw_registry (aw_caps (fc_agent_record_event_start e ev w)) = cw_registry (aw_caps w)"
  "cw_state (aw_caps (fc_agent_record_event_start e ev w)) = cw_state (aw_caps w)"
  "aw_ds (fc_agent_record_event_start e ev w) = aw_ds w"
  "cw_registry (aw_caps (fc_agent_record_event_done e r w)) = cw_registry (aw_caps w)"
  "cw_state (aw_caps (fc_agent_record_event_done e r w)) = cw_state (aw_caps w)"
  "aw_ds (fc_agent_record_event_done e r w) = aw_ds w"
  "cw_registry (aw_caps (fc_agent_record_tool_result e k r w)) = cw_registry (aw_caps w)"
  "cw_state (aw_caps (fc_agent_record_tool_result e k r w)) = cw_state (aw_caps w)"
  "aw_ds (fc_agent_record_tool_result e k r w) = aw_ds w"
  "cw_registry (aw_caps (fc_agent_record_reply_result e r w)) = cw_registry (aw_caps w)"
  "cw_state (aw_caps (fc_agent_record_reply_result e r w)) = cw_state (aw_caps w)"
  "aw_ds (fc_agent_record_reply_result e r w) = aw_ds w"
  by (simp_all add: fc_agent_record_event_start_def fc_agent_record_event_done_def fc_agent_record_tool_result_def
      fc_agent_record_reply_result_def Let_def)

section \<open>The owner gate\<close>

abbreviation gate_kept :: "('s \<Rightarrow> bool) \<Rightarrow> 's agent_world \<Rightarrow> bool" where
  "gate_kept P w \<equiv> open_tools_keep (\<lambda>d. P (dv_tools d)) (cw_registry (aw_caps w)) \<and> P (dv_tools (cw_state (aw_caps w)))"

lemma log_gate: "agent_log e sid role name content w = Some w' \<Longrightarrow> gate_kept P w \<Longrightarrow> gate_kept P w'"
  using agent_log_Some(4,5) [of e sid role name content w w'] by auto

lemma run_tool_gate:
  assumes "gate_kept P w" "\<not> tc_owner_mode c" "run_tool e c k args w = (x, w')"
  shows "gate_kept P w'"
  using cap_execute_keeps [of "\<lambda>d. P (dv_tools d)" "aw_caps w" c "mo_tool_clk (here e w)" "Some k" "Some args" "Some CONFIG_FRUITCLAW_MAX_JSON"] assms
  by (auto simp: run_tool_def open_tools_keep_def split: prod.splits)

lemma event_context_owner [simp]: "tc_owner_mode (fc_tool_context_from_event (Some ev)) = ev_owner_mode ev"
  by (simp add: fc_tool_context_from_event_def)

lemma chat_gate: "agent_chat cj e messages w = Some (x, w') \<Longrightarrow> gate_kept P w \<Longrightarrow> gate_kept P w'"
  by (auto simp: agent_chat_def Let_def)

lemma send_gate: "agent_send cj e chat t w = Some (x, w') \<Longrightarrow> gate_kept P w \<Longrightarrow> gate_kept P w'"
  by (auto simp: agent_send_def Let_def)

lemma tool_call_gate:
  assumes "\<not> ev_owner_mode ev" "gate_kept P w" "fc_execute_tool_call cj e call messages ev w = Some (x, ms, w')"
  shows "gate_kept P w'"
  using assms(3,2) run_tool_gate [OF assms(2), of "fc_tool_context_from_event (Some ev)" e] assms(1)
  by (auto simp: fc_execute_tool_call_def Let_def split: option.splits prod.splits ret.splits if_splits dest!: log_gate [of _ _ _ _ _ _ _ P])

lemma calls_gate:
  assumes "\<not> ev_owner_mode ev"
  shows "gate_kept P w \<Longrightarrow> execute_calls cj e calls messages ev w = Some (ms, w') \<Longrightarrow> gate_kept P w'"
  using assms
  by (induction cj e calls messages ev w arbitrary: ms w' rule: execute_calls.induct)
     (auto split: option.splits dest: tool_call_gate)

lemma loop_gate:
  assumes "\<not> ev_owner_mode ev"
  shows "gate_kept P w \<Longrightarrow> agent_loop cj e k messages ev n w = Some (x, w') \<Longrightarrow> gate_kept P w'"
proof (induction k arbitrary: messages w)
  case (Suc k)
  have m: "gate_kept P (agent_mark e ''agent-llm'' w)" using Suc.prems(1) by simp
  show ?case
    using Suc.prems(2) Suc.IH
    by (auto simp: Let_def split: option.splits prod.splits ret.splits if_splits
        dest!: chat_gate [OF _ m] log_gate [of _ _ _ _ _ _ _ P] calls_gate [OF assms, of P, rotated])
qed simp

lemma context_gate: "fc_build_system_context e ev w = (x, w') \<Longrightarrow> gate_kept P w \<Longrightarrow> gate_kept P w'"
  by (auto simp: fc_build_system_context_def Let_def split: if_splits prod.splits)

lemma limit_gate: "agent_limit e ev n ret reply w = Some (x, w') \<Longrightarrow> gate_kept P w \<Longrightarrow> gate_kept P w'"
  by (auto simp: agent_limit_def Let_def split: if_splits dest!: log_gate [of _ _ _ _ _ _ _ P])

lemma converse_gate:
  assumes "\<not> ev_owner_mode ev" "gate_kept P w" "agent_converse cj e ev n w = Some (x, w')"
  shows "gate_kept P w'"
proof -
  obtain c w1 where c: "fc_build_system_context e ev w = (c, w1)" by fastforce
  note k1 = context_gate [OF c assms(2)]
  have k1': "gate_kept P (tick w1)" using k1 by simp
  show ?thesis
    using assms(3) c k1
    by (auto simp: agent_converse_def Let_def bind_eq_Some_conv split: option.splits if_splits
        dest!: log_gate [OF _ k1'] loop_gate [OF assms(1), rotated, of _ _ _ _ _ _ _ _ P] limit_gate [of _ _ _ _ _ _ _ _ P])
qed

lemma direct_tool_gate:
  assumes "\<not> ev_owner_mode ev" "gate_kept P w" "fc_agent_try_direct_scheduler_tool e (Some ev) out w = Some (x, w')"
  shows "gate_kept P w'"
proof -
  have r: "gate_kept P w1" if "run_tool e ((fc_tool_context_from_event (Some ev))\<lparr>tc_guarded := True\<rparr>) k args w = (y, w1)" for k args y w1
    using run_tool_gate [OF assms(2) _ that] assms(1) by simp
  show ?thesis
    using assms(3,2)
    by (auto simp: fc_agent_try_direct_scheduler_tool_def Let_def bind_eq_Some_conv split: option.splits if_splits prod.splits
        dest!: r log_gate [of _ _ _ _ _ _ _ P])
qed

lemma direct_reply_gate:
  assumes "gate_kept P w" "fc_agent_try_direct_scheduler_reply e evp out w = Some (x, w')"
  shows "gate_kept P w'"
  using assms(2,1)
  by (auto simp: fc_agent_try_direct_scheduler_reply_def Let_def bind_eq_Some_conv split: option.splits if_splits
      dest!: log_gate [of _ _ _ _ _ _ _ P])

text \<open>The three ways through an event.\<close>

lemma direct_None:
  "fc_agent_try_direct_scheduler_tool e evp out w = Some (None, w') \<Longrightarrow> w' = w"
  "fc_agent_try_direct_scheduler_reply e evp out w = Some (None, w') \<Longrightarrow> w' = w"
  by (auto simp: fc_agent_try_direct_scheduler_tool_def fc_agent_try_direct_scheduler_reply_def Let_def bind_eq_Some_conv
      split: option.splits if_splits prod.splits)

lemma handle_cases:
  assumes "fc_agent_handle_event cj e (Some ev) (Some n) w = Some ((ret, reply), w')" "0 < n"
  obtains (tool) w1 where "fc_agent_try_direct_scheduler_tool e (Some ev) (Some n) (fc_agent_record_event_start e (Some ev) w) = Some (Some reply, w1)"
      "ret = OK" "w' = fc_agent_record_event_done e OK w1"
  | (direct) w1 where "fc_agent_try_direct_scheduler_tool e (Some ev) (Some n) (fc_agent_record_event_start e (Some ev) w)
        = Some (None, fc_agent_record_event_start e (Some ev) w)"
      "fc_agent_try_direct_scheduler_reply e (Some ev) (Some n) (fc_agent_record_event_start e (Some ev) w) = Some (Some reply, w1)"
      "ret = OK" "w' = fc_agent_record_event_done e OK w1"
  | (talk) "agent_converse cj e ev n (fc_agent_record_event_start e (Some ev) w) = Some ((ret, reply), w')"
proof -
  let ?w = "fc_agent_record_event_start e (Some ev) w"
  obtain r1 w1 where t: "fc_agent_try_direct_scheduler_tool e (Some ev) (Some n) ?w = Some (r1, w1)"
    using assms by (auto simp: fc_agent_handle_event_def bind_eq_Some_conv)
  show thesis
  proof (cases r1)
    case (Some y)
    then show thesis using assms t by (intro tool) (auto simp: fc_agent_handle_event_def)
  next
    case None
    then have w1: "w1 = ?w" using t direct_None(1) by blast
    then obtain r2 w2 where d: "fc_agent_try_direct_scheduler_reply e (Some ev) (Some n) ?w = Some (r2, w2)"
      using assms t None by (auto simp: fc_agent_handle_event_def bind_eq_Some_conv)
    show thesis
    proof (cases r2)
      case (Some y)
      then show thesis using assms t None w1 d by (intro direct) (auto simp: fc_agent_handle_event_def)
    next
      case no: None
      then have "w2 = ?w" using d direct_None(2) by blast
      then show thesis using assms t None w1 d no by (intro talk) (simp add: fc_agent_handle_event_def)
    qed
  qed
qed

lemma handle_gate:
  assumes "\<not> ev_owner_mode ev" "gate_kept P w" "fc_agent_handle_event cj e (Some ev) (Some n) w = Some ((ret, reply), w')" "0 < n"
  shows "gate_kept P w'"
proof -
  have s: "gate_kept P (fc_agent_record_event_start e (Some ev) w)" using assms(2) by simp
  from assms(3,4) show ?thesis
  proof (cases rule: handle_cases)
    case (tool w1)
    then show ?thesis using direct_tool_gate [OF assms(1) s] by simp
  next
    case (direct w1)
    then show ?thesis using direct_reply_gate [OF s] by simp
  next
    case talk
    then show ?thesis using converse_gate [OF assms(1) s] by blast
  qed
qed

section \<open>Accounting\<close>

abbreviation counters :: "agent \<Rightarrow> u32 \<times> u32 \<times> u32" where
  "counters a \<equiv> (g_agent_events_started a, g_agent_events_done a, g_agent_event_failures a)"

lemma record_counters [simp]:
  "counters (aw_agent (fc_agent_record_event_start e ev w)) = (case counters (aw_agent w) of (s, d, f) \<Rightarrow> (s + 1, d, f))"
  "counters (aw_agent (fc_agent_record_event_done e r w)) =
     (case counters (aw_agent w) of (s, d, f) \<Rightarrow> (s, d + 1, f + (if ret_neg r then 1 else 0)))"
  "counters (aw_agent (fc_agent_record_tool_result e k r w)) = counters (aw_agent w)"
  by (simp_all add: fc_agent_record_event_start_def fc_agent_record_event_done_def fc_agent_record_tool_result_def Let_def split: option.splits)

text \<open>The calls of the language model between two worlds, with the counters of events unchanged.\<close>

definition chats :: "nat \<Rightarrow> 's agent_world \<Rightarrow> 's agent_world \<Rightarrow> bool" where
  "chats k w w' \<longleftrightarrow> counters (aw_agent w') = counters (aw_agent w)
     \<and> (\<exists>j\<le>k. g_deepseek_call_count (aw_ds w') = g_deepseek_call_count (aw_ds w) + of_nat j)"

lemma chats_trans: "chats i w1 w2 \<Longrightarrow> chats k w2 w3 \<Longrightarrow> chats (i + k) w1 w3"
  by (auto simp: chats_def) (metis (no_types, opaque_lifting) add.assoc add_le_mono of_nat_add)

lemma chats_mono: "chats i w w' \<Longrightarrow> i \<le> k \<Longrightarrow> chats k w w'"
  unfolding chats_def using order_trans by blast

lemma chats_0: "aw_ds w' = aw_ds w \<Longrightarrow> counters (aw_agent w') = counters (aw_agent w) \<Longrightarrow> chats 0 w w'"
  by (simp add: chats_def)

lemma log_chats: "agent_log e sid role name content w = Some w' \<Longrightarrow> chats 0 w w'"
  by (frule agent_log_Some(1), frule agent_log_Some(2)) (simp add: chats_0)

lemma run_tool_chats: "run_tool e c k args w = (x, w') \<Longrightarrow> chats 0 w w'"
  by (auto simp: run_tool_def split: prod.splits intro!: chats_0)

lemma mark_chats: "chats 0 w (agent_mark e s w)" "chats 0 w (tick w)" "chats 0 w (fc_agent_record_tool_result e k r w)"
  by (simp_all add: chats_0)

lemma chat_chats: "agent_chat cj e messages w = Some (x, w') \<Longrightarrow> chats 1 w w'"
proof -
  assume "agent_chat cj e messages w = Some (x, w')"
  then obtain r m d where "fc_deepseek_chat cj (ae_root e) (mo_ds (here e w)) (cw_registry (aw_caps w)) (Some messages) True
      \<lparr>dw_ds = aw_ds w, dw_progress = cw_progress (aw_caps w), dw_fs = dv_fs (cw_state (aw_caps w)), dw_http = dv_http (cw_state (aw_caps w))\<rparr>
      = Some ((r, m), d)" "aw_ds w' = dw_ds d" "aw_agent w' = aw_agent w"
    by (auto simp: agent_chat_def Let_def)
  then show "chats 1 w w'"
    using deepseek_chat_counts by (fastforce simp: chats_def intro!: exI [of _ 1])
qed

lemma tool_call_chats:
  assumes "fc_execute_tool_call cj e call messages ev w = Some (x, ms, w')"
  shows "chats 0 w w'"
proof -
  have r: "chats 0 w (fc_agent_record_tool_result e k ret w1)" if "run_tool e c kk args w = (y, w1)" for c kk args y w1 k ret
    using chats_trans [OF run_tool_chats [OF that] mark_chats(3)] by simp
  have l: "chats 0 w w3" if "chats 0 w w2" "agent_log e sid role nm ct w2 = Some w3" for w2 w3 sid role nm ct
    using chats_trans [OF that(1) log_chats [OF that(2)]] by simp
  have t: "chats 0 w (tick w2)" if "chats 0 w w2" for w2
    using chats_trans [OF that mark_chats(2)] by simp
  show ?thesis
    using assms
    by (auto simp: fc_execute_tool_call_def Let_def split: option.splits prod.splits ret.splits if_splits
        intro!: t elim!: l [rotated] intro: mark_chats(3) r)
qed

lemma calls_chats: "execute_calls cj e calls messages ev w = Some (ms, w') \<Longrightarrow> chats 0 w w'"
proof (induction calls arbitrary: messages w)
  case (Cons c cs)
  then obtain y m1 w1 where "fc_execute_tool_call cj e c messages ev w = Some (y, m1, w1)" "execute_calls cj e cs m1 ev w1 = Some (ms, w')"
    by (auto split: option.splits)
  then show ?case using chats_trans [OF tool_call_chats Cons.IH] by fastforce
qed (simp add: chats_0)

lemma loop_chats:
  assumes "agent_loop cj e k messages ev n w = Some ((ret, reply), w')" "2 \<le> n"
  shows "chats k w w' \<and> (ret \<noteq> OK \<longrightarrow> reply \<noteq> [])"
  using assms(1)
proof (induction k arbitrary: messages w)
  case (Suc k)
  obtain r m w1 where c: "agent_chat cj e messages (agent_mark e ''agent-llm'' w) = Some ((r, m), w1)"
    using Suc.prems by (auto split: option.splits)
  have w1: "chats 1 w w1" using chats_trans [OF mark_chats(1) chat_chats [OF c]] by simp
  have up: "chats (Suc k) w w2" if "chats j w1 w2" "j \<le> k" for j w2
    using chats_mono [OF chats_trans [OF w1 that(1)]] that(2) by simp
  show ?case
  proof (cases r)
    case OK
    let ?tc = "cj_get cj (the m) ''tool_calls''"
    show ?thesis
    proof (cases "cj_is_array cj ?tc \<and> cj_items cj (the ?tc) \<noteq> []")
      case True
      then obtain m2 w2 where x: "execute_calls cj e (cj_items cj (the ?tc)) (cj_add_item cj messages (the m)) ev w1 = Some (m2, w2)"
          "agent_loop cj e k m2 ev n w2 = Some ((ret, reply), w')"
        using Suc.prems c OK by (auto simp: Let_def split: option.splits)
      then show ?thesis using Suc.IH [OF x(2)] up [OF chats_trans [OF calls_chats [OF x(1)]]] by auto
    next
      case False
      then obtain role ct where "agent_log e (ev_session_id ev) role None ct w1 = Some w'" "ret = OK"
        using Suc.prems c OK by (auto simp: Let_def)
      then show ?thesis using up [OF log_chats] by auto
    qed
  next
    case (Err x)
    then have "w' = w1" "ret = Err x" "reply \<noteq> []" using Suc.prems c assms(2) by (auto simp: snprintf_buf_def)
    then show ?thesis using up [of 0 w1] by (simp add: chats_0)
  qed
qed (simp add: chats_0)

lemma converse_counts:
  assumes "agent_converse cj e ev n w = Some ((ret, reply), w')" "2 \<le> n"
  shows "\<exists>w4. chats CONFIG_FRUITCLAW_MAX_TOOL_ITERATIONS w w4 \<and> w' = fc_agent_record_event_done e ret w4 \<and> (reply \<noteq> [] \<or> ret = Err ENOMEM)"
proof -
  obtain c w1 where c: "fc_build_system_context e ev w = (c, w1)" by fastforce
  have w1: "chats 0 w w1" using c by (auto simp: fc_build_system_context_def Let_def split: if_splits prod.splits intro!: chats_0)
  show ?thesis
  proof (cases "c = None \<or> cj_array cj = None")
    case True
    then have "ret = Err ENOMEM \<and> w' = fc_agent_record_event_done e ret w1" using assms(1) c by (auto simp: agent_converse_def Let_def split: option.splits)
    then show ?thesis using chats_mono [OF w1] by blast
  next
    case False
    then obtain ut m2 w2 reply0 w3 w4 where x: "agent_log e (ev_session_id ev) ''user'' None ut (tick w1) = Some w2"
        "agent_loop cj e CONFIG_FRUITCLAW_MAX_TOOL_ITERATIONS m2 ev n w2 = Some ((ret, reply0), w3)"
        "agent_limit e ev n ret reply0 w3 = Some (reply, w4)"
        "w' = fc_agent_record_event_done e ret (agent_mark e ''agent-cleanup'' w4)"
      using assms(1) c by (auto simp: agent_converse_def Let_def bind_eq_Some_conv split: option.splits)
    note l = loop_chats [OF x(2) assms(2)]
    have "chats CONFIG_FRUITCLAW_MAX_TOOL_ITERATIONS w w3"
      using chats_trans [OF w1 chats_trans [OF mark_chats(2) chats_trans [OF log_chats [OF x(1)]]]] l by fastforce
    moreover have "chats 0 w3 w4 \<and> reply \<noteq> []"
      using x(3) l assms(2) by (auto simp: agent_limit_def Let_def cpy_eq chats_0 split: if_splits dest: log_chats)
    ultimately show ?thesis
      using chats_trans [of _ w w3] chats_trans [OF _ mark_chats(1), of _ w w4] x(4) by (metis add.right_neutral)
  qed
qed

lemma direct_chats:
  "fc_agent_try_direct_scheduler_tool e evp (Some n) w = Some (Some reply, w') \<Longrightarrow> 2 \<le> n \<Longrightarrow> chats 0 w w' \<and> reply \<noteq> []"
  "fc_agent_try_direct_scheduler_reply e evp (Some n) w = Some (Some reply, w') \<Longrightarrow> 2 \<le> n \<Longrightarrow> chats 0 w w' \<and> reply \<noteq> []"
proof -
  have l: "chats 0 w w3" if "agent_log e sid role nm ct w2 = Some w3" "chats 0 w w2" for w2 w3 sid role nm ct
    using chats_trans [OF that(2) log_chats [OF that(1)]] by simp
  have m: "chats 0 w (agent_mark e s w2)" if "chats 0 w w2" for s w2
    using chats_trans [OF that mark_chats(1)] by simp
  have r: "chats 0 w (fc_agent_record_tool_result e k ret w1)" if "run_tool e c kk args w = (y, w1)" for c kk args y w1 k ret
    using chats_trans [OF run_tool_chats [OF that] mark_chats(3)] by simp
  have z: "chats 0 w w" by (simp add: chats_0)
  show "fc_agent_try_direct_scheduler_tool e evp (Some n) w = Some (Some reply, w') \<Longrightarrow> 2 \<le> n \<Longrightarrow> chats 0 w w' \<and> reply \<noteq> []"
    by (auto simp: fc_agent_try_direct_scheduler_tool_def Let_def bind_eq_Some_conv cpy_eq snprintf_buf_def
        split: option.splits if_splits prod.splits intro!: m dest!: l [OF _ z] l [OF _ r] dest: l)
  show "fc_agent_try_direct_scheduler_reply e evp (Some n) w = Some (Some reply, w') \<Longrightarrow> 2 \<le> n \<Longrightarrow> chats 0 w w' \<and> reply \<noteq> []"
    by (auto simp: fc_agent_try_direct_scheduler_reply_def Let_def bind_eq_Some_conv cpy_eq
        split: option.splits if_splits intro!: m dest!: l [OF _ z] dest: l)
qed

lemma agent_heartbeat_simps [simp]:
  "aw_agent (agent_heartbeat e w) = aw_agent w" "aw_ds (agent_heartbeat e w) = aw_ds w"
  "cw_registry (aw_caps (agent_heartbeat e w)) = cw_registry (aw_caps w)"
  "dv_tools (cw_state (aw_caps (agent_heartbeat e w))) = dv_tools (cw_state (aw_caps w))"
  "dv_fs (cw_state (aw_caps (agent_heartbeat e w))) = dv_fs (cw_state (aw_caps w))"
  "hx_sent (dv_http (cw_state (aw_caps (agent_heartbeat e w)))) = hx_sent (dv_http (cw_state (aw_caps w)))"
  by (simp_all add: agent_heartbeat_def Let_def)

section \<open>Examples\<close>

text \<open>A world with one protected tool that counts its runs, and an environment in which the log finds no memory.\<close>

definition demo_run_cap :: "nat dev fc_cap" where
  "demo_run_cap = \<lparr>cap_id = Some ''terminal.run'', cap_name = None, cap_description = None, cap_schema = None, visible_to_llm = True,
     requires_confirmation = True, cap_execute = Some (\<lambda>ctx a n d. ((OK, ''done''), d\<lparr>dv_tools := dv_tools d + 1\<rparr>))\<rparr>"

definition demo_moment :: "bool \<Rightarrow> moment" where
  "demo_moment mem = \<lparr>mo_now = 1, mo_mark = 1, mo_time = 1, mo_alloc = mem, mo_log_alloc = (mem, mem), mo_byte = (\<lambda>_ _. CHR ''x''),
     mo_partial = (\<lambda>_. []), mo_tool_clk = (1, 1, 2), mo_ds = demo_llm_env, mo_send = demo_send_env\<rparr>"

definition demo_agent_env :: "bool \<Rightarrow> agent_env" where
  "demo_agent_env mem = \<lparr>ae_root = ''/d'', ae_tg = demo_tg_cfg, ae_code = (\<lambda>_. -1), ae_at = (\<lambda>_. demo_moment mem)\<rparr>"

definition demo_agent_world :: "nat agent_world" where
  "demo_agent_world = \<lparr>aw_agent = zero_agent, aw_ds = zero_deepseek,
     aw_caps = \<lparr>cw_registry = zero_registry\<lparr>g_caps := [demo_run_cap]\<rparr>, cw_progress = zero_progress,
       cw_state = \<lparr>dv_tg = zero_telegram, dv_main = demo_queue_of 0, dv_fs = demo_tg_fs, dv_http = demo_http_world, dv_seq = 0, dv_tools = 3\<rparr>\<rparr>,
     aw_stdout = [], aw_step = 0\<rparr>"

definition demo_timer_event :: "string \<Rightarrow> string \<Rightarrow> string \<Rightarrow> fc_event" where
  "demo_timer_event channel chat t = zero_event\<lparr>ev_source := ''scheduler'', ev_type := ''timer.fire'', ev_channel := channel, ev_chat_id := chat,
     ev_session_id := ''s'', ev_text := t\<rparr>"

lemma demo_timer_event_simps [simp]:
  "timer_event (demo_timer_event channel chat t)" "ev_text (demo_timer_event channel chat t) = t"
  "ev_channel (demo_timer_event channel chat t) = channel" "ev_chat_id (demo_timer_event channel chat t) = chat"
  "\<not> ev_owner_mode (demo_timer_event channel chat t)"
  by (simp_all add: demo_timer_event_def timer_event_def zero_event_def)

text \<open>A log line that finds no memory changes nothing.\<close>

lemma demo_log: "agent_log (demo_agent_env False) sid role name content w = Some (tick w)"
proof -
  have a: "mo_log_alloc (here (demo_agent_env False) w) = (False, False)" by (simp add: here_def demo_agent_env_def demo_moment_def)
  have "\<exists>r. fc_session_append root now (False, False) br bn bc (Some sid) (Some role) name (Some content) fs = Some (r, fs)"
    for root now br bn bc fs
    by (auto simp: fc_session_append_def split: ret.splits prod.splits)
  then obtain r where r: "fc_session_append (ae_root (demo_agent_env False)) (mo_time (here (demo_agent_env False) w)) (False, False)
      (block (here (demo_agent_env False) w) 0 32) (block (here (demo_agent_env False) w) 1 FC_TOOL_NAME_LEN)
      (block (here (demo_agent_env False) w) 2 (length content * 6 + 1)) (Some sid) (Some role) name (Some content)
      (dv_fs (cw_state (aw_caps w))) = Some (r, dv_fs (cw_state (aw_caps w)))"
    by blast
  have "set_fs (dv_fs (cw_state (aw_caps w))) w = w" by (simp add: set_fs_def)
  then show ?thesis unfolding agent_log_def Let_def a r by simp
qed

lemma demo_scheduled_tool:
  "\<exists>reply w'. fc_agent_handle_event demo_msg_json (demo_agent_env False) (Some (demo_timer_event ''cli'' [] ''tool: terminal.run ls''))
      (Some CONFIG_FRUITCLAW_MAX_JSON) w = Some ((OK, reply), w')
     \<and> g_agent_tool_calls (aw_agent w') = g_agent_tool_calls (aw_agent w) + 1"
proof -
  let ?e = "demo_agent_env False" and ?ev = "demo_timer_event ''cli'' [] ''tool: terminal.run ls''"
  let ?w = "fc_agent_record_event_start ?e (Some ?ev) w"
  have m: "fc_agent_match_prefix_ci (Some (fc_agent_skip_space (Some ''tool: terminal.run ls''))) (Some ''tool:'') = Some '' terminal.run ls''"
    "fc_agent_skip_space (Some '' terminal.run ls'') = ''terminal.run ls''"
    "take (FC_TOOL_NAME_LEN - 1) (takeWhile (\<lambda>c. \<not> isspace c) ''terminal.run ls'') = ''terminal.run''"
    "fc_agent_skip_space (Some (drop (length ''terminal.run'') ''terminal.run ls'')) = ''ls''"
    by code_simp+
  obtain ret result w1 where t: "run_tool ?e ((fc_tool_context_from_event (Some ?ev))\<lparr>tc_guarded := True\<rparr>) ''terminal.run'' ''ls'' ?w = ((ret, result), w1)"
    by (metis prod.collapse)
  have "aw_agent w1 = aw_agent ?w" using t by (auto simp: run_tool_def split: prod.splits)
  then have c: "g_agent_tool_calls (aw_agent w1) = g_agent_tool_calls (aw_agent w)" by (simp add: fc_agent_record_event_start_def)
  have "\<exists>reply w2. fc_agent_try_direct_scheduler_tool ?e (Some ?ev) (Some CONFIG_FRUITCLAW_MAX_JSON) ?w = Some (Some reply, w2)
      \<and> g_agent_tool_calls (aw_agent w2) = g_agent_tool_calls (aw_agent w) + 1"
    unfolding fc_agent_try_direct_scheduler_tool_def Let_def demo_timer_event_simps option.case prod.case m t
    using c t by (simp add: demo_log fc_agent_record_tool_result_def CONFIG_FRUITCLAW_MAX_JSON_def)
  then show ?thesis
    by (elim exE conjE) (simp add: fc_agent_handle_event_def fc_agent_record_event_done_def CONFIG_FRUITCLAW_MAX_JSON_def)
qed

section \<open>Properties\<close>

text \<open>
  C7. The owner gate of the agent: for an event without owner mode, whatever the language model answers and whichever tools it asks
  for, and whatever a scheduled text names, a turn that returns changes the tools' state only through the tools that are open to everybody: what
  these keep is kept.
\<close>

theorem agent_owner_gate:
  assumes "\<not> ev_owner_mode ev" "open_tools_keep (\<lambda>d. P (dv_tools d)) (cw_registry (aw_caps w))" "P (dv_tools (cw_state (aw_caps w)))"
    and "agent_event_turn cj e ev w = Some w'"
  shows "P (dv_tools (cw_state (aw_caps w'))) \<and> open_tools_keep (\<lambda>d. P (dv_tools d)) (cw_registry (aw_caps w'))"
proof -
  obtain ret reply w1 w2 where t: "fc_agent_handle_event cj e (Some ev) (Some CONFIG_FRUITCLAW_MAX_JSON) (agent_heartbeat e w) = Some ((ret, reply), w1)"
      "(if ret = OK \<or> reply \<noteq> [] then fc_agent_reply cj e ev reply w1 else Some w1) = Some w2" "w' = agent_heartbeat e w2"
    using assms(4) by (auto simp: agent_event_turn_def bind_eq_Some_conv)
  have "gate_kept P (agent_heartbeat e w)" using assms(2,3) by (simp add: agent_heartbeat_def Let_def)
  from handle_gate [OF assms(1) this t(1)] have "gate_kept P w1" by (simp add: CONFIG_FRUITCLAW_MAX_JSON_def)
  then have "gate_kept P w2"
    using t(2) by (auto simp: fc_agent_reply_def Let_def split: if_splits dest!: send_gate [of _ _ _ _ _ _ _ P])
  then show ?thesis using t(3) by (simp add: agent_heartbeat_def Let_def)
qed

theorem agent_owner_gate_witness:
  "\<exists>w'. agent_event_turn demo_msg_json (demo_agent_env False) (demo_timer_event ''cli'' [] ''tool: terminal.run ls'') demo_agent_world = Some w'
     \<and> g_agent_tool_calls (aw_agent w') = 1 \<and> dv_tools (cw_state (aw_caps w')) = 3"
proof -
  let ?ev = "demo_timer_event ''cli'' [] ''tool: terminal.run ls''"
  obtain reply w1 where h: "fc_agent_handle_event demo_msg_json (demo_agent_env False) (Some ?ev) (Some CONFIG_FRUITCLAW_MAX_JSON)
      (agent_heartbeat (demo_agent_env False) demo_agent_world) = Some ((OK, reply), w1)"
      "g_agent_tool_calls (aw_agent w1) = g_agent_tool_calls (aw_agent (agent_heartbeat (demo_agent_env False) demo_agent_world)) + 1"
    using demo_scheduled_tool [of "agent_heartbeat (demo_agent_env False) demo_agent_world"] by (elim exE conjE) (rule that)
  have "\<exists>w'. agent_event_turn demo_msg_json (demo_agent_env False) ?ev demo_agent_world = Some w' \<and> g_agent_tool_calls (aw_agent w') = 1"
    using h by (simp add: agent_event_turn_def fc_agent_reply_def Let_def fc_agent_record_reply_result_def)
               (simp add: demo_agent_world_def zero_agent_def)
  then obtain w' where r: "agent_event_turn demo_msg_json (demo_agent_env False) ?ev demo_agent_world = Some w'" "g_agent_tool_calls (aw_agent w') = 1"
    by (elim exE conjE) (rule that)
  have "dv_tools (cw_state (aw_caps w')) = 3 \<and> open_tools_keep (\<lambda>d. dv_tools d = 3) (cw_registry (aw_caps w'))"
    by (rule agent_owner_gate [OF _ _ _ r(1)]) (simp_all add: demo_agent_world_def open_tools_keep_def demo_run_cap_def)
  then show ?thesis using r by blast
qed

text \<open>
  C16. The work for an event is bounded and accounted for: when the handling of an event returns, it has asked the language model at most
  six times, counts as one started and one finished event, as a failure exactly when its code is negative, and has a reply unless
  memory ran out.
\<close>

theorem agent_bounded:
  assumes "fc_agent_handle_event cj e (Some ev) (Some n) w = Some ((ret, reply), w')" "2 \<le> n"
  shows "(\<exists>k\<le>6. g_deepseek_call_count (aw_ds w') = g_deepseek_call_count (aw_ds w) + of_nat k)
     \<and> g_agent_events_started (aw_agent w') = g_agent_events_started (aw_agent w) + 1
     \<and> g_agent_events_done (aw_agent w') = g_agent_events_done (aw_agent w) + 1
     \<and> g_agent_event_failures (aw_agent w') = g_agent_event_failures (aw_agent w) + (if ret = OK then 0 else 1)
     \<and> (reply \<noteq> [] \<or> ret = Err ENOMEM)"
proof -
  let ?w = "fc_agent_record_event_start e (Some ev) w"
  have "\<exists>w4. chats 6 ?w w4 \<and> w' = fc_agent_record_event_done e ret w4 \<and> (reply \<noteq> [] \<or> ret = Err ENOMEM)"
    using assms(1) less_le_trans [OF zero_less_numeral assms(2)]
  proof (cases rule: handle_cases)
    case (tool w1)
    then show ?thesis using direct_chats(1) [OF tool(1) assms(2)] chats_mono [of 0 ?w w1 6] by blast
  next
    case (direct w1)
    then show ?thesis using direct_chats(2) [OF direct(2) assms(2)] chats_mono [of 0 ?w w1 6] by blast
  next
    case talk
    then show ?thesis using converse_counts [OF talk assms(2)] by (simp add: CONFIG_FRUITCLAW_MAX_TOOL_ITERATIONS_def)
  qed
  then obtain w4 where x: "chats 6 ?w w4" "w' = fc_agent_record_event_done e ret w4" "reply \<noteq> [] \<or> ret = Err ENOMEM" by blast
  have "ret_neg ret = (ret \<noteq> OK)" by (cases ret) simp_all
  then show ?thesis using x record_counters(1) [of e "Some ev" w] by (auto simp: chats_def fc_agent_record_event_done_def)
qed

theorem agent_bounded_witness:
  "\<exists>reply w'. fc_agent_handle_event demo_msg_json (demo_agent_env False) (Some (demo_timer_event ''cli'' [] ''tool: terminal.run ls''))
      (Some CONFIG_FRUITCLAW_MAX_JSON) demo_agent_world = Some ((OK, reply), w') \<and> reply \<noteq> [] \<and> g_agent_events_done (aw_agent w') = 1"
proof -
  let ?ev = "demo_timer_event ''cli'' [] ''tool: terminal.run ls''"
  obtain reply w' where r: "fc_agent_handle_event demo_msg_json (demo_agent_env False) (Some ?ev) (Some CONFIG_FRUITCLAW_MAX_JSON) demo_agent_world
      = Some ((OK, reply), w')"
    using demo_scheduled_tool [of demo_agent_world] by (elim exE conjE) (rule that)
  have z: "g_agent_events_done (aw_agent demo_agent_world) = 0" by (simp add: demo_agent_world_def zero_agent_def)
  show ?thesis using agent_bounded [OF r] r z by (simp add: CONFIG_FRUITCLAW_MAX_JSON_def)
qed

lemma agent_log_frame:
  "agent_log e sid role name content w = Some w' \<Longrightarrow>
     aw_agent w' = aw_agent w \<and> aw_ds w' = aw_ds w \<and> (\<exists>fs. cw_state (aw_caps w') = (cw_state (aw_caps w))\<lparr>dv_fs := fs\<rparr>)"
  by (frule agent_log_Some(1), frule agent_log_Some(2), drule agent_log_Some(5)) simp

lemma direct_reply_Some:
  assumes "timer_event ev" "fc_agent_schedule_direct_text (Some (ev_text ev)) = Some t" "t \<noteq> []" "length t < n"
    and "fc_agent_try_direct_scheduler_reply e (Some ev) (Some n) w = Some (r, w')"
  shows "r = Some t \<and> aw_agent w' = aw_agent w \<and> aw_ds w' = aw_ds w \<and> (\<exists>fs. cw_state (aw_caps w') = (cw_state (aw_caps w))\<lparr>dv_fs := fs\<rparr>)"
proof -
  have "cpy n t = t" using assms(4) by (simp add: cpy_eq)
  then show ?thesis
    using assms
    by (auto simp: fc_agent_try_direct_scheduler_reply_def Let_def bind_eq_Some_conv dest!: agent_log_frame)
qed

lemma direct_tool_skipped:
  assumes "fc_agent_schedule_direct_text (Some (ev_text ev)) = Some t"
  shows "fc_agent_try_direct_scheduler_tool e (Some ev) (Some n) w = Some (None, w)"
proof -
  have "fc_agent_match_prefix_ci (Some (fc_agent_skip_space (Some (ev_text ev)))) (Some ''tool:'') = None"
    using assms by (auto simp: fc_agent_schedule_direct_text_def agent_prefix_def Let_def split: if_splits option.splits)
  then show ?thesis by (simp add: fc_agent_try_direct_scheduler_tool_def)
qed

lemma agent_send_cases:
  assumes "agent_send cj e chat t w = Some (ret, w')"
  shows "aw_agent w' = aw_agent w \<and> aw_ds w' = aw_ds w \<and> dv_tools (cw_state (aw_caps w')) = dv_tools (cw_state (aw_caps w))
     \<and> (ret \<noteq> OK \<and> hx_sent (dv_http (cw_state (aw_caps w'))) = hx_sent (dv_http (cw_state (aw_caps w)))
        \<or> (\<exists>body rq. message_json cj chat t = Some body \<and> rq_method rq = ''POST'' \<and> rq_body rq = Some body
             \<and> hx_sent (dv_http (cw_state (aw_caps w'))) = hx_sent (dv_http (cw_state (aw_caps w))) @ [rq]))"
proof -
  let ?d = "cw_state (aw_caps w)"
  let ?tw = "\<lparr>tw_tg = dv_tg ?d, tw_main = dv_main ?d, tw_progress = cw_progress (aw_caps w), tw_fs = dv_fs ?d, tw_http = dv_http ?d, tw_seq = dv_seq ?d\<rparr>"
  obtain tw where s: "fc_telegram_send_message_common cj (ae_tg e) (ae_root e) (mo_send (here e w)) (Some chat) (Some t) True ?tw = Some (ret, tw)"
      "dv_http (cw_state (aw_caps w')) = tw_http tw" "dv_tools (cw_state (aw_caps w')) = dv_tools ?d" "aw_agent w' = aw_agent w" "aw_ds w' = aw_ds w"
    using assms by (auto simp: agent_send_def fc_telegram_send_message_def Let_def)
  from s(1) have "ret \<noteq> OK \<and> hx_sent (tw_http tw) = hx_sent (dv_http ?d)
      \<or> (\<exists>body rq. message_json cj chat t = Some body \<and> rq_method rq = ''POST'' \<and> rq_body rq = Some body
           \<and> hx_sent (tw_http tw) = hx_sent (dv_http ?d) @ [rq])"
  proof (cases rule: send_message_cases)
    case (sent chat' t' tok body r out hw)
    then show ?thesis using http_post_json_cases [OF sent(7)] by auto
  qed simp
  then show ?thesis using s(2-5) by simp
qed



text \<open>A failed escape leaves no terminator where there was none.\<close>

lemma json_escape_loop_no_NUL:
  assumes "NUL \<notin> set s" "NUL \<notin> set out" "fst (json_escape_loop s off out) \<noteq> OK"
  shows "NUL \<notin> set (snd (json_escape_loop s off out))"
  using assms
proof (induction s off out rule: json_escape_loop.induct)
  case (2 ch inp off out)
  show ?case
  proof (cases "json_esc ch")
    case None
    have "NUL \<notin> set (out[off := ch])" using 2(3,4) set_update_subset_insert [of out off ch] by auto
    then show ?thesis using 2(1) [OF None] 2(3-5) None by (auto split: if_splits)
  next
    case (Some esc)
    have "NUL \<notin> set esc" using json_escaped_no_NUL [of "[ch]"] 2(3) Some by (auto simp: json_escaped_def)
    then have "NUL \<notin> set (buf_put off esc out)" using 2(4) by (auto simp: buf_put_def dest: in_set_takeD in_set_dropD)
    then show ?thesis using 2(2) [OF Some] 2(3-5) Some by (auto split: if_splits)
  qed
qed simp

lemma esc_into_overrun:
  assumes "NUL \<notin> set s" "NUL \<notin> set buf" "buf \<noteq> []" "length buf \<le> length (json_escaped s)"
  shows "esc_into buf s = None"
proof -
  have "fst (json_escape_loop s 0 buf) = Err ENOSPC" using arg_cong [OF json_escape_loop_spec [of 0 buf s], of fst] assms(3,4) by simp
  then show ?thesis using json_escape_loop_no_NUL [OF assms(1,2), of 0] assms(3)
    by (auto simp: esc_into_def fc_json_escape_def cstr_of_def split: prod.splits)
qed

text \<open>
  C38. A tool name chosen by the language model can make the agent read past an array: a name that the registry does not know, shorter than the
  64 bytes of its array but whose JSON form is not, leaves the array of the session log without a terminator, and the log line is
  then printed from it.
\<close>

theorem agent_tool_name_overrun:
  assumes "NUL \<notin> set nm" "length nm < FC_TOOL_NAME_LEN" "FC_TOOL_NAME_LEN \<le> length (json_escaped nm)"
    and "cj_get cj call ''function'' = Some fn" "cj_string cj (cj_get cj fn ''name'') = Some nm"
    and "fst (fc_tool_name_from_openai (Some nm) (Some FC_TOOL_NAME_LEN) (cw_registry (aw_caps w))) \<noteq> OK" "\<forall>k. cj_object cj k \<noteq> None"
    and "\<forall>k. mo_log_alloc (ae_at e k) = (True, True) \<and> (\<forall>b i. mo_byte (ae_at e k) b i \<noteq> NUL)"
    and "fst (fc_session_path (ae_root e) (Some (ev_session_id ev)) (Some FC_PATH_LEN)) = OK"
  shows "fc_execute_tool_call cj e call messages ev w = None"
proof -
  let ?res = \<open>''{"ok":false,"error":"unknown tool"}''\<close>
  obtain x y where f: "fc_tool_name_from_openai (Some nm) (Some FC_TOOL_NAME_LEN) (cw_registry (aw_caps w)) = (Err x, y)"
    using assms(6) by (metis prod.collapse ret.exhaust)
  have nm: "cpy FC_TOOL_NAME_LEN nm = nm" using assms(2) by (simp add: cpy_eq)
  obtain p where p: "fc_session_path (ae_root e) (Some (ev_session_id ev)) (Some FC_PATH_LEN) = (OK, p)"
    using assms(9) by (metis prod.collapse)
  have blk: "length (block m k n) = n" "NUL \<notin> set (block (ae_at e j) k n)" for m j k n
    using assms(8) by (auto simp: block_def) metis
  have name: "esc_into (block (ae_at e j) (Suc 0) FC_TOOL_NAME_LEN) nm = None" for j
    by (rule esc_into_overrun) (use assms(1,3) blk(2) in \<open>simp_all add: block_def FC_TOOL_NAME_LEN_def\<close>)
  have res: "NUL \<notin> set ?res" by simp
  have len: "length (json_escaped ?res) < length (block m 2 (length ?res * 6 + 1))" for m
    using length_json_escaped [of ?res] by (simp only: blk(1))
  have content: "\<exists>b. fc_json_escape (Some ?res) (Some (block m 2 (length ?res * 6 + 1))) = (OK, Some b) \<and> cstr_of b \<noteq> None" for m
    using json_escape_loop_spec [of 0 "block m 2 (length ?res * 6 + 1)" ?res] len [of m] esc_into_fits [OF res len [of m]]
    by (auto simp: fc_json_escape_def esc_into_def split: prod.splits)
  have "agent_log e (ev_session_id ev) ''tool'' (Some nm) ?res w1 = None" for w1 :: "'c agent_world"
  proof -
    have "nm \<noteq> []" using assms(3) by (auto simp: json_escaped_def FC_TOOL_NAME_LEN_def)
    moreover obtain b where "fc_json_escape (Some ?res) (Some (block (here e w1) 2 (length ?res * 6 + 1))) = (OK, Some b)" "cstr_of b \<noteq> None"
      using content by blast
    ultimately show ?thesis
      using p name [of "aw_step w1"] assms(8)
      by (auto simp: agent_log_def fc_session_append_def here_def Let_def simp del: length_Cons mult_Suc)
  qed
  then show ?thesis using assms(4,5,7) f nm by (auto simp: fc_execute_tool_call_def Let_def split: option.splits)
qed

theorem agent_tool_name_overrun_witness:
  "fc_execute_tool_call (demo_cjson [] DNull) (demo_agent_env True) (DObject [(''function'', DObject [(''name'', DString (replicate 63 DQ))])])
     (DArray []) (demo_timer_event ''cli'' [] []) demo_agent_world = None"
proof (rule agent_tool_name_overrun [of "replicate 63 DQ" _ _ "DObject [(''name'', DString (replicate 63 DQ))]"])
  show "NUL \<notin> set (replicate 63 DQ)" by code_simp
  show "length (replicate 63 DQ) < FC_TOOL_NAME_LEN" by (simp add: FC_TOOL_NAME_LEN_def)
  show "FC_TOOL_NAME_LEN \<le> length (json_escaped (replicate 63 DQ))" by code_simp
  show "fst (fc_tool_name_from_openai (Some (replicate 63 DQ)) (Some FC_TOOL_NAME_LEN) (cw_registry (aw_caps demo_agent_world))) \<noteq> OK"
    by code_simp
  show "fst (fc_session_path (ae_root (demo_agent_env True)) (Some (ev_session_id (demo_timer_event ''cli'' [] []))) (Some FC_PATH_LEN)) = OK"
    by code_simp
qed (simp_all add: demo_cjson_def demo_agent_env_def demo_moment_def)

end
