(* ===== verification/Spec2Isabelle.thy ===== *)
theory Spec2Isabelle
  imports FC_Router FC_Sched_Persist FC_Sched_Tick FC_Guard_Props FC_Cap_Props FC_Memory FC_Tg_Props FC_Tg_Notify FC_Berry FC_Web FC_Mcp FC_Agent
begin

text \<open>
  This development models \<^emph>\<open>FruitClaw\<close>, the assistant under \<^verbatim>\<open>src/system/fruitclaw\<close>: a set of threads on a
  micro-controller that exchange events over bounded queues, keep their data in small text files, run scheduled
  jobs, talk to a Telegram bot over TLS and offer tools to a language model, all under the supervision of a
  hardware watchdog.

  \<^bold>\<open>How the parts interact.\<close>  The Telegram poller (\<^verbatim>\<open>net/fc_telegram.c\<close>) and the scheduler
  (\<^verbatim>\<open>sched/fc_scheduler.c\<close>) publish events into the main queue (\<^verbatim>\<open>core/fc_queue.c\<close>).  The router
  (\<^verbatim>\<open>core/fc_router.c\<close>) forwards the kinds it knows to the agent's queue.  The agent asks the language model and
  runs tools through the capability registry (\<^verbatim>\<open>core/fc_cap.c\<close>), which lets dangerous ones through only in owner
  mode.  Configuration, job table, memories and session logs are files written through
  \<^verbatim>\<open>core/fc_config.c\<close> and \<^verbatim>\<open>storage/fc_memory.c\<close>.  Requests go through one lane
  (\<^verbatim>\<open>net/fc_http.c\<close>) with an allow list of hosts.  The guard (\<^verbatim>\<open>core/fc_guard.c\<close>) arms the watchdog around
  everything that may hang.

  \<^bold>\<open>The theories.\<close>  Each models one source file, or a part of it, with one definition per function under the
  function's name; the loops and the larger pieces of a function are definitions of their own.

  \<^item> \<open>FC_Prelude\<close>: error codes and results, characters, \<^verbatim>\<open>strstr\<close>, \<^verbatim>\<open>strtok\<close>, \<^verbatim>\<open>strtol\<close>, decimal numbers.
  \<^item> \<open>FC_Config\<close> and \<open>FC_Files\<close>: \<^verbatim>\<open>core/fc_config.c\<close>.  The first has the functions on strings (bounded copy,
    trimming, paths, the allow list, JSON escaping), the second those on files.  The file system \<open>posix_fs\<close> holds the
    files and a script of outcomes for the calls to come (success, a short transfer, an error, power loss).
    Shown: paths stay inside the data directory, escaping is inverted by the JSON rules, an atomic write leaves the old
    or the whole new text under any script, first-boot initialisation keeps every file.
  \<^item> \<open>FC_Queue\<close>: \<^verbatim>\<open>core/fc_queue.c\<close>, the ring with its 32-bit indices.  The locale \<open>bounded_fifo\<close> is the contract its
    users rely on; the interpretation \<open>fcq\<close> discharges it for the ring, and the other theories use the ring only through it.
  \<^item> \<open>FC_Progress\<close>: \<^verbatim>\<open>core/fc_progress.c\<close>.
  \<^item> \<open>FC_Router\<close>: \<^verbatim>\<open>core/fc_router.c\<close>.  Shown: under any interleaving of publishers, router and agent, events are
    handled once and in order.
  \<^item> \<open>FC_Cron\<close>, \<open>FC_Scheduler\<close>, \<open>FC_Sched_Persist\<close>, \<open>FC_Sched_Tick\<close>: \<^verbatim>\<open>sched/fc_scheduler.c\<close>, that is the cron
    matcher (equal to the set-theoretic meaning of an expression), the job table (a refinement of a finite map), saving and
    loading (a round trip), and the worker's tick (which job fires when).
  \<^item> \<open>FC_Guard\<close>, \<open>FC_Guard_Props\<close>: \<^verbatim>\<open>core/fc_guard.c\<close>.  Shown: exclusion of holders, what arming and
    disarming do to the registers, when the monitors trip.
  \<^item> \<open>FC_Cap\<close>, \<open>FC_Builtin_Caps\<close>, \<open>FC_Cap_Props\<close>: \<^verbatim>\<open>core/fc_cap.c\<close> and the table of
    \<^verbatim>\<open>caps/fc_caps_builtin.c\<close>.  Shown: the owner gate, registration of the whole table, the tool-name mapping.  The
    locale \<open>write_once\<close> states how a registry grows; its interpretation \<open>caps\<close> is the registry of the model.
  \<^item> \<open>FC_Memory\<close>: \<^verbatim>\<open>storage/fc_memory.c\<close>.  Shown: the tail of a log is read exactly, session files stay in
    their directory, what is appended is read back.
  \<^item> \<open>FC_Http\<close>: \<^verbatim>\<open>net/fc_http.c\<close>.  Shown: one request per call, only to allowed hosts, the lane is returned, the
    response is exact, TLS is verified, its loops end.
  \<^item> \<open>FC_CJson\<close>: the operations of cJSON the program calls, as a record that the definitions take as an argument.
  \<^item> \<open>FC_Telegram\<close>, \<open>FC_Tg_Props\<close>: \<^verbatim>\<open>net/fc_telegram.c\<close>.  Shown: messages are delivered completely and in order,
    only allowed chats get in and out, the offset survives a restart.
  \<^item> \<open>FC_Tg_Notify\<close>: the two threads of \<^verbatim>\<open>net/fc_telegram.c\<close>.  The notification queue is a second instance of
    \<open>bounded_fifo\<close> (interpretation \<open>nq\<close>).  Shown: notifications are sent in order and accounted for, the poller is paced.
  \<^item> \<open>FC_Web\<close>: \<^verbatim>\<open>net/fc_web.c\<close>.  Shown: a page that was written is served.
  \<^item> \<open>FC_Berry\<close>: \<^verbatim>\<open>script/fc_berry.c\<close>.  Shown: the interpreter, a parameter, only sees files of the scripts directory.
  \<^item> \<open>FC_Mcp\<close>: \<^verbatim>\<open>net/fc_mcp.c\<close>, the JSON-RPC server that offers the tools over HTTP.  Shown: without the trusted mode
    of the build it opens no protected tool, every answer has the shape of the protocol, notifications are spaced.
  \<^item> \<open>FC_Deepseek\<close>: \<^verbatim>\<open>net/fc_deepseek.c\<close>, the client of the language model.  Shown: the key goes to the configured
    endpoint only, and every call is counted.
  \<^item> \<open>FC_Agent\<close>: \<^verbatim>\<open>core/fc_agent.c\<close>.  Its world joins the files, the HTTP lane, Telegram and the tools' state, so that an
    event is followed from the queue to the reply.  Shown: without owner mode the tools' state changes only through the
    open tools; an event whose handling returns took at most six calls of the model and is accounted for; a plain reminder is sent as
    written.  Handling that does not return (a log line read past an array, a wait without end) is the value \<open>None\<close>.
  \<^item> this theory: properties that span the scheduler, the Telegram client, the router and the agent's queue.

  \<^bold>\<open>Conventions.\<close>  A C string is a \<open>string\<close> without the terminator; a pointer that may be NULL is an \<open>option\<close>; an
  output buffer is its size, and the text left in it is part of the result.  \<open>ret\<close> is \<open>OK\<close> or \<open>Err e\<close> for a negative
  code.  \<^verbatim>\<open>unsigned int\<close> and \<^verbatim>\<open>unsigned long\<close> are \<open>32 word\<close>; \<^verbatim>\<open>int64_t\<close> times are \<open>int\<close>.  Clocks, results of
  devices, of allocations and of thread creation, and what other threads do while a lock is free are arguments.
  Code under a mutex is one step, so that an interleaving is a sequence of steps.

  \<^bold>\<open>Bounds and fuel.\<close>  No definition uses fuel.  A loop that waits takes the list of the rounds it will see and returns
  \<open>None\<close> when they are used up; the theorems on such loops show that the call returns once a round past the
  deadline is among them.  The other loops recurse on their data or have a measure.

  \<^bold>\<open>Not modelled.\<close>  mbedTLS, cJSON, the web client's protocol engine and the file system are not part of the
  application; they are parameters or scripted inputs.  Of FruitClaw itself: the functions behind the built-in tools, the shell commands of
  \<^verbatim>\<open>fruitclaw_main.c\<close> and the self test, which are input and output around the modelled calls; and the guard around a
  whole turn of the agent, which the default configuration compiles out.  What a tool does to the guard during an MCP call belongs
  to the tool and is left out with it.  The other directories of \<^verbatim>\<open>src\<close> are applications shared with the upstream
  system and independent of this one.
\<close>

section \<open>From the scheduler to the agent\<close>

lemma schedule_event_routable: "routable (schedule_event eid ts j)"
  by (simp add: routable_def schedule_event_def fc_sizes cpy_id)

lemma emit_publishes:
  assumes "queue_wf (sw_main w)" "length (queue_elems (sw_main w)) < unat (q_capacity (sw_main w))"
  shows "\<exists>ev w'. fc_emit_schedule ec j w = (OK, w') \<and> (\<exists>eid ts. ev = schedule_event eid ts j) \<and> queue_wf (sw_main w')
     \<and> queue_elems (sw_main w') = queue_elems (sw_main w) @ [ev]"
proof -
  obtain eid seq where e: "fc_make_id (Some FC_ID_LEN) (Some ''sched'') (ec_id_ms ec) (sw_seq w) = (eid, seq)" by fastforce
  let ?ev = "schedule_event (the eid) (ec_ts_ms ec) j"
  obtain r q where q: "fc_queue_publish (Some (sw_main w)) (Some ?ev) = (r, q)" by fastforce
  then have "queue_put ?ev (sw_main w) = (r, the q)" by (simp add: queue_put_def)
  then have "r = OK" "queue_wf (the q)" "queue_elems (the q) = queue_elems (sw_main w) @ [?ev]"
    using fcq.put_room [OF assms, of ?ev] fcq.put_inv [OF assms(1), of ?ev] by auto
  then show ?thesis using e q
    by (intro exI [of _ ?ev]) (auto simp: fc_emit_schedule_def fc_scheduler_record_emit_def Let_def)
qed



section \<open>The type of events\<close>

text \<open>Every string of an event fits the array it has in \<^verbatim>\<open>fc_event_t\<close>, with its terminator.\<close>

definition event_fits :: "fc_event \<Rightarrow> bool" where
  "event_fits ev \<longleftrightarrow> length (ev_id ev) < FC_ID_LEN \<and> length (ev_source ev) < FC_SOURCE_LEN \<and> length (ev_type ev) < FC_TYPE_LEN
     \<and> length (ev_channel ev) < FC_CHANNEL_LEN \<and> length (ev_chat_id ev) < FC_CHAT_ID_LEN \<and> length (ev_session_id ev) < FC_SESSION_ID_LEN
     \<and> length (ev_text ev) < CONFIG_FRUITCLAW_MAX_EVENT_TEXT \<and> length (ev_payload_json ev) < CONFIG_FRUITCLAW_MAX_JSON"

text \<open>What the threads do to the two queues: the scheduler and the Telegram client publish, the router forwards, the agent takes.\<close>

inductive event_step :: "rsys \<Rightarrow> rsys \<Rightarrow> bool" where
  scheduled: "sw_main w = g_main_queue s \<Longrightarrow> fc_emit_schedule ec j w = (r, w') \<Longrightarrow> event_step s (s\<lparr>g_main_queue := sw_main w'\<rparr>)"
| messaged: "tw_main t = g_main_queue s \<Longrightarrow> fc_telegram_publish_message c clk chat tx payload t = (r, t')
    \<Longrightarrow> event_step s (s\<lparr>g_main_queue := tw_main t'\<rparr>)"
| routed: "router_forward now s = Some (ev, f, s') \<Longrightarrow> event_step s s'"
| taken: "agent_take s = Some (ev, s') \<Longrightarrow> event_step s s'"

inductive_cases event_stepE: "event_step s s'"

definition events_typed :: "rsys \<Rightarrow> bool" where
  "events_typed s \<longleftrightarrow> rsys_wf s \<and> (\<forall>ev\<in>set (queue_elems (g_main_queue s)) \<union> set (queue_elems (g_agent_queue s)). event_fits ev)"

lemma make_id_fits: "fc_make_id (Some FC_ID_LEN) p now seq = (eid, seq') \<Longrightarrow> length (the eid) < FC_ID_LEN"
  by (auto simp: fc_make_id_def snprintf_buf_def fc_sizes)

lemma schedule_event_fits: "length eid < FC_ID_LEN \<Longrightarrow> event_fits (schedule_event eid ts j)"
  by (simp add: event_fits_def schedule_event_def length_cpy snprintf_buf_def fc_sizes)

lemma telegram_event_fits: "length eid < FC_ID_LEN \<Longrightarrow> event_fits (telegram_event c eid ts chat tx payload)"
  by (simp add: event_fits_def telegram_event_def length_cpy snprintf_buf_def fc_sizes)

lemma publish_typed:
  assumes "events_typed s" "fc_queue_publish (Some (g_main_queue s)) (Some ev) = (r, q)" "event_fits ev"
  shows "events_typed (s\<lparr>g_main_queue := the q\<rparr>)"
  using assms queue_put_spec [of "g_main_queue s" ev r "the q"]
  by (auto simp: events_typed_def rsys_wf_def queue_put_def)

lemma event_step_typed: "event_step s s' \<Longrightarrow> events_typed s \<Longrightarrow> events_typed s'"
proof (induction rule: event_step.induct)
  case (scheduled w s ec j r w')
  then show ?case
    using publish_typed [OF scheduled(3) _ schedule_event_fits [OF make_id_fits]]
    by (auto simp: fc_emit_schedule_def fc_scheduler_record_emit_def Let_def split: prod.splits)
next
  case (messaged t s c clk chat tx payload r t')
  then show ?case
    using publish_typed [OF messaged(3) _ telegram_event_fits [OF make_id_fits]]
    by (auto simp: fc_telegram_publish_message_def split: prod.splits)
next
  case (routed now s ev f s')
  then show ?case using rt.fwd_law [of s now ev f s'] by (auto simp: events_typed_def)
next
  case (taken s ev s')
  then show ?case using rt.con_law [of s ev s'] by (auto simp: events_typed_def)
qed

text \<open>
  C8. Events are well-typed: whatever the interleaving of scheduler, Telegram client, router and agent, and whatever the texts they are
  given, every event in the two queues fits its arrays; and the context that tools run under has its source, channel, chat and
  session unabridged.
\<close>

theorem events_fit:
  assumes "event_step\<^sup>*\<^sup>* s s'" "rsys_wf s" "queue_elems (g_main_queue s) = []" "queue_elems (g_agent_queue s) = []"
    and "ev \<in> set (queue_elems (g_main_queue s')) \<union> set (queue_elems (g_agent_queue s'))"
  shows "event_fits ev \<and> fc_tool_context_from_event (Some ev) = zero_context\<lparr>tc_source := ev_source ev, tc_channel := ev_channel ev,
           tc_chat_id := ev_chat_id ev, tc_session_id := ev_session_id ev, tc_owner_mode := ev_owner_mode ev\<rparr>"
proof -
  have "events_typed s" using assms(2-4) by (simp add: events_typed_def)
  with assms(1) have "events_typed s'" by (induction rule: rtranclp_induct) (auto intro: event_step_typed)
  then have "event_fits ev" using assms(5) by (auto simp: events_typed_def)
  then show ?thesis by (simp add: event_fits_def fc_tool_context_from_event_def cpy_id)
qed

theorem events_fit_witness:
  "\<exists>s' ev. event_step\<^sup>*\<^sup>* demo_sys s' \<and> ev \<in> set (queue_elems (g_main_queue s')) \<and> ev_text ev = ''hello'' \<and> event_fits ev"
proof -
  let ?j = "zero_job\<lparr>sj_prompt := ''hello''\<rparr>"
  let ?w = "(world_with ?j)\<lparr>sw_main := g_main_queue demo_sys\<rparr>"
  have z: "queue_elems (g_main_queue demo_sys) = []" "queue_elems (g_agent_queue demo_sys) = []" "queue_elems (sw_main ?w) = []"
      "unat (q_capacity (sw_main ?w)) = 2" "queue_wf (sw_main ?w)"
    using demo_wf by (simp_all add: demo_sys_def queue_elems_def rsys_wf_def)
  obtain ev eid ts w' where e: "fc_emit_schedule (se_emit (idle_slot 7)) ?j ?w = (OK, w')" "ev = schedule_event eid ts ?j"
      "queue_elems (sw_main w') = queue_elems (sw_main ?w) @ [ev]"
    using emit_publishes [of ?w "se_emit (idle_slot 7)" ?j] z(3-5) by (auto simp del: length_queue_elems)
  let ?s = "demo_sys\<lparr>g_main_queue := sw_main w'\<rparr>"
  have "event_step\<^sup>*\<^sup>* demo_sys ?s" by (rule r_into_rtranclp, rule event_step.scheduled [OF _ e(1)]) simp
  moreover have "ev \<in> set (queue_elems (g_main_queue ?s))" using e(3) by (simp del: length_queue_elems)
  moreover have "ev_text ev = ''hello''" by (simp add: e(2) schedule_event_def cpy_id fc_sizes)
  ultimately show ?thesis using events_fit [of demo_sys ?s ev] demo_wf z(1,2) by blast
qed

end
